(* ===== verification/Prelude.thy ===== *)
theory Prelude
  imports Main "HOL-Library.AList" "HOL-Library.Char_ord"
begin

text \<open>
  Shared vocabulary of the development: Go errors as values, calls that may panic, Go maps as
  association lists, the collections of simp rules the component theories fill, and the few
  facts on lists and maps that more than one component needs.
\<close>

section \<open>Collections\<close>

named_theorems go_simps \<open>evaluation of the Go values the code builds\<close>
named_theorems ctrl_simps \<open>unfolding of controller helpers\<close>

section \<open>Errors and panics\<close>

text \<open>
  A Go \<^verbatim>\<open>error\<close> is represented by all that the operator ever observes of one: its
  \<^verbatim>\<open>Error()\<close> text and the answers of the two classifiers the controllers call,
  \<^verbatim>\<open>errors.IsNotFound\<close> and \<^verbatim>\<open>errors.IsConflict\<close>.
  Errors made with \<^verbatim>\<open>errors.New\<close> or \<^verbatim>\<open>fmt.Errorf\<close> carry no API status, so
  both classifiers answer no for them.
\<close>

datatype go_error = GoError (IsNotFound: bool) (IsConflict: bool) (ErrorText: string)

definition errors_New :: "string \<Rightarrow> go_error" where
  "errors_New msg = GoError False False msg"

lemma errors_New_simps [simp, go_simps]:
  "IsNotFound (errors_New m) = False"
  "IsConflict (errors_New m) = False"
  "ErrorText (errors_New m) = m"
  by (simp_all add: errors_New_def)

lemma errors_New_inject [simp]: "errors_New a = errors_New b \<longleftrightarrow> a = b"
  by (simp add: errors_New_def)

text \<open>A call either returns or panics (here: the dereference of a nil pointer).\<close>

datatype 'a outcome = Returns 'a | Panics string

fun map_outcome_value :: "('a \<Rightarrow> 'b) \<Rightarrow> 'a outcome \<Rightarrow> 'b outcome" where
  "map_outcome_value f (Returns a) = Returns (f a)"
| "map_outcome_value f (Panics p) = Panics p"

lemma map_outcome_value_Returns:
  "map_outcome_value f x = Returns b \<longleftrightarrow> (\<exists>a. x = Returns a \<and> b = f a)"
  by (cases x) auto

lemma map_sum_Inl_iff:
  "map_sum f g s = Inl y \<longleftrightarrow> (\<exists>x. s = Inl x \<and> y = f x)"
  "Inl y = map_sum f g s \<longleftrightarrow> (\<exists>x. s = Inl x \<and> y = f x)"
  by (cases s; auto)+

lemma map_sum_Inr_iff:
  "map_sum f g s = Inr y \<longleftrightarrow> (\<exists>x. s = Inr x \<and> y = g x)"
  by (cases s) auto

section \<open>Go maps\<close>

text \<open>
  A Go map is an association list: \<open>map_of\<close> reads it, \<open>AList.update\<close> is the assignment
  \<^verbatim>\<open>m[k] = v\<close>, \<open>length\<close> is \<^verbatim>\<open>len(m)\<close>. Every map the code builds has distinct keys.
\<close>

type_synonym ('k, 'v) go_map = "('k \<times> 'v) list"

lemma map_of_assign [simp]: "map_of (AList.update k v m) = (map_of m)(k \<mapsto> v)"
  by (rule update_conv')

lemma distinct_assign: "distinct (map fst m) \<Longrightarrow> distinct (map fst (AList.update k v m))"
  by (rule distinct_update)

lemma length_assign_fresh: "k \<notin> fst ` set m \<Longrightarrow> length (AList.update k v m) = Suc (length m)"
  by (induction m) auto

section \<open>Lists\<close>

lemma find_appendL: "List.find P xs = Some x \<Longrightarrow> List.find P (xs @ ys) = Some x"
  by (induction xs) (auto split: if_splits)

lemma find_appendR: "List.find P xs = None \<Longrightarrow> List.find P (xs @ ys) = List.find P ys"
  by (induction xs) (auto split: if_splits)

lemma find_Some_set: "List.find P xs = Some x \<Longrightarrow> x \<in> set xs \<and> P x"
  by (induction xs) (auto split: if_splits)

lemma find_ex: "x \<in> set xs \<Longrightarrow> P x \<Longrightarrow> \<exists>y. List.find P xs = Some y \<and> y \<in> set xs \<and> P y"
  by (induction xs) auto

lemma find_unique_key:
  assumes "distinct (map f xs)" and "x \<in> set xs"
  shows "List.find (\<lambda>y. f y = f x) xs = Some x"
  using assms by (induction xs) (auto simp: rev_image_eqI)

lemma image_key_iff: "k \<in> f ` A \<longleftrightarrow> (\<exists>x \<in> A. f x = k)"
  by auto

lemma list_all_find_None: "List.find P xs = None \<longleftrightarrow> (\<forall>x \<in> set xs. \<not> P x)"
  by (auto simp: find_None_iff)

end
