(* ===== verification/Go_Std.thy ===== *)
theory Go_Std
  imports Prelude "HOL-Library.Word"
begin

text \<open>
  The parts of Go's standard library that the operator's own code computes with:
  \<^verbatim>\<open>strconv.Itoa\<close> and \<^verbatim>\<open>strconv.Atoi\<close> (64-bit \<^verbatim>\<open>int\<close>), \<^verbatim>\<open>strings.HasSuffix\<close>,
  and \<^verbatim>\<open>time.Duration\<close>.
  The locale \<open>decimal_codec\<close> states what the callers need of a number printer and its parser;
  \<open>Itoa\<close> and \<open>Atoi\<close> interpret it.
\<close>

section \<open>strconv\<close>

definition digit_char :: "nat \<Rightarrow> char" where
  "digit_char d = char_of (48 + d)"

definition digit_val :: "char \<Rightarrow> nat option" where
  "digit_val c = (let n = (of_char c :: nat) in if 48 \<le> n \<and> n \<le> 57 then Some (n - 48) else None)"

fun decimal :: "nat \<Rightarrow> string" where
  "decimal n = (if n < 10 then [digit_char n] else decimal (n div 10) @ [digit_char (n mod 10)])"

declare decimal.simps [simp del]

definition Itoa :: "int \<Rightarrow> string" where
  "Itoa i = (if i < 0 then CHR ''-'' # decimal (nat (- i)) else decimal (nat i))"

fun parse_digits :: "nat \<Rightarrow> string \<Rightarrow> nat option" where
  "parse_digits acc [] = Some acc"
| "parse_digits acc (c # cs) =
     (case digit_val c of None \<Rightarrow> None | Some d \<Rightarrow> parse_digits (acc * 10 + d) cs)"

text \<open>\<open>None\<close> is a non-nil error: a syntax error, or a value outside the 64-bit range.\<close>

definition Atoi :: "string \<Rightarrow> int option" where
  "Atoi s =
     (let (neg, ds) =
        (case s of [] \<Rightarrow> (False, [])
         | c # cs \<Rightarrow> if c = CHR ''-'' then (True, cs)
                    else if c = CHR ''+'' then (False, cs) else (False, s))
      in if ds = [] then None
         else case parse_digits 0 ds of
             None \<Rightarrow> None
           | Some n \<Rightarrow>
               (let v = (if neg then - int n else int n)
                in if - (2 ^ 63) \<le> v \<and> v < 2 ^ 63 then Some v else None))"

lemma digit_char_numerals [go_simps]:
  "digit_char 0 = CHR ''0''" "digit_char 1 = CHR ''1''" "digit_char (Suc 0) = CHR ''1''"
  "digit_char 2 = CHR ''2''" "digit_char 3 = CHR ''3''" "digit_char 4 = CHR ''4''"
  "digit_char 5 = CHR ''5''" "digit_char 6 = CHR ''6''" "digit_char 7 = CHR ''7''"
  "digit_char 8 = CHR ''8''" "digit_char 9 = CHR ''9''"
  by code_simp+

lemma digit_val_char [simp]: "d < 10 \<Longrightarrow> digit_val (digit_char d) = Some d"
  by (simp add: digit_val_def digit_char_def)

lemma digit_char_not_sign [simp]:
  "d < 10 \<Longrightarrow> digit_char d \<noteq> CHR ''-''"
  "d < 10 \<Longrightarrow> digit_char d \<noteq> CHR ''+''"
  by (auto dest!: arg_cong [where f = digit_val] simp: digit_val_def [of "CHR ''-''"]
      digit_val_def [of "CHR ''+''"])

lemma parse_digits_append:
  "parse_digits acc (xs @ ys) =
     (case parse_digits acc xs of None \<Rightarrow> None | Some n \<Rightarrow> parse_digits n ys)"
  by (induction xs arbitrary: acc) (auto split: option.splits)

lemma parse_decimal: "parse_digits 0 (decimal n) = Some n"
proof (induction n rule: decimal.induct)
  case (1 n)
  then show ?case
    by (cases "n < 10") (simp_all add: decimal.simps [of n] parse_digits_append)
qed

lemma decimal_not_Nil [simp]: "decimal n \<noteq> []"
  by (simp add: decimal.simps)

lemma decimal_chars: "c \<in> set (decimal n) \<Longrightarrow> digit_val c \<noteq> None"
proof (induction n rule: decimal.induct)
  case (1 n)
  then show ?case
    by (cases "n < 10") (auto simp: decimal.simps [of n])
qed

lemma decimal_hd_not_sign:
  "hd (decimal n) \<noteq> CHR ''-''" "hd (decimal n) \<noteq> CHR ''+''"
  using decimal_chars [of "hd (decimal n)" n]
  by (auto simp: digit_val_def)

lemma Atoi_Itoa:
  assumes "- (2 ^ 63) \<le> i" and "i < 2 ^ 63"
  shows "Atoi (Itoa i) = Some i"
proof (cases "i < 0")
  case True
  then show ?thesis
    using assms by (simp add: Atoi_def Itoa_def parse_decimal)
next
  case False
  obtain c cs where d: "decimal (nat i) = c # cs"
    by (cases "decimal (nat i)") auto
  with decimal_hd_not_sign [of "nat i"] have "c \<noteq> CHR ''-''" "c \<noteq> CHR ''+''"
    by simp_all
  with False d parse_decimal [of "nat i"] assms show ?thesis
    by (simp add: Atoi_def Itoa_def)
qed

lemma Atoi_range: "Atoi s = Some i \<Longrightarrow> - (2 ^ 63) \<le> i \<and> i < 2 ^ 63"
  by (auto simp: Atoi_def Let_def split: prod.splits option.splits if_splits)

subsection \<open>What callers need of a number printer\<close>

text \<open>
  \<open>enc\<close> prints a number, \<open>dec\<close> reads it back, and \<open>is_digit\<close> holds of the characters a
  printed number can contain. Keys built as prefix, number, suffix are then different for
  different numbers as soon as the suffix starts with a character that is not a digit.
\<close>

locale decimal_codec =
  fixes enc :: "nat \<Rightarrow> string" and dec :: "string \<Rightarrow> nat option" and is_digit :: "char \<Rightarrow> bool"
  assumes dec_enc: "dec (enc n) = Some n"
    and enc_digits: "c \<in> set (enc n) \<Longrightarrow> is_digit c"
begin

lemma enc_inject: "enc m = enc n \<longleftrightarrow> m = n"
  by (metis dec_enc option.inject)

lemma enc_takeWhile: "\<not> is_digit c \<Longrightarrow> takeWhile is_digit (enc n @ c # s) = enc n"
  using enc_digits by (auto simp: takeWhile_append)

lemma key_inject:
  assumes "\<not> is_digit c" and "\<not> is_digit c'" and "p @ enc m @ c # s = p @ enc n @ c' # s'"
  shows "m = n \<and> c # s = c' # s'"
proof -
  from assms(3) have eq: "enc m @ c # s = enc n @ c' # s'" by simp
  then have "takeWhile is_digit (enc m @ c # s) = takeWhile is_digit (enc n @ c' # s')" by simp
  then have "enc m = enc n"
    by (simp only: enc_takeWhile [OF assms(1)] enc_takeWhile [OF assms(2)])
  with eq show ?thesis by (simp add: enc_inject)
qed

end

interpretation dec_codec: decimal_codec
  "\<lambda>n. Itoa (int n)" "parse_digits 0" "\<lambda>c. digit_val c \<noteq> None"
  by unfold_locales (auto simp: Itoa_def parse_decimal dest: decimal_chars)

section \<open>strings\<close>

definition HasSuffix :: "string \<Rightarrow> string \<Rightarrow> bool" where
  "HasSuffix s suf \<longleftrightarrow> length suf \<le> length s \<and> drop (length s - length suf) s = suf"

lemma HasSuffix_iff: "HasSuffix s suf \<longleftrightarrow> (\<exists>p. s = p @ suf)"
proof
  assume "HasSuffix s suf"
  then have "s = take (length s - length suf) s @ suf"
    by (metis HasSuffix_def append_take_drop_id)
  then show "\<exists>p. s = p @ suf" ..
qed (auto simp: HasSuffix_def)

section \<open>time\<close>

text \<open>A \<^verbatim>\<open>time.Duration\<close> is an \<^verbatim>\<open>int64\<close> number of nanoseconds; its product wraps.\<close>

type_synonym duration = "64 word"

definition Duration :: "int \<Rightarrow> duration" where
  "Duration i = word_of_int i"

definition Second :: duration where "Second = 1000000000"
definition Minute :: duration where "Minute = 60000000000"

lemma sint_duration_product:
  "sint (Duration a * Duration b) = signed_take_bit 63 (a * b)"
  by (simp only: Duration_def wi_hom_mult sint_sbintrunc') simp

lemma sint_duration_product_exact:
  assumes "- (2 ^ 63) \<le> a * b" and "a * b < 2 ^ 63"
  shows "sint (Duration a * Duration b) = a * b"
  using assms by (simp add: sint_duration_product signed_take_bit_int_eq_self)

lemma Minute_Duration: "Minute = Duration 60000000000"
  by (simp add: Minute_def Duration_def)

end
