(* ===== verification/Api_Types.thy ===== *)
theory Api_Types
  imports Common
begin

text \<open>
  \<^verbatim>\<open>apis/dbaas/v1beta1\<close>: the three custom resources and the Kubernetes objects the controllers
  build. A resource is its type meta, object meta, \<^verbatim>\<open>Spec\<close> and \<^verbatim>\<open>Status\<close>; the fields of the
  spec and status records, which the Go types embed from the DBaaS operator's API package, are
  those of the CRD schemas under \<^verbatim>\<open>config/crd/bases\<close>. \<^verbatim>\<open>credentialsRef\<close> is required by the
  inventory CRD, so an inventory read from the server always has one.
\<close>

section \<open>Metadata\<close>

text \<open>\<^verbatim>\<open>client.ObjectKey\<close> and \<^verbatim>\<open>types.NamespacedName\<close>.\<close>

datatype object_key = ObjectKey (key_Namespace: string) (key_Name: string)

record type_meta =
  tm_APIVersion :: string
  tm_Kind :: string

record owner_reference =
  or_APIVersion :: string
  or_Kind :: string
  or_UID :: string
  or_Name :: string
  or_Controller :: "bool option"
  or_BlockOwnerDeletion :: "bool option"

record object_meta =
  om_Name :: string
  om_Namespace :: string
  om_UID :: string
  om_ResourceVersion :: string
  om_Labels :: "(string, string) go_map"
  om_OwnerReferences :: "owner_reference list"

definition empty_meta :: object_meta where
  "empty_meta = \<lparr>om_Name = [], om_Namespace = [], om_UID = [], om_ResourceVersion = [],
     om_Labels = [], om_OwnerReferences = []\<rparr>"

definition meta_key :: "object_meta \<Rightarrow> object_key" where
  "meta_key m = ObjectKey (om_Namespace m) (om_Name m)"

section \<open>Conditions\<close>

datatype condition_status = ConditionTrue | ConditionFalse | ConditionUnknown

record condition =
  cond_Type :: string
  cond_Status :: condition_status
  cond_ObservedGeneration :: int
  cond_LastTransitionTime :: string
  cond_Reason :: string
  cond_Message :: string

text \<open>A \<^verbatim>\<open>metav1.Condition\<close> literal that sets four fields and leaves the others zero.\<close>

definition mk_condition :: "string \<Rightarrow> condition_status \<Rightarrow> string \<Rightarrow> string \<Rightarrow> condition" where
  "mk_condition ty st reason msg =
     \<lparr>cond_Type = ty, cond_Status = st, cond_ObservedGeneration = 0, cond_LastTransitionTime = [],
      cond_Reason = reason, cond_Message = msg\<rparr>"

lemma mk_condition_sel [simp]:
  "cond_Type (mk_condition ty st r m) = ty"
  "cond_Status (mk_condition ty st r m) = st"
  "cond_Reason (mk_condition ty st r m) = r"
  "cond_Message (mk_condition ty st r m) = m"
  by (simp_all add: mk_condition_def)

section \<open>ProviderInventory\<close>

record database_service =
  ServiceID :: string
  ServiceName :: string
  ServiceType :: "string option"
  ServiceInfo :: "(string, string) go_map"

record inventory_spec =
  inv_CredentialsRef_Name :: string

record inventory_status =
  inv_Conditions :: "condition list"
  inv_DatabaseServices :: "database_service list"

record ProviderInventory =
  inv_TypeMeta :: type_meta
  inv_ObjectMeta :: object_meta
  inv_Spec :: inventory_spec
  inv_Status :: inventory_status

section \<open>ProviderConnection\<close>

record connection_spec =
  con_InventoryRef :: object_key
  con_DatabaseServiceID :: string
  con_DatabaseServiceRef :: "object_key option"
  con_DatabaseServiceType :: "string option"

text \<open>The two references of the status are pointers; \<open>None\<close> is nil, \<open>Some n\<close> a reference named \<open>n\<close>.\<close>

record connection_status =
  con_Conditions :: "condition list"
  con_CredentialsRef :: "string option"
  con_ConnectionInfoRef :: "string option"

record ProviderConnection =
  con_TypeMeta :: type_meta
  con_ObjectMeta :: object_meta
  con_Spec :: connection_spec
  con_Status :: connection_status

section \<open>ProviderInstance\<close>

text \<open>The phases of the CRD's enumeration, and the empty string of a status never written.\<close>

datatype instance_phase =
  InstancePhaseEmpty | InstancePhaseUnknown | InstancePhasePending | InstancePhaseCreating |
  InstancePhaseUpdating | InstancePhaseDeleting | InstancePhaseDeleted | InstancePhaseReady |
  InstancePhaseError | InstancePhaseFailed

record instance_spec =
  ins_InventoryRef :: object_key
  ins_ProvisioningParameters :: "(string, string) go_map"

record instance_status =
  ins_Conditions :: "condition list"
  ins_Phase :: instance_phase
  ins_InstanceID :: string
  ins_InstanceInfo :: "(string, string) go_map"

record ProviderInstance =
  ins_TypeMeta :: type_meta
  ins_ObjectMeta :: object_meta
  ins_Spec :: instance_spec
  ins_Status :: instance_status

section \<open>Secrets and config maps\<close>

record secret =
  sec_TypeMeta :: type_meta
  sec_ObjectMeta :: object_meta
  sec_Type :: string
  sec_Data :: "(string, string) go_map"

record config_map =
  cm_TypeMeta :: type_meta
  cm_ObjectMeta :: object_meta
  cm_Data :: "(string, string) go_map"

section \<open>Constants of the imported packages\<close>

text \<open>
  The string constants the code takes from the DBaaS operator's API package and from
  \<^verbatim>\<open>k8s.io/api/core/v1\<close>, none of which is under \<^verbatim>\<open>src/\<close>: a parameter of the definitions that
  use them.
\<close>

record dbaas_consts =
  ProvisioningName :: string
  ProvisioningPlan :: string
  ProvisioningCloudProvider :: string
  ProvisioningRegions :: string
  ProvisioningNodes :: string
  ProvisioningMachineType :: string
  ProvisioningStorageGib :: string
  ProvisioningSpendLimit :: string
  ProvisioningPlanLabel :: string
  ProvisioningServerlessLocationLabel :: string
  ProvisioningDedicatedLocationLabel :: string
  ProvisioningHardwareLabel :: string
  ProvisioningSpendLimitLabel :: string
  ProvisioningPlanFreeTrial :: string
  ProvisioningPlanServerless :: string
  ProvisioningPlanDedicated :: string
  TypeLabelKey :: string
  TypeLabelValue :: string
  dbaas_GroupVersion :: string
  corev1_SchemeGroupVersion :: string
  SecretTypeOpaque :: string

section \<open>Result of a reconciliation\<close>

text \<open>\<^verbatim>\<open>ctrl.Result\<close>; the controllers never set \<^verbatim>\<open>RequeueAfter\<close>.\<close>

record ctrl_result =
  Requeue :: bool
  RequeueAfter :: duration

definition no_requeue :: ctrl_result where
  "no_requeue = \<lparr>Requeue = False, RequeueAfter = 0\<rparr>"

definition requeue :: ctrl_result where
  "requeue = \<lparr>Requeue = True, RequeueAfter = 0\<rparr>"

lemma ctrl_result_sel [simp]:
  "Requeue no_requeue = False" "Requeue requeue = True"
  "RequeueAfter no_requeue = 0" "RequeueAfter requeue = 0"
  by (simp_all add: no_requeue_def requeue_def)

lemma requeue_neq [simp]: "requeue \<noteq> no_requeue" "no_requeue \<noteq> requeue"
  by (simp_all add: no_requeue_def requeue_def)

text \<open>
  The controller runtime queues a request again when its reconciliation returned an error or asked
  for a requeue. Nothing else brings it back, short of a new event on a watched object.
\<close>

definition will_retry :: "ctrl_result \<times> go_error option \<Rightarrow> bool" where
  "will_retry r \<longleftrightarrow> snd r \<noteq> None \<or> Requeue (fst r) \<or> RequeueAfter (fst r) \<noteq> 0"

lemma will_retry_simps [simp]:
  "will_retry (res, Some e)"
  "will_retry (requeue, e')"
  "\<not> will_retry (no_requeue, None)"
  by (simp_all add: will_retry_def)

end
