(* ===== verification/Go_Time.thy ===== *)
theory Go_Time
  imports Go_Std "HOL-Library.Monad_Syntax"
begin

text \<open>
  \<^verbatim>\<open>time.Parse\<close> with the layout \<^verbatim>\<open>time.RFC3339\<close> and \<^verbatim>\<open>Time.String\<close>, for UTC times: what
  the fake cloud's package variable \<^verbatim>\<open>aDate\<close> and the \<^verbatim>\<open>createAt\<close>, \<^verbatim>\<open>updateAt\<close> entries of the
  instance info are computed with. A numeric zone offset is recognised but not converted
  (\<open>TimeNumericZone\<close>); the operator never parses one.
\<close>

record go_time =
  t_year :: nat
  t_month :: nat
  t_day :: nat
  t_hour :: nat
  t_min :: nat
  t_sec :: nat
  t_nsec :: nat

text \<open>The zero value \<^verbatim>\<open>time.Time{}\<close>: January 1, year 1, 00:00:00 UTC.\<close>

definition zero_time :: go_time where
  "zero_time = \<lparr>t_year = 1, t_month = 1, t_day = 1, t_hour = 0, t_min = 0, t_sec = 0, t_nsec = 0\<rparr>"

datatype time_parse = TimeParsed go_time | TimeError | TimeNumericZone

definition leap_year :: "nat \<Rightarrow> bool" where
  "leap_year y \<longleftrightarrow> y mod 4 = 0 \<and> (y mod 100 \<noteq> 0 \<or> y mod 400 = 0)"

definition days_in :: "nat \<Rightarrow> nat \<Rightarrow> nat" where
  "days_in m y =
     (if m = 2 then (if leap_year y then 29 else 28)
      else if m \<in> {4, 6, 9, 11} then 30 else 31)"

text \<open>One or two digits; with \<open>fixed\<close> exactly two.\<close>

definition getnum :: "bool \<Rightarrow> string \<Rightarrow> (nat \<times> string) option" where
  "getnum fixed s =
     (case s of
        [] \<Rightarrow> None
      | c # cs \<Rightarrow>
          (case digit_val c of
             None \<Rightarrow> None
           | Some d \<Rightarrow>
               (case cs of
                  [] \<Rightarrow> if fixed then None else Some (d, cs)
                | c' # cs' \<Rightarrow>
                    (case digit_val c' of
                       None \<Rightarrow> if fixed then None else Some (d, cs)
                     | Some d' \<Rightarrow> Some (10 * d + d', cs')))))"

definition get_year :: "string \<Rightarrow> (nat \<times> string) option" where
  "get_year s =
     (if length s < 4 then None
      else map_option (\<lambda>y. (y, drop 4 s)) (parse_digits 0 (take 4 s)))"

definition skip_lit :: "char \<Rightarrow> string \<Rightarrow> string option" where
  "skip_lit c s = (case s of [] \<Rightarrow> None | d # ds \<Rightarrow> if d = c then Some ds else None)"

definition get_nanos :: "string \<Rightarrow> (nat \<times> string) option" where
  "get_nanos s =
     (case s of
        c # d # _ \<Rightarrow>
          if (c = CHR ''.'' \<or> c = CHR '','') \<and> digit_val d \<noteq> None
          then (let ds = takeWhile (\<lambda>x. digit_val x \<noteq> None) (tl s); kept = take 9 ds
                in map_option (\<lambda>n. (n * 10 ^ (9 - length kept), drop (length ds) (tl s)))
                     (parse_digits 0 kept))
          else Some (0, s)
      | _ \<Rightarrow> Some (0, s))"

definition rfc3339_fields :: "string \<Rightarrow> (go_time \<times> string) option" where
  "rfc3339_fields s0 = do {
     (y, s1) \<leftarrow> get_year s0;
     s2 \<leftarrow> skip_lit CHR ''-'' s1;
     (mo, s3) \<leftarrow> getnum True s2;
     s4 \<leftarrow> skip_lit CHR ''-'' s3;
     (d, s5) \<leftarrow> getnum True s4;
     s6 \<leftarrow> skip_lit CHR ''T'' s5;
     (h, s7) \<leftarrow> getnum False s6;
     s8 \<leftarrow> skip_lit CHR '':'' s7;
     (mi, s9) \<leftarrow> getnum True s8;
     s10 \<leftarrow> skip_lit CHR '':'' s9;
     (sec, s11) \<leftarrow> getnum True s10;
     (ns, s12) \<leftarrow> get_nanos s11;
     (if 1 \<le> mo \<and> mo \<le> 12 \<and> 1 \<le> d \<and> d \<le> days_in mo y \<and> h < 24 \<and> mi < 60 \<and> sec < 60
      then Some (\<lparr>t_year = y, t_month = mo, t_day = d, t_hour = h, t_min = mi, t_sec = sec,
                  t_nsec = ns\<rparr>, s12)
      else None)
   }"

definition time_Parse_RFC3339 :: "string \<Rightarrow> time_parse" where
  "time_Parse_RFC3339 s =
     (case rfc3339_fields s of
        None \<Rightarrow> TimeError
      | Some (t, rest) \<Rightarrow>
          if rest = ''Z'' then TimeParsed t
          else if rest \<noteq> [] \<and> hd rest \<in> {CHR ''+'', CHR ''-''} then TimeNumericZone
          else TimeError)"

text \<open>\<^verbatim>\<open>t.String()\<close>, the layout \<^verbatim>\<open>2006-01-02 15:04:05.999999999 -0700 MST\<close>.\<close>

definition pad :: "nat \<Rightarrow> nat \<Rightarrow> string" where
  "pad k n = replicate (k - length (decimal n)) CHR ''0'' @ decimal n"

definition time_String :: "go_time \<Rightarrow> string" where
  "time_String t =
     pad 4 (t_year t) @ ''-'' @ pad 2 (t_month t) @ ''-'' @ pad 2 (t_day t) @ '' '' @
     pad 2 (t_hour t) @ '':'' @ pad 2 (t_min t) @ '':'' @ pad 2 (t_sec t) @
     (if t_nsec t = 0 then []
      else CHR ''.'' # rev (dropWhile (\<lambda>c. c = CHR ''0'') (rev (pad 9 (t_nsec t))))) @
     '' +0000 UTC''"

lemma zero_time_String: "time_String zero_time = ''0001-01-01 00:00:00 +0000 UTC''"
  by (simp add: time_String_def zero_time_def pad_def decimal.simps go_simps numeral_eq_Suc)

text \<open>A year is exactly four digits: after five digits the separator is missing.\<close>

lemma rfc3339_year_is_four_digits:
  assumes "4 < length s" and "s ! 4 \<noteq> CHR ''-''"
  shows "time_Parse_RFC3339 s = TimeError"
proof -
  from assms have "skip_lit CHR ''-'' (drop 4 s) = None"
    by (auto simp: skip_lit_def Cons_nth_drop_Suc [symmetric])
  with assms(1) have "rfc3339_fields s = None"
    by (cases "parse_digits 0 (take 4 s)") (simp_all add: rfc3339_fields_def get_year_def)
  then show ?thesis by (simp add: time_Parse_RFC3339_def)
qed

lemma rfc3339_example:
  "time_Parse_RFC3339 ''2021-12-14T14:38:46.133610Z'' =
     TimeParsed \<lparr>t_year = 2021, t_month = 12, t_day = 14, t_hour = 14, t_min = 38, t_sec = 46,
       t_nsec = 133610000\<rparr>"
  by (simp add: time_Parse_RFC3339_def rfc3339_fields_def get_year_def skip_lit_def getnum_def
      get_nanos_def digit_val_def days_in_def)

end
