(* ===== verification/Fake_Client.thy ===== *)
theory Fake_Client
  imports Go_Time Prelude "HOL-Library.Multiset"
begin

text \<open>
  \<^verbatim>\<open>controllers/dbaas/testutil/fakeclient.go\<close>: the in-memory provider cloud. Its state is the
  cluster slice, guarded by a mutex, and three buffered channels (capacity 5), each drained by a
  goroutine of its own. A goroutine takes a message in one step and works on the slice, inside the
  mutex, in another, so between the two the message is in neither place (\<open>addHeld\<close> and its kin).
  The API methods read the slice and send on the channels; they never write the slice.

  Go's \<^verbatim>\<open>AdditionalProperties\<close> (a map to arbitrary JSON) is left out of \<open>Cluster\<close> and \<open>Region\<close>:
  no code under \<^verbatim>\<open>src/\<close> reads or writes it.
\<close>

section \<open>Data\<close>

type_synonym Plan = string
type_synonym ApiCloudProvider = string
type_synonym ClusterStateType = string
type_synonym ClusterStatusType = string

definition APICLOUDPROVIDER_GCP :: ApiCloudProvider where "APICLOUDPROVIDER_GCP = ''GCP''"
definition APICLOUDPROVIDER_AWS :: ApiCloudProvider where "APICLOUDPROVIDER_AWS = ''AWS''"
definition CLUSTERSTATETYPE_CREATED :: ClusterStateType where "CLUSTERSTATETYPE_CREATED = ''CREATED''"

record Region =
  reg_Name :: string
  reg_SqlDns :: string
  reg_UiDns :: string
  reg_NodeCount :: "32 word"

record Cluster =
  cl_Id :: string
  cl_Name :: string
  cl_Version :: string
  cl_Plan :: Plan
  cl_CloudProvider :: ApiCloudProvider
  cl_AccountId :: "string option"
  cl_State :: ClusterStateType
  cl_CreatorId :: string
  cl_OperationStatus :: ClusterStatusType
  cl_Regions :: "Region list"
  cl_CreatedAt :: "go_time option"
  cl_UpdatedAt :: "go_time option"
  cl_DeletedAt :: "go_time option"

record CreateClusterRequest =
  req_Name :: string
  req_Provider :: ApiCloudProvider

text \<open>The parts of an \<^verbatim>\<open>http.Response\<close> the fake client fills in.\<close>

record http_response =
  http_Status :: string
  http_StatusCode :: nat
  http_Proto :: string
  http_Body :: string
  http_ContentLength :: int

text \<open>A region literal that sets only its name and SQL host.\<close>

definition mk_region :: "string \<Rightarrow> string \<Rightarrow> Region" where
  "mk_region n dns = \<lparr>reg_Name = n, reg_SqlDns = dns, reg_UiDns = [], reg_NodeCount = 0\<rparr>"

text \<open>
  \<^verbatim>\<open>aDate, _ = time.Parse(time.RFC3339, ...)\<close>: the error is dropped, so where the text does not
  parse the variable holds the zero time.
\<close>

definition aDate_text :: string where
  "aDate_text = ''22021-12-14T14:38:46.133610Z''"

definition aDate :: go_time where
  "aDate = (case time_Parse_RFC3339 aDate_text of TimeParsed t \<Rightarrow> t | _ \<Rightarrow> zero_time)"

text \<open>A cluster literal of the package: the fields it does not set are zero.\<close>

definition mk_cluster ::
    "string \<Rightarrow> string \<Rightarrow> ApiCloudProvider \<Rightarrow> ClusterStateType \<Rightarrow> Region list \<Rightarrow> Cluster" where
  "mk_cluster i n p st rs =
     \<lparr>cl_Id = i, cl_Name = n, cl_Version = [], cl_Plan = [], cl_CloudProvider = p,
      cl_AccountId = None, cl_State = st, cl_CreatorId = [], cl_OperationStatus = [],
      cl_Regions = rs, cl_CreatedAt = Some aDate, cl_UpdatedAt = Some aDate, cl_DeletedAt = None\<rparr>"

lemma mk_cluster_sel [simp]:
  "cl_Id (mk_cluster i n p st rs) = i"
  "cl_Name (mk_cluster i n p st rs) = n"
  "cl_CloudProvider (mk_cluster i n p st rs) = p"
  "cl_State (mk_cluster i n p st rs) = st"
  "cl_Regions (mk_cluster i n p st rs) = rs"
  "cl_CreatedAt (mk_cluster i n p st rs) = Some aDate"
  "cl_UpdatedAt (mk_cluster i n p st rs) = Some aDate"
  by (simp_all add: mk_cluster_def)

definition cluster1 :: Cluster where
  "cluster1 = mk_cluster ''a-cluster-instance-1-id'' ''a-cluster-test-1'' APICLOUDPROVIDER_GCP
     CLUSTERSTATETYPE_CREATED [mk_region ''region-1'' ''free-tier4.cloud'']"

definition cluster2 :: Cluster where
  "cluster2 = mk_cluster ''a-cluster-instance-2-id'' ''a-cluster-test-2'' APICLOUDPROVIDER_AWS
     CLUSTERSTATETYPE_CREATED [mk_region ''region-2'' ''free-tier5.cloud'']"

definition cluster3 :: Cluster where
  "cluster3 = mk_cluster ''a-cluster-instance-id-a-provider-test-instance-name''
     ''provider-test-instance-name'' APICLOUDPROVIDER_AWS
     CLUSTERSTATETYPE_CREATED [mk_region ''region-3'' ''free-tier6.cloud'']"

section \<open>State\<close>

record FakeClusters =
  addCluster :: "Cluster list"
  addHeld :: "Cluster option"
  updateCluster :: "Cluster list"
  updateHeld :: "Cluster option"
  deleteCluster :: "string list"
  deleteHeld :: "string option"
  clusters :: "Cluster list"

text \<open>The buffer size of \<^verbatim>\<open>make(chan Cluster, 5)\<close> and the two others.\<close>

definition chan_cap :: nat where "chan_cap = 5"

definition NewFakeClusters :: FakeClusters where
  "NewFakeClusters =
     \<lparr>addCluster = [], addHeld = None, updateCluster = [], updateHeld = None,
      deleteCluster = [], deleteHeld = None, clusters = [cluster1, cluster2, cluster3]\<rparr>"

section \<open>The goroutines\<close>

text \<open>
  The loop bodies, on the slice. Deletion overwrites the first match with the last element and
  shortens the slice by one; update overwrites the first match.
\<close>

fun delete_loop :: "string \<Rightarrow> nat \<Rightarrow> Cluster list \<Rightarrow> Cluster list \<Rightarrow> Cluster list" where
  "delete_loop i k [] cs = cs"
| "delete_loop i k (c # rest) cs =
     (if cl_Id c = i then take (length cs - 1) (cs[k := cs ! (length cs - 1)])
      else delete_loop i (Suc k) rest cs)"

definition delete_body :: "string \<Rightarrow> Cluster list \<Rightarrow> Cluster list" where
  "delete_body i cs = delete_loop i 0 cs cs"

fun update_loop :: "Cluster \<Rightarrow> nat \<Rightarrow> Cluster list \<Rightarrow> Cluster list \<Rightarrow> Cluster list" where
  "update_loop new k [] cs = cs"
| "update_loop new k (c # rest) cs =
     (if cl_Id c = cl_Id new then cs[k := new] else update_loop new (Suc k) rest cs)"

definition update_body :: "Cluster \<Rightarrow> Cluster list \<Rightarrow> Cluster list" where
  "update_body new cs = update_loop new 0 cs cs"

inductive goroutine_step :: "FakeClusters \<Rightarrow> FakeClusters \<Rightarrow> bool" where
  add_recv: "addHeld f = None \<Longrightarrow> addCluster f = c # q \<Longrightarrow>
     goroutine_step f (f\<lparr>addHeld := Some c, addCluster := q\<rparr>)"
| add_apply: "addHeld f = Some c \<Longrightarrow>
     goroutine_step f (f\<lparr>addHeld := None, clusters := clusters f @ [c]\<rparr>)"
| delete_recv: "deleteHeld f = None \<Longrightarrow> deleteCluster f = i # q' \<Longrightarrow>
     goroutine_step f (f\<lparr>deleteHeld := Some i, deleteCluster := q'\<rparr>)"
| delete_apply: "deleteHeld f = Some i \<Longrightarrow>
     goroutine_step f (f\<lparr>deleteHeld := None, clusters := delete_body i (clusters f)\<rparr>)"
| update_recv: "updateHeld f = None \<Longrightarrow> updateCluster f = c # q \<Longrightarrow>
     goroutine_step f (f\<lparr>updateHeld := Some c, updateCluster := q\<rparr>)"
| update_apply: "updateHeld f = Some c \<Longrightarrow>
     goroutine_step f (f\<lparr>updateHeld := None, clusters := update_body c (clusters f)\<rparr>)"

section \<open>The API methods\<close>

definition buildFakeResponse :: http_response where
  "buildFakeResponse =
     \<lparr>http_Status = ''200 OK'', http_StatusCode = 200, http_Proto = ''HTTP/1.1'',
      http_Body = '' '', http_ContentLength = int (length '' '')\<rparr>"

text \<open>A response literal with a status code and a body only.\<close>

definition error_response :: "nat \<Rightarrow> string \<Rightarrow> http_response" where
  "error_response code body =
     \<lparr>http_Status = [], http_StatusCode = code, http_Proto = [], http_Body = body,
      http_ContentLength = 0\<rparr>"

definition creation_failed_text :: string where
  "creation_failed_text =
     ''{'' @ [CHR 0x22] @ ''code'' @ [CHR 0x22] @ '': 0, '' @ [CHR 0x22] @ ''message'' @ [CHR 0x22] @
     '': '' @ [CHR 0x22] @ ''creation failed'' @ [CHR 0x22] @ ''}''"

definition already_exists_text :: string where
  "already_exists_text =
     ''{'' @ [CHR 0x22] @ ''code'' @ [CHR 0x22] @ '': 6, '' @ [CHR 0x22] @ ''message'' @ [CHR 0x22] @
     '': '' @ [CHR 0x22] @ ''code = AlreadyExists'' @ [CHR 0x22] @ ''}''"

definition clusterID_of :: "string \<Rightarrow> string" where
  "clusterID_of name = ''a-cluster-instance-id-'' @ name"

text \<open>
  A send blocks while the buffer is full. Then the goroutine, which waits for nothing but the
  mutex, finishes the message it holds and takes the next one off the channel, which frees a slot.
\<close>

definition add_goroutine_frees_slot :: "FakeClusters \<Rightarrow> FakeClusters" where
  "add_goroutine_frees_slot f =
     (let f1 = (case addHeld f of None \<Rightarrow> f
                | Some c \<Rightarrow> f\<lparr>addHeld := None, clusters := clusters f @ [c]\<rparr>)
      in case addCluster f1 of [] \<Rightarrow> f1 | c # q \<Rightarrow> f1\<lparr>addHeld := Some c, addCluster := q\<rparr>)"

definition send_addCluster :: "Cluster \<Rightarrow> FakeClusters \<Rightarrow> FakeClusters" where
  "send_addCluster c f =
     (let f1 = (if length (addCluster f) < chan_cap then f else add_goroutine_frees_slot f)
      in f1\<lparr>addCluster := addCluster f1 @ [c]\<rparr>)"

definition ListClusters ::
    "FakeClusters \<Rightarrow> ((go_error + Cluster list option) \<times> http_response) \<times> FakeClusters" where
  "ListClusters f = ((Inr (Some (clusters f)), buildFakeResponse), f)"

text \<open>The part of \<^verbatim>\<open>CreateCluster\<close> before its send: the error, or the cluster to send.\<close>

definition check_create :: "CreateClusterRequest \<Rightarrow> Cluster list \<Rightarrow> (go_error \<times> http_response) + Cluster" where
  "check_create r cs =
     (if HasSuffix (req_Name r) ''invalid-cluster-creation-request''
      then Inl (errors_New creation_failed_text, error_response 400 creation_failed_text)
      else let clusterID = clusterID_of (req_Name r)
        in if \<exists>c \<in> set cs. cl_Id c = clusterID
           then Inl (errors_New already_exists_text, error_response 409 already_exists_text)
           else Inr (mk_cluster clusterID (req_Name r) (req_Provider r) []
                       [mk_region ''region-2'' ''free-tier5.cloud'']))"

definition CreateCluster ::
    "CreateClusterRequest \<Rightarrow> FakeClusters \<Rightarrow> ((go_error + Cluster) \<times> http_response) \<times> FakeClusters" where
  "CreateCluster r f =
     (case check_create r (clusters f) of
        Inl (e, resp) \<Rightarrow> ((Inl e, resp), f)
      | Inr c \<Rightarrow> ((Inr c, buildFakeResponse), send_addCluster c f))"

definition GetCluster ::
    "string \<Rightarrow> FakeClusters \<Rightarrow> ((go_error + Cluster) \<times> http_response) \<times> FakeClusters" where
  "GetCluster clusterID f =
     (case List.find (\<lambda>c. cl_Id c = clusterID) (clusters f) of
        Some c \<Rightarrow> ((Inr c, buildFakeResponse), f)
      | None \<Rightarrow> ((Inl (errors_New ''could not find cluster''), buildFakeResponse), f))"

end
