(* ===== verification/Kube_Client.thy ===== *)
theory Kube_Client
  imports Api_Types Fake_Client
begin

text \<open>
  The Kubernetes side, none of which is under \<^verbatim>\<open>src/\<close>: the API client, and the library functions
  \<^verbatim>\<open>SetStatusCondition\<close>, \<^verbatim>\<open>SetControllerReference\<close> and \<^verbatim>\<open>CreateOrUpdate\<close>. They are the fields of a
  record the controllers take as an argument. \<open>'w\<close> is the state of the world outside the process;
  a call may change it, and so may everybody else between two calls. The contracts that some
  theorems assume are the predicates at the end; a small object store satisfies all of them, so the
  assumptions can be met.
\<close>

section \<open>The client\<close>

text \<open>
  A write returns the object as the call leaves it (the client decodes the server's answer into the
  argument). The mutate function given to \<^verbatim>\<open>CreateOrUpdate\<close> works on the object it is given.
\<close>

record 'w kube_client =
  GetInventory :: "object_key \<Rightarrow> 'w \<Rightarrow> (go_error + ProviderInventory) \<times> 'w"
  GetConnection :: "object_key \<Rightarrow> 'w \<Rightarrow> (go_error + ProviderConnection) \<times> 'w"
  GetInstance :: "object_key \<Rightarrow> 'w \<Rightarrow> (go_error + ProviderInstance) \<times> 'w"
  GetSecret :: "object_key \<Rightarrow> 'w \<Rightarrow> (go_error + secret) \<times> 'w"
  StatusUpdateInventory :: "ProviderInventory \<Rightarrow> 'w \<Rightarrow> (go_error option \<times> ProviderInventory) \<times> 'w"
  StatusUpdateConnection :: "ProviderConnection \<Rightarrow> 'w \<Rightarrow> (go_error option \<times> ProviderConnection) \<times> 'w"
  StatusUpdateInstance :: "ProviderInstance \<Rightarrow> 'w \<Rightarrow> (go_error option \<times> ProviderInstance) \<times> 'w"
  CreateOrUpdateSecret :: "secret \<Rightarrow> (secret \<Rightarrow> go_error option \<times> secret) \<Rightarrow> 'w \<Rightarrow>
    (go_error option \<times> secret) \<times> 'w"
  CreateOrUpdateConfigMap :: "config_map \<Rightarrow> (config_map \<Rightarrow> go_error option \<times> config_map) \<Rightarrow> 'w \<Rightarrow>
    (go_error option \<times> config_map) \<times> 'w"
  SetStatusCondition :: "'w \<Rightarrow> condition list \<Rightarrow> condition \<Rightarrow> condition list"
  SetControllerReference :: "ProviderConnection \<Rightarrow> object_meta \<Rightarrow> go_error option \<times> object_meta"

section \<open>Watching the writes\<close>

text \<open>
  A client that behaves as the given one and also keeps a list of the writes it was asked for, in
  order, each with the error it returned. Theorems on what a reconciliation writes are stated over
  it. \<open>AskCreateCluster\<close> notes the one call on the cloud that changes the cloud.
\<close>

datatype write_call =
    WriteInventoryStatus ProviderInventory "go_error option"
  | WriteConnectionStatus ProviderConnection "go_error option"
  | WriteInstanceStatus ProviderInstance "go_error option"
  | WriteSecret object_key "go_error option"
  | WriteConfigMap object_key "go_error option"
  | AskCreateCluster ProviderInstance "go_error + Cluster option"

definition on_left :: "('w \<Rightarrow> 'a \<times> 'w) \<Rightarrow> 'w \<times> 'l \<Rightarrow> 'a \<times> ('w \<times> 'l)" where
  "on_left m w = (case m (fst w) of (a, w') \<Rightarrow> (a, (w', snd w)))"

definition noting :: "('a \<Rightarrow> 'l) \<Rightarrow> ('w \<Rightarrow> 'a \<times> 'w) \<Rightarrow> 'w \<times> 'l list \<Rightarrow> 'a \<times> ('w \<times> 'l list)" where
  "noting c m w = (case m (fst w) of (a, w') \<Rightarrow> (a, (w', snd w @ [c a])))"

definition lift_client :: "'w kube_client \<Rightarrow> ('w \<times> 'l) kube_client" where
  "lift_client kc =
     \<lparr>GetInventory = (\<lambda>k. on_left (GetInventory kc k)),
      GetConnection = (\<lambda>k. on_left (GetConnection kc k)),
      GetInstance = (\<lambda>k. on_left (GetInstance kc k)),
      GetSecret = (\<lambda>k. on_left (GetSecret kc k)),
      StatusUpdateInventory = (\<lambda>x. on_left (StatusUpdateInventory kc x)),
      StatusUpdateConnection = (\<lambda>x. on_left (StatusUpdateConnection kc x)),
      StatusUpdateInstance = (\<lambda>x. on_left (StatusUpdateInstance kc x)),
      CreateOrUpdateSecret = (\<lambda>x f. on_left (CreateOrUpdateSecret kc x f)),
      CreateOrUpdateConfigMap = (\<lambda>x f. on_left (CreateOrUpdateConfigMap kc x f)),
      SetStatusCondition = (\<lambda>w. SetStatusCondition kc (fst w)),
      SetControllerReference = SetControllerReference kc\<rparr>"

definition noting_client :: "'w kube_client \<Rightarrow> ('w \<times> write_call list) kube_client" where
  "noting_client kc = (lift_client kc)
     \<lparr>StatusUpdateInventory := (\<lambda>x. noting (WriteInventoryStatus x \<circ> fst) (StatusUpdateInventory kc x)),
      StatusUpdateConnection := (\<lambda>x. noting (WriteConnectionStatus x \<circ> fst) (StatusUpdateConnection kc x)),
      StatusUpdateInstance := (\<lambda>x. noting (WriteInstanceStatus x \<circ> fst) (StatusUpdateInstance kc x)),
      CreateOrUpdateSecret := (\<lambda>x f. noting (WriteSecret (meta_key (sec_ObjectMeta x)) \<circ> fst)
        (CreateOrUpdateSecret kc x f)),
      CreateOrUpdateConfigMap := (\<lambda>x f. noting (WriteConfigMap (meta_key (cm_ObjectMeta x)) \<circ> fst)
        (CreateOrUpdateConfigMap kc x f))\<rparr>"

lemma on_left_eq [ctrl_simps]: "on_left m (w, l) = (fst (m w), (snd (m w), l))"
  by (simp add: on_left_def split: prod.split)

lemma noting_eq [ctrl_simps]: "noting c m (w, l) = (fst (m w), (snd (m w), l @ [c (fst (m w))]))"
  by (simp add: noting_def split: prod.split)

lemma lift_client_sel [simp]:
  "GetInventory (lift_client kc) k = on_left (GetInventory kc k)"
  "GetConnection (lift_client kc) k = on_left (GetConnection kc k)"
  "GetInstance (lift_client kc) k = on_left (GetInstance kc k)"
  "GetSecret (lift_client kc) k = on_left (GetSecret kc k)"
  "StatusUpdateInventory (lift_client kc) x1 = on_left (StatusUpdateInventory kc x1)"
  "StatusUpdateConnection (lift_client kc) x2 = on_left (StatusUpdateConnection kc x2)"
  "StatusUpdateInstance (lift_client kc) x3 = on_left (StatusUpdateInstance kc x3)"
  "CreateOrUpdateSecret (lift_client kc) x4 f4 = on_left (CreateOrUpdateSecret kc x4 f4)"
  "CreateOrUpdateConfigMap (lift_client kc) x5 f5 = on_left (CreateOrUpdateConfigMap kc x5 f5)"
  "SetStatusCondition (lift_client kc) w = SetStatusCondition kc (fst w)"
  "SetControllerReference (lift_client kc) = SetControllerReference kc"
  by (simp_all add: lift_client_def)

lemma noting_client_sel [simp]:
  "GetInventory (noting_client kc) k = on_left (GetInventory kc k)"
  "GetConnection (noting_client kc) k = on_left (GetConnection kc k)"
  "GetInstance (noting_client kc) k = on_left (GetInstance kc k)"
  "GetSecret (noting_client kc) k = on_left (GetSecret kc k)"
  "StatusUpdateInventory (noting_client kc) x1 =
     noting (WriteInventoryStatus x1 \<circ> fst) (StatusUpdateInventory kc x1)"
  "StatusUpdateConnection (noting_client kc) x2 =
     noting (WriteConnectionStatus x2 \<circ> fst) (StatusUpdateConnection kc x2)"
  "StatusUpdateInstance (noting_client kc) x3 =
     noting (WriteInstanceStatus x3 \<circ> fst) (StatusUpdateInstance kc x3)"
  "CreateOrUpdateSecret (noting_client kc) x4 f4 =
     noting (WriteSecret (meta_key (sec_ObjectMeta x4)) \<circ> fst) (CreateOrUpdateSecret kc x4 f4)"
  "CreateOrUpdateConfigMap (noting_client kc) x5 f5 =
     noting (WriteConfigMap (meta_key (cm_ObjectMeta x5)) \<circ> fst) (CreateOrUpdateConfigMap kc x5 f5)"
  "SetStatusCondition (noting_client kc) w = SetStatusCondition kc (fst w)"
  "SetControllerReference (noting_client kc) = SetControllerReference kc"
  by (simp_all add: noting_client_def)

section \<open>Documented behaviour of the libraries\<close>

text \<open>
  \<^verbatim>\<open>SetStatusCondition\<close>: the condition of the given type becomes the new one but for its
  transition time, and the conditions of other types stay.
\<close>

definition set_condition_contract :: "'w kube_client \<Rightarrow> bool" where
  "set_condition_contract kc \<longleftrightarrow>
     (\<forall>w cs c.
        (\<exists>t. List.find (\<lambda>x. cond_Type x = cond_Type c) (SetStatusCondition kc w cs c) =
               Some (c\<lparr>cond_LastTransitionTime := t\<rparr>)) \<and>
        filter (\<lambda>x. cond_Type x \<noteq> cond_Type c) (SetStatusCondition kc w cs c) =
        filter (\<lambda>x. cond_Type x \<noteq> cond_Type c) cs)"

text \<open>
  A read returns the object of the name and namespace it asked for. \<^verbatim>\<open>Status().Update\<close> writes the
  status subresource of its object and nothing else: after it succeeded, the next read returns the
  stored object with the new status; after it failed, the stored object is the old one; the argument
  keeps its name and namespace and the status it was given. Reads change nothing. (Nobody else writes the object meanwhile.)
\<close>

definition instance_store_contract :: "'w kube_client \<Rightarrow> bool" where
  "instance_store_contract kc \<longleftrightarrow>
     (\<forall>k w. snd (GetInstance kc k w) = w \<and> snd (GetInventory kc k w) = w \<and> snd (GetSecret kc k w) = w) \<and>
     (\<forall>k w x. fst (GetInstance kc k w) = Inr x \<longrightarrow> meta_key (ins_ObjectMeta x) = k) \<and>
     (\<forall>x w k. fst (GetInstance kc k (snd (StatusUpdateInstance kc x w))) =
        map_sum id (\<lambda>x0. if meta_key (ins_ObjectMeta x) = k \<and> fst (fst (StatusUpdateInstance kc x w)) = None
          then x0\<lparr>ins_Status := ins_Status x\<rparr> else x0) (fst (GetInstance kc k w))) \<and>
     (\<forall>x w k. fst (GetInventory kc k (snd (StatusUpdateInstance kc x w))) = fst (GetInventory kc k w)) \<and>
     (\<forall>x w. meta_key (ins_ObjectMeta (snd (fst (StatusUpdateInstance kc x w)))) =
        meta_key (ins_ObjectMeta x)) \<and>
     (\<forall>x w. ins_Status (snd (fst (StatusUpdateInstance kc x w))) = ins_Status x)"

lemma instance_store_contractD:
  assumes "instance_store_contract kc"
  shows "snd (GetInstance kc k w) = w" "snd (GetInventory kc k w) = w" "snd (GetSecret kc k w) = w"
    and "fst (GetInstance kc k w) = Inr y \<Longrightarrow> meta_key (ins_ObjectMeta y) = k"
    and "fst (GetInstance kc k (snd (StatusUpdateInstance kc x w))) =
        map_sum id (\<lambda>x0. if meta_key (ins_ObjectMeta x) = k \<and> fst (fst (StatusUpdateInstance kc x w)) = None
          then x0\<lparr>ins_Status := ins_Status x\<rparr> else x0) (fst (GetInstance kc k w))"
    and "fst (GetInventory kc k (snd (StatusUpdateInstance kc x w))) = fst (GetInventory kc k w)"
    and "meta_key (ins_ObjectMeta (snd (fst (StatusUpdateInstance kc x w)))) = meta_key (ins_ObjectMeta x)"
    and "ins_Status (snd (fst (StatusUpdateInstance kc x w))) = ins_Status x"
  using assms unfolding instance_store_contract_def by blast+

text \<open>
  \<^verbatim>\<open>CreateOrUpdate\<close> fails when the mutate function changes the name or namespace; otherwise the
  object keeps its key. \<^verbatim>\<open>SetControllerReference\<close> edits the owner references only.
\<close>

definition create_or_update_contract :: "'w kube_client \<Rightarrow> bool" where
  "create_or_update_contract kc \<longleftrightarrow>
     (\<forall>s f w s' w'. CreateOrUpdateSecret kc s f w = ((None, s'), w') \<longrightarrow>
        meta_key (sec_ObjectMeta s') = meta_key (sec_ObjectMeta s)) \<and>
     (\<forall>c f w c' w'. CreateOrUpdateConfigMap kc c f w = ((None, c'), w') \<longrightarrow>
        meta_key (cm_ObjectMeta c') = meta_key (cm_ObjectMeta c))"

definition controller_reference_contract :: "'w kube_client \<Rightarrow> bool" where
  "controller_reference_contract kc \<longleftrightarrow>
     (\<forall>x m. \<exists>owners. snd (SetControllerReference kc x m) = m\<lparr>om_OwnerReferences := owners\<rparr>)"

text \<open>
  Writes to inventories, connections, secrets and config maps touch no instance, and neither add nor
  remove an inventory.
\<close>

definition separate_kinds_contract :: "'w kube_client \<Rightarrow> bool" where
  "separate_kinds_contract kc \<longleftrightarrow>
     (let same = (\<lambda>w w'. (\<forall>k. fst (GetInstance kc k w') = fst (GetInstance kc k w) \<and>
            isl (fst (GetInventory kc k w')) = isl (fst (GetInventory kc k w))))
      in (\<forall>k w. same w (snd (GetInventory kc k w))) \<and> (\<forall>k w. same w (snd (GetConnection kc k w))) \<and>
         (\<forall>k w. same w (snd (GetSecret kc k w))) \<and>
         (\<forall>x w. same w (snd (StatusUpdateInventory kc x w))) \<and>
         (\<forall>x w. same w (snd (StatusUpdateConnection kc x w))) \<and>
         (\<forall>s f w. same w (snd (CreateOrUpdateSecret kc s f w))) \<and>
         (\<forall>m f w. same w (snd (CreateOrUpdateConfigMap kc m f w))))"

text \<open>
  The same for the statuses of inventories and connections, and what leaves a stored connection and
  a stored inventory alone.
\<close>

definition status_store_contract :: "'w kube_client \<Rightarrow> bool" where
  "status_store_contract kc \<longleftrightarrow>
     (\<forall>k w. snd (GetConnection kc k w) = w) \<and>
     (\<forall>x w k. fst (GetInventory kc k (snd (StatusUpdateInventory kc x w))) =
        map_sum id (\<lambda>x0. if meta_key (inv_ObjectMeta x) = k \<and> fst (fst (StatusUpdateInventory kc x w)) = None
          then x0\<lparr>inv_Status := inv_Status x\<rparr> else x0) (fst (GetInventory kc k w))) \<and>
     (\<forall>x w k. fst (GetConnection kc k (snd (StatusUpdateConnection kc x w))) =
        map_sum id (\<lambda>x0. if meta_key (con_ObjectMeta x) = k \<and> fst (fst (StatusUpdateConnection kc x w)) = None
          then x0\<lparr>con_Status := con_Status x\<rparr> else x0) (fst (GetConnection kc k w))) \<and>
     (\<forall>x w k. fst (GetConnection kc k (snd (StatusUpdateInstance kc x w))) = fst (GetConnection kc k w)) \<and>
     (\<forall>x w k. fst (GetConnection kc k (snd (StatusUpdateInventory kc x w))) = fst (GetConnection kc k w)) \<and>
     (\<forall>s g w k. fst (GetConnection kc k (snd (CreateOrUpdateSecret kc s g w))) = fst (GetConnection kc k w)) \<and>
     (\<forall>m g w k. fst (GetConnection kc k (snd (CreateOrUpdateConfigMap kc m g w))) = fst (GetConnection kc k w))"

lemma status_store_contractD:
  assumes "status_store_contract kc"
  shows "snd (GetConnection kc k w) = w"
    and "fst (GetInventory kc k (snd (StatusUpdateInventory kc iv w))) =
        map_sum id (\<lambda>x0. if meta_key (inv_ObjectMeta iv) = k \<and> fst (fst (StatusUpdateInventory kc iv w)) = None
          then x0\<lparr>inv_Status := inv_Status iv\<rparr> else x0) (fst (GetInventory kc k w))"
    and "fst (GetConnection kc k (snd (StatusUpdateConnection kc x w))) =
        map_sum id (\<lambda>x0. if meta_key (con_ObjectMeta x) = k \<and> fst (fst (StatusUpdateConnection kc x w)) = None
          then x0\<lparr>con_Status := con_Status x\<rparr> else x0) (fst (GetConnection kc k w))"
    and "fst (GetConnection kc k (snd (StatusUpdateInstance kc i w))) = fst (GetConnection kc k w)"
    and "fst (GetConnection kc k (snd (StatusUpdateInventory kc iv w))) = fst (GetConnection kc k w)"
    and "fst (GetConnection kc k (snd (CreateOrUpdateSecret kc s g w))) = fst (GetConnection kc k w)"
    and "fst (GetConnection kc k (snd (CreateOrUpdateConfigMap kc m h w))) = fst (GetConnection kc k w)"
  using assms by (simp_all add: status_store_contract_def)

text \<open>
  An API server in good health accepts the status of an object it stores, and an object whose mutate
  function succeeds and keeps the name, and stays in good health.
\<close>

definition accepting_contract :: "'w kube_client \<Rightarrow> ('w \<Rightarrow> bool) \<Rightarrow> bool" where
  "accepting_contract kc healthy \<longleftrightarrow>
     (\<forall>x w. healthy w \<and> \<not> isl (fst (GetInstance kc (meta_key (ins_ObjectMeta x)) w)) \<longrightarrow>
        fst (fst (StatusUpdateInstance kc x w)) = None \<and> healthy (snd (StatusUpdateInstance kc x w))) \<and>
     (\<forall>x w. healthy w \<and> \<not> isl (fst (GetInventory kc (meta_key (inv_ObjectMeta x)) w)) \<longrightarrow>
        fst (fst (StatusUpdateInventory kc x w)) = None \<and> healthy (snd (StatusUpdateInventory kc x w))) \<and>
     (\<forall>x w. healthy w \<and> \<not> isl (fst (GetConnection kc (meta_key (con_ObjectMeta x)) w)) \<longrightarrow>
        fst (fst (StatusUpdateConnection kc x w)) = None \<and> healthy (snd (StatusUpdateConnection kc x w))) \<and>
     (\<forall>s g w. healthy w \<and>
        (\<forall>t. fst (g t) = None \<and> meta_key (sec_ObjectMeta (snd (g t))) = meta_key (sec_ObjectMeta t)) \<longrightarrow>
        fst (fst (CreateOrUpdateSecret kc s g w)) = None \<and> healthy (snd (CreateOrUpdateSecret kc s g w))) \<and>
     (\<forall>m h w. healthy w \<and>
        (\<forall>t. fst (h t) = None \<and> meta_key (cm_ObjectMeta (snd (h t))) = meta_key (cm_ObjectMeta t)) \<longrightarrow>
        fst (fst (CreateOrUpdateConfigMap kc m h w)) = None \<and> healthy (snd (CreateOrUpdateConfigMap kc m h w)))"

lemma accepting_contractD:
  assumes "accepting_contract kc healthy" and "healthy w"
  shows "\<not> isl (fst (GetInstance kc (meta_key (ins_ObjectMeta i)) w)) \<Longrightarrow>
      fst (fst (StatusUpdateInstance kc i w)) = None \<and> healthy (snd (StatusUpdateInstance kc i w))"
    and "\<not> isl (fst (GetInventory kc (meta_key (inv_ObjectMeta iv)) w)) \<Longrightarrow>
      fst (fst (StatusUpdateInventory kc iv w)) = None \<and> healthy (snd (StatusUpdateInventory kc iv w))"
    and "\<not> isl (fst (GetConnection kc (meta_key (con_ObjectMeta x)) w)) \<Longrightarrow>
      fst (fst (StatusUpdateConnection kc x w)) = None \<and> healthy (snd (StatusUpdateConnection kc x w))"
    and "(\<And>t. fst (g t) = None \<and> meta_key (sec_ObjectMeta (snd (g t))) = meta_key (sec_ObjectMeta t)) \<Longrightarrow>
      fst (fst (CreateOrUpdateSecret kc s g w)) = None \<and> healthy (snd (CreateOrUpdateSecret kc s g w))"
    and "(\<And>t. fst (h t) = None \<and> meta_key (cm_ObjectMeta (snd (h t))) = meta_key (cm_ObjectMeta t)) \<Longrightarrow>
      fst (fst (CreateOrUpdateConfigMap kc m h w)) = None \<and> healthy (snd (CreateOrUpdateConfigMap kc m h w))"
  using assms unfolding accepting_contract_def by blast+

lemma set_condition_contractD:
  assumes "set_condition_contract kc"
  shows "\<exists>t. List.find (\<lambda>x. cond_Type x = cond_Type c) (SetStatusCondition kc w cs c) =
      Some (c\<lparr>cond_LastTransitionTime := t\<rparr>)"
    and "filter (\<lambda>x. cond_Type x \<noteq> cond_Type c) (SetStatusCondition kc w cs c) =
      filter (\<lambda>x. cond_Type x \<noteq> cond_Type c) cs"
  using assms unfolding set_condition_contract_def by blast+

text \<open>A client lifted to a larger world keeps its contracts.\<close>

lemma lift_set_condition: "set_condition_contract kc \<Longrightarrow> set_condition_contract (lift_client kc)"
  by (simp add: set_condition_contract_def)

lemma lift_controller_reference:
  "controller_reference_contract kc \<Longrightarrow> controller_reference_contract (lift_client kc)"
  by (simp add: controller_reference_contract_def)

lemma on_left_iff: "on_left m w = (a, w') \<longleftrightarrow> m (fst w) = (a, fst w') \<and> snd w' = snd w"
  by (cases "m (fst w)"; cases w') (auto simp: on_left_def)

lemma lift_create_or_update:
  assumes "create_or_update_contract kc"
  shows "create_or_update_contract (lift_client kc)"
  unfolding create_or_update_contract_def lift_client_sel on_left_iff
  using assms unfolding create_or_update_contract_def by blast

lemma on_left_proj: "fst (on_left m w) = fst (m (fst w))" "snd (on_left m w) = (snd (m (fst w)), snd w)"
  by (simp_all add: on_left_def split: prod.split)

lemma lift_instance_store:
  assumes "instance_store_contract kc"
  shows "instance_store_contract (lift_client kc)"
  unfolding instance_store_contract_def lift_client_sel on_left_proj
  using assms unfolding instance_store_contract_def by simp

lemmas lift_contracts = lift_set_condition lift_controller_reference lift_create_or_update
  lift_instance_store

end
