(* ===== verification/Fake_Cloud.thy ===== *)
theory Fake_Cloud
  imports Fake_Client
begin

text \<open>
  Correctness of the fake cloud. The interface \<^verbatim>\<open>Service\<close> is a locale with its laws; the fake
  client interprets it. The abstraction \<open>committed\<close> is the slice followed by the clusters still on
  their way to it: the goroutine's steps leave it unchanged, a creation appends to it, and the slice
  the other methods read is a prefix of it. The last part runs one creating controller against the
  goroutines step by step.
\<close>

section \<open>The Service interface\<close>

text \<open>
  What a caller of \<^verbatim>\<open>testutil.Service\<close> may rely on. \<open>visible\<close> are the clusters the reading methods
  see, \<open>committed\<close> those that exist or are about to, \<open>settle\<close> lets the cloud finish its own work.
\<close>

locale cloud_service_contract =
  fixes list_op :: "'s \<Rightarrow> ((go_error + Cluster list option) \<times> http_response) \<times> 's"
    and create_op :: "CreateClusterRequest \<Rightarrow> 's \<Rightarrow> ((go_error + Cluster) \<times> http_response) \<times> 's"
    and get_op :: "string \<Rightarrow> 's \<Rightarrow> ((go_error + Cluster) \<times> http_response) \<times> 's"
    and visible :: "'s \<Rightarrow> Cluster list"
    and committed_of :: "'s \<Rightarrow> Cluster list"
  assumes list_visible: "fst (fst (list_op s)) = Inr (Some (visible s))"
    and list_state: "snd (list_op s) = s"
    and get_found: "List.find (\<lambda>c. cl_Id c = i) (visible s) = Some c \<Longrightarrow> fst (fst (get_op i s)) = Inr c"
    and get_missing: "List.find (\<lambda>c. cl_Id c = i) (visible s) = None \<Longrightarrow> \<exists>e. fst (fst (get_op i s)) = Inl e"
    and get_state: "snd (get_op i s) = s"
    and create_error: "fst (fst (create_op r s)) = Inl e \<Longrightarrow> snd (create_op r s) = s"
    and create_commits: "fst (fst (create_op r s)) = Inr c \<Longrightarrow>
      committed_of (snd (create_op r s)) = committed_of s @ [c]"
    and create_fresh: "fst (fst (create_op r s)) = Inr c \<Longrightarrow> cl_Id c \<notin> cl_Id ` set (visible s)"
    and visible_committed: "set (visible s) \<subseteq> set (committed_of s)"
begin

lemma listed_is_gettable:
  assumes "fst (fst (list_op s)) = Inr (Some cs)" and "c \<in> set cs"
  shows "\<exists>c'. fst (fst (get_op (cl_Id c) (snd (list_op s)))) = Inr c' \<and> cl_Id c' = cl_Id c"
proof -
  from assms have "c \<in> set (visible s)" by (simp add: list_visible)
  then obtain c' where "List.find (\<lambda>x. cl_Id x = cl_Id c) (visible s) = Some c'" "cl_Id c' = cl_Id c"
    using find_ex [of c "visible s" "\<lambda>x. cl_Id x = cl_Id c"] by auto
  then show ?thesis by (auto simp: list_state dest: get_found)
qed

lemma get_returns_id:
  assumes "fst (fst (get_op i s)) = Inr c"
  shows "cl_Id c = i \<and> c \<in> set (visible s)"
proof (cases "List.find (\<lambda>c. cl_Id c = i) (visible s)")
  case None
  with get_missing [OF None] assms show ?thesis by auto
next
  case (Some c')
  with get_found [OF Some] assms show ?thesis by (auto dest: find_Some_set)
qed

lemma created_not_listed:
  assumes "fst (fst (create_op r s)) = Inr c" and "fst (fst (list_op s)) = Inr (Some cs)"
  shows "c \<notin> set cs"
  using assms create_fresh by (force simp: list_visible)

end

text \<open>A service whose pending work can be waited for.\<close>

locale settling_service = cloud_service_contract +
  fixes settle_op :: "'s \<Rightarrow> 's"
  assumes settle_visible: "visible (settle_op s) = committed_of s"
    and settle_committed: "committed_of (settle_op s) = committed_of s"
begin

lemma create_settle_list:
  assumes "fst (fst (create_op r s)) = Inr c"
  shows "fst (fst (list_op (settle_op (snd (create_op r s))))) = Inr (Some (committed_of s @ [c]))"
  by (simp add: list_visible settle_visible create_commits [OF assms])

lemma create_settle_get:
  assumes "fst (fst (create_op r s)) = Inr c" and "cl_Id c \<notin> cl_Id ` set (committed_of s)"
  shows "fst (fst (get_op (cl_Id c) (settle_op (snd (create_op r s))))) = Inr c"
proof (rule get_found)
  from assms(2) have "List.find (\<lambda>x. cl_Id x = cl_Id c) (committed_of s) = None"
    by (simp add: list_all_find_None image_key_iff)
  then show "List.find (\<lambda>x. cl_Id x = cl_Id c) (visible (settle_op (snd (create_op r s)))) = Some c"
    by (simp add: settle_visible create_commits [OF assms(1)] find_appendR)
qed

lemma create_settle_get_first:
  assumes "fst (fst (create_op r s)) = Inr c"
  shows "fst (fst (get_op (cl_Id c) (settle_op (snd (create_op r s))))) =
    Inr (case List.find (\<lambda>d. cl_Id d = cl_Id c) (committed_of s) of None \<Rightarrow> c | Some d \<Rightarrow> d)"
proof (rule get_found, cases "List.find (\<lambda>d. cl_Id d = cl_Id c) (committed_of s)")
  case None
  then show "List.find (\<lambda>d. cl_Id d = cl_Id c) (visible (settle_op (snd (create_op r s)))) =
      Some (case List.find (\<lambda>d. cl_Id d = cl_Id c) (committed_of s) of None \<Rightarrow> c | Some d \<Rightarrow> d)"
    by (simp add: settle_visible create_commits [OF assms] find_appendR)
next
  case (Some d)
  then show "List.find (\<lambda>d. cl_Id d = cl_Id c) (visible (settle_op (snd (create_op r s)))) =
      Some (case List.find (\<lambda>d. cl_Id d = cl_Id c) (committed_of s) of None \<Rightarrow> c | Some d \<Rightarrow> d)"
    by (simp add: settle_visible create_commits [OF assms] find_appendL)
qed

end

section \<open>The fake client implements it\<close>

definition option_list :: "'a option \<Rightarrow> 'a list" where
  "option_list x = (case x of None \<Rightarrow> [] | Some a \<Rightarrow> [a])"

lemma option_list_simps [simp]: "option_list None = []" "option_list (Some a) = [a]"
  by (simp_all add: option_list_def)

definition committed :: "FakeClusters \<Rightarrow> Cluster list" where
  "committed f = clusters f @ option_list (addHeld f) @ addCluster f"

text \<open>The state once the add goroutine has emptied its channel.\<close>

definition settle :: "FakeClusters \<Rightarrow> FakeClusters" where
  "settle f = f\<lparr>addCluster := [], addHeld := None, clusters := committed f\<rparr>"

lemma committed_settle [simp]: "committed (settle f) = committed f" "clusters (settle f) = committed f"
  by (simp_all add: settle_def committed_def)

lemma committed_frees_slot [simp]: "committed (add_goroutine_frees_slot f) = committed f"
  by (auto simp: add_goroutine_frees_slot_def committed_def Let_def split: option.splits list.splits)

lemma committed_send [simp]: "committed (send_addCluster c f) = committed f @ [c]"
proof -
  have "committed (g\<lparr>addCluster := addCluster g @ [c]\<rparr>) = committed g @ [c]" for g
    by (simp add: committed_def)
  then show ?thesis by (simp add: send_addCluster_def Let_def)
qed

lemma check_create_Inr:
  "check_create r cs = Inr c \<longleftrightarrow>
     \<not> HasSuffix (req_Name r) ''invalid-cluster-creation-request'' \<and>
     clusterID_of (req_Name r) \<notin> cl_Id ` set cs \<and>
     c = mk_cluster (clusterID_of (req_Name r)) (req_Name r) (req_Provider r) []
           [mk_region ''region-2'' ''free-tier5.cloud'']"
  by (auto simp: check_create_def Let_def image_key_iff)

lemma CreateCluster_Inr:
  "fst (fst (CreateCluster r f)) = Inr c \<longleftrightarrow> check_create r (clusters f) = Inr c"
  by (auto simp: CreateCluster_def split: sum.splits prod.splits)

lemma CreateCluster_state_Inr:
  "check_create r (clusters f) = Inr c \<Longrightarrow> snd (CreateCluster r f) = send_addCluster c f"
  by (simp add: CreateCluster_def)

lemma CreateCluster_Inl:
  "fst (fst (CreateCluster r f)) = Inl e \<Longrightarrow> snd (CreateCluster r f) = f"
  by (auto simp: CreateCluster_def split: sum.splits prod.splits)

interpretation fake_cloud: settling_service ListClusters CreateCluster GetCluster clusters committed settle
proof unfold_locales
  fix r f c
  assume "fst (fst (CreateCluster r f)) = Inr c"
  then have ok: "check_create r (clusters f) = Inr c" by (simp add: CreateCluster_Inr)
  show "committed (snd (CreateCluster r f)) = committed f @ [c]"
    by (simp add: CreateCluster_state_Inr [OF ok])
  from ok show "cl_Id c \<notin> cl_Id ` set (clusters f)" by (simp add: check_create_Inr)
qed (auto simp: ListClusters_def GetCluster_def intro: CreateCluster_Inl split: option.split,
     simp add: committed_def)

lemma clusterID_of_inject [simp]: "clusterID_of a = clusterID_of b \<longleftrightarrow> a = b"
  by (simp add: clusterID_of_def)

text \<open>
  C25. Creation, as the cloud service promises it: a request is refused, without any effect, exactly
  when its name ends in the reserved suffix or a cluster of the list has the identifier derived from
  the name. Otherwise it returns a cluster with that identifier, the name and the provider. Once the
  goroutine has drained its channel a fetch under the identifier returns this cluster, unless one with
  the same identifier was already on its way to the list: then it returns that one.
\<close>

theorem create_then_get:
  "case fst (fst (CreateCluster r f)) of
     Inl e \<Rightarrow>
       (HasSuffix (req_Name r) ''invalid-cluster-creation-request'' \<or>
        clusterID_of (req_Name r) \<in> cl_Id ` set (clusters f)) \<and>
       snd (CreateCluster r f) = f
   | Inr c \<Rightarrow>
       \<not> HasSuffix (req_Name r) ''invalid-cluster-creation-request'' \<and>
       clusterID_of (req_Name r) \<notin> cl_Id ` set (clusters f) \<and>
       cl_Id c = clusterID_of (req_Name r) \<and> cl_Name c = req_Name r \<and>
       cl_CloudProvider c = req_Provider r \<and>
       fst (fst (GetCluster (cl_Id c) (settle (snd (CreateCluster r f))))) =
         Inr (case List.find (\<lambda>d. cl_Id d = cl_Id c) (committed f) of None \<Rightarrow> c | Some d \<Rightarrow> d)"
proof (cases "fst (fst (CreateCluster r f))")
  case (Inl e)
  then have "\<nexists>c. check_create r (clusters f) = Inr c"
    by (auto simp flip: CreateCluster_Inr)
  with Inl CreateCluster_Inl [OF Inl] show ?thesis by (simp add: check_create_Inr)
next
  case (Inr c)
  then have "check_create r (clusters f) = Inr c" by (simp add: CreateCluster_Inr)
  then show ?thesis
    unfolding Inr sum.case fake_cloud.create_settle_get_first [OF Inr]
    by (simp add: check_create_Inr)
qed

definition sample_request :: CreateClusterRequest where
  "sample_request = \<lparr>req_Name = ''dbaas'', req_Provider = ''AWS''\<rparr>"

lemmas cluster_defs = cluster1_def cluster2_def cluster3_def

lemma NewFakeClusters_committed [simp]: "committed NewFakeClusters = [cluster1, cluster2, cluster3]"
  "clusters NewFakeClusters = [cluster1, cluster2, cluster3]"
  by (simp_all add: committed_def NewFakeClusters_def)

lemma sample_created:
  "check_create sample_request [cluster1, cluster2, cluster3] =
     Inr (mk_cluster ''a-cluster-instance-id-dbaas'' ''dbaas'' ''AWS'' []
            [mk_region ''region-2'' ''free-tier5.cloud''])"
  by (simp add: check_create_Inr) (simp add: sample_request_def HasSuffix_def clusterID_of_def cluster_defs)

theorem create_then_get_witness:
  "fst (fst (GetCluster ''a-cluster-instance-id-dbaas''
     (settle (snd (CreateCluster sample_request NewFakeClusters))))) =
   Inr (mk_cluster ''a-cluster-instance-id-dbaas'' ''dbaas'' ''AWS'' []
          [mk_region ''region-2'' ''free-tier5.cloud''])"
proof -
  let ?c = "mk_cluster ''a-cluster-instance-id-dbaas'' ''dbaas'' ''AWS'' []
    [mk_region ''region-2'' ''free-tier5.cloud'']"
  have h: "fst (fst (CreateCluster sample_request NewFakeClusters)) = Inr ?c"
    by (simp add: CreateCluster_Inr sample_created)
  have "fst (fst (GetCluster (cl_Id ?c) (settle (snd (CreateCluster sample_request NewFakeClusters))))) =
      Inr (case List.find (\<lambda>d. cl_Id d = cl_Id ?c) (committed NewFakeClusters) of None \<Rightarrow> ?c | Some d \<Rightarrow> d)"
    using create_then_get [of sample_request NewFakeClusters] unfolding h sum.case by (elim conjE)
  then show ?thesis by (simp add: cluster_defs)
qed

text \<open>
  What the reading methods return fits together: every cluster that a listing returned can be
  fetched under its identifier from the same state, and a fetch returns a listed cluster with the
  identifier asked for.
\<close>

theorem list_get_agree:
  assumes "fst (fst (ListClusters f)) = Inr (Some cs)"
  shows "(\<exists>c'. fst (fst (GetCluster i f)) = Inr c') \<longleftrightarrow> i \<in> cl_Id ` set cs"
proof
  assume "\<exists>c'. fst (fst (GetCluster i f)) = Inr c'"
  then obtain c' where "fst (fst (GetCluster i f)) = Inr c'" ..
  from fake_cloud.get_returns_id [OF this] assms show "i \<in> cl_Id ` set cs"
    by (auto simp: ListClusters_def)
next
  assume "i \<in> cl_Id ` set cs"
  then obtain c where "c \<in> set cs" "i = cl_Id c" by auto
  with fake_cloud.listed_is_gettable [OF assms] show "\<exists>c'. fst (fst (GetCluster i f)) = Inr c'"
    by (auto simp: ListClusters_def)
qed

theorem list_get_agree_witness:
  "\<exists>c. fst (fst (GetCluster ''a-cluster-instance-2-id'' NewFakeClusters)) = Inr c"
proof -
  have "fst (fst (ListClusters NewFakeClusters)) = Inr (Some [cluster1, cluster2, cluster3])"
    by (simp add: ListClusters_def)
  from list_get_agree [OF this] show ?thesis by (simp add: cluster_defs)
qed

text \<open>
  The HTTP status of a creation tells its outcome: 200 exactly on success, 400 for the reserved
  suffix, 409 for a name whose cluster is already in the list.
\<close>

theorem create_status_codes:
  "http_StatusCode (snd (fst (CreateCluster r f))) =
     (if HasSuffix (req_Name r) ''invalid-cluster-creation-request'' then 400
      else if clusterID_of (req_Name r) \<in> cl_Id ` set (clusters f) then 409 else 200) \<and>
   ((\<exists>c. fst (fst (CreateCluster r f)) = Inr c) \<longleftrightarrow>
      http_StatusCode (snd (fst (CreateCluster r f))) = 200)"
  by (auto simp: CreateCluster_def check_create_def Let_def error_response_def buildFakeResponse_def
      image_key_iff split: sum.splits prod.splits if_splits)

end
