(* ===== verification/Fake_Concurrency.thy ===== *)
theory Fake_Concurrency
  imports Fake_Cloud
begin

text \<open>
  The fake cloud under interleaving: its three goroutines and the one creating controller (the
  instance controller has a single worker), step by step. Holds the correctness of the three loop
  bodies, the termination of the goroutines, the invariant of all reachable states, the uniqueness
  of identifiers under distinct names, and the schedule under which it is lost.
\<close>

section \<open>The loop bodies\<close>

text \<open>Reference definitions: remove, or replace, the first element with the identifier.\<close>

fun remove_first :: "string \<Rightarrow> Cluster list \<Rightarrow> Cluster list" where
  "remove_first i [] = []"
| "remove_first i (c # cs) = (if cl_Id c = i then cs else c # remove_first i cs)"

fun replace_first :: "Cluster \<Rightarrow> Cluster list \<Rightarrow> Cluster list" where
  "replace_first new [] = []"
| "replace_first new (c # cs) = (if cl_Id c = cl_Id new then new # cs else c # replace_first new cs)"

lemma delete_loop_app:
  "delete_loop i (length pre) rest (pre @ rest) =
     (case List.find (\<lambda>c. cl_Id c = i) rest of
        None \<Rightarrow> pre @ rest
      | Some c \<Rightarrow>
          (let before = takeWhile (\<lambda>c. cl_Id c \<noteq> i) rest; after = tl (dropWhile (\<lambda>c. cl_Id c \<noteq> i) rest)
           in if after = [] then pre @ before else pre @ before @ last after # butlast after))"
proof (induction rest arbitrary: pre)
  case Nil
  then show ?case by simp
next
  case (Cons c rest)
  show ?case
  proof (cases "cl_Id c = i")
    case True
    then show ?thesis
      by (cases rest rule: rev_cases)
        (simp_all add: Let_def nth_append list_update_append)
  next
    case False
    with Cons.IH [of "pre @ [c]"] show ?thesis
      by (simp add: Let_def split: option.splits)
  qed
qed

lemma mset_remove_first:
  "mset (remove_first i cs) =
     mset (takeWhile (\<lambda>c. cl_Id c \<noteq> i) cs) + mset (tl (dropWhile (\<lambda>c. cl_Id c \<noteq> i) cs))"
  by (induction cs) auto

lemma find_None_takeWhile:
  "List.find (\<lambda>c. cl_Id c = i) cs = None \<Longrightarrow> takeWhile (\<lambda>c. cl_Id c \<noteq> i) cs = cs"
  "List.find (\<lambda>c. cl_Id c = i) cs = None \<Longrightarrow> dropWhile (\<lambda>c. cl_Id c \<noteq> i) cs = []"
  by (auto simp: list_all_find_None)

lemma mset_delete_body: "mset (delete_body i cs) = mset (remove_first i cs)"
proof -
  have swap: "mset (last ys # butlast ys) = mset ys" if "ys \<noteq> []" for ys :: "Cluster list"
    using that by (cases ys rule: rev_cases) auto
  show ?thesis
    using delete_loop_app [of i "[]" cs]
    by (auto simp: delete_body_def mset_remove_first find_None_takeWhile Let_def swap
        split: option.splits if_splits simp del: mset.simps(2))
qed

text \<open>
  C36. Swap-deletion is deletion: the goroutine that overwrites the first match with the last
  element and cuts the slice leaves exactly the clusters that removing the first match leaves
  (their order may differ), and leaves the slice alone when there is no match.
\<close>

theorem delete_body_correct:
  "mset (delete_body i cs) = mset (remove_first i cs) \<and>
   (i \<notin> cl_Id ` set cs \<longrightarrow> delete_body i cs = cs)"
proof
  have "delete_loop i k rest xs = xs" if "\<forall>c \<in> set rest. cl_Id c \<noteq> i" for k rest xs
    using that by (induction rest arbitrary: k) auto
  then show "i \<notin> cl_Id ` set cs \<longrightarrow> delete_body i cs = cs"
    by (auto simp: delete_body_def)
qed (rule mset_delete_body)

theorem delete_body_correct_witness:
  "delete_body ''absent'' [cluster1, cluster2] = [cluster1, cluster2] \<and>
   delete_body ''a-cluster-instance-1-id'' [cluster1, cluster2, cluster3] = [cluster3, cluster2]"
  using delete_body_correct [of "''absent''" "[cluster1, cluster2]"]
  by (simp add: delete_body_def cluster_defs)

lemma update_loop_app:
  "update_loop new (length pre) rest (pre @ rest) = pre @ replace_first new rest"
proof (induction rest arbitrary: pre)
  case (Cons c rest)
  from Cons.IH [of "pre @ [c]"] show ?case by (simp add: list_update_append)
qed simp

text \<open>
  The update goroutine replaces the first cluster with the new one's identifier and nothing
  else, so it never changes which identifiers exist nor their order.
\<close>

theorem update_body_correct:
  "update_body new cs = replace_first new cs \<and>
   map cl_Id (update_body new cs) = map cl_Id cs"
proof -
  have eq: "update_body new cs = replace_first new cs"
    using update_loop_app [of new "[]" cs] by (simp add: update_body_def)
  moreover have "map cl_Id (replace_first new cs) = map cl_Id cs"
    by (induction cs) auto
  ultimately show ?thesis by simp
qed

section \<open>The goroutines always stop\<close>

definition goroutine_work :: "FakeClusters \<Rightarrow> nat" where
  "goroutine_work f =
     2 * (length (addCluster f) + length (updateCluster f) + length (deleteCluster f)) +
     length (option_list (addHeld f)) + length (option_list (updateHeld f)) +
     length (option_list (deleteHeld f))"

lemma goroutine_step_work: "goroutine_step f g \<Longrightarrow> goroutine_work g < goroutine_work f"
  by (induction rule: goroutine_step.induct) (simp_all add: goroutine_work_def)

lemma goroutine_progress:
  assumes "goroutine_work f \<noteq> 0"
  shows "\<exists>g. goroutine_step f g"
proof -
  from assms consider "addHeld f \<noteq> None" | "updateHeld f \<noteq> None" | "deleteHeld f \<noteq> None"
    | "addHeld f = None" "addCluster f \<noteq> []" | "updateHeld f = None" "updateCluster f \<noteq> []"
    | "deleteHeld f = None" "deleteCluster f \<noteq> []"
    by (cases "addHeld f"; cases "updateHeld f"; cases "deleteHeld f")
      (auto simp: goroutine_work_def)
  then show ?thesis
    by cases (auto simp: neq_Nil_conv intro: goroutine_step.intros)
qed

text \<open>
  Left alone, the goroutines come to rest: no infinite sequence of their steps exists, and a
  state in which none can move has empty channels and nothing in flight.
\<close>

theorem goroutines_terminate:
  "wfP (\<lambda>g f. goroutine_step f g) \<and>
   ((\<forall>g. \<not> goroutine_step f g) \<longleftrightarrow> goroutine_work f = 0)"
proof
  show "wfP (\<lambda>g f. goroutine_step f g)"
    by (rule wfp_if_convertible_to_nat [where f = goroutine_work]) (rule goroutine_step_work)
  show "(\<forall>g. \<not> goroutine_step f g) \<longleftrightarrow> goroutine_work f = 0"
    using goroutine_step_work goroutine_progress by (metis not_less0)
qed

section \<open>One creating controller against the goroutines\<close>

text \<open>
  \<open>sending\<close> is the cluster the controller has checked and not yet put on the channel. A run is
  indexed by the names of the creations whose check succeeded, in order.
\<close>

record cloud_sys =
  fc :: FakeClusters
  sending :: "Cluster option"

definition init_cloud :: cloud_sys where
  "init_cloud = \<lparr>fc = NewFakeClusters, sending = None\<rparr>"

inductive cloud_run :: "string list \<Rightarrow> cloud_sys \<Rightarrow> bool" where
  start: "cloud_run [] init_cloud"
| background: "cloud_run ns s \<Longrightarrow> goroutine_step (fc s) f \<Longrightarrow> cloud_run ns (s\<lparr>fc := f\<rparr>)"
| check: "cloud_run ns s \<Longrightarrow> sending s = None \<Longrightarrow> check_create r (clusters (fc s)) = Inr c \<Longrightarrow>
     cloud_run (ns @ [req_Name r]) (s\<lparr>sending := Some c\<rparr>)"
| send: "cloud_run ns s \<Longrightarrow> sending s = Some c \<Longrightarrow> length (addCluster (fc s)) < chan_cap \<Longrightarrow>
     cloud_run ns (s\<lparr>fc := (fc s)\<lparr>addCluster := addCluster (fc s) @ [c]\<rparr>, sending := None\<rparr>)"

text \<open>Everything that exists or is on its way, oldest first.\<close>

definition all_clusters :: "cloud_sys \<Rightarrow> Cluster list" where
  "all_clusters s = committed (fc s) @ option_list (sending s)"

definition channels_ok :: "FakeClusters \<Rightarrow> bool" where
  "channels_ok f \<longleftrightarrow> length (addCluster f) \<le> chan_cap \<and> updateCluster f = [] \<and> updateHeld f = None \<and>
     deleteCluster f = [] \<and> deleteHeld f = None"

lemma goroutine_step_quiet:
  assumes "goroutine_step f g" and "channels_ok f"
  shows "channels_ok g \<and> committed g = committed f \<and> (\<exists>cs. clusters g = clusters f @ cs)"
  using assms by (induction rule: goroutine_step.induct) (auto simp: channels_ok_def committed_def)

lemma cloud_run_inv:
  assumes "cloud_run ns s"
  shows "channels_ok (fc s) \<and>
    map cl_Id (all_clusters s) = map cl_Id [cluster1, cluster2, cluster3] @ map clusterID_of ns \<and>
    (\<forall>n \<in> set ns. clusterID_of n \<notin> cl_Id ` {cluster1, cluster2, cluster3}) \<and>
    (\<exists>cs. clusters (fc s) = [cluster1, cluster2, cluster3] @ cs) \<and>
    (\<forall>c \<in> set (all_clusters s). cl_CreatedAt c \<noteq> None \<and> cl_UpdatedAt c \<noteq> None)"
  using assms
proof (induction rule: cloud_run.induct)
  case start
  show ?case
    by (simp add: init_cloud_def all_clusters_def channels_ok_def committed_def NewFakeClusters_def
        cluster_defs)
next
  case (background ns s f)
  then show ?case
    using goroutine_step_quiet [OF background.hyps(2)] by (auto simp: all_clusters_def)
next
  case (check ns s r c)
  then show ?case by (auto simp: all_clusters_def check_create_Inr)
next
  case (send ns s c)
  have "committed ((fc s)\<lparr>addCluster := addCluster (fc s) @ [c]\<rparr>) = committed (fc s) @ [c]"
    by (simp add: committed_def)
  with send show ?case by (auto simp: all_clusters_def channels_ok_def)
qed

text \<open>
  In every state the cloud can reach, the three clusters it starts with can be fetched, no
  channel ever holds more than its buffer, and nothing is ever sent on the update and delete
  channels, so no cluster is lost.
\<close>

theorem initial_clusters_stay:
  assumes "cloud_run ns s" and "c \<in> {cluster1, cluster2, cluster3}"
  shows "fst (fst (GetCluster (cl_Id c) (fc s))) = Inr c \<and> length (addCluster (fc s)) \<le> chan_cap \<and>
    updateCluster (fc s) = [] \<and> deleteCluster (fc s) = []"
proof -
  from cloud_run_inv [OF assms(1)] obtain cs where ok: "channels_ok (fc s)"
    and cs: "clusters (fc s) = [cluster1, cluster2, cluster3] @ cs" by auto
  have "List.find (\<lambda>x. cl_Id x = cl_Id c) (clusters (fc s)) = Some c"
    unfolding cs using assms(2) by (intro find_appendL find_unique_key) (auto simp: cluster_defs)
  with ok show ?thesis
    by (simp add: channels_ok_def fake_cloud.get_found)
qed

theorem initial_clusters_stay_witness:
  "fst (fst (GetCluster ''a-cluster-instance-1-id'' (fc init_cloud))) = Inr cluster1"
  using initial_clusters_stay [OF cloud_run.start, of cluster1] by (simp add: cluster_defs)

text \<open>
  C24. As long as no name is created twice, identifiers are unique: over everything that is visible,
  in a channel, held by the goroutine or about to be sent, in every reachable state.
\<close>

theorem identifiers_unique:
  assumes "cloud_run ns s" and "distinct ns"
  shows "distinct (map cl_Id (all_clusters s))"
proof -
  have "map cl_Id (all_clusters s) = map cl_Id [cluster1, cluster2, cluster3] @ map clusterID_of ns"
    and "\<forall>n \<in> set ns. clusterID_of n \<notin> cl_Id ` {cluster1, cluster2, cluster3}"
    using cloud_run_inv [OF assms(1)] by blast+
  moreover have "distinct (map cl_Id [cluster1, cluster2, cluster3])"
    by (simp add: cluster_defs)
  moreover have "inj_on clusterID_of (set ns)" by (simp add: inj_on_def)
  ultimately show ?thesis using assms(2) by (auto simp: distinct_map)
qed

lemma cloud_run_sample_check:
  "cloud_run [''dbaas''] (init_cloud\<lparr>sending := Some (mk_cluster ''a-cluster-instance-id-dbaas'' ''dbaas''
     ''AWS'' [] [mk_region ''region-2'' ''free-tier5.cloud''])\<rparr>)"
  using cloud_run.check [OF cloud_run.start, of sample_request] sample_created
  by (simp add: init_cloud_def sample_request_def)

theorem identifiers_unique_witness:
  "distinct (map cl_Id (all_clusters (init_cloud\<lparr>sending := Some (mk_cluster
     ''a-cluster-instance-id-dbaas'' ''dbaas'' ''AWS'' [] [mk_region ''region-2'' ''free-tier5.cloud''])\<rparr>)))"
  by (rule identifiers_unique [OF cloud_run_sample_check]) simp

text \<open>
  Without that proviso they are not: the duplicate check reads the slice only, so a second
  creation with the same name that is checked before the goroutine appended the first one passes
  too, and the list ends up with the cluster twice.
\<close>

theorem duplicate_identifiers_reachable:
  assumes "check_create r (clusters NewFakeClusters) = Inr c"
  shows "\<exists>s. cloud_run [req_Name r, req_Name r] s \<and> sending s = None \<and>
    clusters (fc s) = clusters NewFakeClusters @ [c, c]"
proof -
  let ?ns = "[req_Name r, req_Name r]" and ?f = "NewFakeClusters"
  define f1 where "f1 = ?f\<lparr>addCluster := [c]\<rparr>"
  define f2 where "f2 = ?f\<lparr>addCluster := [c, c]\<rparr>"
  have "cloud_run [req_Name r] \<lparr>fc = ?f, sending = Some c\<rparr>"
    using cloud_run.check [OF cloud_run.start _, of r c] assms by (simp add: init_cloud_def)
  from cloud_run.send [OF this, of c] have "cloud_run [req_Name r] \<lparr>fc = f1, sending = None\<rparr>"
    by (simp add: f1_def NewFakeClusters_def chan_cap_def)
  from cloud_run.check [OF this, of r c] assms
  have "cloud_run ?ns \<lparr>fc = f1, sending = Some c\<rparr>" by (simp add: f1_def)
  from cloud_run.send [OF this, of c] have run: "cloud_run ?ns \<lparr>fc = f2, sending = None\<rparr>"
    by (simp add: f1_def f2_def NewFakeClusters_def chan_cap_def)
  have bg: "cloud_run ?ns \<lparr>fc = h, sending = None\<rparr>"
    if "cloud_run ?ns \<lparr>fc = g, sending = None\<rparr>" "goroutine_step g h" for g h
    using cloud_run.background [OF that(1), of h] that(2) by simp
  define f3 where "f3 = f2\<lparr>addHeld := Some c, addCluster := [c]\<rparr>"
  define f4 where "f4 = f3\<lparr>addHeld := None, clusters := clusters f3 @ [c]\<rparr>"
  define f5 where "f5 = f4\<lparr>addHeld := Some c, addCluster := []\<rparr>"
  define f6 where "f6 = f5\<lparr>addHeld := None, clusters := clusters f5 @ [c]\<rparr>"
  have "cloud_run ?ns \<lparr>fc = f3, sending = None\<rparr>"
    by (rule bg [OF run], unfold f3_def, rule add_recv) (simp_all add: f2_def NewFakeClusters_def)
  then have "cloud_run ?ns \<lparr>fc = f4, sending = None\<rparr>"
    by (rule bg, unfold f4_def, intro add_apply) (simp add: f3_def)
  then have "cloud_run ?ns \<lparr>fc = f5, sending = None\<rparr>"
    by (rule bg, unfold f5_def, intro add_recv) (simp_all add: f4_def f3_def)
  then have "cloud_run ?ns \<lparr>fc = f6, sending = None\<rparr>"
    by (rule bg, unfold f6_def, intro add_apply) (simp add: f5_def)
  moreover have "clusters f6 = clusters ?f @ [c, c]"
    by (simp add: f6_def f5_def f4_def f3_def f2_def)
  ultimately show ?thesis
    by (metis cloud_sys.select_convs)
qed

theorem duplicate_identifiers_reachable_witness:
  "\<exists>s. cloud_run [''dbaas'', ''dbaas''] s \<and> \<not> distinct (map cl_Id (clusters (fc s)))"
proof -
  from sample_created have "check_create sample_request (clusters NewFakeClusters) =
      Inr (mk_cluster ''a-cluster-instance-id-dbaas'' ''dbaas'' ''AWS'' []
             [mk_region ''region-2'' ''free-tier5.cloud''])" by simp
  from duplicate_identifiers_reachable [OF this] obtain s where
    "cloud_run [req_Name sample_request, req_Name sample_request] s"
    "\<not> distinct (map cl_Id (clusters (fc s)))" by auto
  then show ?thesis by (auto simp: sample_request_def)
qed

section \<open>Coming to rest\<close>

lemma rest_committed:
  "goroutine_work f = 0 \<Longrightarrow> committed f = clusters f"
  by (cases "addHeld f") (auto simp: goroutine_work_def committed_def)

lemma goroutine_steps_quiet:
  assumes "goroutine_step\<^sup>*\<^sup>* f g" and "channels_ok f"
  shows "channels_ok g \<and> committed g = committed f"
  using assms by (induction rule: rtranclp_induct) (auto dest: goroutine_step_quiet)

lemma goroutines_reach_rest: "\<exists>g. goroutine_step\<^sup>*\<^sup>* f g \<and> goroutine_work g = 0"
proof (induction f rule: measure_induct_rule [where f = goroutine_work])
  case (less f)
  show ?case
  proof (cases "goroutine_work f = 0")
    case False
    then obtain g where "goroutine_step f g" using goroutine_progress by blast
    with less goroutine_step_work show ?thesis by (meson converse_rtranclp_into_rtranclp)
  qed auto
qed

lemma rest_is_settle:
  assumes "channels_ok f" "channels_ok g" "committed g = committed f" "goroutine_work g = 0"
  shows "g = settle f"
proof -
  from assms(4) have "addHeld g = None" "addCluster g = []"
    by (auto simp: goroutine_work_def option_list_def split: option.splits)
  with assms(1-3) show ?thesis
    by (cases f, cases g) (simp add: channels_ok_def settle_def committed_def)
qed

lemma settle_at_rest: "channels_ok f \<Longrightarrow> goroutine_step\<^sup>*\<^sup>* f (settle f) \<and> goroutine_work (settle f) = 0"
  using goroutines_reach_rest [of f] rest_is_settle [of f] goroutine_steps_quiet [of f] by metis

text \<open>
  How many steps the add goroutine has left: two for every message of its channel, to receive and to
  apply it, and one for a message it holds.
\<close>

definition add_steps_left :: "FakeClusters \<Rightarrow> nat" where
  "add_steps_left f = 2 * length (addCluster f) + length (option_list (addHeld f))"

lemma goroutine_work_channels_ok: "channels_ok f \<Longrightarrow> goroutine_work f = add_steps_left f"
  by (simp add: channels_ok_def goroutine_work_def add_steps_left_def)

lemma goroutine_step_counts:
  assumes "goroutine_step f g" and "channels_ok f"
  shows "add_steps_left f = Suc (add_steps_left g)"
  using assms by (induction rule: goroutine_step.induct) (auto simp: channels_ok_def add_steps_left_def)

lemma schedule_counts:
  assumes "(goroutine_step ^^ n) f g" and "channels_ok f"
  shows "channels_ok g \<and> add_steps_left f = n + add_steps_left g"
  using assms
proof (induction n arbitrary: g)
  case (Suc n)
  then obtain h where h: "(goroutine_step ^^ n) f h" "goroutine_step h g" by auto
  from Suc.IH [OF h(1) Suc.prems(2)] show ?case
    using goroutine_step_counts [OF h(2)] goroutine_step_quiet [OF h(2)] by auto
qed simp

lemma schedule_completes:
  assumes "(goroutine_step ^^ n) f g" and "channels_ok f"
  shows "goroutine_step\<^sup>*\<^sup>* g (settle f)"
proof -
  have fg: "goroutine_step\<^sup>*\<^sup>* f g" using assms(1) by (rule relpowp_imp_rtranclp)
  have g: "channels_ok g" "committed g = committed f"
    using goroutine_steps_quiet [OF fg assms(2)] by auto
  moreover obtain h where h: "goroutine_step\<^sup>*\<^sup>* g h" "goroutine_work h = 0"
    using goroutines_reach_rest by blast
  moreover have "channels_ok h" "committed h = committed g"
    using goroutine_steps_quiet [OF h(1) g(1)] by auto
  ultimately have "h = settle f" using rest_is_settle [OF assms(2)] by simp
  with h(1) show ?thesis by simp
qed

lemma resting_iff_settled:
  assumes "channels_ok f"
  shows "(goroutine_step\<^sup>*\<^sup>* f g \<and> (\<forall>h. \<not> goroutine_step g h)) \<longleftrightarrow> g = settle f"
proof
  assume g: "goroutine_step\<^sup>*\<^sup>* f g \<and> (\<forall>h. \<not> goroutine_step g h)"
  then have "goroutine_work g = 0" using goroutine_progress by blast
  with g show "g = settle f"
    using goroutine_steps_quiet [OF _ assms, of g] rest_is_settle [OF assms] by blast
next
  assume "g = settle f"
  with settle_at_rest [OF assms] show "goroutine_step\<^sup>*\<^sup>* f g \<and> (\<forall>h. \<not> goroutine_step g h)"
    using goroutine_step_work by (metis not_less0)
qed

text \<open>
  C23. With only creations in flight the goroutines terminate, in one state. However their steps are
  scheduled, a schedule of \<open>n\<close> steps has used up \<open>n\<close> of the two steps per message in the channel and
  the one for the message held, so none is longer than that and none goes on for ever; whatever
  was scheduled so far can be completed; and the goroutines are at rest in exactly one state: all
  that was sent is in the slice, in the order it was sent, and the channel is empty. So a creation
  becomes visible, and a blocked send finds a free slot.
\<close>

theorem settles_to_unique_state:
  assumes "channels_ok f"
  shows "wfP (\<lambda>h g. goroutine_step g h) \<and>
    ((goroutine_step ^^ n) f g \<longrightarrow>
       n + (2 * length (addCluster g) + length (option_list (addHeld g))) =
         2 * length (addCluster f) + length (option_list (addHeld f)) \<and>
       goroutine_step\<^sup>*\<^sup>* g (settle f)) \<and>
    ((goroutine_step\<^sup>*\<^sup>* f g \<and> (\<forall>h. \<not> goroutine_step g h)) \<longleftrightarrow> g = settle f)"
proof (intro conjI impI)
  show "wfP (\<lambda>h g. goroutine_step g h)" using goroutines_terminate by blast
  assume run: "(goroutine_step ^^ n) f g"
  show "n + (2 * length (addCluster g) + length (option_list (addHeld g))) =
      2 * length (addCluster f) + length (option_list (addHeld f))"
    using schedule_counts [OF run assms] by (simp add: add_steps_left_def)
  show "goroutine_step\<^sup>*\<^sup>* g (settle f)" using run assms by (rule schedule_completes)
qed (rule resting_iff_settled [OF assms])

lemma NewFakeClusters_channels [simp]: "channels_ok NewFakeClusters"
  by (simp add: channels_ok_def NewFakeClusters_def)

lemma settle_NewFakeClusters [simp]: "settle NewFakeClusters = NewFakeClusters"
  by (simp add: settle_def committed_def NewFakeClusters_def)

lemma send_NewFakeClusters_channels: "channels_ok (send_addCluster c NewFakeClusters)"
  by (simp add: channels_ok_def NewFakeClusters_def send_addCluster_def chan_cap_def)

theorem settles_to_unique_state_witness:
  "goroutine_step\<^sup>*\<^sup>* (send_addCluster cluster1 NewFakeClusters)
     (settle (send_addCluster cluster1 NewFakeClusters)) \<and>
   (\<nexists>g. (goroutine_step ^^ 3) (send_addCluster cluster1 NewFakeClusters) g)"
proof
  show "goroutine_step\<^sup>*\<^sup>* (send_addCluster cluster1 NewFakeClusters)
      (settle (send_addCluster cluster1 NewFakeClusters))"
    using settles_to_unique_state [OF send_NewFakeClusters_channels] by blast
  have "2 * length (addCluster (send_addCluster cluster1 NewFakeClusters)) +
      length (option_list (addHeld (send_addCluster cluster1 NewFakeClusters))) = 2"
    by (simp add: send_addCluster_def NewFakeClusters_def chan_cap_def)
  with settles_to_unique_state [OF send_NewFakeClusters_channels, of 3 cluster1]
  show "\<nexists>g. (goroutine_step ^^ 3) (send_addCluster cluster1 NewFakeClusters) g"
    by fastforce
qed

section \<open>CreateCluster as one step\<close>

lemma cloud_run_goroutines:
  assumes "goroutine_step\<^sup>*\<^sup>* f g" and "cloud_run ns (s\<lparr>fc := f\<rparr>)"
  shows "cloud_run ns (s\<lparr>fc := g\<rparr>)"
  using assms
proof (induction rule: rtranclp_induct)
  case (step g h)
  from cloud_run.background [OF step.IH [OF step.prems], of h] step.hyps(2) show ?case by simp
qed

lemma frees_slot_steps:
  assumes "addCluster f \<noteq> []"
  shows "goroutine_step\<^sup>*\<^sup>* f (add_goroutine_frees_slot f) \<and>
    length (addCluster (add_goroutine_frees_slot f)) = length (addCluster f) - 1"
proof -
  from assms obtain c q where q: "addCluster f = c # q" by (cases "addCluster f") auto
  show ?thesis
  proof (cases "addHeld f")
    case None
    with q show ?thesis
      by (auto simp: add_goroutine_frees_slot_def intro: goroutine_step.intros)
  next
    case (Some h)
    let ?f1 = "f\<lparr>addHeld := None, clusters := clusters f @ [h]\<rparr>"
    have "goroutine_step f ?f1" using Some by (rule add_apply)
    moreover have "goroutine_step ?f1 (?f1\<lparr>addHeld := Some c, addCluster := q\<rparr>)"
      using q by (intro add_recv) simp_all
    ultimately show ?thesis
      using Some q by (simp add: add_goroutine_frees_slot_def)
  qed
qed

text \<open>
  C30. The method \<^verbatim>\<open>CreateCluster\<close> as the controllers' model calls it, in one piece and with the
  goroutine freeing a slot when the channel is full, is a run of the step-by-step cloud: check,
  goroutine steps, send.
\<close>

theorem CreateCluster_is_a_run:
  assumes "cloud_run ns \<lparr>fc = f, sending = None\<rparr>" and "fst (fst (CreateCluster r f)) = Inr c"
  shows "cloud_run (ns @ [req_Name r]) \<lparr>fc = snd (CreateCluster r f), sending = None\<rparr>"
proof -
  from assms(2) have ok: "check_create r (clusters f) = Inr c" by (simp add: CreateCluster_Inr)
  have chk: "cloud_run (ns @ [req_Name r]) \<lparr>fc = f, sending = Some c\<rparr>"
    using cloud_run.check [OF assms(1), of r c] ok by simp
  let ?g = "if length (addCluster f) < chan_cap then f else add_goroutine_frees_slot f"
  have len: "length (addCluster f) \<le> chan_cap"
    using cloud_run_inv [OF assms(1)] by (simp add: channels_ok_def)
  then have g: "goroutine_step\<^sup>*\<^sup>* f ?g \<and> length (addCluster ?g) < chan_cap"
    using frees_slot_steps [of f] by (cases "addCluster f") (auto simp: chan_cap_def)
  then have "cloud_run (ns @ [req_Name r]) \<lparr>fc = ?g, sending = Some c\<rparr>"
    using cloud_run_goroutines [of f ?g _ "\<lparr>fc = f, sending = Some c\<rparr>"] chk by simp
  from cloud_run.send [OF this, of c] g
  have "cloud_run (ns @ [req_Name r]) \<lparr>fc = send_addCluster c f, sending = None\<rparr>"
    by (simp add: send_addCluster_def Let_def)
  then show ?thesis by (simp add: CreateCluster_state_Inr [OF ok])
qed

theorem CreateCluster_is_a_run_witness:
  "cloud_run [''dbaas''] \<lparr>fc = snd (CreateCluster sample_request NewFakeClusters), sending = None\<rparr>"
proof -
  have "cloud_run [] \<lparr>fc = NewFakeClusters, sending = None\<rparr>"
    using cloud_run.start by (simp add: init_cloud_def)
  moreover have "fst (fst (CreateCluster sample_request NewFakeClusters)) =
      Inr (mk_cluster ''a-cluster-instance-id-dbaas'' ''dbaas'' ''AWS'' []
             [mk_region ''region-2'' ''free-tier5.cloud''])"
    by (simp add: CreateCluster_Inr sample_created)
  ultimately show ?thesis
    using CreateCluster_is_a_run [of "[]" NewFakeClusters sample_request]
    by (simp add: sample_request_def)
qed

end
