(* ===== verification/Provider_Service.thy ===== *)
theory Provider_Service
  imports Kube_Client Fake_Concurrency
begin

text \<open>
  \<^verbatim>\<open>controllers/dbaas/testutil/fakeproviderservice.go\<close>: the interfaces \<^verbatim>\<open>DBaaSProviderService\<close> (what
  the controllers are written against) and \<^verbatim>\<open>Service\<close>, and \<^verbatim>\<open>FakeProviderService\<close>, the
  implementation \<^verbatim>\<open>main.go\<close> wires in. A Go interface is a record of functions on the world. The
  cloud handle that \<^verbatim>\<open>CreateCloudService\<close> returns is opaque to the controllers (\<open>'h\<close>). The world of
  the fake service is a pair: the Kubernetes side and the fake cloud, so neither side can touch the
  other's state.
\<close>

section \<open>Interfaces\<close>

record 'w Service =
  sv_ListClusters :: "'w \<Rightarrow> ((go_error + Cluster list option) \<times> http_response) \<times> 'w"
  sv_CreateCluster :: "CreateClusterRequest \<Rightarrow> 'w \<Rightarrow> ((go_error + Cluster option) \<times> http_response) \<times> 'w"
  sv_GetCluster :: "string \<Rightarrow> 'w \<Rightarrow> ((go_error + Cluster option) \<times> http_response) \<times> 'w"

text \<open>
  A cluster result is a pointer, so \<open>Inr None\<close> (nil without an error) is possible.
  \<^verbatim>\<open>DiscoverClusters\<close> is the one method whose implementation can panic.
\<close>

record ('w, 'h) DBaaSProviderService =
  svc_Client :: "'w kube_client"
  svc_CreateCloudService :: "object_key \<Rightarrow> 'w \<Rightarrow> (go_error + 'h) \<times> 'w"
  svc_DiscoverClusters :: "'h \<Rightarrow> 'w \<Rightarrow> (go_error + database_service list) outcome \<times> 'w"
  svc_CreateCluster :: "'h \<Rightarrow> ProviderInstance \<Rightarrow> 'w \<Rightarrow> (go_error + Cluster option) \<times> 'w"
  svc_GetCluster :: "'h \<Rightarrow> string \<Rightarrow> 'w \<Rightarrow> (go_error + Cluster option) \<times> 'w"

text \<open>The service with its writes watched.\<close>

definition noting_service ::
    "('w, 'h) DBaaSProviderService \<Rightarrow> ('w \<times> write_call list, 'h) DBaaSProviderService" where
  "noting_service S =
     \<lparr>svc_Client = noting_client (svc_Client S),
      svc_CreateCloudService = (\<lambda>k. on_left (svc_CreateCloudService S k)),
      svc_DiscoverClusters = (\<lambda>h. on_left (svc_DiscoverClusters S h)),
      svc_CreateCluster = (\<lambda>h x. noting (AskCreateCluster x) (svc_CreateCluster S h x)),
      svc_GetCluster = (\<lambda>h i. on_left (svc_GetCluster S h i))\<rparr>"

lemma noting_service_sel [simp]:
  "svc_Client (noting_service S) = noting_client (svc_Client S)"
  "svc_CreateCloudService (noting_service S) k = on_left (svc_CreateCloudService S k)"
  "svc_DiscoverClusters (noting_service S) h = on_left (svc_DiscoverClusters S h)"
  "svc_CreateCluster (noting_service S) h x = noting (AskCreateCluster x) (svc_CreateCluster S h x)"
  "svc_GetCluster (noting_service S) h i = on_left (svc_GetCluster S h i)"
  by (simp_all add: noting_service_def)

section \<open>PopulateInstanceInfo\<close>

definition nil_dereference :: string where
  "nil_dereference = ''invalid memory address or nil pointer dereference''"

definition region_key :: "nat \<Rightarrow> string \<Rightarrow> string" where
  "region_key i field = ''regions.'' @ Itoa (int (i + 1)) @ CHR ''.'' # field"

fun regions_loop :: "nat \<Rightarrow> Region list \<Rightarrow> (string, string) go_map \<Rightarrow> (string, string) go_map" where
  "regions_loop i [] data = data"
| "regions_loop i (r # rs) data =
     regions_loop (Suc i) rs
       (AList.update (region_key i ''sqlDns'') (reg_SqlDns r)
         (AList.update (region_key i ''name'') (reg_Name r) data))"

definition instance_info_base :: "Cluster \<Rightarrow> go_time \<Rightarrow> go_time \<Rightarrow> (string, string) go_map" where
  "instance_info_base c created updated =
     [(''numOfRegions'', Itoa (int (length (cl_Regions c)))),
      (''Version'', cl_Version c),
      (''operationStatus'', cl_OperationStatus c),
      (''creatorId'', cl_CreatorId c),
      (''cloudProvider'', cl_CloudProvider c),
      (''plan'', cl_Plan c),
      (''state'', cl_State c),
      (''createAt'', time_String created),
      (''updateAt'', time_String updated)]"

definition PopulateInstanceInfo :: "Cluster \<Rightarrow> (string, string) go_map outcome" where
  "PopulateInstanceInfo c =
     (case cl_CreatedAt c of
        None \<Rightarrow> Panics nil_dereference
      | Some created \<Rightarrow>
          (case cl_UpdatedAt c of
             None \<Rightarrow> Panics nil_dereference
           | Some updated \<Rightarrow>
               Returns (regions_loop 0 (cl_Regions c) (instance_info_base c created updated))))"

section \<open>FakeProviderService\<close>

record credential =
  CredentialField1 :: string
  CredentialField2 :: string

definition NewFakeAPIClient :: "('k \<times> FakeClusters) Service" where
  "NewFakeAPIClient =
     \<lparr>sv_ListClusters = (\<lambda>w. case ListClusters (snd w) of (r, f) \<Rightarrow> (r, (fst w, f))),
      sv_CreateCluster = (\<lambda>req w. case CreateCluster req (snd w) of
         ((r, resp), f) \<Rightarrow> ((map_sum id Some r, resp), (fst w, f))),
      sv_GetCluster = (\<lambda>i w. case GetCluster i (snd w) of
         ((r, resp), f) \<Rightarrow> ((map_sum id Some r, resp), (fst w, f)))\<rparr>"

definition data_string :: "(string, string) go_map \<Rightarrow> string \<Rightarrow> string" where
  "data_string d k = (case map_of d k of None \<Rightarrow> [] | Some v \<Rightarrow> v)"

definition retrieveClientCredential ::
    "'w kube_client \<Rightarrow> object_key \<Rightarrow> 'w \<Rightarrow> (go_error + credential) \<times> 'w" where
  "retrieveClientCredential kc selector w =
     (case GetSecret kc selector w of
        (Inl err, w1) \<Rightarrow> (Inl err, w1)
      | (Inr secret, w1) \<Rightarrow>
          (let cred = \<lparr>CredentialField1 = data_string (sec_Data secret) ''CredentialField1'',
                       CredentialField2 = data_string (sec_Data secret) ''CredentialField2''\<rparr>
           in if CredentialField1 cred = []
              then (Inl (errors_New ''failed to retrieve API credential1''), w1)
              else if CredentialField2 cred = []
              then (Inl (errors_New ''failed to retrieve API credential2''), w1)
              else (Inr cred, w1)))"

text \<open>The credential and its error are dropped.\<close>

definition FakeCreateCloudService ::
    "'w kube_client \<Rightarrow> 'h \<Rightarrow> object_key \<Rightarrow> 'w \<Rightarrow> (go_error + 'h) \<times> 'w" where
  "FakeCreateCloudService kc new_client selector w =
     (case retrieveClientCredential kc selector w of (_, w1) \<Rightarrow> (Inr new_client, w1))"

fun discover_loop :: "Cluster list \<Rightarrow> database_service list outcome" where
  "discover_loop [] = Returns []"
| "discover_loop (c # cs) =
     (case PopulateInstanceInfo c of
        Panics p \<Rightarrow> Panics p
      | Returns info \<Rightarrow>
          map_outcome_value (\<lambda>rest.
            \<lparr>ServiceID = cl_Id c, ServiceName = cl_Name c, ServiceType = None, ServiceInfo = info\<rparr> # rest)
            (discover_loop cs))"

definition FakeDiscoverClusters ::
    "'w Service \<Rightarrow> 'w \<Rightarrow> (go_error + database_service list) outcome \<times> 'w" where
  "FakeDiscoverClusters cloudService w =
     (case sv_ListClusters cloudService w of
        ((Inl err, _), w1) \<Rightarrow> (Returns (Inl err), w1)
      | ((Inr None, _), w1) \<Rightarrow> (Returns (Inr []), w1)
      | ((Inr (Some cs), _), w1) \<Rightarrow> (map_outcome_value Inr (discover_loop cs), w1))"

definition getClusterParameter :: "ProviderInstance \<Rightarrow> string \<Rightarrow> string" where
  "getClusterParameter providerInstance key =
     (if length (ins_ProvisioningParameters (ins_Spec providerInstance)) = 0 then []
      else case map_of (ins_ProvisioningParameters (ins_Spec providerInstance)) key of
          Some value \<Rightarrow> value
        | None \<Rightarrow> [])"

definition FakeCreateCluster ::
    "dbaas_consts \<Rightarrow> 'w Service \<Rightarrow> ProviderInstance \<Rightarrow> 'w \<Rightarrow> (go_error + Cluster option) \<times> 'w" where
  "FakeCreateCluster K cloudService inst w =
     (let cloudProvider0 = getClusterParameter inst (ProvisioningCloudProvider K);
          cloudProvider = (if length cloudProvider0 = 0 then ''AWS'' else cloudProvider0);
          clusterName = getClusterParameter inst (ProvisioningName K)
      in if length clusterName = 0
         then (Inl (errors_New (''parameter '' @ ProvisioningName K @ '' is required'')), w)
         else case sv_CreateCluster cloudService
                     \<lparr>req_Name = clusterName, req_Provider = cloudProvider\<rparr> w of
             ((cluster, _), w1) \<Rightarrow> (cluster, w1))"

definition FakeGetCluster :: "'w Service \<Rightarrow> string \<Rightarrow> 'w \<Rightarrow> (go_error + Cluster option) \<times> 'w" where
  "FakeGetCluster cloudService clusterID w =
     (case sv_GetCluster cloudService clusterID w of
        ((Inl err, _), w1) \<Rightarrow> (Inl err, w1)
      | ((Inr cluster, _), w1) \<Rightarrow> (Inr cluster, w1))"

definition FakeProviderService ::
    "dbaas_consts \<Rightarrow> 'k kube_client \<Rightarrow>
     ('k \<times> FakeClusters, ('k \<times> FakeClusters) Service) DBaaSProviderService" where
  "FakeProviderService K kc =
     \<lparr>svc_Client = lift_client kc,
      svc_CreateCloudService = FakeCreateCloudService (lift_client kc) NewFakeAPIClient,
      svc_DiscoverClusters = FakeDiscoverClusters,
      svc_CreateCluster = FakeCreateCluster K,
      svc_GetCluster = FakeGetCluster\<rparr>"

lemma FakeProviderService_sel [simp]:
  "svc_Client (FakeProviderService K kc) = lift_client kc"
  "svc_CreateCloudService (FakeProviderService K kc) =
     FakeCreateCloudService (lift_client kc) NewFakeAPIClient"
  "svc_DiscoverClusters (FakeProviderService K kc) = FakeDiscoverClusters"
  "svc_CreateCluster (FakeProviderService K kc) = FakeCreateCluster K"
  "svc_GetCluster (FakeProviderService K kc) = FakeGetCluster"
  by (simp_all add: FakeProviderService_def)

lemma NewFakeAPIClient_sel:
  "sv_ListClusters NewFakeAPIClient (k, f) = (fst (ListClusters f), (k, snd (ListClusters f)))"
  "sv_CreateCluster NewFakeAPIClient req (k, f) =
     (apfst (map_sum id Some) (fst (CreateCluster req f)), (k, snd (CreateCluster req f)))"
  "sv_GetCluster NewFakeAPIClient i (k, f) =
     (apfst (map_sum id Some) (fst (GetCluster i f)), (k, snd (GetCluster i f)))"
  by (simp_all add: NewFakeAPIClient_def split: prod.splits)

section \<open>Instance info\<close>

lemma region_key_inject:
  assumes "region_key i f = region_key j g"
  shows "i = j \<and> f = g"
proof -
  have "digit_val CHR ''.'' = None" by (simp add: digit_val_def)
  with dec_codec.key_inject [of "CHR ''.''" "CHR ''.''" "''regions.''" "i + 1" f "j + 1" g] assms
  show ?thesis by (simp add: region_key_def)
qed

lemma region_key_eq_iff [simp]: "region_key i f = region_key j g \<longleftrightarrow> i = j \<and> f = g"
  using region_key_inject by blast

lemma regions_loop_other:
  assumes "\<And>j. k \<noteq> region_key j ''name''" and "\<And>j. k \<noteq> region_key j ''sqlDns''"
  shows "map_of (regions_loop i rs m) k = map_of m k"
  using assms by (induction rs arbitrary: i m) simp_all

lemma regions_loop_below:
  "j < i \<Longrightarrow> map_of (regions_loop i rs m) (region_key j f) = map_of m (region_key j f)"
  by (induction rs arbitrary: i m) simp_all

lemma regions_loop_region:
  "j < length rs \<Longrightarrow>
     map_of (regions_loop i rs m) (region_key (i + j) ''name'') = Some (reg_Name (rs ! j)) \<and>
     map_of (regions_loop i rs m) (region_key (i + j) ''sqlDns'') = Some (reg_SqlDns (rs ! j))"
proof (induction rs arbitrary: i j m)
  case (Cons r rs)
  show ?case
  proof (cases j)
    case 0
    then show ?thesis by (simp add: regions_loop_below)
  next
    case (Suc j')
    with Cons show ?thesis by (metis Suc_less_eq add_Suc_shift length_Cons nth_Cons_Suc regions_loop.simps(2))
  qed
qed simp

lemma regions_loop_distinct:
  "distinct (map fst m) \<Longrightarrow> distinct (map fst (regions_loop i rs m))"
  by (induction rs arbitrary: i m) (simp_all add: distinct_assign)

lemma PopulateInstanceInfo_Returns:
  "PopulateInstanceInfo c = Returns m \<longleftrightarrow>
     (\<exists>a b. cl_CreatedAt c = Some a \<and> cl_UpdatedAt c = Some b \<and>
        m = regions_loop 0 (cl_Regions c) (instance_info_base c a b))"
  by (auto simp: PopulateInstanceInfo_def split: option.splits)

lemma base_keys_not_region:
  "k \<in> set (map fst (instance_info_base c a b)) \<Longrightarrow> k \<noteq> region_key j f"
  by (auto simp: instance_info_base_def region_key_def)

lemma regions_loop_fixed:
  assumes "k \<in> set (map fst (instance_info_base c a b))"
  shows "map_of (regions_loop i rs (instance_info_base c a b)) k = map_of (instance_info_base c a b) k"
  using base_keys_not_region [OF assms] by (intro regions_loop_other) blast+

lemma regions_loop_length:
  assumes "\<And>j f. i \<le> j \<Longrightarrow> region_key j f \<notin> fst ` set m"
  shows "length (regions_loop i rs m) = length m + 2 * length rs"
  using assms
proof (induction rs arbitrary: i m)
  case (Cons r rs)
  let ?m = "AList.update (region_key i ''sqlDns'') (reg_SqlDns r)
    (AList.update (region_key i ''name'') (reg_Name r) m)"
  have fresh: "region_key j f \<notin> fst ` set ?m" if "Suc i \<le> j" for j f
    using Cons.prems [of j f] that by (auto simp: dom_update)
  have "length ?m = Suc (Suc (length m))"
    using Cons.prems [of i] by (simp add: length_assign_fresh dom_update)
  with Cons.IH [OF fresh] show ?case by simp
qed simp

text \<open>
  C34. The instance info has its nine fixed entries, each with the field of the cluster it is named
  after (and the number of regions, and the two dates in Go's format), and for every region \<open>i\<close>
  its name and host under \<^verbatim>\<open>regions.<i+1>.name\<close> and \<^verbatim>\<open>regions.<i+1>.sqlDns\<close>, with any number of
  regions. No key occurs twice, and there is no other entry.
\<close>

theorem instance_info_regions:
  assumes "PopulateInstanceInfo c = Returns m"
  shows "(\<exists>created updated. cl_CreatedAt c = Some created \<and> cl_UpdatedAt c = Some updated \<and>
      map_of m ''createAt'' = Some (time_String created) \<and>
      map_of m ''updateAt'' = Some (time_String updated)) \<and>
    map_of m ''numOfRegions'' = Some (Itoa (int (length (cl_Regions c)))) \<and>
    map_of m ''Version'' = Some (cl_Version c) \<and>
    map_of m ''operationStatus'' = Some (cl_OperationStatus c) \<and>
    map_of m ''creatorId'' = Some (cl_CreatorId c) \<and>
    map_of m ''cloudProvider'' = Some (cl_CloudProvider c) \<and>
    map_of m ''plan'' = Some (cl_Plan c) \<and>
    map_of m ''state'' = Some (cl_State c) \<and>
    (\<forall>i < length (cl_Regions c).
       map_of m (''regions.'' @ Itoa (int (i + 1)) @ ''.name'') = Some (reg_Name (cl_Regions c ! i)) \<and>
       map_of m (''regions.'' @ Itoa (int (i + 1)) @ ''.sqlDns'') = Some (reg_SqlDns (cl_Regions c ! i))) \<and>
    distinct (map fst m) \<and> length m = 9 + 2 * length (cl_Regions c)"
proof -
  from assms obtain a b where ab: "cl_CreatedAt c = Some a" "cl_UpdatedAt c = Some b"
    and m: "m = regions_loop 0 (cl_Regions c) (instance_info_base c a b)"
    by (auto simp: PopulateInstanceInfo_Returns)
  have base: "map_of m k = map_of (instance_info_base c a b) k"
    if "k \<in> set (map fst (instance_info_base c a b))" for k
    unfolding m by (rule regions_loop_fixed [OF that])
  have "region_key j f \<notin> fst ` set (instance_info_base c a b)" for j f
    using base_keys_not_region [of "region_key j f" c a b j f] by auto
  then have "length m = length (instance_info_base c a b) + 2 * length (cl_Regions c)"
    unfolding m by (intro regions_loop_length)
  then have len: "length m = 9 + 2 * length (cl_Regions c)"
    by (simp add: instance_info_base_def)
  have dist: "distinct (map fst m)"
    unfolding m by (rule regions_loop_distinct) (simp add: instance_info_base_def)
  have regions: "map_of m (region_key i ''name'') = Some (reg_Name (cl_Regions c ! i)) \<and>
      map_of m (region_key i ''sqlDns'') = Some (reg_SqlDns (cl_Regions c ! i))"
    if "i < length (cl_Regions c)" for i
    using regions_loop_region [OF that, of 0 "instance_info_base c a b", folded m] by simp
  show ?thesis
    using ab len dist regions base by (simp add: region_key_def instance_info_base_def)
qed

theorem instance_info_regions_witness:
  "\<exists>m. PopulateInstanceInfo cluster1 = Returns m \<and> map_of m ''regions.1.name'' = Some ''region-1'' \<and>
     map_of m ''regions.1.sqlDns'' = Some ''free-tier4.cloud''"
proof -
  obtain m where m: "PopulateInstanceInfo cluster1 = Returns m"
    by (simp add: PopulateInstanceInfo_def cluster_defs)
  have "Itoa 1 = ''1''" by (simp add: Itoa_def decimal.simps go_simps)
  with instance_info_regions [OF m] m show ?thesis
    by (simp add: cluster_defs mk_region_def)
qed

section \<open>The fake service\<close>

lemma discover_loop_Returns:
  "discover_loop cs = Returns l \<Longrightarrow>
     map ServiceID l = map cl_Id cs \<and> map ServiceName l = map cl_Name cs \<and>
     list_all2 (\<lambda>s c. PopulateInstanceInfo c = Returns (ServiceInfo s)) l cs"
proof (induction cs arbitrary: l)
  case (Cons c cs)
  then show ?case
    by (cases "PopulateInstanceInfo c"; cases "discover_loop cs") auto
qed simp

lemma discover_loop_total:
  assumes "\<forall>c \<in> set cs. cl_CreatedAt c \<noteq> None \<and> cl_UpdatedAt c \<noteq> None"
  shows "\<exists>l. discover_loop cs = Returns l"
  using assms by (induction cs) (auto simp: PopulateInstanceInfo_def)

lemma FakeDiscoverClusters_eq:
  "FakeDiscoverClusters NewFakeAPIClient (k, f) =
     (map_outcome_value Inr (discover_loop (clusters f)), (k, f))"
  by (simp add: FakeDiscoverClusters_def NewFakeAPIClient_sel ListClusters_def)

text \<open>
  C29. Discovery against the fake cloud never panics and never fails, in any state the cloud can
  reach: it returns one database service per visible cluster, in the order of the list, with the
  cluster's identifier and name and its instance info, and it changes neither side's state.
\<close>

theorem discovery_lists_all_clusters:
  assumes "cloud_run ns s"
  shows "\<exists>l. svc_DiscoverClusters (FakeProviderService K kc) NewFakeAPIClient (k, fc s) =
        (Returns (Inr l), (k, fc s)) \<and>
      map ServiceID l = map cl_Id (clusters (fc s)) \<and>
      map ServiceName l = map cl_Name (clusters (fc s)) \<and>
      list_all2 (\<lambda>d c. PopulateInstanceInfo c = Returns (ServiceInfo d)) l (clusters (fc s))"
proof -
  have "\<forall>c \<in> set (clusters (fc s)). cl_CreatedAt c \<noteq> None \<and> cl_UpdatedAt c \<noteq> None"
    using cloud_run_inv [OF assms] by (auto simp: all_clusters_def committed_def)
  then obtain l where "discover_loop (clusters (fc s)) = Returns l"
    using discover_loop_total by blast
  then show ?thesis
    using discover_loop_Returns by (auto simp: FakeDiscoverClusters_eq)
qed

theorem discovery_lists_all_clusters_witness:
  "\<forall>K kc k. \<exists>l. fst (svc_DiscoverClusters (FakeProviderService K kc) NewFakeAPIClient (k, fc init_cloud)) =
        Returns (Inr l) \<and> length l = 3"
proof (intro allI)
  fix K kc k
  from discovery_lists_all_clusters [OF cloud_run.start, of K kc k] obtain l where
    l: "svc_DiscoverClusters (FakeProviderService K kc) NewFakeAPIClient (k, fc init_cloud) =
       (Returns (Inr l), (k, fc init_cloud))"
      "map ServiceID l = map cl_Id (clusters (fc init_cloud))" by blast
  from arg_cong [OF l(2), of length] have "length l = 3" by (simp add: init_cloud_def)
  with l(1) show "\<exists>l. fst (svc_DiscoverClusters (FakeProviderService K kc) NewFakeAPIClient
      (k, fc init_cloud)) = Returns (Inr l) \<and> length l = 3"
    by (simp only: fst_conv) blast
qed

text \<open>
  The credential check cannot fail a reconciliation: \<^verbatim>\<open>retrieveClientCredential\<close> accepts exactly
  a secret with two non-empty fields, but \<^verbatim>\<open>CreateCloudService\<close> drops its verdict and succeeds with
  every secret, a missing one included.
\<close>

theorem credentials_never_checked:
  "fst (svc_CreateCloudService (FakeProviderService K kc) selector w) = Inr NewFakeAPIClient \<and>
   ((\<exists>cred. fst (retrieveClientCredential kc selector k) = Inr cred) \<longleftrightarrow>
      (\<exists>secret. fst (GetSecret kc selector k) = Inr secret \<and>
         map_of (sec_Data secret) ''CredentialField1'' \<notin> {None, Some []} \<and>
         map_of (sec_Data secret) ''CredentialField2'' \<notin> {None, Some []}))"
  by (auto simp: FakeCreateCloudService_def retrieveClientCredential_def data_string_def Let_def
      split: prod.splits sum.splits option.splits)

text \<open>
  Creating a cluster for an instance: without a name parameter it fails before the cloud is
  asked; otherwise the cloud is asked for that name with the provider parameter, which an absent or
  empty parameter leaves at AWS.
\<close>

theorem create_request_of_instance:
  "let p = map_of (ins_ProvisioningParameters (ins_Spec x));
       name = (case p (ProvisioningName K) of None \<Rightarrow> [] | Some n \<Rightarrow> n);
       provider = (if p (ProvisioningCloudProvider K) \<in> {None, Some []} then ''AWS''
                   else the (p (ProvisioningCloudProvider K)))
   in svc_CreateCluster (FakeProviderService K kc) NewFakeAPIClient x (k, f) =
        (if name = [] then (Inl (errors_New (''parameter '' @ ProvisioningName K @ '' is required'')), (k, f))
         else (map_sum id Some (fst (fst (CreateCluster \<lparr>req_Name = name, req_Provider = provider\<rparr> f))),
               (k, snd (CreateCluster \<lparr>req_Name = name, req_Provider = provider\<rparr> f))))"
  by (cases "ins_ProvisioningParameters (ins_Spec x) = []")
    (auto simp: FakeCreateCluster_def getClusterParameter_def NewFakeAPIClient_sel Let_def apfst_def
      map_prod_def split: option.splits prod.splits)

text \<open>The request an instance stands for.\<close>

definition creation_request :: "dbaas_consts \<Rightarrow> ProviderInstance \<Rightarrow> CreateClusterRequest" where
  "creation_request K x =
     \<lparr>req_Name = getClusterParameter x (ProvisioningName K),
      req_Provider = (if getClusterParameter x (ProvisioningCloudProvider K) = [] then ''AWS''
        else getClusterParameter x (ProvisioningCloudProvider K))\<rparr>"

lemma FakeCreateCluster_eq:
  "FakeCreateCluster K NewFakeAPIClient x (k, f) =
     (if req_Name (creation_request K x) = []
      then (Inl (errors_New (''parameter '' @ ProvisioningName K @ '' is required'')), (k, f))
      else (map_sum id Some (fst (fst (CreateCluster (creation_request K x) f))),
            (k, snd (CreateCluster (creation_request K x) f))))"
  by (auto simp: FakeCreateCluster_def creation_request_def NewFakeAPIClient_sel Let_def apfst_def
      map_prod_def split: prod.splits)

lemma creation_request_cong:
  "ins_Spec x = ins_Spec y \<Longrightarrow> creation_request K x = creation_request K y"
  by (simp add: creation_request_def getClusterParameter_def)

lemma FakeCreateCloudService_eq:
  "FakeCreateCloudService (lift_client kc) h sel (k, f) = (Inr h, (snd (GetSecret kc sel k), f))"
  by (auto simp: FakeCreateCloudService_def retrieveClientCredential_def on_left_eq Let_def
      split: prod.splits sum.splits)

lemma FakeGetCluster_eq:
  "FakeGetCluster NewFakeAPIClient i (k, f) =
     ((case List.find (\<lambda>c. cl_Id c = i) (clusters f) of
         Some c \<Rightarrow> Inr (Some c) | None \<Rightarrow> Inl (errors_New ''could not find cluster'')), (k, f))"
  by (simp add: FakeGetCluster_def NewFakeAPIClient_sel GetCluster_def split: option.split)

end
