(* ===== verification/Status_Writer.thy ===== *)
theory Status_Writer
  imports Provider_Service
begin

text \<open>
  The contract the three status helpers share (\<^verbatim>\<open>updateInventoryStatus\<close> and the two
  \<^verbatim>\<open>updateStatus\<close> methods): set one condition, write the status once, and treat a conflict as
  success. Each controller's theory interprets it on its own helper.
\<close>

text \<open>The error of a status update as the helpers report it.\<close>

definition swallow_conflict :: "go_error option \<Rightarrow> go_error option" where
  "swallow_conflict e =
     (case e of None \<Rightarrow> None | Some err \<Rightarrow> if IsConflict err then None else Some err)"

lemma swallow_conflict_simps [simp]:
  "swallow_conflict None = None"
  "swallow_conflict (Some err) = (if IsConflict err then None else Some err)"
  by (simp_all add: swallow_conflict_def)

lemma swallow_conflict_Some:
  "swallow_conflict e = Some err \<longleftrightarrow> e = Some err \<and> \<not> IsConflict err"
  by (cases e) auto

lemma swallow_conflict_None:
  "swallow_conflict e = None \<longleftrightarrow> (\<forall>err. e = Some err \<longrightarrow> IsConflict err)"
  by (cases e) auto

locale status_writer =
  fixes helper :: "'o \<Rightarrow> condition_status \<Rightarrow> ConditionReason \<Rightarrow> string \<Rightarrow> 'w \<Rightarrow> go_error option \<times> 'w"
    and write_op :: "'o \<Rightarrow> 'w \<Rightarrow> (go_error option \<times> 'o) \<times> 'w"
    and with_condition :: "'w \<Rightarrow> 'o \<Rightarrow> condition \<Rightarrow> 'o"
    and condition_type :: string
  assumes helper_writes_once: "helper x st r m w =
     (let res = write_op (with_condition w x (mk_condition condition_type st r m)) w
      in (swallow_conflict (fst (fst res)), snd res))"
begin

lemma helper_error:
  "fst (helper x st r m w) = Some err \<longleftrightarrow>
     fst (fst (write_op (with_condition w x (mk_condition condition_type st r m)) w)) = Some err \<and>
     \<not> IsConflict err"
  by (simp add: helper_writes_once Let_def swallow_conflict_Some)

lemma helper_conflict:
  assumes "fst (fst (write_op (with_condition w x (mk_condition condition_type st r m)) w)) = Some err"
    and "IsConflict err"
  shows "fst (helper x st r m w) = None"
  using assms by (simp add: helper_writes_once Let_def)

lemma helper_world:
  "snd (helper x st r m w) = snd (write_op (with_condition w x (mk_condition condition_type st r m)) w)"
  by (simp add: helper_writes_once Let_def)

end

end
