(* ===== verification/Provider_Spec.thy ===== *)
theory Provider_Spec
  imports Api_Types
begin

text \<open>
  The registration data of \<^verbatim>\<open>controllers/dbaas/dbaasprovider_reconciler.go\<close>, \<^verbatim>\<open>buildProviderSpec\<close>:
  the catalogue of provisioning parameters the provider offers, one definition per entry of the Go
  map literal. The names of the parameters and of the plans are constants of the DBaaS operator's
  API package (the record \<open>K\<close>). A parameter has conditional entries: an entry applies when all its
  dependencies hold of the answers given so far, and offers options and a default.
\<close>

section \<open>Types\<close>

record ProvisioningOption =
  opt_Value :: string
  opt_DisplayValue :: string

record FieldDependency =
  dep_Field :: string
  dep_Value :: string

record ConditionalProvisioningParameterData =
  cd_Dependencies :: "FieldDependency list"
  cd_Options :: "ProvisioningOption list"
  cd_DefaultValue :: string

record ProvisioningParameter =
  pp_DisplayName :: string
  pp_HelpText :: string
  pp_ConditionalData :: "ConditionalProvisioningParameterData list"

record CredentialField =
  cf_Key :: string
  cf_DisplayName :: string
  cf_Type :: string
  cf_Required :: bool
  cf_HelpText :: string

record ProviderIcon =
  icon_Data :: string
  icon_MediaType :: string

record DatabaseProviderInfo =
  dpi_Name :: string
  dpi_DisplayName :: string
  dpi_DisplayDescription :: string
  dpi_Icon :: ProviderIcon

record DBaaSProviderSpec =
  ps_GroupVersion :: string
  ps_Provider :: DatabaseProviderInfo
  ps_InventoryKind :: string
  ps_ConnectionKind :: string
  ps_InstanceKind :: string
  ps_CredentialFields :: "CredentialField list"
  ps_AllowsFreeTrial :: bool
  ps_ExternalProvisionURL :: string
  ps_ExternalProvisionDescription :: string
  ps_ProvisioningParameters :: "(string, ProvisioningParameter) go_map"

definition mk_option :: "string \<Rightarrow> string \<Rightarrow> ProvisioningOption" where
  "mk_option v d = \<lparr>opt_Value = v, opt_DisplayValue = d\<rparr>"

definition mk_dependency :: "string \<Rightarrow> string \<Rightarrow> FieldDependency" where
  "mk_dependency f v = \<lparr>dep_Field = f, dep_Value = v\<rparr>"

definition mk_conditional ::
    "FieldDependency list \<Rightarrow> ProvisioningOption list \<Rightarrow> string \<Rightarrow> ConditionalProvisioningParameterData" where
  "mk_conditional ds os v = \<lparr>cd_Dependencies = ds, cd_Options = os, cd_DefaultValue = v\<rparr>"

definition mk_parameter ::
    "string \<Rightarrow> string \<Rightarrow> ConditionalProvisioningParameterData list \<Rightarrow> ProvisioningParameter" where
  "mk_parameter n h cs = \<lparr>pp_DisplayName = n, pp_HelpText = h, pp_ConditionalData = cs\<rparr>"

lemma mk_spec_sel [simp]:
  "opt_Value (mk_option v d) = v" "dep_Field (mk_dependency f v) = f" "dep_Value (mk_dependency f v) = v"
  "cd_Dependencies (mk_conditional ds os v) = ds" "cd_Options (mk_conditional ds os v) = os"
  "cd_DefaultValue (mk_conditional ds os v) = v" "pp_ConditionalData (mk_parameter n h cs) = cs"
  by (simp_all add: mk_option_def mk_dependency_def mk_conditional_def mk_parameter_def)

section \<open>The entries of the catalogue\<close>

definition param_Name :: "dbaas_consts \<Rightarrow> ProvisioningParameter" where
  "param_Name K = mk_parameter ''Cluster name'' [] []"

definition param_Plan :: "dbaas_consts \<Rightarrow> ProvisioningParameter" where
  "param_Plan K = mk_parameter ''Hosting plan'' []
     [mk_conditional []
         [mk_option (ProvisioningPlanFreeTrial K) ''Free trial'',
          mk_option (ProvisioningPlanServerless K) ''Serverless'',
          mk_option (ProvisioningPlanDedicated K) ''Dedicated'']
         (ProvisioningPlanServerless K)]"

definition param_CloudProvider :: "dbaas_consts \<Rightarrow> ProvisioningParameter" where
  "param_CloudProvider K = mk_parameter ''Cloud Provider'' []
     [mk_conditional [mk_dependency (ProvisioningPlan K) (ProvisioningPlanFreeTrial K)]
         [mk_option ''GCP'' ''Google Cloud Platform'']
         ''GCP'',
      mk_conditional [mk_dependency (ProvisioningPlan K) (ProvisioningPlanServerless K)]
         [mk_option ''AWS'' ''Amazon Web Services'',
          mk_option ''GCP'' ''Google Cloud Platform'']
         ''AWS'',
      mk_conditional [mk_dependency (ProvisioningPlan K) (ProvisioningPlanDedicated K)]
         [mk_option ''AWS'' ''Amazon Web Services'',
          mk_option ''GCP'' ''Google Cloud Platform'']
         ''AWS'']"

definition param_Regions :: "dbaas_consts \<Rightarrow> ProvisioningParameter" where
  "param_Regions K = mk_parameter ''Regions'' []
     [mk_conditional [mk_dependency (ProvisioningPlan K) (ProvisioningPlanDedicated K),
          mk_dependency (ProvisioningCloudProvider K) ''AWS'']
         [mk_option ''us-east-2'' ''Ohio (us-east-2)'',
          mk_option ''us-east-1'' '' N. Virginia (us-east-1)'',
          mk_option ''us-west-2'' ''Oregon (us-west-2)'',
          mk_option ''eu-west-1'' ''Ireland (eu-west-1)'']
         ''us-east-2'',
      mk_conditional [mk_dependency (ProvisioningPlan K) (ProvisioningPlanServerless K),
          mk_dependency (ProvisioningCloudProvider K) ''AWS'']
         [mk_option ''us-east-2'' ''Ohio (us-east-2)'',
          mk_option ''us-east-1'' '' N. Virginia (us-east-1)'',
          mk_option ''us-west-2'' ''Oregon (us-west-2)'',
          mk_option ''eu-west-1'' ''Ireland (eu-west-1)'']
         ''us-east-2'',
      mk_conditional [mk_dependency (ProvisioningPlan K) (ProvisioningPlanDedicated K),
          mk_dependency (ProvisioningCloudProvider K) ''GCP'']
         [mk_option ''us-east4'' ''N. Virginia (us-east'',
          mk_option ''us-east1'' ''South Carolina (us-east1)'']
         ''us-east1'',
      mk_conditional [mk_dependency (ProvisioningPlan K) (ProvisioningPlanServerless K),
          mk_dependency (ProvisioningCloudProvider K) ''GCP'']
         [mk_option ''us-east4'' ''N. Virginia (us-east'',
          mk_option ''us-east1'' ''South Carolina (us-east1)'']
         ''us-east1'']"

definition param_Nodes :: "dbaas_consts \<Rightarrow> ProvisioningParameter" where
  "param_Nodes K = mk_parameter ''Nodes'' []
     [mk_conditional [mk_dependency (ProvisioningPlan K) (ProvisioningPlanDedicated K)]
         [mk_option ''1'' ''1'',
          mk_option ''3'' ''3'',
          mk_option ''5'' ''5'']
         ''3'']"

definition param_MachineType :: "dbaas_consts \<Rightarrow> ProvisioningParameter" where
  "param_MachineType K = mk_parameter ''Compute'' []
     [mk_conditional [mk_dependency (ProvisioningPlan K) (ProvisioningPlanDedicated K),
          mk_dependency (ProvisioningCloudProvider K) ''AWS'']
         [mk_option ''m5.large'' ''2 vCPU, 8 GiB RAM'',
          mk_option ''m5.xlarge'' ''4 vCPU, 16 GiB RAM'',
          mk_option ''m5.2xlarge'' ''8 vCPU, 32 GiB RAM'',
          mk_option ''m5.4xlarge'' ''16 vCPU, 64 GiB RAM'',
          mk_option ''m5.8xlarge'' ''32 vCPU, 128 GiB RAM'']
         ''m5.large'',
      mk_conditional [mk_dependency (ProvisioningPlan K) (ProvisioningPlanDedicated K),
          mk_dependency (ProvisioningCloudProvider K) ''GCP'']
         [mk_option ''n1-standard-2'' ''2 vCPU, 7.5 GiB RAM'',
          mk_option ''n1-standard-4'' ''4 vCPU, 15 GiB RAM'',
          mk_option ''n1-standard-8'' ''8 vCPU, 30 GiB RAM'',
          mk_option ''n1-standard-16'' ''16 vCPU, 60 GiB RAM'',
          mk_option ''n1-standard-32'' ''32 vCPU, 120 GiB RAM'']
         ''n1-standard-2'']"

definition param_StorageGib :: "dbaas_consts \<Rightarrow> ProvisioningParameter" where
  "param_StorageGib K = mk_parameter ''Storage'' []
     [mk_conditional [mk_dependency (ProvisioningPlan K) (ProvisioningPlanDedicated K),
          mk_dependency (ProvisioningCloudProvider K) ''AWS'']
         [mk_option ''15'' ''15 GiB'',
          mk_option ''35'' ''35 GiB'',
          mk_option ''75'' ''75 GiB'',
          mk_option ''150'' ''150 GiB'',
          mk_option ''300'' ''300 GiB'',
          mk_option ''600'' ''600 GiB'']
         ''15'',
      mk_conditional [mk_dependency (ProvisioningPlan K) (ProvisioningPlanDedicated K),
          mk_dependency (ProvisioningCloudProvider K) ''GCP'']
         [mk_option ''15'' ''15 GiB'',
          mk_option ''35'' ''35 GiB'',
          mk_option ''75'' ''75 GiB'',
          mk_option ''150'' ''150 GiB'',
          mk_option ''300'' ''300 GiB'',
          mk_option ''600'' ''600 GiB'']
         ''15'']"

definition param_SpendLimit :: "dbaas_consts \<Rightarrow> ProvisioningParameter" where
  "param_SpendLimit K = mk_parameter ''Spend limit'' []
     [mk_conditional [mk_dependency (ProvisioningPlan K) (ProvisioningPlanServerless K)]
         []
         ''0'']"

definition param_PlanLabel :: "dbaas_consts \<Rightarrow> ProvisioningParameter" where
  "param_PlanLabel K = mk_parameter ''Select a plan'' [] []"

definition param_ServerlessLocationLabel :: "dbaas_consts \<Rightarrow> ProvisioningParameter" where
  "param_ServerlessLocationLabel K = mk_parameter ''Select regions''
     ''Select the geographical region where you want the database instance to run.'' []"

definition param_DedicatedLocationLabel :: "dbaas_consts \<Rightarrow> ProvisioningParameter" where
  "param_DedicatedLocationLabel K = mk_parameter ''Select regions & nodes''
     ''Select the geographical region where you want the database instance to run, and set the number of nodes you want running in this dedicated cluster.'' []"

definition param_HardwareLabel :: "dbaas_consts \<Rightarrow> ProvisioningParameter" where
  "param_HardwareLabel K = mk_parameter ''Hardware per node''
     ''Select the compute and storage requirements for this database instance.'' []"

definition param_SpendLimitLabel :: "dbaas_consts \<Rightarrow> ProvisioningParameter" where
  "param_SpendLimitLabel K = mk_parameter ''Spend limit''
     ''Set a spending limit on resources for this database instance.'' []"

lemmas param_defs =
  param_Name_def param_Plan_def param_CloudProvider_def param_Regions_def param_Nodes_def
  param_MachineType_def param_StorageGib_def param_SpendLimit_def param_PlanLabel_def
  param_ServerlessLocationLabel_def param_DedicatedLocationLabel_def param_HardwareLabel_def
  param_SpendLimitLabel_def

text \<open>The map literal as a whole.\<close>

definition provisioning_catalogue :: "dbaas_consts \<Rightarrow> (string, ProvisioningParameter) go_map" where
  "provisioning_catalogue K =
     [(ProvisioningName K, param_Name K),
      (ProvisioningPlan K, param_Plan K),
      (ProvisioningCloudProvider K, param_CloudProvider K),
      (ProvisioningRegions K, param_Regions K),
      (ProvisioningNodes K, param_Nodes K),
      (ProvisioningMachineType K, param_MachineType K),
      (ProvisioningStorageGib K, param_StorageGib K),
      (ProvisioningSpendLimit K, param_SpendLimit K),
      (ProvisioningPlanLabel K, param_PlanLabel K),
      (ProvisioningServerlessLocationLabel K, param_ServerlessLocationLabel K),
      (ProvisioningDedicatedLocationLabel K, param_DedicatedLocationLabel K),
      (ProvisioningHardwareLabel K, param_HardwareLabel K),
      (ProvisioningSpendLimitLabel K, param_SpendLimitLabel K)]"

definition provisionDocUrl :: string where
  "provisionDocUrl = ''https://www.exmample.com/docs/provider/quickstart.html''"

definition provisionDescription :: string where
  "provisionDescription = ''Follow the guide to start a free Provider Serverless (beta) cluster''"

definition credential_fields :: "CredentialField list" where
  "credential_fields =
     [\<lparr>cf_Key = ''CredentialField1'', cf_DisplayName = ''Credential Field 1'', cf_Type = ''maskedstring'',
       cf_Required = True,
       cf_HelpText = ''This is the Credential Field 1 for the example provider to show on UI''\<rparr>,
      \<lparr>cf_Key = ''CredentialField2'', cf_DisplayName = ''Credential Field 2'', cf_Type = ''maskedstring'',
       cf_Required = True,
       cf_HelpText = ''This is the Credential Field 2 for the example provider to show on UI''\<rparr>]"

text \<open>The two parameters are not used, as in the source.\<close>

definition buildProviderSpec ::
    "dbaas_consts \<Rightarrow> ProvisioningParameter \<Rightarrow> ProvisioningParameter \<Rightarrow> DBaaSProviderSpec" where
  "buildProviderSpec K regions nodes =
     \<lparr>ps_GroupVersion = ''dbaas.redhat.com/v1beta1'',
      ps_Provider =
        \<lparr>dpi_Name = ''Provider Example'',
         dpi_DisplayName = ''DBaaS Provider Example '',
         dpi_DisplayDescription =
           ''This is an example for providers on how to implement their operator to integrate with DBaaS.'',
         dpi_Icon = \<lparr>icon_Data = ''SGVsbG8sIHdvcmxkLg=='', icon_MediaType = ''image/png''\<rparr>\<rparr>,
      ps_InventoryKind = ''ProviderInventory'',
      ps_ConnectionKind = ''ProviderConnection'',
      ps_InstanceKind = ''ProviderInstance'',
      ps_CredentialFields = credential_fields,
      ps_AllowsFreeTrial = True,
      ps_ExternalProvisionURL = provisionDocUrl,
      ps_ExternalProvisionDescription = provisionDescription,
      ps_ProvisioningParameters = provisioning_catalogue K\<rparr>"

lemma buildProviderSpec_parameters [simp]:
  "ps_ProvisioningParameters (buildProviderSpec K r n) = provisioning_catalogue K"
  "ps_CredentialFields (buildProviderSpec K r n) = credential_fields"
  by (simp_all add: buildProviderSpec_def)

section \<open>Well-formedness of the catalogue\<close>

definition default_offered :: "ConditionalProvisioningParameterData \<Rightarrow> bool" where
  "default_offered cd \<longleftrightarrow> cd_Options cd = [] \<or> cd_DefaultValue cd \<in> opt_Value ` set (cd_Options cd)"

definition offered_values :: "ProvisioningParameter \<Rightarrow> string list" where
  "offered_values p = concat (map (map opt_Value \<circ> cd_Options) (pp_ConditionalData p))"

text \<open>A dependency that some answer can satisfy: on a parameter with that value among its options.\<close>

definition resolvable ::
    "(string, ProvisioningParameter) go_map \<Rightarrow> FieldDependency \<Rightarrow> bool" where
  "resolvable cat d \<longleftrightarrow>
     list_ex (\<lambda>(k, p). k = dep_Field d \<and> dep_Value d \<in> set (offered_values p)) cat"

definition entries_satisfy ::
    "(ConditionalProvisioningParameterData \<Rightarrow> bool) \<Rightarrow> (string, ProvisioningParameter) go_map \<Rightarrow> bool" where
  "entries_satisfy P cat \<longleftrightarrow> list_all (\<lambda>(k, p). list_all P (pp_ConditionalData p)) cat"

text \<open>
  The registered catalogue is consistent in itself: every default that comes with options is one
  of them, option values within an entry are distinct, and every dependency is on a parameter of the
  catalogue and a value that this parameter offers, so no entry is unreachable by construction.
\<close>

theorem catalogue_consistent:
  "entries_satisfy default_offered (ps_ProvisioningParameters (buildProviderSpec K r n)) \<and>
   (distinct [ProvisioningPlanFreeTrial K, ProvisioningPlanServerless K, ProvisioningPlanDedicated K] =
      entries_satisfy (\<lambda>cd. distinct (map opt_Value (cd_Options cd)))
        (ps_ProvisioningParameters (buildProviderSpec K r n))) \<and>
   entries_satisfy (\<lambda>cd. list_all (resolvable (ps_ProvisioningParameters (buildProviderSpec K r n)))
       (cd_Dependencies cd)) (ps_ProvisioningParameters (buildProviderSpec K r n))"
proof (intro conjI)
  show "entries_satisfy default_offered (ps_ProvisioningParameters (buildProviderSpec K r n))"
    by (simp add: entries_satisfy_def provisioning_catalogue_def param_defs default_offered_def)
  show "distinct [ProvisioningPlanFreeTrial K, ProvisioningPlanServerless K, ProvisioningPlanDedicated K] =
      entries_satisfy (\<lambda>cd. distinct (map opt_Value (cd_Options cd)))
        (ps_ProvisioningParameters (buildProviderSpec K r n))"
    by (simp add: entries_satisfy_def provisioning_catalogue_def param_defs)
  have plan: "resolvable (provisioning_catalogue K) (mk_dependency (ProvisioningPlan K) v)"
    if "v \<in> {ProvisioningPlanFreeTrial K, ProvisioningPlanServerless K, ProvisioningPlanDedicated K}" for v
    using that by (auto simp: resolvable_def provisioning_catalogue_def param_Plan_def offered_values_def)
  have cloud: "resolvable (provisioning_catalogue K) (mk_dependency (ProvisioningCloudProvider K) v)"
    if "v \<in> {''AWS'', ''GCP''}" for v
    using that
    by (auto simp: resolvable_def provisioning_catalogue_def param_CloudProvider_def offered_values_def)
  show "entries_satisfy (\<lambda>cd. list_all (resolvable (ps_ProvisioningParameters (buildProviderSpec K r n)))
       (cd_Dependencies cd)) (ps_ProvisioningParameters (buildProviderSpec K r n))"
    unfolding buildProviderSpec_parameters entries_satisfy_def
    by (subst (2) provisioning_catalogue_def) (simp add: param_defs plan cloud)
qed

section \<open>Answering it\<close>

definition applies :: "(string \<Rightarrow> string option) \<Rightarrow> ConditionalProvisioningParameterData \<Rightarrow> bool" where
  "applies answers cd \<longleftrightarrow>
     list_all (\<lambda>d. answers (dep_Field d) = Some (dep_Value d)) (cd_Dependencies cd)"

definition options_for :: "(string \<Rightarrow> string option) \<Rightarrow> ProvisioningParameter \<Rightarrow> string list" where
  "options_for answers p =
     concat (map (map opt_Value \<circ> cd_Options) (filter (applies answers) (pp_ConditionalData p)))"

text \<open>
  The keys of a Go map literal are distinct, or the source would not compile; the three plan values
  are different plans.
\<close>

definition consts_ok :: "dbaas_consts \<Rightarrow> bool" where
  "consts_ok K \<longleftrightarrow>
     distinct (map fst (provisioning_catalogue K)) \<and>
     distinct [ProvisioningPlanFreeTrial K, ProvisioningPlanServerless K, ProvisioningPlanDedicated K]"

text \<open>Two entries that no set of answers satisfies together.\<close>

definition conflicting ::
    "ConditionalProvisioningParameterData \<Rightarrow> ConditionalProvisioningParameterData \<Rightarrow> bool" where
  "conflicting a b \<longleftrightarrow> list_ex (\<lambda>d. list_ex (\<lambda>e. dep_Field d = dep_Field e \<and> dep_Value d \<noteq> dep_Value e)
     (cd_Dependencies b)) (cd_Dependencies a)"

lemma conflicting_applies: "conflicting a b \<Longrightarrow> applies answers a \<Longrightarrow> \<not> applies answers b"
  by (fastforce simp: conflicting_def applies_def list_ex_iff list_all_iff)

lemma conflicting_at_most_one:
  "sorted_wrt conflicting cds \<Longrightarrow> length (filter (applies answers) cds) \<le> 1"
proof (induction cds)
  case (Cons a cds)
  then show ?case
    using conflicting_applies [of a] by (cases "applies answers a") (auto simp: filter_empty_conv)
qed simp

text \<open>
  C37. The catalogue is unambiguous: whatever has been answered, at most one conditional entry of a
  parameter applies, so options and default are determined by the answers.
\<close>

theorem catalogue_unambiguous:
  assumes "consts_ok K" and "(k, p) \<in> set (ps_ProvisioningParameters (buildProviderSpec K r n))"
  shows "length (filter (applies answers) (pp_ConditionalData p)) \<le> 1"
proof -
  from assms(1) have plans: "ProvisioningPlanFreeTrial K \<noteq> ProvisioningPlanServerless K"
    "ProvisioningPlanFreeTrial K \<noteq> ProvisioningPlanDedicated K"
    "ProvisioningPlanServerless K \<noteq> ProvisioningPlanDedicated K"
    by (auto simp: consts_ok_def)
  note [simp] = plans plans [symmetric] conflicting_def
  have "sorted_wrt conflicting (pp_ConditionalData (param_CloudProvider K))"
    "sorted_wrt conflicting (pp_ConditionalData (param_Regions K))"
    "sorted_wrt conflicting (pp_ConditionalData (param_MachineType K))"
    "sorted_wrt conflicting (pp_ConditionalData (param_StorageGib K))"
    by (simp_all add: param_defs)
  moreover from assms(2) have "p \<in> {param_CloudProvider K, param_Regions K, param_MachineType K,
      param_StorageGib K} \<or> length (pp_ConditionalData p) \<le> 1"
    by (auto simp: provisioning_catalogue_def param_defs)
  ultimately show ?thesis
    using conflicting_at_most_one le_trans [OF length_filter_le] by blast
qed

text \<open>Constants as the sample resources under \<^verbatim>\<open>config/samples\<close> spell them, for the witnesses.\<close>

definition sample_consts :: dbaas_consts where
  "sample_consts =
     \<lparr>ProvisioningName = ''name'', ProvisioningPlan = ''plan'', ProvisioningCloudProvider = ''cloudProvider'',
      ProvisioningRegions = ''regions'', ProvisioningNodes = ''nodes'',
      ProvisioningMachineType = ''machineType'', ProvisioningStorageGib = ''storageGib'',
      ProvisioningSpendLimit = ''spendLimit'', ProvisioningPlanLabel = ''planLabel'',
      ProvisioningServerlessLocationLabel = ''serverlessLocationLabel'',
      ProvisioningDedicatedLocationLabel = ''dedicatedLocationLabel'',
      ProvisioningHardwareLabel = ''hardwareLabel'', ProvisioningSpendLimitLabel = ''spendLimitLabel'',
      ProvisioningPlanFreeTrial = ''FREETRIAL'', ProvisioningPlanServerless = ''SERVERLESS'',
      ProvisioningPlanDedicated = ''DEDICATED'', TypeLabelKey = ''db-operator/type'',
      TypeLabelValue = ''credentials'', dbaas_GroupVersion = ''dbaas.redhat.com/v1beta1'',
      corev1_SchemeGroupVersion = ''v1'', SecretTypeOpaque = ''Opaque''\<rparr>"

lemma sample_consts_ok: "consts_ok sample_consts"
  by (simp add: consts_ok_def provisioning_catalogue_def sample_consts_def)

theorem catalogue_unambiguous_witness:
  "length (filter (applies [''plan'' \<mapsto> ''DEDICATED'', ''cloudProvider'' \<mapsto> ''GCP''])
     (pp_ConditionalData (param_Regions sample_consts))) \<le> 1"
  by (rule catalogue_unambiguous [OF sample_consts_ok, of "ProvisioningRegions sample_consts" _ undefined undefined])
    (simp add: provisioning_catalogue_def)

end
