(* ===== verification/Sample_Store.thy ===== *)
theory Sample_Store
  imports Provider_Spec Provider_Service
begin

text \<open>
  A small object store as one possible value of the client parameter: objects by key, status updates
  that replace the status, and a list of errors the next status updates return. It satisfies the
  contracts of \<open>Kube_Client\<close>, so the theorems that assume them are about something, and the
  witnesses run the controllers on it. It models no code of the repository.
\<close>

record store =
  st_inventories :: "(object_key, ProviderInventory) go_map"
  st_connections :: "(object_key, ProviderConnection) go_map"
  st_instances :: "(object_key, ProviderInstance) go_map"
  st_secrets :: "(object_key, secret) go_map"
  st_config_maps :: "(object_key, config_map) go_map"
  st_failures :: "go_error list"

definition missing :: go_error where "missing = GoError True False ''not found''"
definition conflict :: go_error where "conflict = GoError False True ''object has been modified''"
definition refused :: go_error where "refused = errors_New ''connection refused''"

lemma store_errors [simp]:
  "IsNotFound missing" "\<not> IsConflict missing" "IsConflict conflict" "\<not> IsConflict refused"
  "ErrorText refused = ''connection refused''"
  by (simp_all add: missing_def conflict_def refused_def)

definition set_condition :: "condition list \<Rightarrow> condition \<Rightarrow> condition list" where
  "set_condition cs c =
     (if list_ex (\<lambda>x. cond_Type x = cond_Type c) cs
      then map (\<lambda>x. if cond_Type x = cond_Type c
             then c\<lparr>cond_LastTransitionTime := cond_LastTransitionTime x\<rparr> else x) cs
      else cs @ [c\<lparr>cond_LastTransitionTime := ''now''\<rparr>])"

definition read_store :: "('k, 'a) go_map \<Rightarrow> 'k \<Rightarrow> go_error + 'a" where
  "read_store m k = (case map_of m k of None \<Rightarrow> Inl missing | Some a \<Rightarrow> Inr a)"

text \<open>An instance is returned under the name and namespace it is stored at.\<close>

definition stored_at :: "object_key \<Rightarrow> ProviderInstance \<Rightarrow> ProviderInstance" where
  "stored_at k x = x\<lparr>ins_ObjectMeta := (ins_ObjectMeta x)
     \<lparr>om_Namespace := key_Namespace k, om_Name := key_Name k\<rparr>\<rparr>"

lemma stored_at_sel [simp]:
  "ins_Status (stored_at k x) = ins_Status x" "ins_Spec (stored_at k x) = ins_Spec x"
  "meta_key (ins_ObjectMeta (stored_at k x)) = k"
  "stored_at k (x\<lparr>ins_Status := st\<rparr>) = (stored_at k x)\<lparr>ins_Status := st\<rparr>"
  by (simp_all add: stored_at_def meta_key_def)

definition store_client :: "store kube_client" where
  "store_client =
     \<lparr>GetInventory = (\<lambda>k w. (read_store (st_inventories w) k, w)),
      GetConnection = (\<lambda>k w. (read_store (st_connections w) k, w)),
      GetInstance = (\<lambda>k w. (map_sum id (stored_at k) (read_store (st_instances w) k), w)),
      GetSecret = (\<lambda>k w. (read_store (st_secrets w) k, w)),
      StatusUpdateInventory = (\<lambda>x w.
        case st_failures w of
          e # es \<Rightarrow> ((Some e, x), w\<lparr>st_failures := es\<rparr>)
        | [] \<Rightarrow> (case map_of (st_inventories w) (meta_key (inv_ObjectMeta x)) of
              None \<Rightarrow> ((Some missing, x), w)
            | Some y \<Rightarrow> ((None, x), w\<lparr>st_inventories := AList.update (meta_key (inv_ObjectMeta x))
                (y\<lparr>inv_Status := inv_Status x\<rparr>) (st_inventories w)\<rparr>))),
      StatusUpdateConnection = (\<lambda>x w.
        case st_failures w of
          e # es \<Rightarrow> ((Some e, x), w\<lparr>st_failures := es\<rparr>)
        | [] \<Rightarrow> (case map_of (st_connections w) (meta_key (con_ObjectMeta x)) of
              None \<Rightarrow> ((Some missing, x), w)
            | Some y \<Rightarrow> ((None, x), w\<lparr>st_connections := AList.update (meta_key (con_ObjectMeta x))
                (y\<lparr>con_Status := con_Status x\<rparr>) (st_connections w)\<rparr>))),
      StatusUpdateInstance = (\<lambda>x w.
        case st_failures w of
          e # es \<Rightarrow> ((Some e, x), w\<lparr>st_failures := es\<rparr>)
        | [] \<Rightarrow> (case map_of (st_instances w) (meta_key (ins_ObjectMeta x)) of
              None \<Rightarrow> ((Some missing, x), w)
            | Some y \<Rightarrow> ((None, x), w\<lparr>st_instances := AList.update (meta_key (ins_ObjectMeta x))
                (y\<lparr>ins_Status := ins_Status x\<rparr>) (st_instances w)\<rparr>))),
      CreateOrUpdateSecret = (\<lambda>s f w.
        let k = meta_key (sec_ObjectMeta s);
            base = (case map_of (st_secrets w) k of None \<Rightarrow> s | Some y \<Rightarrow> y)
        in case f base of
            (Some e, s1) \<Rightarrow> ((Some e, s1), w)
          | (None, s1) \<Rightarrow>
              if meta_key (sec_ObjectMeta s1) \<noteq> k then ((Some refused, s1), w)
              else ((None, s1), w\<lparr>st_secrets := AList.update k s1 (st_secrets w)\<rparr>)),
      CreateOrUpdateConfigMap = (\<lambda>s f w.
        let k = meta_key (cm_ObjectMeta s);
            base = (case map_of (st_config_maps w) k of None \<Rightarrow> s | Some y \<Rightarrow> y)
        in case f base of
            (Some e, s1) \<Rightarrow> ((Some e, s1), w)
          | (None, s1) \<Rightarrow>
              if meta_key (cm_ObjectMeta s1) \<noteq> k then ((Some refused, s1), w)
              else ((None, s1), w\<lparr>st_config_maps := AList.update k s1 (st_config_maps w)\<rparr>)),
      SetStatusCondition = (\<lambda>w. set_condition),
      SetControllerReference = (\<lambda>x m. (None, m\<lparr>om_OwnerReferences :=
        [\<lparr>or_APIVersion = ''dbaas.redhat.com/v1beta1'', or_Kind = ''ProviderConnection'',
          or_UID = om_UID (con_ObjectMeta x), or_Name = om_Name (con_ObjectMeta x),
          or_Controller = Some True, or_BlockOwnerDeletion = Some True\<rparr>]\<rparr>))\<rparr>"

lemma find_map_condition:
  "list_ex (\<lambda>x. cond_Type x = cond_Type c) cs \<Longrightarrow>
     \<exists>t. List.find (\<lambda>x. cond_Type x = cond_Type c) (map (\<lambda>x. if cond_Type x = cond_Type c
        then c\<lparr>cond_LastTransitionTime := cond_LastTransitionTime x\<rparr> else x) cs) =
       Some (c\<lparr>cond_LastTransitionTime := t\<rparr>)"
  by (induction cs) auto

lemma filter_map_condition:
  "filter (\<lambda>x. cond_Type x \<noteq> cond_Type c) (map (\<lambda>x. if cond_Type x = cond_Type c
      then c\<lparr>cond_LastTransitionTime := cond_LastTransitionTime x\<rparr> else x) cs) =
   filter (\<lambda>x. cond_Type x \<noteq> cond_Type c) cs"
  by (induction cs) auto

lemma find_set_condition:
  "\<exists>t. List.find (\<lambda>x. cond_Type x = cond_Type c) (set_condition cs c) =
     Some (c\<lparr>cond_LastTransitionTime := t\<rparr>)"
proof (cases "list_ex (\<lambda>x. cond_Type x = cond_Type c) cs")
  case True
  then show ?thesis using find_map_condition [OF True] by (simp add: set_condition_def)
next
  case False
  then have "List.find (\<lambda>x. cond_Type x = cond_Type c) cs = None"
    by (auto simp: list_all_find_None list_ex_iff)
  with False have "List.find (\<lambda>x. cond_Type x = cond_Type c) (set_condition cs c) =
      Some (c\<lparr>cond_LastTransitionTime := ''now''\<rparr>)"
    by (simp add: set_condition_def find_appendR)
  then show ?thesis ..
qed

lemma filter_set_condition:
  "filter (\<lambda>x. cond_Type x \<noteq> cond_Type c) (set_condition cs c) =
     filter (\<lambda>x. cond_Type x \<noteq> cond_Type c) cs"
  unfolding set_condition_def using filter_map_condition [of c cs] by simp

lemma store_set_condition: "set_condition_contract store_client"
  unfolding set_condition_contract_def
  by (simp add: store_client_def find_set_condition filter_set_condition)

lemma store_create_or_update: "create_or_update_contract store_client"
  by (auto simp: create_or_update_contract_def store_client_def Let_def
      split: prod.splits option.splits if_splits)

lemma store_controller_reference: "controller_reference_contract store_client"
  by (auto simp: controller_reference_contract_def store_client_def)

lemma store_instances: "instance_store_contract store_client"
  unfolding instance_store_contract_def
  by (auto simp: store_client_def read_store_def map_sum_Inr_iff split: list.splits option.splits)

section \<open>Sample objects\<close>

text \<open>The resources of \<^verbatim>\<open>config/samples\<close>, in the namespace they refer to.\<close>

definition sample_meta :: "string \<Rightarrow> object_meta" where
  "sample_meta n = empty_meta\<lparr>om_Name := n, om_Namespace := ''openshift-dbaas-operator''\<rparr>"

definition sample_key :: "string \<Rightarrow> object_key" where
  "sample_key n = ObjectKey ''openshift-dbaas-operator'' n"

lemma meta_key_sample [simp]: "meta_key (sample_meta n) = sample_key n"
  by (simp add: meta_key_def sample_meta_def sample_key_def)

lemma sample_meta_sel [simp]:
  "om_Name (sample_meta n) = n" "om_Namespace (sample_meta n) = ''openshift-dbaas-operator''"
  by (simp_all add: sample_meta_def)

lemma sample_key_sel [simp]:
  "key_Name (sample_key n) = n" "key_Namespace (sample_key n) = ''openshift-dbaas-operator''"
  "sample_key a = sample_key b \<longleftrightarrow> a = b"
  by (simp_all add: sample_key_def)

definition sample_type :: "string \<Rightarrow> type_meta" where
  "sample_type k = \<lparr>tm_APIVersion = ''dbaas.redhat.com/v1beta1'', tm_Kind = k\<rparr>"

definition sample_inventory :: ProviderInventory where
  "sample_inventory =
     \<lparr>inv_TypeMeta = sample_type ''ProviderInventory'', inv_ObjectMeta = sample_meta ''test'',
      inv_Spec = \<lparr>inv_CredentialsRef_Name = ''dbaas-vendor-credentials''\<rparr>,
      inv_Status = \<lparr>inv_Conditions = [], inv_DatabaseServices = []\<rparr>\<rparr>"

definition sample_instance :: ProviderInstance where
  "sample_instance =
     \<lparr>ins_TypeMeta = sample_type ''ProviderInstance'', ins_ObjectMeta = sample_meta ''providerinstance-sample'',
      ins_Spec = \<lparr>ins_InventoryRef = sample_key ''test'',
        ins_ProvisioningParameters = [(''cloudProvider'', ''AWS''), (''name'', ''dbaas''),
          (''plan'', ''SERVERLESS''), (''regions'', ''us-east-2''), (''spendLimit'', ''0'')]\<rparr>,
      ins_Status = \<lparr>ins_Conditions = [], ins_Phase = InstancePhaseEmpty, ins_InstanceID = [],
        ins_InstanceInfo = []\<rparr>\<rparr>"

definition sample_connection :: ProviderConnection where
  "sample_connection =
     \<lparr>con_TypeMeta = sample_type ''ProviderConnection'',
      con_ObjectMeta = sample_meta ''providerconnection-sample'',
      con_Spec = \<lparr>con_InventoryRef = sample_key ''test'',
        con_DatabaseServiceID = ''a-cluster-instance-id-dbaas'', con_DatabaseServiceRef = None,
        con_DatabaseServiceType = None\<rparr>,
      con_Status = \<lparr>con_Conditions = [], con_CredentialsRef = None, con_ConnectionInfoRef = None\<rparr>\<rparr>"

definition sample_service :: database_service where
  "sample_service = \<lparr>ServiceID = ''a-cluster-instance-id-dbaas'', ServiceName = ''dbaas'',
     ServiceType = None, ServiceInfo = []\<rparr>"

definition synced_inventory :: ProviderInventory where
  "synced_inventory = sample_inventory\<lparr>inv_Status :=
     \<lparr>inv_Conditions = [mk_condition ''SpecSynced'' ConditionTrue ''SyncOK'' ''SyncOK''],
      inv_DatabaseServices = [sample_service]\<rparr>\<rparr>"

definition sample_store :: store where
  "sample_store =
     \<lparr>st_inventories = [(sample_key ''test'', sample_inventory)],
      st_connections = [(sample_key ''providerconnection-sample'', sample_connection)],
      st_instances = [(sample_key ''providerinstance-sample'', sample_instance)],
      st_secrets = [], st_config_maps = [], st_failures = []\<rparr>"

lemma store_client_sel [simp]:
  "GetInventory store_client k w = (read_store (st_inventories w) k, w)"
  "GetConnection store_client k w = (read_store (st_connections w) k, w)"
  "GetInstance store_client k w = (map_sum id (stored_at k) (read_store (st_instances w) k), w)"
  "GetSecret store_client k w = (read_store (st_secrets w) k, w)"
  "SetStatusCondition store_client w = set_condition"
  by (simp_all add: store_client_def)

lemma store_client_updates:
  "StatusUpdateInventory store_client x w = (case st_failures w of
      e # es \<Rightarrow> ((Some e, x), w\<lparr>st_failures := es\<rparr>)
    | [] \<Rightarrow> (case map_of (st_inventories w) (meta_key (inv_ObjectMeta x)) of
          None \<Rightarrow> ((Some missing, x), w)
        | Some y \<Rightarrow> ((None, x), w\<lparr>st_inventories := AList.update (meta_key (inv_ObjectMeta x))
            (y\<lparr>inv_Status := inv_Status x\<rparr>) (st_inventories w)\<rparr>)))"
  "StatusUpdateConnection store_client c w = (case st_failures w of
      e # es \<Rightarrow> ((Some e, c), w\<lparr>st_failures := es\<rparr>)
    | [] \<Rightarrow> (case map_of (st_connections w) (meta_key (con_ObjectMeta c)) of
          None \<Rightarrow> ((Some missing, c), w)
        | Some y \<Rightarrow> ((None, c), w\<lparr>st_connections := AList.update (meta_key (con_ObjectMeta c))
            (y\<lparr>con_Status := con_Status c\<rparr>) (st_connections w)\<rparr>)))"
  "StatusUpdateInstance store_client i w = (case st_failures w of
      e # es \<Rightarrow> ((Some e, i), w\<lparr>st_failures := es\<rparr>)
    | [] \<Rightarrow> (case map_of (st_instances w) (meta_key (ins_ObjectMeta i)) of
          None \<Rightarrow> ((Some missing, i), w)
        | Some y \<Rightarrow> ((None, i), w\<lparr>st_instances := AList.update (meta_key (ins_ObjectMeta i))
            (y\<lparr>ins_Status := ins_Status i\<rparr>) (st_instances w)\<rparr>)))"
  by (simp_all add: store_client_def)

lemma store_other_writes:
  "st_instances (snd (StatusUpdateInventory store_client x w)) = st_instances w"
  "st_instances (snd (StatusUpdateConnection store_client c w)) = st_instances w"
  "st_inventories (snd (StatusUpdateConnection store_client c w)) = st_inventories w"
  "st_instances (snd (CreateOrUpdateSecret store_client s f w)) = st_instances w"
  "st_inventories (snd (CreateOrUpdateSecret store_client s f w)) = st_inventories w"
  "st_instances (snd (CreateOrUpdateConfigMap store_client m g w)) = st_instances w"
  "st_inventories (snd (CreateOrUpdateConfigMap store_client m g w)) = st_inventories w"
  by (simp_all add: store_client_def Let_def split: list.split option.split prod.split)

lemma store_inventory_stays:
  "isl (read_store (st_inventories (snd (StatusUpdateInventory store_client x w))) k) =
     isl (read_store (st_inventories w) k)"
  by (auto simp: store_client_updates read_store_def split: list.split option.split)

lemma store_connections:
  "GetConnection store_client k w = (read_store (st_connections w) k, w)"
  "st_connections (snd (StatusUpdateInventory store_client iv w)) = st_connections w"
  "st_connections (snd (StatusUpdateInstance store_client i w)) = st_connections w"
  "st_connections (snd (CreateOrUpdateSecret store_client s g w)) = st_connections w"
  "st_connections (snd (CreateOrUpdateConfigMap store_client m h w)) = st_connections w"
  by (auto simp: store_client_updates split: list.split option.split)
    (auto simp: store_client_def Let_def split: prod.split option.split)

lemma store_statuses: "status_store_contract store_client"
  unfolding status_store_contract_def
proof (intro conjI allI)
  fix x w k
  show "fst (GetInventory store_client k (snd (StatusUpdateInventory store_client x w))) =
      map_sum id (\<lambda>x0. if meta_key (inv_ObjectMeta x) = k \<and>
          fst (fst (StatusUpdateInventory store_client x w)) = None
        then x0\<lparr>inv_Status := inv_Status x\<rparr> else x0) (fst (GetInventory store_client k w))"
    by (simp add: store_client_updates read_store_def split: list.split option.split)
next
  fix x w k
  show "fst (GetConnection store_client k (snd (StatusUpdateConnection store_client x w))) =
      map_sum id (\<lambda>x0. if meta_key (con_ObjectMeta x) = k \<and>
          fst (fst (StatusUpdateConnection store_client x w)) = None
        then x0\<lparr>con_Status := con_Status x\<rparr> else x0) (fst (GetConnection store_client k w))"
    by (simp add: store_client_updates read_store_def split: list.split option.split)
qed (simp_all add: store_connections)

text \<open>In good health: no failure is due, and the published objects are stored under their names.\<close>

definition store_healthy :: "store \<Rightarrow> bool" where
  "store_healthy w \<longleftrightarrow> st_failures w = [] \<and>
     (\<forall>k s. map_of (st_secrets w) k = Some s \<longrightarrow> meta_key (sec_ObjectMeta s) = k) \<and>
     (\<forall>k m. map_of (st_config_maps w) k = Some m \<longrightarrow> meta_key (cm_ObjectMeta m) = k)"

lemma store_accepts: "accepting_contract store_client store_healthy"
  unfolding accepting_contract_def
proof (intro conjI allI impI; elim conjE)
  fix s :: secret and g :: "secret \<Rightarrow> go_error option \<times> secret" and w
  assume w: "store_healthy w"
    and g: "\<forall>t. fst (g t) = None \<and> meta_key (sec_ObjectMeta (snd (g t))) = meta_key (sec_ObjectMeta t)"
  let ?k = "meta_key (sec_ObjectMeta s)"
  let ?base = "case map_of (st_secrets w) ?k of None \<Rightarrow> s | Some y \<Rightarrow> y"
  obtain s1 where s1: "g ?base = (None, s1)" "meta_key (sec_ObjectMeta s1) = meta_key (sec_ObjectMeta ?base)"
    using g by (metis prod.collapse)
  moreover have "meta_key (sec_ObjectMeta ?base) = ?k" using w by (auto simp: store_healthy_def split: option.split)
  ultimately have "CreateOrUpdateSecret store_client s g w =
      ((None, s1), w\<lparr>st_secrets := AList.update ?k s1 (st_secrets w)\<rparr>)"
    by (simp add: store_client_def Let_def)
  with w s1 \<open>meta_key (sec_ObjectMeta ?base) = ?k\<close>
  show "fst (fst (CreateOrUpdateSecret store_client s g w)) = None"
    "store_healthy (snd (CreateOrUpdateSecret store_client s g w))"
    by (simp_all add: store_healthy_def)
next
  fix m :: config_map and h :: "config_map \<Rightarrow> go_error option \<times> config_map" and w
  assume w: "store_healthy w"
    and h: "\<forall>t. fst (h t) = None \<and> meta_key (cm_ObjectMeta (snd (h t))) = meta_key (cm_ObjectMeta t)"
  let ?k = "meta_key (cm_ObjectMeta m)"
  let ?base = "case map_of (st_config_maps w) ?k of None \<Rightarrow> m | Some y \<Rightarrow> y"
  obtain m1 where m1: "h ?base = (None, m1)" "meta_key (cm_ObjectMeta m1) = meta_key (cm_ObjectMeta ?base)"
    using h by (metis prod.collapse)
  moreover have "meta_key (cm_ObjectMeta ?base) = ?k" using w by (auto simp: store_healthy_def split: option.split)
  ultimately have "CreateOrUpdateConfigMap store_client m h w =
      ((None, m1), w\<lparr>st_config_maps := AList.update ?k m1 (st_config_maps w)\<rparr>)"
    by (simp add: store_client_def Let_def)
  with w m1 \<open>meta_key (cm_ObjectMeta ?base) = ?k\<close>
  show "fst (fst (CreateOrUpdateConfigMap store_client m h w)) = None"
    "store_healthy (snd (CreateOrUpdateConfigMap store_client m h w))"
    by (simp_all add: store_healthy_def)
qed (auto simp: store_healthy_def store_client_updates read_store_def split: option.splits)

lemma store_separate_kinds: "separate_kinds_contract store_client"
  unfolding separate_kinds_contract_def Let_def
  by (simp add: store_other_writes store_inventory_stays)

lemma sample_store_sel [simp]:
  "st_inventories sample_store = [(sample_key ''test'', sample_inventory)]"
  "st_connections sample_store = [(sample_key ''providerconnection-sample'', sample_connection)]"
  "st_instances sample_store = [(sample_key ''providerinstance-sample'', sample_instance)]"
  "st_secrets sample_store = []" "st_config_maps sample_store = []" "st_failures sample_store = []"
  by (simp_all add: sample_store_def)

lemma sample_inventory_sel [simp]:
  "inv_ObjectMeta sample_inventory = sample_meta ''test''"
  "inv_CredentialsRef_Name (inv_Spec sample_inventory) = ''dbaas-vendor-credentials''"
  "inv_Conditions (inv_Status sample_inventory) = []"
  "inv_DatabaseServices (inv_Status sample_inventory) = []"
  by (simp_all add: sample_inventory_def)

lemma sample_instance_sel [simp]:
  "ins_ObjectMeta sample_instance = sample_meta ''providerinstance-sample''"
  "ins_InventoryRef (ins_Spec sample_instance) = sample_key ''test''"
  "ins_InstanceID (ins_Status sample_instance) = []"
  "ins_Conditions (ins_Status sample_instance) = []"
  by (simp_all add: sample_instance_def)

lemma stored_sample_instance [simp]:
  "stored_at (sample_key ''providerinstance-sample'') sample_instance = sample_instance"
  by (simp add: stored_at_def sample_instance_def sample_meta_def sample_key_def empty_meta_def)

lemma sample_connection_sel [simp]:
  "con_ObjectMeta sample_connection = sample_meta ''providerconnection-sample''"
  "con_InventoryRef (con_Spec sample_connection) = sample_key ''test''"
  "con_DatabaseServiceID (con_Spec sample_connection) = ''a-cluster-instance-id-dbaas''"
  by (simp_all add: sample_connection_def)

lemma ObjectKey_sample [simp]: "ObjectKey ''openshift-dbaas-operator'' n = sample_key n"
  by (simp add: sample_key_def)

text \<open>The operator as \<^verbatim>\<open>main.go\<close> wires it, over this store, and the store next to a new cloud.\<close>

definition sample_operator ::
    "(store \<times> FakeClusters, (store \<times> FakeClusters) Service) DBaaSProviderService" where
  "sample_operator = FakeProviderService sample_consts store_client"

definition sample_world :: "store \<times> FakeClusters" where
  "sample_world = (sample_store, NewFakeClusters)"

lemma sample_operator_sel [simp]:
  "svc_Client sample_operator = lift_client store_client"
  "fst (svc_CreateCloudService sample_operator k (s, f)) = Inr NewFakeAPIClient"
  "snd (svc_CreateCloudService sample_operator k (s, f)) = (s, f)"
  "svc_DiscoverClusters sample_operator = FakeDiscoverClusters"
  "svc_CreateCluster sample_operator = FakeCreateCluster sample_consts"
  "svc_GetCluster sample_operator = FakeGetCluster"
  by (simp_all add: sample_operator_def FakeCreateCloudService_def retrieveClientCredential_def
      on_left_eq read_store_def Let_def split: prod.splits sum.splits option.splits)

lemma sample_cloud_service [simp]:
  "svc_CreateCloudService sample_operator k (s, f) = (Inr NewFakeAPIClient, (s, f))"
  by (rule prod_eqI) simp_all

lemmas store_contracts = store_set_condition store_create_or_update store_controller_reference
  store_instances

lemmas sample_contracts = lift_set_condition [OF store_set_condition]
  lift_create_or_update [OF store_create_or_update]
  lift_controller_reference [OF store_controller_reference] lift_instance_store [OF store_instances]

end
