(* ===== verification/Manager.thy ===== *)
theory Manager
  imports Api_Types
begin

text \<open>
  What a controller hands to the controller builder in its \<^verbatim>\<open>SetupWithManager\<close>, and the events and
  objects its predicates and map functions see. The builder's \<^verbatim>\<open>Complete\<close> is a parameter: it adds the
  controller to the manager, of type \<open>'m\<close>, or fails.
\<close>

datatype watch_event = CreateEvent object_meta | DeleteEvent object_meta | UpdateEvent object_meta object_meta
  | GenericEvent object_meta

text \<open>A watched object, as far as a type assertion on it can tell.\<close>

datatype client_object = InstanceObject ProviderInstance | OtherObject

record controller_setup =
  cs_For :: string
  cs_Predicate :: "(watch_event \<Rightarrow> bool) option"
  cs_OnlyMetadata :: bool
  cs_Watches :: "(string \<times> (client_object \<Rightarrow> object_key list)) list"
  cs_RateLimiter :: "(duration \<times> duration) option"

type_synonym 'm complete_call = "controller_setup \<Rightarrow> 'm \<Rightarrow> go_error option \<times> 'm"

text \<open>\<^verbatim>\<open>NewControllerManagedBy(mgr).For(kind)\<close> with nothing else set.\<close>

definition setup_for :: "string \<Rightarrow> controller_setup" where
  "setup_for kind = \<lparr>cs_For = kind, cs_Predicate = None, cs_OnlyMetadata = False, cs_Watches = [],
     cs_RateLimiter = None\<rparr>"

lemma setup_for_sel [simp]:
  "cs_For (setup_for kind) = kind" "cs_Watches (setup_for kind) = []"
  "cs_Predicate (setup_for kind) = None" "cs_RateLimiter (setup_for kind) = None"
  by (simp_all add: setup_for_def)

end
