(* ===== verification/Inventory_Controller.thy ===== *)
theory Inventory_Controller
  imports Status_Writer Sample_Store Manager
begin

text \<open>
  \<^verbatim>\<open>controllers/dbaas/providerinventory_controller.go\<close>: reconciliation of a \<^verbatim>\<open>ProviderInventory\<close>.
  Logging is left out; everything else of the handler is one definition, its early returns the
  branches. The handler takes any provider service, as the Go type does.
\<close>

section \<open>The handler\<close>

definition inventory_with_condition ::
    "'w kube_client \<Rightarrow> 'w \<Rightarrow> ProviderInventory \<Rightarrow> condition \<Rightarrow> ProviderInventory" where
  "inventory_with_condition kc w inventory c =
     inventory\<lparr>inv_Status := (inv_Status inventory)
       \<lparr>inv_Conditions := SetStatusCondition kc w (inv_Conditions (inv_Status inventory)) c\<rparr>\<rparr>"

definition updateInventoryStatus ::
    "('w, 'h) DBaaSProviderService \<Rightarrow> ProviderInventory \<Rightarrow> condition_status \<Rightarrow> ConditionReason \<Rightarrow>
     string \<Rightarrow> 'w \<Rightarrow> go_error option \<times> 'w" where
  "updateInventoryStatus r inventory status reason reasonMsg w =
     (let curCondition = mk_condition inventoryConditionTypeReady status reason reasonMsg;
          inventory1 = inventory_with_condition (svc_Client r) w inventory curCondition
      in case StatusUpdateInventory (svc_Client r) inventory1 w of
          ((Some err, _), w1) \<Rightarrow> if IsConflict err then (None, w1) else (Some err, w1)
        | ((None, _), w1) \<Rightarrow> (None, w1))"

definition InventoryReconcile ::
    "('w, 'h) DBaaSProviderService \<Rightarrow> object_key \<Rightarrow> 'w \<Rightarrow> (ctrl_result \<times> go_error option) outcome \<times> 'w" where
  "InventoryReconcile r req w =
     (case GetInventory (svc_Client r) req w of
        (Inl err, w1) \<Rightarrow>
          if IsNotFound err then (Returns (no_requeue, None), w1)
          else (Returns (no_requeue, Some err), w1)
      | (Inr inventory, w1) \<Rightarrow>
          (let secretSelector = ObjectKey (om_Namespace (inv_ObjectMeta inventory))
                 (inv_CredentialsRef_Name (inv_Spec inventory))
           in case svc_CreateCloudService r secretSelector w1 of
               (Inl err, w2) \<Rightarrow>
                 (case updateInventoryStatus r inventory ConditionFalse InputError InputError w2 of
                    (_, w3) \<Rightarrow> (Returns (no_requeue, Some err), w3))
             | (Inr cloudService, w2) \<Rightarrow>
                 (case svc_DiscoverClusters r cloudService w2 of
                    (Panics p, w3) \<Rightarrow> (Panics p, w3)
                  | (Returns (Inl err), w3) \<Rightarrow>
                      (case updateInventoryStatus r inventory ConditionFalse BackendError BackendError w3 of
                         (_, w4) \<Rightarrow> (Returns (no_requeue, Some err), w4))
                  | (Returns (Inr instanceLst), w3) \<Rightarrow>
                      (let inventory1 = inventory\<lparr>inv_Status := (inv_Status inventory)
                             \<lparr>inv_DatabaseServices := instanceLst\<rparr>\<rparr>
                       in case updateInventoryStatus r inventory1 ConditionTrue InventorySyncOK
                                 InventorySyncOK w3 of
                           (Some err, w4) \<Rightarrow> (Returns (no_requeue, Some err), w4)
                         | (None, w4) \<Rightarrow> (Returns (no_requeue, None), w4)))))"

text \<open>The watch on instances: a changed instance queues the inventory it refers to.\<close>

definition instanceMapFn :: "client_object \<Rightarrow> object_key list" where
  "instanceMapFn a =
     (case a of
        InstanceObject inst \<Rightarrow>
          [ObjectKey (key_Namespace (ins_InventoryRef (ins_Spec inst)))
             (key_Name (ins_InventoryRef (ins_Spec inst)))]
      | OtherObject \<Rightarrow> [])"

definition InventorySetupWithManager :: "'m complete_call \<Rightarrow> 'm \<Rightarrow> go_error option \<times> 'm" where
  "InventorySetupWithManager complete mgr =
     complete ((setup_for ''ProviderInventory'')\<lparr>cs_Watches := [(''ProviderInstance'', instanceMapFn)]\<rparr>) mgr"

section \<open>The status helper\<close>

interpretation inv_status: status_writer
  "updateInventoryStatus r" "StatusUpdateInventory (svc_Client r)"
  "inventory_with_condition (svc_Client r)" inventoryConditionTypeReady
  for r :: "('w, 'h) DBaaSProviderService"
  by unfold_locales
    (auto simp: updateInventoryStatus_def Let_def split: prod.splits option.splits)

lemma inventory_with_condition_frame [simp]:
  "inv_TypeMeta (inventory_with_condition kc w x c) = inv_TypeMeta x"
  "inv_ObjectMeta (inventory_with_condition kc w x c) = inv_ObjectMeta x"
  "inv_Spec (inventory_with_condition kc w x c) = inv_Spec x"
  "inv_DatabaseServices (inv_Status (inventory_with_condition kc w x c)) =
     inv_DatabaseServices (inv_Status x)"
  "inv_Conditions (inv_Status (inventory_with_condition kc w x c)) =
     SetStatusCondition kc w (inv_Conditions (inv_Status x)) c"
  by (simp_all add: inventory_with_condition_def)

text \<open>The synced condition of an inventory, as a status and a reason.\<close>

definition synced_condition :: "ProviderInventory \<Rightarrow> (condition_status \<times> ConditionReason) option" where
  "synced_condition x = map_option (\<lambda>c. (cond_Status c, cond_Reason c))
     (List.find (\<lambda>c. cond_Type c = inventoryConditionTypeReady) (inv_Conditions (inv_Status x)))"

lemma synced_condition_written:
  assumes "set_condition_contract kc"
  shows "synced_condition (inventory_with_condition kc w x
      (mk_condition inventoryConditionTypeReady st reason msg)) = Some (st, reason)"
  using set_condition_contractD(1) [OF assms, of "mk_condition inventoryConditionTypeReady st reason msg" w
      "inv_Conditions (inv_Status x)"]
  by (auto simp: synced_condition_def)

lemma updateInventoryStatus_noting:
  "updateInventoryStatus (noting_service S) x st reason msg (w, l) =
     (let y = inventory_with_condition (svc_Client S) w x
                (mk_condition inventoryConditionTypeReady st reason msg);
          res = StatusUpdateInventory (svc_Client S) y w
      in (swallow_conflict (fst (fst res)), (snd res, l @ [WriteInventoryStatus y (fst (fst res))])))"
  by (simp add: inv_status.helper_writes_once Let_def noting_eq inventory_with_condition_def)

section \<open>What a reconciliation writes\<close>

text \<open>
  The cloud's verdict on an inventory, as the handler's specification sees it: a reason and an error,
  or the services to report.
\<close>

definition inventory_listing ::
    "('w, 'h) DBaaSProviderService \<Rightarrow> ProviderInventory \<Rightarrow> 'w \<Rightarrow>
     ((ConditionReason \<times> go_error) + database_service list) outcome \<times> 'w" where
  "inventory_listing S iv w =
     (case svc_CreateCloudService S (ObjectKey (om_Namespace (inv_ObjectMeta iv))
             (inv_CredentialsRef_Name (inv_Spec iv))) w of
        (Inl err, w1) \<Rightarrow> (Returns (Inl (InputError, err)), w1)
      | (Inr h, w1) \<Rightarrow>
          (case svc_DiscoverClusters S h w1 of
             (d, w2) \<Rightarrow> (map_outcome_value (map_sum (Pair BackendError) id) d, w2)))"

lemma inventory_listing_reason:
  "inventory_listing S iv w = (Returns (Inl (reason, err)), w1) \<Longrightarrow> reason \<in> {InputError, BackendError}"
  by (auto simp: inventory_listing_def map_outcome_value_Returns map_sum_Inl_iff
      split: prod.splits sum.splits)

lemma InventoryReconcile_listing:
  "InventoryReconcile S req w =
     (case GetInventory (svc_Client S) req w of
        (Inl err, w1) \<Rightarrow> (Returns (no_requeue, if IsNotFound err then None else Some err), w1)
      | (Inr iv, w1) \<Rightarrow>
          (case inventory_listing S iv w1 of
             (Panics p, w2) \<Rightarrow> (Panics p, w2)
           | (Returns (Inl (reason, err)), w2) \<Rightarrow>
               (Returns (no_requeue, Some err),
                snd (updateInventoryStatus S iv ConditionFalse reason reason w2))
           | (Returns (Inr lst), w2) \<Rightarrow>
               (case updateInventoryStatus S
                       (iv\<lparr>inv_Status := (inv_Status iv)\<lparr>inv_DatabaseServices := lst\<rparr>\<rparr>)
                       ConditionTrue InventorySyncOK InventorySyncOK w2 of
                  (e, w3) \<Rightarrow> (Returns (no_requeue, e), w3))))"
  by (auto simp: InventoryReconcile_def inventory_listing_def Let_def
      split: prod.splits sum.splits outcome.splits option.splits)

lemma inventory_listing_noting:
  "inventory_listing (noting_service S) iv (w, l) =
     (fst (inventory_listing S iv w), (snd (inventory_listing S iv w), l))"
  by (auto simp: inventory_listing_def on_left_eq split: prod.splits sum.splits)

text \<open>The run after a listing.\<close>

lemma inventory_listed_run:
  assumes "set_condition_contract (svc_Client S)" and "GetInventory (svc_Client S) req w = (Inr iv, w1)"
    and "inventory_listing S iv w1 = (Returns (Inr l), w2)"
  obtains y e w' where "InventoryReconcile (noting_service S) req (w, []) =
      (Returns (no_requeue, swallow_conflict e), (w', [WriteInventoryStatus y e]))"
    and "synced_condition y = Some (ConditionTrue, InventorySyncOK)"
    and "inv_DatabaseServices (inv_Status y) = l" and "inv_ObjectMeta y = inv_ObjectMeta iv"
proof -
  let ?y = "inventory_with_condition (svc_Client S) w2
    (iv\<lparr>inv_Status := (inv_Status iv)\<lparr>inv_DatabaseServices := l\<rparr>\<rparr>)
    (mk_condition inventoryConditionTypeReady ConditionTrue InventorySyncOK InventorySyncOK)"
  from assms show thesis
    by (intro that [of "fst (fst (StatusUpdateInventory (svc_Client S) ?y w2))"
          "snd (StatusUpdateInventory (svc_Client S) ?y w2)" ?y])
      (simp_all add: InventoryReconcile_listing on_left_eq inventory_listing_noting
        updateInventoryStatus_noting synced_condition_written Let_def)
qed

text \<open>
  C10. An inventory reconciliation writes at most once, and only the status of the inventory it
  fetched: spec and metadata go back as they were read. When the inventory cannot be fetched nothing
  is written, and the handler returns without an error exactly when the inventory is gone. What it
  writes tells the truth: the services are new and the condition is SpecSynced true exactly when the
  cloud was listed; when the cloud could not be reached or listed, the condition is false with the
  reason InputError or BackendError and the services stay as they were. The handler then returns the
  cloud's error, or, after a listing, the write's own error unless that is a conflict.
\<close>

theorem inventory_writes_truthful:
  assumes "set_condition_contract (svc_Client S)"
    and "InventoryReconcile (noting_service S) req (w, []) = (Returns (res, err), (w', ws))"
  shows "(ws = [] \<and> (\<exists>e. fst (GetInventory (svc_Client S) req w) = Inl e \<and> res = no_requeue \<and>
      err = (if IsNotFound e then None else Some e))) \<or>
    (\<exists>iv w1 y e. GetInventory (svc_Client S) req w = (Inr iv, w1) \<and>
      ws = [WriteInventoryStatus y e] \<and> res = no_requeue \<and>
      inv_Spec y = inv_Spec iv \<and> inv_ObjectMeta y = inv_ObjectMeta iv \<and>
      (case fst (inventory_listing S iv w1) of
         Returns (Inl (reason, ce)) \<Rightarrow>
           synced_condition y = Some (ConditionFalse, reason) \<and> reason \<in> {InputError, BackendError} \<and>
           inv_DatabaseServices (inv_Status y) = inv_DatabaseServices (inv_Status iv) \<and> err = Some ce
       | Returns (Inr lst) \<Rightarrow>
           synced_condition y = Some (ConditionTrue, InventorySyncOK) \<and>
           inv_DatabaseServices (inv_Status y) = lst \<and> err = swallow_conflict e
       | Panics p \<Rightarrow> False))"
proof (cases "GetInventory (svc_Client S) req w")
  case (Pair g w1)
  show ?thesis
  proof (cases g)
    case (Inl e)
    with Pair assms(2) show ?thesis
      by (auto simp: InventoryReconcile_listing on_left_eq)
  next
    case (Inr iv)
    obtain d w2 where d: "inventory_listing S iv w1 = (d, w2)" by fastforce
    note [simp] = InventoryReconcile_listing on_left_eq inventory_listing_noting
      updateInventoryStatus_noting Let_def synced_condition_written [OF assms(1)]
    from assms(2) Pair Inr d show ?thesis
      by (cases d rule: outcome.exhaust)
        (auto split: sum.splits prod.splits dest: inventory_listing_reason)
  qed
qed

text \<open>The sample inventory, on the store and the new cloud of \<open>Sample_Store\<close>.\<close>

lemma sample_discovery:
  "\<exists>l. discover_loop [cluster1, cluster2, cluster3] = Returns l \<and> length l = 3"
  by (simp add: PopulateInstanceInfo_def cluster_defs)

lemma sample_listing:
  assumes "discover_loop [cluster1, cluster2, cluster3] = Returns l"
  shows "inventory_listing sample_operator sample_inventory (sample_store, NewFakeClusters) =
    (Returns (Inr l), (sample_store, NewFakeClusters))"
  using assms by (simp add: inventory_listing_def FakeDiscoverClusters_eq del: discover_loop.simps)

lemma sample_inventory_run:
  assumes "discover_loop [cluster1, cluster2, cluster3] = Returns l"
  shows "\<exists>w' y. InventoryReconcile (noting_service sample_operator) (sample_key ''test'') (sample_world, []) =
    (Returns (no_requeue, None), (w', [WriteInventoryStatus y None]))"
  by (simp add: InventoryReconcile_listing sample_world_def on_left_eq read_store_def
      inventory_listing_noting sample_listing [OF assms]
      updateInventoryStatus_noting Let_def store_client_updates)

theorem inventory_writes_truthful_witness:
  "\<exists>w' y. InventoryReconcile (noting_service sample_operator) (sample_key ''test'') (sample_world, []) =
      (Returns (no_requeue, None), (w', [WriteInventoryStatus y None])) \<and>
    synced_condition y = Some (ConditionTrue, InventorySyncOK) \<and>
    length (inv_DatabaseServices (inv_Status y)) = 3 \<and> inv_Spec y = inv_Spec sample_inventory"
proof -
  obtain l where l: "discover_loop [cluster1, cluster2, cluster3] = Returns l" "length l = 3"
    using sample_discovery by blast
  obtain w' y where run: "InventoryReconcile (noting_service sample_operator) (sample_key ''test'')
      (sample_world, []) = (Returns (no_requeue, None), (w', [WriteInventoryStatus y None]))"
    using sample_inventory_run [OF l(1)] by blast
  have c: "set_condition_contract (svc_Client sample_operator)"
    by (simp add: sample_contracts)
  from inventory_writes_truthful [OF c run] run l show ?thesis
    by (auto simp: sample_world_def on_left_eq read_store_def sample_listing [OF l(1)])
qed

end
