(* ===== verification/Instance_Controller.thy ===== *)
theory Instance_Controller
  imports Status_Writer Sample_Store Manager
begin

text \<open>
  \<^verbatim>\<open>controllers/dbaas/providerinstance_controller.go\<close>: reconciliation of a \<^verbatim>\<open>ProviderInstance\<close>, which
  creates a cluster for it or fetches the one it has. The handler is split where the Go function's
  two branches meet again: \<open>InstanceFinish\<close> are the lines after the cluster is known,
  \<open>InstanceReadyUpdate\<close> those from the assignment of the phase Ready.
\<close>

section \<open>The handler\<close>

definition instance_with_condition ::
    "'w kube_client \<Rightarrow> 'w \<Rightarrow> ProviderInstance \<Rightarrow> condition \<Rightarrow> ProviderInstance" where
  "instance_with_condition kc w x c =
     x\<lparr>ins_Status := (ins_Status x)
       \<lparr>ins_Conditions := SetStatusCondition kc w (ins_Conditions (ins_Status x)) c\<rparr>\<rparr>"

definition with_phase :: "instance_phase \<Rightarrow> ProviderInstance \<Rightarrow> ProviderInstance" where
  "with_phase ph x = x\<lparr>ins_Status := (ins_Status x)\<lparr>ins_Phase := ph\<rparr>\<rparr>"

text \<open>The condition type is the connection controller's, as in the source.\<close>

definition instance_updateStatus ::
    "('w, 'h) DBaaSProviderService \<Rightarrow> ProviderInstance \<Rightarrow> condition_status \<Rightarrow> ConditionReason \<Rightarrow>
     string \<Rightarrow> 'w \<Rightarrow> (go_error option \<times> ProviderInstance) \<times> 'w" where
  "instance_updateStatus r conn status reason msg w =
     (let curCondition = mk_condition connectionConditionReadyType status reason msg;
          conn1 = instance_with_condition (svc_Client r) w conn curCondition
      in case StatusUpdateInstance (svc_Client r) conn1 w of
          ((Some err, conn2), w1) \<Rightarrow>
            if IsConflict err then ((None, conn2), w1) else ((Some err, conn2), w1)
        | ((None, conn2), w1) \<Rightarrow> ((None, conn2), w1))"

definition updateClusterDetails ::
    "Cluster option \<Rightarrow> instance_status \<Rightarrow> (go_error option \<times> instance_status) outcome" where
  "updateClusterDetails clusterDetails instanceStatus =
     (case clusterDetails of
        None \<Rightarrow> Panics nil_dereference
      | Some c \<Rightarrow>
          if cl_Id c = [] then Returns (Some (errors_New ''received cluster details with no ID''), instanceStatus)
          else (case PopulateInstanceInfo c of
                  Panics p \<Rightarrow> Panics p
                | Returns info \<Rightarrow>
                    Returns (None, instanceStatus\<lparr>ins_InstanceID := cl_Id c, ins_InstanceInfo := info\<rparr>)))"

text \<open>
  The block that follows a failed call: write the condition, return the write's error with a
  requeue, or the call's error.
\<close>

definition instance_failed ::
    "('w, 'h) DBaaSProviderService \<Rightarrow> ProviderInstance \<Rightarrow> ConditionReason \<Rightarrow> go_error \<Rightarrow> 'w \<Rightarrow>
     (ctrl_result \<times> go_error option) outcome \<times> 'w" where
  "instance_failed r inst reason err w =
     (case instance_updateStatus r inst ConditionFalse reason (ErrorText err) w of
        ((Some statusErr, _), w1) \<Rightarrow> (Returns (requeue, Some statusErr), w1)
      | ((None, _), w1) \<Rightarrow> (Returns (no_requeue, Some err), w1))"

definition InstanceReadyUpdate ::
    "('w, 'h) DBaaSProviderService \<Rightarrow> ProviderInstance \<Rightarrow> 'w \<Rightarrow>
     (ctrl_result \<times> go_error option) outcome \<times> 'w" where
  "InstanceReadyUpdate r inst w =
     (case StatusUpdateInstance (svc_Client r) (with_phase InstancePhaseReady inst) w of
        ((Some err, inst1), w1) \<Rightarrow>
          if IsConflict err then (Returns (requeue, None), w1)
          else (case instance_updateStatus r inst1 ConditionTrue InstanceReady (ErrorText err) w1 of
                  ((Some statusErr, _), w2) \<Rightarrow> (Returns (requeue, Some statusErr), w2)
                | ((None, _), w2) \<Rightarrow> (Returns (no_requeue, None), w2))
      | ((None, _), w1) \<Rightarrow> (Returns (no_requeue, None), w1))"

definition InstanceFinish ::
    "('w, 'h) DBaaSProviderService \<Rightarrow> Cluster option \<Rightarrow> ProviderInstance \<Rightarrow> 'w \<Rightarrow>
     (ctrl_result \<times> go_error option) outcome \<times> 'w" where
  "InstanceFinish r cluster inst w =
     (case updateClusterDetails cluster (ins_Status inst) of
        Panics p \<Rightarrow> (Panics p, w)
      | Returns (Some err, _) \<Rightarrow>
          (case instance_updateStatus r inst ConditionFalse BackendError (ErrorText err) w of
             ((Some statusErr, _), w1) \<Rightarrow> (Returns (requeue, Some statusErr), w1)
           | ((None, inst1), w1) \<Rightarrow> InstanceReadyUpdate r inst1 w1)
      | Returns (None, st) \<Rightarrow> InstanceReadyUpdate r (inst\<lparr>ins_Status := st\<rparr>) w)"

definition InstanceReconcile ::
    "('w, 'h) DBaaSProviderService \<Rightarrow> object_key \<Rightarrow> 'w \<Rightarrow> (ctrl_result \<times> go_error option) outcome \<times> 'w" where
  "InstanceReconcile r req w =
     (case GetInstance (svc_Client r) req w of
        (Inl err, w1) \<Rightarrow>
          if IsNotFound err then (Returns (no_requeue, None), w1)
          else (Returns (no_requeue, Some err), w1)
      | (Inr inst0, w1) \<Rightarrow>
          (let inst1 = with_phase InstancePhaseUnknown inst0
           in case GetInventory (svc_Client r)
                     (ObjectKey (key_Namespace (ins_InventoryRef (ins_Spec inst1)))
                        (key_Name (ins_InventoryRef (ins_Spec inst1)))) w1 of
               (Inl err, w2) \<Rightarrow>
                 if IsNotFound err then instance_failed r inst1 InventoryNotFound err w2
                 else (Returns (no_requeue, Some err), w2)
             | (Inr inventory, w2) \<Rightarrow>
                 (let inst2 = with_phase InstancePhasePending inst1;
                      secretSelector = ObjectKey (om_Namespace (inv_ObjectMeta inventory))
                        (inv_CredentialsRef_Name (inv_Spec inventory))
                  in case svc_CreateCloudService r secretSelector w2 of
                      (Inl err, w3) \<Rightarrow> instance_failed r inst2 BackendError err w3
                    | (Inr cloudService, w3) \<Rightarrow>
                        if length (ins_InstanceID (ins_Status inst2)) = 0
                        then (let inst3 = with_phase InstancePhaseCreating inst2
                              in case svc_CreateCluster r cloudService inst3 w3 of
                                  (Inl err, w4) \<Rightarrow> instance_failed r inst3 BackendError err w4
                                | (Inr cluster, w4) \<Rightarrow> InstanceFinish r cluster inst3 w4)
                        else (case svc_GetCluster r cloudService (ins_InstanceID (ins_Status inst2)) w3 of
                                (Inl err, w4) \<Rightarrow> instance_failed r inst2 BackendError err w4
                              | (Inr cluster, w4) \<Rightarrow> InstanceFinish r cluster inst2 w4))))"

definition InstanceSetupWithManager :: "'m complete_call \<Rightarrow> 'm \<Rightarrow> go_error option \<times> 'm" where
  "InstanceSetupWithManager complete mgr = complete (setup_for ''ProviderInstance'') mgr"

section \<open>The status helper\<close>

interpretation inst_status: status_writer
  "\<lambda>x st reason msg w. apfst fst (instance_updateStatus r x st reason msg w)"
  "StatusUpdateInstance (svc_Client r)" "instance_with_condition (svc_Client r)"
  connectionConditionReadyType
  for r :: "('w, 'h) DBaaSProviderService"
  by unfold_locales
    (auto simp: instance_updateStatus_def Let_def split: prod.splits option.splits)

lemma instance_with_condition_frame [simp]:
  "ins_TypeMeta (instance_with_condition kc w x c) = ins_TypeMeta x"
  "ins_ObjectMeta (instance_with_condition kc w x c) = ins_ObjectMeta x"
  "ins_Spec (instance_with_condition kc w x c) = ins_Spec x"
  "ins_Phase (ins_Status (instance_with_condition kc w x c)) = ins_Phase (ins_Status x)"
  "ins_InstanceID (ins_Status (instance_with_condition kc w x c)) = ins_InstanceID (ins_Status x)"
  "ins_InstanceInfo (ins_Status (instance_with_condition kc w x c)) = ins_InstanceInfo (ins_Status x)"
  "ins_Conditions (ins_Status (instance_with_condition kc w x c)) =
     SetStatusCondition kc w (ins_Conditions (ins_Status x)) c"
  by (simp_all add: instance_with_condition_def)

lemma instance_with_condition_noting [simp]:
  "instance_with_condition (noting_client kc) (w, l) x c = instance_with_condition kc w x c"
  by (simp add: instance_with_condition_def)

lemma with_phase_frame [simp]:
  "ins_TypeMeta (with_phase ph x) = ins_TypeMeta x"
  "ins_ObjectMeta (with_phase ph x) = ins_ObjectMeta x"
  "ins_Spec (with_phase ph x) = ins_Spec x"
  "ins_Phase (ins_Status (with_phase ph x)) = ph"
  "ins_InstanceID (ins_Status (with_phase ph x)) = ins_InstanceID (ins_Status x)"
  "ins_InstanceInfo (ins_Status (with_phase ph x)) = ins_InstanceInfo (ins_Status x)"
  "ins_Conditions (ins_Status (with_phase ph x)) = ins_Conditions (ins_Status x)"
  "with_phase ph (with_phase ph' x) = with_phase ph x"
  by (simp_all add: with_phase_def)

text \<open>The ready condition of an instance: its status, reason and message.\<close>

definition instance_condition ::
    "ProviderInstance \<Rightarrow> (condition_status \<times> ConditionReason \<times> string) option" where
  "instance_condition x = map_option (\<lambda>c. (cond_Status c, cond_Reason c, cond_Message c))
     (List.find (\<lambda>c. cond_Type c = connectionConditionReadyType) (ins_Conditions (ins_Status x)))"

lemma instance_condition_written:
  assumes "set_condition_contract kc"
  shows "instance_condition (instance_with_condition kc w x
      (mk_condition connectionConditionReadyType st reason msg)) = Some (st, reason, msg)"
  using set_condition_contractD(1) [OF assms, of "mk_condition connectionConditionReadyType st reason msg" w
      "ins_Conditions (ins_Status x)"]
  by (auto simp: instance_condition_def)

lemma instance_updateStatus_eq [ctrl_simps]:
  "instance_updateStatus S x st reason msg w =
     (let y = instance_with_condition (svc_Client S) w x
                (mk_condition connectionConditionReadyType st reason msg);
          res = StatusUpdateInstance (svc_Client S) y w
      in ((swallow_conflict (fst (fst res)), snd (fst res)), snd res))"
  by (auto simp: instance_updateStatus_def Let_def split: prod.splits option.splits)

lemma instance_updateStatus_noting:
  "instance_updateStatus (noting_service S) x st reason msg (w, l) =
     (let y = instance_with_condition (svc_Client S) w x
                (mk_condition connectionConditionReadyType st reason msg);
          res = StatusUpdateInstance (svc_Client S) y w
      in ((swallow_conflict (fst (fst res)), snd (fst res)),
          (snd res, l @ [WriteInstanceStatus y (fst (fst res))])))"
  by (auto simp: instance_updateStatus_def Let_def noting_eq instance_with_condition_def
      split: prod.splits option.splits)

section \<open>The cloud's verdict\<close>

text \<open>
  What the handler learns before it writes: the request is over without a write, a step failed in a
  phase and for a reason, or there is a cluster.
\<close>

datatype instance_verdict =
    NoWrite go_error
  | FailedIn instance_phase ConditionReason go_error
  | GotCluster instance_phase "Cluster option"

definition verdict_of_call :: "instance_phase \<Rightarrow> (go_error + Cluster option) \<Rightarrow> instance_verdict" where
  "verdict_of_call ph res =
     (case res of Inl err \<Rightarrow> FailedIn ph BackendError err | Inr c \<Rightarrow> GotCluster ph c)"

definition instance_verdict ::
    "('w, 'h) DBaaSProviderService \<Rightarrow> ProviderInstance \<Rightarrow> 'w \<Rightarrow> instance_verdict \<times> 'w" where
  "instance_verdict S x w =
     (case GetInventory (svc_Client S) (ins_InventoryRef (ins_Spec x)) w of
        (Inl err, w1) \<Rightarrow>
          (if IsNotFound err then FailedIn InstancePhaseUnknown InventoryNotFound err else NoWrite err, w1)
      | (Inr iv, w1) \<Rightarrow>
          (case svc_CreateCloudService S (ObjectKey (om_Namespace (inv_ObjectMeta iv))
                  (inv_CredentialsRef_Name (inv_Spec iv))) w1 of
             (Inl err, w2) \<Rightarrow> (FailedIn InstancePhasePending BackendError err, w2)
           | (Inr h, w2) \<Rightarrow>
               if ins_InstanceID (ins_Status x) = []
               then apfst (verdict_of_call InstancePhaseCreating)
                      (svc_CreateCluster S h (with_phase InstancePhaseCreating x) w2)
               else apfst (verdict_of_call InstancePhasePending)
                      (svc_GetCluster S h (ins_InstanceID (ins_Status x)) w2)))"

definition act_on_verdict ::
    "('w, 'h) DBaaSProviderService \<Rightarrow> ProviderInstance \<Rightarrow> instance_verdict \<Rightarrow> 'w \<Rightarrow>
     (ctrl_result \<times> go_error option) outcome \<times> 'w" where
  "act_on_verdict S x v w =
     (case v of
        NoWrite err \<Rightarrow> (Returns (no_requeue, Some err), w)
      | FailedIn ph reason err \<Rightarrow> instance_failed S (with_phase ph x) reason err w
      | GotCluster ph c \<Rightarrow> InstanceFinish S c (with_phase ph x) w)"

lemma InstanceReconcile_verdict:
  "InstanceReconcile S req w =
     (case GetInstance (svc_Client S) req w of
        (Inl err, w1) \<Rightarrow> (Returns (no_requeue, if IsNotFound err then None else Some err), w1)
      | (Inr x, w1) \<Rightarrow>
          (case instance_verdict S x w1 of (v, w2) \<Rightarrow> act_on_verdict S x v w2))"
  by (auto simp: InstanceReconcile_def instance_verdict_def act_on_verdict_def verdict_of_call_def
      Let_def apfst_def map_prod_def split: prod.splits sum.splits)

section \<open>What a reconciliation writes\<close>

fun is_create :: "write_call \<Rightarrow> bool" where
  "is_create (AskCreateCluster x r) = True"
| "is_create _ = False"

lemma instance_verdict_noting:
  assumes "instance_verdict S x w = (v, w')"
  obtains cs where "instance_verdict (noting_service S) x (w, l) = (v, (w', l @ cs))"
    and "cs = [] \<or> (ins_InstanceID (ins_Status x) = [] \<and>
      (\<exists>r. cs = [AskCreateCluster (with_phase InstancePhaseCreating x) r]))"
  using assms
  by (auto simp: instance_verdict_def on_left_eq noting_eq apfst_def map_prod_def
      split: prod.splits sum.splits if_splits)

lemma is_create_verdict:
  assumes "cs = [] \<or> (P \<and> (\<exists>r. cs = [AskCreateCluster y r]))"
  shows "filter (Not \<circ> is_create) cs = []" and "length (filter is_create cs) \<le> 1"
    and "\<not> P \<Longrightarrow> filter is_create cs = []"
  using assms by auto

lemma instance_failed_eq [ctrl_simps]:
  "instance_failed S x reason err w =
     (let res = instance_updateStatus S x ConditionFalse reason (ErrorText err) w
      in (Returns (case fst (fst res) of None \<Rightarrow> (no_requeue, Some err) | Some e \<Rightarrow> (requeue, Some e)),
          snd res))"
  by (auto simp: instance_failed_def Let_def split: prod.splits option.splits)

lemma InstanceReadyUpdate_eq [ctrl_simps]:
  "InstanceReadyUpdate S x w =
     (let res = StatusUpdateInstance (svc_Client S) (with_phase InstancePhaseReady x) w
      in case fst (fst res) of
          None \<Rightarrow> (Returns (no_requeue, None), snd res)
        | Some err \<Rightarrow>
            if IsConflict err then (Returns (requeue, None), snd res)
            else (let res2 = instance_updateStatus S (snd (fst res)) ConditionTrue InstanceReady
                        (ErrorText err) (snd res)
                  in (Returns (case fst (fst res2) of
                         None \<Rightarrow> (no_requeue, None) | Some e \<Rightarrow> (requeue, Some e)), snd res2)))"
  by (auto simp: InstanceReadyUpdate_def Let_def split: prod.splits option.splits)

lemma InstanceFinish_eq:
  "InstanceFinish S c x w =
     (case updateClusterDetails c (ins_Status x) of
        Panics p \<Rightarrow> (Panics p, w)
      | Returns (None, st) \<Rightarrow> InstanceReadyUpdate S (x\<lparr>ins_Status := st\<rparr>) w
      | Returns (Some err, st) \<Rightarrow>
          (let res = instance_updateStatus S x ConditionFalse BackendError (ErrorText err) w
           in case fst (fst res) of
               None \<Rightarrow> InstanceReadyUpdate S (snd (fst res)) (snd res)
             | Some e \<Rightarrow> (Returns (requeue, Some e), snd res)))"
  by (auto simp: InstanceFinish_def Let_def split: outcome.splits prod.splits option.splits)

lemma instance_failed_noting:
  "instance_failed (noting_service S) x reason err (w, l) =
     (let y = instance_with_condition (svc_Client S) w x
                (mk_condition connectionConditionReadyType ConditionFalse reason (ErrorText err));
          res = StatusUpdateInstance (svc_Client S) y w
      in (Returns (case swallow_conflict (fst (fst res)) of
            None \<Rightarrow> (no_requeue, Some err) | Some e \<Rightarrow> (requeue, Some e)),
          (snd res, l @ [WriteInstanceStatus y (fst (fst res))])))"
  by (simp add: instance_failed_eq instance_updateStatus_noting Let_def)

text \<open>The observing service observes only: same result, same world, and the log only grows.\<close>

lemma InstanceReadyUpdate_noting:
  "\<exists>ws. InstanceReadyUpdate (noting_service S) x (w, l) =
     (fst (InstanceReadyUpdate S x w), (snd (InstanceReadyUpdate S x w), l @ ws)) \<and>
     filter is_create ws = []"
  by (simp add: InstanceReadyUpdate_eq noting_eq instance_updateStatus_eq instance_updateStatus_noting
      Let_def split: option.splits)

lemma InstanceFinish_noting:
  "\<exists>ws. InstanceFinish (noting_service S) c x (w, l) =
     (fst (InstanceFinish S c x w), (snd (InstanceFinish S c x w), l @ ws)) \<and>
     filter is_create ws = []"
proof -
  have ready: "\<exists>ws. InstanceReadyUpdate (noting_service S) y (w', l @ [WriteInstanceStatus z e]) =
      (fst (InstanceReadyUpdate S y w'), (snd (InstanceReadyUpdate S y w'), l @ ws)) \<and>
      filter is_create ws = []" for y w' z e
  proof -
    obtain ws where "InstanceReadyUpdate (noting_service S) y (w', l @ [WriteInstanceStatus z e]) =
        (fst (InstanceReadyUpdate S y w'), (snd (InstanceReadyUpdate S y w'),
         (l @ [WriteInstanceStatus z e]) @ ws))" "filter is_create ws = []"
      using InstanceReadyUpdate_noting [of S y w' "l @ [WriteInstanceStatus z e]"] by blast
    then show ?thesis by (intro exI [of _ "WriteInstanceStatus z e # ws"]) simp
  qed
  show ?thesis
    by (auto simp: InstanceFinish_eq instance_updateStatus_eq noting_eq Let_def
        InstanceReadyUpdate_noting ready split: outcome.splits prod.splits option.splits)
qed

lemma instance_verdict_NoWrite:
  assumes "instance_verdict S x w = (NoWrite err, w')"
  shows "GetInventory (svc_Client S) (ins_InventoryRef (ins_Spec x)) w = (Inl err, w') \<and> \<not> IsNotFound err"
  using assms
  by (auto simp: instance_verdict_def verdict_of_call_def apfst_def map_prod_def
      split: prod.splits sum.splits if_splits)

lemma act_on_verdict_noting:
  "\<exists>ws. act_on_verdict (noting_service S) x v (w, l) =
     (fst (act_on_verdict S x v w), (snd (act_on_verdict S x v w), l @ ws)) \<and> filter is_create ws = []"
  by (cases v) (simp_all add: act_on_verdict_def InstanceFinish_noting instance_failed_noting
      instance_failed_eq instance_updateStatus_eq noting_eq Let_def)

section \<open>The sample instance\<close>

text \<open>
  The runs the theorems above are applied to: the sample instance on the store and the new cloud,
  once as it is, once without its inventory, once with a store that refuses the next write.
\<close>

definition sample_cluster :: Cluster where
  "sample_cluster = mk_cluster ''a-cluster-instance-id-dbaas'' ''dbaas'' ''AWS'' []
     [mk_region ''region-2'' ''free-tier5.cloud'']"

definition world_after_create :: "store \<Rightarrow> store \<times> FakeClusters" where
  "world_after_create st = (st, send_addCluster sample_cluster NewFakeClusters)"

lemma sample_create:
  "FakeCreateCluster sample_consts NewFakeAPIClient (with_phase ph sample_instance) (st, NewFakeClusters) =
     (Inr (Some sample_cluster), world_after_create st)"
proof -
  have req: "\<lparr>req_Name = ''dbaas'', req_Provider = ''AWS''\<rparr> = sample_request"
    by (simp add: sample_request_def)
  have "CreateCluster sample_request NewFakeClusters =
      ((Inr sample_cluster, buildFakeResponse), send_addCluster sample_cluster NewFakeClusters)"
    using sample_created by (simp add: CreateCluster_def sample_cluster_def)
  then show ?thesis
    by (simp add: FakeCreateCluster_def getClusterParameter_def sample_instance_def sample_consts_def
        with_phase_def NewFakeAPIClient_sel req world_after_create_def Let_def)
qed

lemma sample_get:
  assumes "map_of (st_instances st) (sample_key ''providerinstance-sample'') = Some sample_instance"
  shows "GetInstance (svc_Client sample_operator) (sample_key ''providerinstance-sample'') (st, f) =
    (Inr sample_instance, (st, f))"
  using assms by (simp add: on_left_eq read_store_def)

lemma sample_verdict:
  assumes "st_inventories st = [(sample_key ''test'', sample_inventory)]"
  shows "instance_verdict sample_operator sample_instance (st, NewFakeClusters) =
    (GotCluster InstancePhaseCreating (Some sample_cluster), world_after_create st)"
  using assms by (simp add: instance_verdict_def on_left_eq read_store_def sample_create verdict_of_call_def)

lemma sample_cluster_info: "\<exists>info. PopulateInstanceInfo sample_cluster = Returns info"
  by (simp add: PopulateInstanceInfo_def sample_cluster_def)

lemma sample_cluster_id [simp]: "cl_Id sample_cluster = ''a-cluster-instance-id-dbaas''"
  by (simp add: sample_cluster_def)

section \<open>Guarantees of a reconciliation\<close>

text \<open>
  C13. One reconciliation asks the cloud for at most one new cluster, and never for an instance that
  already has an identifier. Watching it changes neither its result nor the world.
\<close>

theorem create_asked_at_most_once:
  assumes "GetInstance (svc_Client S) req w = (Inr x, w1)"
  shows "\<exists>ws. InstanceReconcile (noting_service S) req (w, []) =
      (fst (InstanceReconcile S req w), (snd (InstanceReconcile S req w), ws)) \<and>
    length (filter is_create ws) \<le> 1 \<and>
    (ins_InstanceID (ins_Status x) \<noteq> [] \<longrightarrow> filter is_create ws = [])"
proof -
  obtain v w2 where v: "instance_verdict S x w1 = (v, w2)" by fastforce
  then obtain cs where cs: "instance_verdict (noting_service S) x (w1, []) = (v, (w2, [] @ cs))"
      "cs = [] \<or> (ins_InstanceID (ins_Status x) = [] \<and>
        (\<exists>r. cs = [AskCreateCluster (with_phase InstancePhaseCreating x) r]))"
    by (rule instance_verdict_noting)
  obtain ws where "act_on_verdict (noting_service S) x v (w2, cs) =
     (fst (act_on_verdict S x v w2), (snd (act_on_verdict S x v w2), cs @ ws))" "filter is_create ws = []"
    using act_on_verdict_noting [of S x v w2 cs] by blast
  with assms v cs(1) is_create_verdict [OF cs(2)] show ?thesis
    by (simp add: InstanceReconcile_verdict on_left_eq)
qed

theorem create_asked_at_most_once_witness:
  "\<exists>ws. InstanceReconcile (noting_service sample_operator) (sample_key ''providerinstance-sample'')
      (sample_world, []) = (fst (InstanceReconcile sample_operator (sample_key ''providerinstance-sample'')
         sample_world), (snd (InstanceReconcile sample_operator (sample_key ''providerinstance-sample'')
         sample_world), ws)) \<and> length (filter is_create ws) \<le> 1"
  using create_asked_at_most_once [of sample_operator "sample_key ''providerinstance-sample''"
      sample_world sample_instance sample_world]
  by (simp add: sample_world_def on_left_eq read_store_def)

text \<open>
  C11. Every failure before there is a cluster is reported and retried. An instance that cannot be
  read ends the request without a write, and without an error exactly when it is gone. An inventory
  that cannot be read for another reason than that it is missing is not written to the status
  either; its error is returned, so the request comes back. A missing inventory, a cloud service
  that cannot be made, a cluster that cannot be created or fetched: exactly one status is written,
  with the phase the handler had reached, the condition false with the step's reason and error text,
  and identifier, spec and metadata untouched; the handler then returns the write's error unless that
  is a conflict, and otherwise the step's own, so the request comes back. (What happens once there
  is a cluster is the subject of other theorems: failures of the last steps are not all reported.)
\<close>

theorem instance_failure_reported:
  assumes "set_condition_contract (svc_Client S)"
    and "InstanceReconcile (noting_service S) req (w, []) = (out, (w', ws))"
  shows "case GetInstance (svc_Client S) req w of
      (Inl err, w1) \<Rightarrow> ws = [] \<and> out = Returns (no_requeue, if IsNotFound err then None else Some err)
    | (Inr x, w1) \<Rightarrow>
        (case fst (instance_verdict S x w1) of
           NoWrite err \<Rightarrow>
             fst (GetInventory (svc_Client S) (ins_InventoryRef (ins_Spec x)) w1) = Inl err \<and>
             \<not> IsNotFound err \<and> ws = [] \<and> out = Returns (no_requeue, Some err)
         | FailedIn ph reason err \<Rightarrow>
             (\<exists>y e res. filter (Not \<circ> is_create) ws = [WriteInstanceStatus y e] \<and>
                ins_Phase (ins_Status y) = ph \<and>
                instance_condition y = Some (ConditionFalse, reason, ErrorText err) \<and>
                ins_InstanceID (ins_Status y) = ins_InstanceID (ins_Status x) \<and>
                ins_Spec y = ins_Spec x \<and> ins_ObjectMeta y = ins_ObjectMeta x \<and>
                out = Returns res \<and>
                snd res = Some (case swallow_conflict e of None \<Rightarrow> err | Some se \<Rightarrow> se) \<and>
                will_retry res)
         | GotCluster _ _ \<Rightarrow> True)"
proof (cases "GetInstance (svc_Client S) req w")
  case (Pair g w1)
  show ?thesis
  proof (cases g)
    case (Inl err)
    with Pair assms(2) show ?thesis by (simp add: InstanceReconcile_verdict on_left_eq)
  next
    case (Inr x)
    obtain v w2 where v: "instance_verdict S x w1 = (v, w2)" by fastforce
    then obtain cs where
      cs: "instance_verdict (noting_service S) x (w1, []) = (v, (w2, [] @ cs))"
        "cs = [] \<or> (ins_InstanceID (ins_Status x) = [] \<and>
          (\<exists>r. cs = [AskCreateCluster (with_phase InstancePhaseCreating x) r]))"
      by (rule instance_verdict_noting)
    from assms(2) Pair Inr cs(1) have
      run: "(out, (w', ws)) = act_on_verdict (noting_service S) x v (w2, cs)"
      by (simp add: InstanceReconcile_verdict on_left_eq)
    show ?thesis
    proof (cases v)
      case (NoWrite err)
      note no_inventory = instance_verdict_NoWrite [OF v [unfolded NoWrite]]
      then have "instance_verdict (noting_service S) x (w1, []) = (NoWrite err, (w2, []))"
        by (simp add: instance_verdict_def on_left_eq)
      with cs(1) have "cs = []" by simp
      with run no_inventory Pair Inr v NoWrite show ?thesis by (simp add: act_on_verdict_def)
    next
      case (FailedIn ph reason err)
      with run is_create_verdict(1) [OF cs(2)] Pair Inr v show ?thesis
        by (auto simp: act_on_verdict_def instance_failed_noting Let_def
            instance_condition_written [OF assms(1)] will_retry_def split: option.splits)
    qed (simp add: Pair Inr v)
  qed
qed

theorem instance_failure_reported_witness:
  "\<exists>y e out w' ws. InstanceReconcile (noting_service sample_operator) (sample_key ''providerinstance-sample'')
      ((sample_store\<lparr>st_inventories := []\<rparr>, NewFakeClusters), []) = (Returns out, (w', ws)) \<and>
    filter (Not \<circ> is_create) ws = [WriteInstanceStatus y e] \<and>
    instance_condition y = Some (ConditionFalse, InventoryNotFound, ''not found'') \<and>
    ins_Phase (ins_Status y) = InstancePhaseUnknown \<and> will_retry out"
proof -
  let ?st = "sample_store\<lparr>st_inventories := []\<rparr>"
  obtain out w' ws where run: "InstanceReconcile (noting_service sample_operator)
      (sample_key ''providerinstance-sample'') ((?st, NewFakeClusters), []) = (out, (w', ws))"
    by (metis prod.exhaust)
  have g: "GetInstance (svc_Client sample_operator) (sample_key ''providerinstance-sample'')
      (?st, NewFakeClusters) = (Inr sample_instance, (?st, NewFakeClusters))"
    by (rule sample_get) simp
  have v: "instance_verdict sample_operator sample_instance (?st, NewFakeClusters) =
      (FailedIn InstancePhaseUnknown InventoryNotFound missing, (?st, NewFakeClusters))"
    by (simp add: instance_verdict_def on_left_eq read_store_def)
  have c: "set_condition_contract (svc_Client sample_operator)" by (simp add: sample_contracts)
  have t: "ErrorText missing = ''not found''" by (simp add: missing_def)
  from instance_failure_reported [OF c run, unfolded g v prod.case sum.case fst_conv
      instance_verdict.case t] run show ?thesis
    by blast
qed

text \<open>
  The step-by-step reading of a reconciliation that got a cluster, over the watched service.
\<close>

lemma InstanceReconcile_got_cluster:
  assumes "GetInstance (svc_Client S) req w = (Inr x, w1)"
    and "instance_verdict S x w1 = (GotCluster ph c, w2)"
  obtains cs where "filter (Not \<circ> is_create) cs = []"
    and "InstanceReconcile (noting_service S) req (w, []) =
      InstanceFinish (noting_service S) c (with_phase ph x) (w2, cs)"
proof -
  from assms(2) obtain cs where
    cs: "instance_verdict (noting_service S) x (w1, []) = (GotCluster ph c, (w2, [] @ cs))"
      "cs = [] \<or> (ins_InstanceID (ins_Status x) = [] \<and>
        (\<exists>r. cs = [AskCreateCluster (with_phase InstancePhaseCreating x) r]))"
    by (rule instance_verdict_noting)
  with assms(1) is_create_verdict(1) [OF cs(2)] show thesis
    by (intro that [of cs]) (simp_all add: InstanceReconcile_verdict on_left_eq act_on_verdict_def)
qed

text \<open>The status a successful reconciliation writes.\<close>

definition ready_status :: "Cluster \<Rightarrow> (string, string) go_map \<Rightarrow> instance_status \<Rightarrow> instance_status" where
  "ready_status c info st =
     st\<lparr>ins_Phase := InstancePhaseReady, ins_InstanceID := cl_Id c, ins_InstanceInfo := info\<rparr>"

lemma with_phase_ready_status:
  "with_phase InstancePhaseReady ((with_phase ph x)
     \<lparr>ins_Status := (ins_Status (with_phase ph x))\<lparr>ins_InstanceID := cl_Id c, ins_InstanceInfo := info\<rparr>\<rparr>) =
   x\<lparr>ins_Status := ready_status c info (ins_Status x)\<rparr>"
  by (simp add: with_phase_def ready_status_def)

text \<open>
  C12. With a cluster in hand, the first and usually only status write stores the cluster's
  identifier and info with the phase Ready, and leaves the spec and the conditions as they were: a
  condition an earlier failure set to false stays false, and none is ever set to true. The write's
  outcome decides the rest: success ends the request, a conflict requeues it.
\<close>

theorem instance_success_written:
  assumes "GetInstance (svc_Client S) req w = (Inr x, w1)"
    and "instance_verdict S x w1 = (GotCluster ph (Some c), w2)"
    and "cl_Id c \<noteq> []" and "PopulateInstanceInfo c = Returns info"
    and "StatusUpdateInstance (svc_Client S) (x\<lparr>ins_Status := ready_status c info (ins_Status x)\<rparr>) w2 =
      ((e, x'), w3)"
    and "\<And>err. e = Some err \<Longrightarrow> IsConflict err"
    and "InstanceReconcile (noting_service S) req (w, []) = (out, (w', ws))"
  shows "filter (Not \<circ> is_create) ws =
      [WriteInstanceStatus (x\<lparr>ins_Status := ready_status c info (ins_Status x)\<rparr>) e] \<and>
    w' = w3 \<and> out = Returns (if e = None then no_requeue else requeue, None) \<and>
    ins_Conditions (ready_status c info (ins_Status x)) = ins_Conditions (ins_Status x)"
proof -
  obtain cs where cs: "filter (Not \<circ> is_create) cs = []"
    "InstanceReconcile (noting_service S) req (w, []) =
      InstanceFinish (noting_service S) (Some c) (with_phase ph x) (w2, cs)"
    by (rule InstanceReconcile_got_cluster [OF assms(1,2)])
  have "updateClusterDetails (Some c) (ins_Status (with_phase ph x)) = Returns (None,
      (ins_Status (with_phase ph x))\<lparr>ins_InstanceID := cl_Id c, ins_InstanceInfo := info\<rparr>)"
    using assms(3,4) by (simp add: updateClusterDetails_def)
  with cs assms(5,6,7) show ?thesis
    by (cases e) (auto simp: InstanceFinish_eq InstanceReadyUpdate_eq with_phase_ready_status noting_eq
        Let_def ready_status_def [of c info "ins_Status x", THEN arg_cong, of ins_Conditions])
qed

theorem instance_success_written_witness:
  "\<exists>y ws w'. InstanceReconcile (noting_service sample_operator) (sample_key ''providerinstance-sample'')
      (sample_world, []) = (Returns (no_requeue, None), (w', ws)) \<and>
    filter (Not \<circ> is_create) ws = [WriteInstanceStatus y None] \<and>
    ins_InstanceID (ins_Status y) = ''a-cluster-instance-id-dbaas'' \<and>
    ins_Phase (ins_Status y) = InstancePhaseReady \<and> ins_Conditions (ins_Status y) = []"
proof -
  obtain info where info: "PopulateInstanceInfo sample_cluster = Returns info"
    using sample_cluster_info by blast
  let ?y = "sample_instance\<lparr>ins_Status := ready_status sample_cluster info (ins_Status sample_instance)\<rparr>"
  obtain out w' ws where run: "InstanceReconcile (noting_service sample_operator)
      (sample_key ''providerinstance-sample'') ((sample_store, NewFakeClusters), []) = (out, (w', ws))"
    by (metis prod.exhaust)
  have g: "GetInstance (svc_Client sample_operator) (sample_key ''providerinstance-sample'')
      (sample_store, NewFakeClusters) = (Inr sample_instance, (sample_store, NewFakeClusters))"
    by (rule sample_get) simp
  obtain x' w3 where u: "StatusUpdateInstance (svc_Client sample_operator) ?y
      (world_after_create sample_store) = ((None, x'), w3)"
    by (simp add: world_after_create_def on_left_eq store_client_updates)
  have id: "cl_Id sample_cluster \<noteq> []" by simp
  have v: "instance_verdict sample_operator sample_instance (sample_store, NewFakeClusters) =
      (GotCluster InstancePhaseCreating (Some sample_cluster), world_after_create sample_store)"
    by (rule sample_verdict) simp
  have none: "\<And>err. None = Some err \<Longrightarrow> IsConflict err" by simp
  from instance_success_written [OF g v id info u none run] run show ?thesis
    by (auto simp: sample_world_def ready_status_def)
qed

text \<open>
  C35. If that write fails for another reason than a conflict, the handler writes once more, now
  with the ready condition true and the error's text as its message, and when this second write is
  accepted it returns success: the failed write is neither reported nor retried.
\<close>

theorem instance_write_error_hidden:
  assumes "GetInstance (svc_Client S) req w = (Inr x, w1)"
    and "instance_verdict S x w1 = (GotCluster ph (Some c), w2)"
    and "cl_Id c \<noteq> []" and "PopulateInstanceInfo c = Returns info"
    and "StatusUpdateInstance (svc_Client S) (x\<lparr>ins_Status := ready_status c info (ins_Status x)\<rparr>) w2 =
      ((Some err, x1), w3)"
    and "\<not> IsConflict err"
    and "set_condition_contract (svc_Client S)"
    and "InstanceReconcile (noting_service S) req (w, []) = (out, (w', ws))"
  shows "\<exists>y e2. filter (Not \<circ> is_create) ws =
      [WriteInstanceStatus (x\<lparr>ins_Status := ready_status c info (ins_Status x)\<rparr>) (Some err),
       WriteInstanceStatus y e2] \<and>
    instance_condition y = Some (ConditionTrue, InstanceReady, ErrorText err) \<and>
    (swallow_conflict e2 = None \<longrightarrow> out = Returns (no_requeue, None))"
proof -
  obtain cs where cs: "filter (Not \<circ> is_create) cs = []"
    "InstanceReconcile (noting_service S) req (w, []) =
      InstanceFinish (noting_service S) (Some c) (with_phase ph x) (w2, cs)"
    by (rule InstanceReconcile_got_cluster [OF assms(1,2)])
  have "updateClusterDetails (Some c) (ins_Status (with_phase ph x)) = Returns (None,
      (ins_Status (with_phase ph x))\<lparr>ins_InstanceID := cl_Id c, ins_InstanceInfo := info\<rparr>)"
    using assms(3,4) by (simp add: updateClusterDetails_def)
  with cs assms(5,6,8) show ?thesis
    by (auto simp: InstanceFinish_eq InstanceReadyUpdate_eq with_phase_ready_status noting_eq
        instance_updateStatus_noting Let_def instance_condition_written [OF assms(7)])
qed

theorem instance_write_error_hidden_witness:
  "\<exists>y1 y2 e2 w' ws out. InstanceReconcile (noting_service sample_operator)
      (sample_key ''providerinstance-sample'') ((sample_store\<lparr>st_failures := [refused]\<rparr>, NewFakeClusters), []) =
      (out, (w', ws)) \<and>
    filter (Not \<circ> is_create) ws = [WriteInstanceStatus y1 (Some refused), WriteInstanceStatus y2 e2] \<and>
    instance_condition y2 = Some (ConditionTrue, InstanceReady, ''connection refused'') \<and>
    (swallow_conflict e2 = None \<longrightarrow> out = Returns (no_requeue, None))"
proof -
  let ?st = "sample_store\<lparr>st_failures := [refused]\<rparr>"
  obtain info where info: "PopulateInstanceInfo sample_cluster = Returns info"
    using sample_cluster_info by blast
  let ?y = "sample_instance\<lparr>ins_Status := ready_status sample_cluster info (ins_Status sample_instance)\<rparr>"
  obtain out w' ws where run: "InstanceReconcile (noting_service sample_operator)
      (sample_key ''providerinstance-sample'') ((?st, NewFakeClusters), []) = (out, (w', ws))"
    by (metis prod.exhaust)
  have g: "GetInstance (svc_Client sample_operator) (sample_key ''providerinstance-sample'')
      (?st, NewFakeClusters) = (Inr sample_instance, (?st, NewFakeClusters))"
    by (rule sample_get) simp
  obtain x1 w3 where u: "StatusUpdateInstance (svc_Client sample_operator) ?y
      (world_after_create ?st) = ((Some refused, x1), w3)"
    by (simp add: world_after_create_def on_left_eq store_client_updates)
  have v: "instance_verdict sample_operator sample_instance (?st, NewFakeClusters) =
      (GotCluster InstancePhaseCreating (Some sample_cluster), world_after_create ?st)"
    by (rule sample_verdict) simp
  have id: "cl_Id sample_cluster \<noteq> []" by simp
  have c: "set_condition_contract (svc_Client sample_operator)" by (simp add: sample_contracts)
  have nc: "\<not> IsConflict refused" and t: "ErrorText refused = ''connection refused''" by simp_all
  from instance_write_error_hidden [OF g v id info u nc c run] obtain y e2 where
    "filter (Not \<circ> is_create) ws = [WriteInstanceStatus ?y (Some refused), WriteInstanceStatus y e2]"
    "instance_condition y = Some (ConditionTrue, InstanceReady, ErrorText refused)"
    "swallow_conflict e2 = None \<longrightarrow> out = Returns (no_requeue, None)" by (elim exE conjE) (rule that)
  with run show ?thesis
    unfolding t by (intro exI [of _ ?y] exI [of _ y] exI [of _ e2] exI conjI)
qed

text \<open>
  A cluster that comes back without an identifier is recognised as a backend error, and yet the
  instance ends in the phase Ready: the handler writes the false condition and, that accepted, goes
  on to write the phase Ready with the identifier still empty, and reports success.
\<close>

theorem ready_without_identifier:
  assumes "GetInstance (svc_Client S) req w = (Inr x, w1)"
    and "instance_verdict S x w1 = (GotCluster ph (Some c), w2)"
    and "cl_Id c = []"
    and "set_condition_contract (svc_Client S)"
    and "\<And>y v. fst (StatusUpdateInstance (svc_Client S) y v) = (None, y)"
    and "InstanceReconcile (noting_service S) req (w, []) = (out, (w', ws))"
  shows "\<exists>y. filter (Not \<circ> is_create) ws =
      [WriteInstanceStatus y None, WriteInstanceStatus (with_phase InstancePhaseReady y) None] \<and>
    instance_condition y = Some (ConditionFalse, BackendError, ''received cluster details with no ID'') \<and>
    ins_InstanceID (ins_Status y) = ins_InstanceID (ins_Status x) \<and>
    out = Returns (no_requeue, None)"
proof -
  obtain cs where cs: "filter (Not \<circ> is_create) cs = []"
    "InstanceReconcile (noting_service S) req (w, []) =
      InstanceFinish (noting_service S) (Some c) (with_phase ph x) (w2, cs)"
    by (rule InstanceReconcile_got_cluster [OF assms(1,2)])
  have "updateClusterDetails (Some c) (ins_Status (with_phase ph x)) =
      Returns (Some (errors_New ''received cluster details with no ID''), ins_Status (with_phase ph x))"
    using assms(3) by (simp add: updateClusterDetails_def)
  with cs assms(6) show ?thesis
    by (auto simp: InstanceFinish_eq InstanceReadyUpdate_eq noting_eq assms(5)
        instance_updateStatus_noting Let_def instance_condition_written [OF assms(4)])
qed

text \<open>A service whose cloud answers a creation with a cluster that has no identifier.\<close>

definition nameless_service ::
    "(store \<times> FakeClusters, (store \<times> FakeClusters) Service) DBaaSProviderService" where
  "nameless_service = sample_operator
     \<lparr>svc_Client := (lift_client store_client)\<lparr>StatusUpdateInstance := (\<lambda>x w. ((None, x), w))\<rparr>,
      svc_CreateCluster := (\<lambda>h x w. (Inr (Some (sample_cluster\<lparr>cl_Id := []\<rparr>)), w))\<rparr>"

theorem ready_without_identifier_witness:
  "\<exists>y w' ws. InstanceReconcile (noting_service nameless_service) (sample_key ''providerinstance-sample'')
      (sample_world, []) = (Returns (no_requeue, None), (w', ws)) \<and>
    filter (Not \<circ> is_create) ws =
      [WriteInstanceStatus y None, WriteInstanceStatus (with_phase InstancePhaseReady y) None] \<and>
    ins_InstanceID (ins_Status y) = []"
proof -
  obtain out w' ws where run: "InstanceReconcile (noting_service nameless_service)
      (sample_key ''providerinstance-sample'') (sample_world, []) = (out, (w', ws))"
    by (metis prod.exhaust)
  have g: "GetInstance (svc_Client nameless_service) (sample_key ''providerinstance-sample'')
      sample_world = (Inr sample_instance, sample_world)"
    by (simp add: nameless_service_def sample_world_def on_left_eq read_store_def)
  have v: "instance_verdict nameless_service sample_instance sample_world =
      (GotCluster InstancePhaseCreating (Some (sample_cluster\<lparr>cl_Id := []\<rparr>)), sample_world)"
    by (simp add: instance_verdict_def nameless_service_def sample_world_def on_left_eq read_store_def
        verdict_of_call_def)
  have c: "set_condition_contract (svc_Client nameless_service)"
    using sample_contracts(1) by (simp add: nameless_service_def set_condition_contract_def)
  have u: "\<And>y v. fst (StatusUpdateInstance (svc_Client nameless_service) y v) = (None, y)"
    by (simp add: nameless_service_def)
  have id: "cl_Id (sample_cluster\<lparr>cl_Id := []\<rparr>) = []" by simp
  from ready_without_identifier [OF g v id c u run] run show ?thesis by auto
qed

end
