(* ===== verification/Cloud_Isolation.thy ===== *)
theory Cloud_Isolation
  imports Inventory_Controller Instance_Controller Connection_Controller
begin

text \<open>
  Which reconciliations touch what. The contracts are locales over any provider service and any part
  of the world: when the calls a handler makes leave that part alone, so does the handler. The three
  handlers are followed through once. For the cloud's part the fake service interprets them.
\<close>

section \<open>An instance's writes\<close>

text \<open>
  What holds of the world (\<open>good\<close>) and of the instance in hand (\<open>fine\<close>) through all that the instance
  handler does after it has its verdict. A \<open>fine\<close> instance may be edited anywhere but in its metadata
  and its identifier, and may get the identifier of a cluster that is \<open>known\<close>.
\<close>

locale instance_writes =
  fixes S :: "('w, 'h) DBaaSProviderService" and good :: "'w \<Rightarrow> bool"
    and fine :: "ProviderInstance \<Rightarrow> bool" and known :: "Cluster \<Rightarrow> bool"
  assumes write_good: "good w \<Longrightarrow> fine y \<Longrightarrow> good (snd (StatusUpdateInstance (svc_Client S) y w))"
    and write_fine: "fine y \<Longrightarrow> fine (snd (fst (StatusUpdateInstance (svc_Client S) y w)))"
    and edit_fine: "fine y \<Longrightarrow> ins_ObjectMeta z = ins_ObjectMeta y \<Longrightarrow>
      ins_InstanceID (ins_Status z) = ins_InstanceID (ins_Status y) \<Longrightarrow> fine z"
    and identify_fine: "fine y \<Longrightarrow> known c \<Longrightarrow> ins_InstanceID st = cl_Id c \<Longrightarrow> fine (y\<lparr>ins_Status := st\<rparr>)"
begin

lemma fine_with_phase: "fine y \<Longrightarrow> fine (with_phase ph y)"
  by (rule edit_fine) simp_all

lemma good_updateStatus:
  assumes "good w" and "fine y"
  shows "good (snd (instance_updateStatus S y st reason msg w))"
    and "fine (snd (fst (instance_updateStatus S y st reason msg w)))"
proof -
  have "fine (instance_with_condition kc w y c)" for kc c
    using assms(2) by (rule edit_fine) simp_all
  then show "good (snd (instance_updateStatus S y st reason msg w))"
    and "fine (snd (fst (instance_updateStatus S y st reason msg w)))"
    using assms(1) by (simp_all add: instance_updateStatus_eq Let_def write_good write_fine)
qed

lemma good_ready: "good w \<Longrightarrow> fine y \<Longrightarrow> good (snd (InstanceReadyUpdate S y w))"
  by (simp add: InstanceReadyUpdate_eq Let_def write_good write_fine good_updateStatus fine_with_phase
      split: option.split)

lemma good_finish:
  assumes "good w" and "fine y" and "\<And>c. cluster = Some c \<Longrightarrow> known c"
  shows "good (snd (InstanceFinish S cluster y w))"
proof -
  have "fine (y\<lparr>ins_Status := st\<rparr>)" if "updateClusterDetails cluster (ins_Status y) = Returns (None, st)" for st
    using that assms(2,3) by (auto simp: updateClusterDetails_def split: option.splits if_splits outcome.splits
        intro!: identify_fine)
  then show ?thesis
    using assms(1,2) by (auto simp: InstanceFinish_eq Let_def good_ready good_updateStatus
        split: outcome.split option.split prod.split)
qed

lemma good_act:
  assumes "good w" and "fine x" and "\<And>ph c. v = GotCluster ph (Some c) \<Longrightarrow> known c"
  shows "good (snd (act_on_verdict S x v w))"
  using assms by (cases v)
    (auto simp: act_on_verdict_def instance_failed_eq Let_def good_updateStatus fine_with_phase
      intro!: good_finish)

end

text \<open>
  In particular, what a write of the objects in question does not change (\<open>view\<close>) is unchanged by it
  all.
\<close>

locale instance_frame =
  fixes S :: "('w, 'h) DBaaSProviderService" and view :: "'w \<Rightarrow> 'v" and mine :: "object_meta \<Rightarrow> bool"
  assumes update_view: "mine (ins_ObjectMeta y) \<Longrightarrow>
      view (snd (StatusUpdateInstance (svc_Client S) y w)) = view w"
    and update_mine: "mine (ins_ObjectMeta y) \<Longrightarrow>
      mine (ins_ObjectMeta (snd (fst (StatusUpdateInstance (svc_Client S) y w))))"

sublocale instance_frame \<subseteq> writes: instance_writes S "\<lambda>w. view w = v"
    "\<lambda>y. mine (ins_ObjectMeta y)" "\<lambda>_. True" for v
  by unfold_locales (simp_all add: update_view update_mine)

context instance_frame
begin

lemma view_act: "mine (ins_ObjectMeta x) \<Longrightarrow> view (snd (act_on_verdict S x v w)) = view w"
  by (rule writes.good_act) simp_all

end

section \<open>The cloud\<close>

text \<open>What the reconciliations of inventories and connections leave alone.\<close>

locale reader_frame =
  fixes S :: "('w, 'h) DBaaSProviderService" and cloud :: "'w \<Rightarrow> 'c" and handle :: "'h \<Rightarrow> bool"
  assumes reads: "cloud (snd (GetInventory (svc_Client S) k w)) = cloud w"
      "cloud (snd (GetConnection (svc_Client S) k w)) = cloud w"
    and writes: "cloud (snd (StatusUpdateInventory (svc_Client S) iv w)) = cloud w"
      "cloud (snd (StatusUpdateConnection (svc_Client S) x w)) = cloud w"
      "cloud (snd (CreateOrUpdateSecret (svc_Client S) s f w)) = cloud w"
      "cloud (snd (CreateOrUpdateConfigMap (svc_Client S) cm g w)) = cloud w"
    and new_handle: "cloud (snd (svc_CreateCloudService S k w)) = cloud w"
      "fst (svc_CreateCloudService S k w) = Inr h \<Longrightarrow> handle h"
    and discover: "handle h \<Longrightarrow> cloud (snd (svc_DiscoverClusters S h w)) = cloud w"
begin

lemma cloud_updateStatus:
  "cloud (snd (updateInventoryStatus S iv st reason msg w)) = cloud w"
  "cloud (snd (connection_updateStatus S x st reason msg w)) = cloud w"
  by (simp_all add: inv_status.helper_writes_once connection_updateStatus_eq Let_def writes)

lemma cloud_failed: "cloud (snd (connection_failed S x reason err w)) = cloud w"
  by (simp add: ctrl_simps Let_def writes)

lemma cloud_publish: "cloud (snd (ConnectionPublish S K x d w)) = cloud w"
proof -
  have secret: "cloud w1 = cloud w" if "createOrUpdateSecret S K x w = (r, w1)" for r w1
    using that writes(3)
    by (auto simp: createOrUpdateSecret_def Let_def split: prod.splits option.splits) (metis snd_conv)+
  have cmap: "cloud w2 = cloud w1" if "createOrUpdateConfigMap S K x d w1 = (r, w2)" for r w1 w2
    using that writes(4)
    by (auto simp: createOrUpdateConfigMap_def Let_def split: prod.splits option.splits) (metis snd_conv)+
  have upd: "cloud w2 = cloud w1" if "connection_updateStatus S y st reason msg w1 = (r, w2)"
    for y st reason msg r w1 w2 using that cloud_updateStatus(2) by (metis snd_conv)
  show ?thesis
    by (auto simp: ConnectionPublish_def Let_def cloud_failed split: prod.splits sum.splits option.splits
        dest!: secret cmap upd)
qed

lemma inventory_isolated: "cloud (snd (InventoryReconcile S req w)) = cloud w"
proof -
  have lst: "cloud w1 = cloud w" if "inventory_listing S iv w = (r, w1)" for iv r w w1
    using that new_handle(1) [of "ObjectKey (om_Namespace (inv_ObjectMeta iv))
        (inv_CredentialsRef_Name (inv_Spec iv))" w] new_handle(2) discover
    by (auto simp: inventory_listing_def split: prod.splits sum.splits) (metis fst_conv snd_conv)
  have get: "cloud w1 = cloud w" if "GetInventory (svc_Client S) req w = (r, w1)" for r w1
    using that reads(1) by (metis snd_conv)
  have upd: "cloud w2 = cloud w1" if "updateInventoryStatus S y st reason msg w1 = (r, w2)"
    for y st reason msg r w1 w2 using that cloud_updateStatus(1) by (metis snd_conv)
  show ?thesis
    by (auto simp: InventoryReconcile_listing cloud_updateStatus
        split: prod.splits sum.splits outcome.splits dest!: get lst upd)
qed

lemma connection_isolated: "cloud (snd (ConnectionReconcile S K req w)) = cloud w"
proof -
  have get: "cloud w1 = cloud w" if "GetConnection (svc_Client S) req w = (r, w1)" for r w1
    using that reads(2) by (metis snd_conv)
  have verdict: "cloud (snd (connection_verdict S x w)) = cloud w" for x w
    using reads(1) new_handle(1)
    by (auto simp: connection_verdict_def split: prod.splits sum.splits) (metis snd_conv)+
  have act: "cloud (snd (act_on_connection_verdict S K x v w)) = cloud w" for x v w
    by (cases v) (simp_all add: act_on_connection_verdict_def cloud_failed cloud_publish)
  show ?thesis
    using verdict by (auto simp: ConnectionReconcile_verdict act split: prod.splits sum.splits dest!: get)
      (metis snd_conv)
qed

end

locale cloud_isolation = reader_frame S cloud handle
  for S :: "('w, 'h) DBaaSProviderService" and cloud :: "'w \<Rightarrow> 'c" and handle :: "'h \<Rightarrow> bool" +
  assumes instance_calls: "cloud (snd (GetInstance (svc_Client S) k w)) = cloud w"
      "cloud (snd (StatusUpdateInstance (svc_Client S) y w)) = cloud w"
    and get_cluster: "handle h \<Longrightarrow> cloud (snd (svc_GetCluster S h i w)) = cloud w"
begin

lemma verdict_isolated:
  assumes "ins_InstanceID (ins_Status x) \<noteq> []"
  shows "cloud (snd (instance_verdict S x w)) = cloud w"
  using assms reads(1) new_handle get_cluster
  by (auto simp: instance_verdict_def split: prod.splits sum.splits) (metis fst_conv snd_conv)+

end

sublocale cloud_isolation \<subseteq> frame: instance_frame S cloud "\<lambda>_. True"
  by unfold_locales (simp_all add: instance_calls)

context cloud_isolation
begin

lemma instance_cloud:
  "cloud (snd (InstanceReconcile S req w)) =
     (case GetInstance (svc_Client S) req w of
        (Inl err, w1) \<Rightarrow> cloud w
      | (Inr x, w1) \<Rightarrow> cloud (snd (instance_verdict S x w1)))"
proof -
  have get: "cloud w1 = cloud w" if "GetInstance (svc_Client S) req w = (r, w1)" for r w1
    using that instance_calls(1) by (metis snd_conv)
  show ?thesis
    by (auto simp: InstanceReconcile_verdict frame.view_act split: prod.splits sum.splits dest: get)
qed

end

interpretation fake_isolated: cloud_isolation "FakeProviderService K kc" snd "\<lambda>h. h = NewFakeAPIClient"
  for K :: dbaas_consts and kc :: "'k kube_client"
  by unfold_locales
    (auto simp: on_left_def FakeCreateCloudService_def FakeDiscoverClusters_def FakeGetCluster_def
      retrieveClientCredential_def NewFakeAPIClient_def ListClusters_def GetCluster_def Let_def
      split: prod.splits sum.splits option.splits)

text \<open>
  Inventories and connections only read the cloud: whatever the Kubernetes side does and whatever
  state the fake cloud is in, reconciling them leaves the cloud as it was, pending creations included.
\<close>

theorem readers_leave_cloud_alone:
  "snd (snd (InventoryReconcile (FakeProviderService K kc) req w)) = snd w \<and>
   snd (snd (ConnectionReconcile (FakeProviderService K kc) K req w)) = snd w"
  using fake_isolated.inventory_isolated fake_isolated.connection_isolated by blast

lemma instance_cloud_cases:
  "snd (snd (InstanceReconcile (FakeProviderService K kc) req (k, f))) = f \<or>
   (\<exists>x n p. fst (GetInstance kc req k) = Inr x \<and> ins_InstanceID (ins_Status x) = [] \<and> n \<noteq> [] \<and>
      map_of (ins_ProvisioningParameters (ins_Spec x)) (ProvisioningName K) = Some n \<and>
      snd (snd (InstanceReconcile (FakeProviderService K kc) req (k, f))) =
        snd (CreateCluster \<lparr>req_Name = n, req_Provider = p\<rparr> f))"
proof (cases "fst (GetInstance kc req k)")
  case (Inl e)
  then show ?thesis by (simp add: fake_isolated.instance_cloud on_left_eq)
next
  case (Inr x)
  let ?S = "FakeProviderService K kc" and ?k = "snd (GetInstance kc req k)"
  have cloud: "snd (snd (InstanceReconcile ?S req (k, f))) = snd (snd (instance_verdict ?S x (?k, f)))"
    using Inr by (simp add: fake_isolated.instance_cloud on_left_eq)
  show ?thesis
  proof (cases "ins_InstanceID (ins_Status x) = []")
    case False
    then show ?thesis by (simp add: cloud fake_isolated.verdict_isolated)
  next
    case True
    have name: "req_Name (creation_request K (with_phase ph x)) = n \<longleftrightarrow>
        (case map_of (ins_ProvisioningParameters (ins_Spec x)) (ProvisioningName K) of
           None \<Rightarrow> n = [] | Some m \<Rightarrow> n = m)" for ph n
      by (auto simp: creation_request_def getClusterParameter_def split: option.splits)
    let ?r = "creation_request K (with_phase InstancePhaseCreating x)"
    have "snd (snd (instance_verdict ?S x (?k, f))) = f \<or> (req_Name ?r \<noteq> [] \<and>
        snd (snd (instance_verdict ?S x (?k, f))) = snd (CreateCluster ?r f))"
      using True by (auto simp: instance_verdict_def on_left_eq FakeCreateCloudService_eq
          FakeCreateCluster_eq split: sum.splits)
    moreover obtain n p where r: "?r = \<lparr>req_Name = n, req_Provider = p\<rparr>" by (cases ?r)
    ultimately show ?thesis
      using Inr True name [of InstancePhaseCreating n]
      by (auto simp: cloud r split: option.splits)
  qed
qed

text \<open>
  C27. Reconciling an instance leaves the cloud as it was or makes exactly one creation request, and
  that only when the instance has no identifier yet and has a name parameter, which is the name the
  cloud is asked for.
\<close>

theorem instance_changes_cloud_by_creation:
  "snd (snd (InstanceReconcile (FakeProviderService K kc) req (k, f))) = f \<or>
   (\<exists>x n p. fst (GetInstance kc req k) = Inr x \<and> ins_InstanceID (ins_Status x) = [] \<and> n \<noteq> [] \<and>
      map_of (ins_ProvisioningParameters (ins_Spec x)) (ProvisioningName K) = Some n \<and>
      snd (snd (InstanceReconcile (FakeProviderService K kc) req (k, f))) =
        snd (CreateCluster \<lparr>req_Name = n, req_Provider = p\<rparr> f))"
  by (rule instance_cloud_cases)

section \<open>What a connection depends on\<close>

lemma lifted_pieces:
  "connection_with_condition (lift_client kc) (k, f) x c = connection_with_condition kc k x c"
  "secret_mutate (lift_client kc) = secret_mutate kc"
  "configmap_mutate (lift_client kc) = configmap_mutate kc"
  by (simp_all add: connection_with_condition_def fun_eq_iff secret_mutate_def configmap_mutate_def)

text \<open>Same result and same Kubernetes side, whatever the cloud.\<close>

definition same_without_cloud :: "'a \<times> ('k \<times> FakeClusters) \<Rightarrow> 'a \<times> ('k \<times> FakeClusters) \<Rightarrow> bool" where
  "same_without_cloud a b \<longleftrightarrow> fst a = fst b \<and> fst (snd a) = fst (snd b)"

lemma same_without_cloud_triple [simp]: "same_without_cloud (a, (k, f)) (a, (k, g))"
  by (simp add: same_without_cloud_def)

lemma failed_without_cloud:
  "same_without_cloud (connection_failed (FakeProviderService K kc) x reason err (k, f))
     (connection_failed (FakeProviderService K kc) x reason err (k, g))"
  by (simp add: same_without_cloud_def connection_failed_eq connection_updateStatus_eq on_left_eq
      lifted_pieces Let_def)

lemma secret_without_cloud:
  "createOrUpdateSecret (FakeProviderService K kc) C x (k, f) =
     (fst (createOrUpdateSecret (FakeProviderService K kc) C x (k, g)),
      (fst (snd (createOrUpdateSecret (FakeProviderService K kc) C x (k, g))), f))"
  "createOrUpdateConfigMap (FakeProviderService K kc) C x d (k, f) =
     (fst (createOrUpdateConfigMap (FakeProviderService K kc) C x d (k, g)),
      (fst (snd (createOrUpdateConfigMap (FakeProviderService K kc) C x d (k, g))), f))"
  by (simp_all add: createOrUpdateSecret_def createOrUpdateConfigMap_def on_left_eq lifted_pieces Let_def
      split: prod.split option.split)

lemma publish_without_cloud:
  "same_without_cloud (ConnectionPublish (FakeProviderService K kc) C x d (k, f))
     (ConnectionPublish (FakeProviderService K kc) C x d (k, g))"
proof -
  let ?S = "FakeProviderService K kc"
  obtain r k1 where s: "createOrUpdateSecret ?S C x (k, g) = (r, (k1, g))"
    using secret_without_cloud(1) [of K kc C x k g g] by metis
  obtain q k2 where c: "createOrUpdateConfigMap ?S C x d (k1, g) = (q, (k2, g))"
    using secret_without_cloud(2) [of K kc C x d k1 g g] by metis
  have f: "createOrUpdateSecret ?S C x (k, f) = (r, (k1, f))"
    "createOrUpdateConfigMap ?S C x d (k1, f) = (q, (k2, f))"
    using secret_without_cloud(1) [of K kc C x k f g] secret_without_cloud(2) [of K kc C x d k1 f g] s c
    by simp_all
  show ?thesis
    using failed_without_cloud [of K kc x _ _ _ f g]
    by (cases r; cases q) (simp_all add: ConnectionPublish_def s c f same_without_cloud_def
        connection_updateStatus_eq on_left_eq lifted_pieces Let_def split: option.split)
qed

text \<open>
  C33. A connection's reconciliation does not depend on the cloud: it creates a cloud service and never
  calls it. Result, errors and everything written are the same over any two states of the cloud, so a
  connection to a service that the inventory once listed becomes ready although the cloud no longer
  has the cluster.
\<close>

theorem connection_ignores_cloud:
  "fst (ConnectionReconcile (FakeProviderService K kc) C req (k, f)) =
     fst (ConnectionReconcile (FakeProviderService K kc) C req (k, g)) \<and>
   fst (snd (ConnectionReconcile (FakeProviderService K kc) C req (k, f))) =
     fst (snd (ConnectionReconcile (FakeProviderService K kc) C req (k, g)))"
proof -
  have act: "same_without_cloud (act_on_connection_verdict (FakeProviderService K kc) C x v (k', f))
      (act_on_connection_verdict (FakeProviderService K kc) C x v (k', g))" for x v k'
    by (cases v) (simp_all add: act_on_connection_verdict_def failed_without_cloud publish_without_cloud)
  have verdict: "connection_verdict (FakeProviderService K kc) x (k', f) =
      (fst (connection_verdict (FakeProviderService K kc) x (k', g)),
       (fst (snd (connection_verdict (FakeProviderService K kc) x (k', g))), f))" for x k' f g
    by (auto simp: connection_verdict_def on_left_eq FakeCreateCloudService_eq split: sum.split)
  show ?thesis
  proof (cases "GetConnection kc req k")
    case (Pair r k1)
    show ?thesis
    proof (cases r)
      case (Inl e)
      with Pair show ?thesis by (simp add: ConnectionReconcile_verdict on_left_eq)
    next
      case (Inr x)
      obtain v k2 where v: "connection_verdict (FakeProviderService K kc) x (k1, f) = (v, (k2, f))"
        using verdict [of x k1 f f] by metis
      with verdict [of x k1 g f] have "connection_verdict (FakeProviderService K kc) x (k1, g) = (v, (k2, g))"
        by simp
      with v Pair Inr act [of x v k2] show ?thesis
        by (simp add: ConnectionReconcile_verdict on_left_eq same_without_cloud_def)
    qed
  qed
qed

end
