(* ===== verification/Provider_Reconciler.thy ===== *)
theory Provider_Reconciler
  imports Provider_Spec Manager
begin

text \<open>
  \<^verbatim>\<open>controllers/dbaas/dbaasprovider_reconciler.go\<close>: the controller that registers the provider. It
  watches the operator's own deployment and creates one cluster-scoped \<^verbatim>\<open>DBaaSProvider\<close> resource,
  owned by a cluster role of the operator's bundle. The Kubernetes calls it makes are the fields of
  \<open>provider_client\<close>, a parameter.
\<close>

section \<open>Types\<close>

record DBaaSProvider =
  prov_ObjectMeta :: object_meta
  prov_Spec :: DBaaSProviderSpec

text \<open>
  A deployment and a cluster role are known by their metadata only. A discovery answer is the list of
  the kinds of the group's resources; the label selector of the list options is a map of required
  labels; \<^verbatim>\<open>NewNotFound\<close> takes group, resource and name.
\<close>

record 'w provider_client =
  GetDeployment :: "object_key \<Rightarrow> 'w \<Rightarrow> (go_error + object_meta) \<times> 'w"
  ServerResourcesForGroupVersion :: "string \<Rightarrow> 'w \<Rightarrow> (go_error + string list) \<times> 'w"
  GetProvider :: "object_key \<Rightarrow> 'w \<Rightarrow> (go_error + DBaaSProvider) \<times> 'w"
  ListClusterRoles :: "(string, string) go_map \<Rightarrow> 'w \<Rightarrow> (go_error + object_meta list) \<times> 'w"
  CreateProvider :: "DBaaSProvider \<Rightarrow> 'w \<Rightarrow> go_error option \<times> 'w"
  NewNotFound :: "string \<Rightarrow> string \<Rightarrow> string \<Rightarrow> go_error"

record DBaaSProviderReconciler =
  operatorNameVersion :: string
  operatorInstallNamespace :: string

definition Dbaasproviderkind :: string where "Dbaasproviderkind = ''DBaaSProvider''"
definition providerResourceName :: string where "providerResourceName = ''provider-example-registration''"

section \<open>Event filter and set-up\<close>

definition evaluatePredicateObject :: "DBaaSProviderReconciler \<Rightarrow> object_meta \<Rightarrow> bool" where
  "evaluatePredicateObject r obj =
     (let lbls = om_Labels obj
      in if om_Namespace obj = operatorInstallNamespace r
         then (case map_of lbls ''olm.owner.kind'' of
                 Some val \<Rightarrow>
                   if val = ''ClusterServiceVersion''
                   then (case map_of lbls ''olm.owner'' of
                           Some val2 \<Rightarrow> val2 = operatorNameVersion r
                         | None \<Rightarrow> False)
                   else False
               | None \<Rightarrow> False)
         else False)"

fun ignoreOtherDeployments :: "DBaaSProviderReconciler \<Rightarrow> watch_event \<Rightarrow> bool" where
  "ignoreOtherDeployments r (CreateEvent obj) = evaluatePredicateObject r obj"
| "ignoreOtherDeployments r (DeleteEvent obj) = False"
| "ignoreOtherDeployments r (UpdateEvent old new) = False"
| "ignoreOtherDeployments r (GenericEvent obj) = False"

text \<open>The predicate is a method value on the reconciler, so it reads the fields set just before.\<close>

definition SetupWithManager ::
    "environment \<Rightarrow> 'm complete_call \<Rightarrow> DBaaSProviderReconciler \<Rightarrow> 'm \<Rightarrow>
     (go_error option \<times> DBaaSProviderReconciler) \<times> 'm" where
  "SetupWithManager LookupEnv complete r mgr =
     (case LookupEnv ''INSTALL_NAMESPACE'' of
        None \<Rightarrow> ((Some (errors_New ''INSTALL_NAMESPACE must be set''), r), mgr)
      | Some installNamespace \<Rightarrow>
          (let r1 = r\<lparr>operatorInstallNamespace := installNamespace\<rparr>
           in case LookupEnv ''OPERATOR_CONDITION_NAME'' of
               None \<Rightarrow> ((Some (errors_New ''OPERATOR_CONDITION_NAME must be set''), r1), mgr)
             | Some operatorNameEnvVar \<Rightarrow>
                 (let r2 = r1\<lparr>operatorNameVersion := operatorNameEnvVar\<rparr>;
                      customRateLimiter = (30 * Second, 30 * Minute)
                  in case complete ((setup_for ''Deployment'')
                            \<lparr>cs_Predicate := Some (ignoreOtherDeployments r2), cs_OnlyMetadata := True,
                             cs_RateLimiter := Some customRateLimiter\<rparr>) mgr of
                      (err, mgr1) \<Rightarrow> ((err, r2), mgr1))))"

section \<open>The handler\<close>

fun kind_loop :: "string list \<Rightarrow> string \<Rightarrow> bool" where
  "kind_loop [] kind = False"
| "kind_loop (k # ks) kind = (if k = kind then True else kind_loop ks kind)"

definition checkCrdInstalled ::
    "'w provider_client \<Rightarrow> string \<Rightarrow> string \<Rightarrow> 'w \<Rightarrow> (go_error + bool) \<times> 'w" where
  "checkCrdInstalled pc groupVersion kind w =
     (case ServerResourcesForGroupVersion pc groupVersion w of
        (Inl err, w1) \<Rightarrow> if IsNotFound err then (Inr False, w1) else (Inl err, w1)
      | (Inr resources, w1) \<Rightarrow> (Inr (kind_loop resources kind), w1))"

definition empty_parameter :: ProvisioningParameter where
  "empty_parameter = mk_parameter [] [] []"

text \<open>Indexing an empty list panics.\<close>

definition buildProviderCR :: "dbaas_consts \<Rightarrow> object_meta list \<Rightarrow> DBaaSProvider outcome" where
  "buildProviderCR K clusterRoleList =
     (case clusterRoleList of
        [] \<Rightarrow> Panics ''index out of range''
      | role # _ \<Rightarrow> Returns
          \<lparr>prov_ObjectMeta = empty_meta
             \<lparr>om_Name := providerResourceName,
              om_OwnerReferences :=
                [\<lparr>or_APIVersion = ''rbac.authorization.k8s.io/v1'', or_Kind = ''ClusterRole'',
                  or_UID = om_UID role, or_Name = om_Name role, or_Controller = Some True,
                  or_BlockOwnerDeletion = Some False\<rparr>],
              om_Labels := [(''related-to'', ''dbaas-operator''), (''type'', ''dbaas-provider-registration'')]\<rparr>,
           prov_Spec = buildProviderSpec K empty_parameter empty_parameter\<rparr>)"

definition owner_labels :: "DBaaSProviderReconciler \<Rightarrow> (string, string) go_map" where
  "owner_labels r =
     [(''olm.owner'', operatorNameVersion r), (''olm.owner.kind'', ''ClusterServiceVersion'')]"

definition ProviderReconcile ::
    "dbaas_consts \<Rightarrow> 'w provider_client \<Rightarrow> DBaaSProviderReconciler \<Rightarrow> object_key \<Rightarrow> 'w \<Rightarrow>
     (ctrl_result \<times> go_error option) outcome \<times> 'w" where
  "ProviderReconcile K pc r req w =
     (case GetDeployment pc req w of
        (Inl err, w1) \<Rightarrow>
          if IsNotFound err then (Returns (no_requeue, None), w1)
          else (Returns (no_requeue, Some err), w1)
      | (Inr dep, w1) \<Rightarrow>
          (case checkCrdInstalled pc (dbaas_GroupVersion K) Dbaasproviderkind w1 of
             (Inl err, w2) \<Rightarrow> (Returns (no_requeue, Some err), w2)
           | (Inr isCrdInstalled, w2) \<Rightarrow>
               if \<not> isCrdInstalled then (Returns (requeue, None), w2)
               else
                 (case GetProvider pc (ObjectKey [] providerResourceName) w2 of
                    (Inl err, w3) \<Rightarrow>
                      if IsNotFound err
                      then
                        (case ListClusterRoles pc (owner_labels r) w3 of
                           (Inl err, w4) \<Rightarrow> (Returns (no_requeue, Some err), w4)
                         | (Inr clusterRoleList, w4) \<Rightarrow>
                             if length clusterRoleList < 1
                             then (Returns (no_requeue, Some (NewNotFound pc ''rbac.authorization.k8s.io''
                                     ''ClusterRole'' ''potentialOwner'')), w4)
                             else
                               (case buildProviderCR K clusterRoleList of
                                  Panics p \<Rightarrow> (Panics p, w4)
                                | Returns registrationCR \<Rightarrow>
                                    (case CreateProvider pc registrationCR w4 of
                                       (Some err, w5) \<Rightarrow> (Returns (no_requeue, Some err), w5)
                                     | (None, w5) \<Rightarrow> (Returns (no_requeue, None), w5))))
                      else (Returns (no_requeue, Some err), w3)
                  | (Inr registrationCR, w3) \<Rightarrow> (Returns (no_requeue, None), w3))))"

section \<open>Watching the creations\<close>

definition noting_provider_client :: "'w provider_client \<Rightarrow> ('w \<times> DBaaSProvider list) provider_client" where
  "noting_provider_client pc =
     \<lparr>GetDeployment = (\<lambda>k w. case GetDeployment pc k (fst w) of (a, v) \<Rightarrow> (a, (v, snd w))),
      ServerResourcesForGroupVersion =
        (\<lambda>g w. case ServerResourcesForGroupVersion pc g (fst w) of (a, v) \<Rightarrow> (a, (v, snd w))),
      GetProvider = (\<lambda>k w. case GetProvider pc k (fst w) of (a, v) \<Rightarrow> (a, (v, snd w))),
      ListClusterRoles = (\<lambda>l w. case ListClusterRoles pc l (fst w) of (a, v) \<Rightarrow> (a, (v, snd w))),
      CreateProvider = (\<lambda>p w. case CreateProvider pc p (fst w) of (a, v) \<Rightarrow> (a, (v, snd w @ [p]))),
      NewNotFound = NewNotFound pc\<rparr>"

lemma kind_loop_iff: "kind_loop ks kind \<longleftrightarrow> kind \<in> set ks"
  by (induction ks) auto

text \<open>
  The event filter lets exactly one kind of event through: the creation of a deployment in the
  operator's own namespace that the bundle of this operator version owns.
\<close>

theorem event_filter:
  "ignoreOtherDeployments r ev \<longleftrightarrow>
     (\<exists>obj. ev = CreateEvent obj \<and> om_Namespace obj = operatorInstallNamespace r \<and>
        map_of (om_Labels obj) ''olm.owner.kind'' = Some ''ClusterServiceVersion'' \<and>
        map_of (om_Labels obj) ''olm.owner'' = Some (operatorNameVersion r))"
  by (cases ev) (auto simp: evaluatePredicateObject_def Let_def split: option.splits)

text \<open>
  Set-up succeeds only with both environment variables present and the builder content, and
  then the reconciler holds both values and the registered filter lets through exactly what they
  select; without them the manager is left as it was. The rate limiter starts at 30 seconds and
  stops at 30 minutes, and both durations are exact.
\<close>

theorem setup_needs_environment:
  "(case SetupWithManager env complete r mgr of
      ((None, r'), mgr') \<Rightarrow> env ''INSTALL_NAMESPACE'' = Some (operatorInstallNamespace r') \<and>
        env ''OPERATOR_CONDITION_NAME'' = Some (operatorNameVersion r') \<and>
        (\<exists>cs. complete cs mgr = (None, mgr') \<and> cs_For cs = ''Deployment'' \<and>
           cs_Predicate cs = Some (ignoreOtherDeployments r') \<and>
           cs_RateLimiter cs = Some (30 * Second, 30 * Minute))
    | ((Some e, r'), mgr') \<Rightarrow>
        ((env ''INSTALL_NAMESPACE'' = None \<or> env ''OPERATOR_CONDITION_NAME'' = None) \<and> mgr' = mgr) \<or>
        (\<exists>cs. complete cs mgr = (Some e, mgr'))) \<and>
   sint (30 * Second) = 30 * 1000000000 \<and> sint (30 * Minute) = 30 * 60 * 1000000000"
  by (auto simp: SetupWithManager_def Let_def Second_def Minute_def split: option.splits prod.splits)

text \<open>A run that creates something, step by step.\<close>

lemma provider_created_steps:
  assumes "ProviderReconcile K (noting_provider_client pc) r req (w, []) = (out, (w', created))"
    and "created \<noteq> []"
  obtains dep w1 kinds w2 nf w3 roles w4 cr e where "GetDeployment pc req w = (Inr dep, w1)"
    and "ServerResourcesForGroupVersion pc (dbaas_GroupVersion K) w1 = (Inr kinds, w2)"
    and "kind_loop kinds Dbaasproviderkind"
    and "GetProvider pc (ObjectKey [] providerResourceName) w2 = (Inl nf, w3)" and "IsNotFound nf"
    and "ListClusterRoles pc (owner_labels r) w3 = (Inr roles, w4)"
    and "buildProviderCR K roles = Returns cr" and "CreateProvider pc cr w4 = (e, w')"
    and "created = [cr]" and "out = Returns (no_requeue, e)"
  using assms
  by (auto simp: ProviderReconcile_def noting_provider_client_def checkCrdInstalled_def
      split: prod.splits sum.splits if_splits outcome.splits option.splits) blast+

lemma buildProviderCR_Returns:
  "buildProviderCR K roles = Returns cr \<Longrightarrow> roles \<noteq> [] \<and>
     om_Name (prov_ObjectMeta cr) = providerResourceName \<and> om_Namespace (prov_ObjectMeta cr) = [] \<and>
     map (\<lambda>ow. (or_Kind ow, or_Name ow, or_UID ow, or_Controller ow, or_BlockOwnerDeletion ow))
       (om_OwnerReferences (prov_ObjectMeta cr)) =
       [(''ClusterRole'', om_Name (hd roles), om_UID (hd roles), Some True, Some False)]"
  by (cases roles) (auto simp: buildProviderCR_def empty_meta_def)

text \<open>
  C14. One reconciliation creates at most one resource, and only when the deployment is there, the
  CRD is installed, the registration is missing and a role of the bundle was found. What it creates
  is the registration under its fixed name, owned by the first such role, which is its controller
  but does not block its deletion.
\<close>

theorem registration_created_once:
  assumes "ProviderReconcile K (noting_provider_client pc) r req (w, []) = (out, (w', created))"
    and "created \<noteq> []"
  shows "\<exists>cr roles w1 w2 w3 w4 e kinds.
    created = [cr] \<and> (\<exists>dep. GetDeployment pc req w = (Inr dep, w1)) \<and>
    ServerResourcesForGroupVersion pc (dbaas_GroupVersion K) w1 = (Inr kinds, w2) \<and>
    ''DBaaSProvider'' \<in> set kinds \<and>
    (\<exists>nf. GetProvider pc (ObjectKey [] providerResourceName) w2 = (Inl nf, w3) \<and> IsNotFound nf) \<and>
    ListClusterRoles pc (owner_labels r) w3 = (Inr roles, w4) \<and> roles \<noteq> [] \<and>
    om_Name (prov_ObjectMeta cr) = providerResourceName \<and> om_Namespace (prov_ObjectMeta cr) = [] \<and>
    map (\<lambda>ow. (or_Kind ow, or_Name ow, or_UID ow, or_Controller ow, or_BlockOwnerDeletion ow))
      (om_OwnerReferences (prov_ObjectMeta cr)) =
      [(''ClusterRole'', om_Name (hd roles), om_UID (hd roles), Some True, Some False)] \<and>
    fst (CreateProvider pc cr w4) = e \<and> out = Returns (no_requeue, e)"
proof -
  from assms obtain dep w1 kinds w2 nf w3 roles w4 cr e where
    "GetDeployment pc req w = (Inr dep, w1)"
    "ServerResourcesForGroupVersion pc (dbaas_GroupVersion K) w1 = (Inr kinds, w2)"
    "kind_loop kinds Dbaasproviderkind"
    "GetProvider pc (ObjectKey [] providerResourceName) w2 = (Inl nf, w3)" "IsNotFound nf"
    "ListClusterRoles pc (owner_labels r) w3 = (Inr roles, w4)"
    and cr: "buildProviderCR K roles = Returns cr"
    and "CreateProvider pc cr w4 = (e, w')" "created = [cr]" "out = Returns (no_requeue, e)"
    by (rule provider_created_steps)
  with buildProviderCR_Returns [OF cr] show ?thesis
    by (intro exI [of _ cr] exI [of _ roles] exI [of _ w1] exI [of _ w2] exI [of _ w3] exI [of _ w4]
        exI [of _ e] exI [of _ kinds] conjI) (simp_all add: kind_loop_iff Dbaasproviderkind_def)
qed

text \<open>A server on which nothing is registered yet; its state is the resource it is asked to create.\<close>

definition fresh_server :: "DBaaSProvider list provider_client" where
  "fresh_server =
     \<lparr>GetDeployment = (\<lambda>k w. (Inr (empty_meta\<lparr>om_Name := key_Name k\<rparr>), w)),
      ServerResourcesForGroupVersion = (\<lambda>g w. (Inr [''DBaaSPolicy'', ''DBaaSProvider''], w)),
      GetProvider = (\<lambda>k w. (case w of [] \<Rightarrow> Inl (GoError True False ''not found'') | p # _ \<Rightarrow> Inr p, w)),
      ListClusterRoles = (\<lambda>l w. (Inr [empty_meta\<lparr>om_Name := ''role-1'', om_UID := ''uid-1''\<rparr>], w)),
      CreateProvider = (\<lambda>p w. (None, w @ [p])),
      NewNotFound = (\<lambda>g r n. GoError True False n)\<rparr>"

definition sample_reconciler :: DBaaSProviderReconciler where
  "sample_reconciler = \<lparr>operatorNameVersion = ''provider-example-operator.v0.0.1'',
     operatorInstallNamespace = ''openshift-dbaas-operator''\<rparr>"

theorem registration_created_once_witness:
  "\<exists>cr w'. ProviderReconcile sample_consts (noting_provider_client fresh_server) sample_reconciler
      (ObjectKey [] ''controller-manager'') ([], []) = (Returns (no_requeue, None), (w', [cr])) \<and>
    map or_Name (om_OwnerReferences (prov_ObjectMeta cr)) = [''role-1'']"
proof -
  obtain cr w' where run: "ProviderReconcile sample_consts (noting_provider_client fresh_server)
      sample_reconciler (ObjectKey [] ''controller-manager'') ([], []) = (Returns (no_requeue, None), (w', [cr]))"
    by (simp add: ProviderReconcile_def noting_provider_client_def fresh_server_def checkCrdInstalled_def
        Dbaasproviderkind_def buildProviderCR_def)
  from registration_created_once [OF run] obtain roles w3 w4 where
    "ListClusterRoles fresh_server (owner_labels sample_reconciler) w3 = (Inr roles, w4)"
    "map (\<lambda>ow. (or_Kind ow, or_Name ow, or_UID ow, or_Controller ow, or_BlockOwnerDeletion ow))
      (om_OwnerReferences (prov_ObjectMeta cr)) =
      [(''ClusterRole'', om_Name (hd roles), om_UID (hd roles), Some True, Some False)]" by auto
  with run show ?thesis by (auto simp: fresh_server_def)
qed

text \<open>
  C26. The request is over exactly when there is nothing left to do: the deployment is gone, the
  registration exists or it was just created. In every other case (CRD missing, an error of any
  call, no role to own the resource) the request comes back; the handler never panics.
\<close>

theorem registration_retried_until_done:
  "\<exists>res. fst (ProviderReconcile K pc r req w) = Returns res \<and>
     (\<not> will_retry res \<longleftrightarrow>
        (\<exists>e. fst (GetDeployment pc req w) = Inl e \<and> IsNotFound e) \<or>
        (\<exists>dep w1 w2 w3. GetDeployment pc req w = (Inr dep, w1) \<and>
           checkCrdInstalled pc (dbaas_GroupVersion K) Dbaasproviderkind w1 = (Inr True, w2) \<and>
           ((\<exists>p. GetProvider pc (ObjectKey [] providerResourceName) w2 = (Inr p, w3)) \<or>
            (\<exists>nf roles w4 cr. GetProvider pc (ObjectKey [] providerResourceName) w2 = (Inl nf, w3) \<and>
               IsNotFound nf \<and> ListClusterRoles pc (owner_labels r) w3 = (Inr roles, w4) \<and>
               buildProviderCR K roles = Returns cr \<and> fst (CreateProvider pc cr w4) = None))))"
  by (auto simp: ProviderReconcile_def buildProviderCR_def
      split: prod.splits sum.splits list.splits option.splits if_splits)

end
