(* ===== verification/Start_Up.thy ===== *)
theory Start_Up
  imports Provider_Reconciler Inventory_Controller Instance_Controller Connection_Controller
begin

text \<open>
  \<^verbatim>\<open>main.go\<close>: the order in which the operator starts. The manager, of type \<open>'m\<close>, and the calls on it
  are a parameter (controller-runtime and client-go are not under \<^verbatim>\<open>src/\<close>); every \<^verbatim>\<open>os.Exit(1)\<close> is a
  branch. \<^verbatim>\<open>main\<close> returns, with exit code 0, when \<^verbatim>\<open>Start\<close> returned nil. The scheme, of type \<open>'s\<close>, is
  the package variable that \<^verbatim>\<open>init\<close> has filled. \<^verbatim>\<open>GetConfigOrDie\<close> takes no argument of the program and
  exits with 1 too when there is no configuration: that case is one of \<open>NewManager\<close>'s errors.
\<close>

text \<open>The values of the three flags, and the options made of them.\<close>

record command_flags =
  metricsAddr :: string
  probeAddr :: string
  enableLeaderElection :: bool

definition default_flags :: command_flags where
  "default_flags = \<lparr>metricsAddr = '':8080'', probeAddr = '':8081'', enableLeaderElection = False\<rparr>"

record 's manager_options =
  mo_Scheme :: 's
  mo_MetricsBindAddress :: string
  mo_Port :: nat
  mo_HealthProbeBindAddress :: string
  mo_LeaderElection :: bool
  mo_LeaderElectionID :: string

definition options_of_flags :: "'s \<Rightarrow> command_flags \<Rightarrow> 's manager_options" where
  "options_of_flags sch fl =
     \<lparr>mo_Scheme = sch, mo_MetricsBindAddress = metricsAddr fl, mo_Port = 9443, mo_HealthProbeBindAddress = probeAddr fl,
      mo_LeaderElection = enableLeaderElection fl, mo_LeaderElectionID = ''425ea28f.redhat.com''\<rparr>"

record ('s, 'm) start_calls =
  NewManager :: "'s manager_options \<Rightarrow> go_error + 'm"
  NewForConfig :: "'m \<Rightarrow> go_error option"
  Complete :: "'m complete_call"
  AddHealthzCheck :: "string \<Rightarrow> 'm \<Rightarrow> go_error option \<times> 'm"
  AddReadyzCheck :: "string \<Rightarrow> 'm \<Rightarrow> go_error option \<times> 'm"
  Start :: "'m \<Rightarrow> go_error option \<times> 'm"

definition empty_reconciler :: DBaaSProviderReconciler where
  "empty_reconciler = \<lparr>operatorNameVersion = [], operatorInstallNamespace = []\<rparr>"

text \<open>The exit code, and the manager if there is one.\<close>

definition main_start ::
    "environment \<Rightarrow> ('s, 'm) start_calls \<Rightarrow> 's \<Rightarrow> command_flags \<Rightarrow> nat \<times> 'm option" where
  "main_start LookupEnv ca sch fl =
     (case NewManager ca (options_of_flags sch fl) of
        Inl err \<Rightarrow> (1, None)
      | Inr mgr \<Rightarrow>
          (case NewForConfig ca mgr of
             Some err \<Rightarrow> (1, Some mgr)
           | None \<Rightarrow>
          (case SetupWithManager LookupEnv (Complete ca) empty_reconciler mgr of
             ((Some err, _), mgr1) \<Rightarrow> (1, Some mgr1)
           | ((None, _), mgr1) \<Rightarrow>
          (case InventorySetupWithManager (Complete ca) mgr1 of
             (Some err, mgr2) \<Rightarrow> (1, Some mgr2)
           | (None, mgr2) \<Rightarrow>
          (case ConnectionSetupWithManager (Complete ca) mgr2 of
             (Some err, mgr3) \<Rightarrow> (1, Some mgr3)
           | (None, mgr3) \<Rightarrow>
          (case InstanceSetupWithManager (Complete ca) mgr3 of
             (Some err, mgr4) \<Rightarrow> (1, Some mgr4)
           | (None, mgr4) \<Rightarrow>
          (case AddHealthzCheck ca ''healthz'' mgr4 of
             (Some err, mgr5) \<Rightarrow> (1, Some mgr5)
           | (None, mgr5) \<Rightarrow>
          (case AddReadyzCheck ca ''readyz'' mgr5 of
             (Some err, mgr6) \<Rightarrow> (1, Some mgr6)
           | (None, mgr6) \<Rightarrow>
          (case Start ca mgr6 of
             (Some err, mgr7) \<Rightarrow> (1, Some mgr7)
           | (None, mgr7) \<Rightarrow> (0, Some mgr7))))))))))"

section \<open>A manager that records\<close>

text \<open>
  The manager as the list of what was done to it. Which calls fail is arbitrary: \<open>fails\<close> looks at the
  calls so far.
\<close>

datatype start_event = Registered string "string list" | HealthCheck string | ReadyCheck string | Started

definition recorded :: "(start_event list \<Rightarrow> go_error option) \<Rightarrow> start_event \<Rightarrow> start_event list \<Rightarrow>
    go_error option \<times> start_event list" where
  "recorded fails ev l = (case fails (l @ [ev]) of Some e \<Rightarrow> (Some e, l) | None \<Rightarrow> (None, l @ [ev]))"

definition recording_calls ::
    "('s manager_options \<Rightarrow> go_error option) \<Rightarrow> (start_event list \<Rightarrow> go_error option) \<Rightarrow>
     (start_event list \<Rightarrow> go_error option) \<Rightarrow> ('s, start_event list) start_calls" where
  "recording_calls no_manager no_client fails =
     \<lparr>NewManager = (\<lambda>opts. case no_manager opts of Some e \<Rightarrow> Inl e | None \<Rightarrow> Inr []),
      NewForConfig = no_client,
      Complete = (\<lambda>cs. recorded fails (Registered (cs_For cs) (map fst (cs_Watches cs)))),
      AddHealthzCheck = (\<lambda>n. recorded fails (HealthCheck n)),
      AddReadyzCheck = (\<lambda>n. recorded fails (ReadyCheck n)),
      Start = recorded fails Started\<rparr>"

definition full_start :: "start_event list" where
  "full_start = [Registered ''Deployment'' [], Registered ''ProviderInventory'' [''ProviderInstance''],
     Registered ''ProviderConnection'' [], Registered ''ProviderInstance'' [],
     HealthCheck ''healthz'', ReadyCheck ''readyz'', Started]"

lemma main_start_exit_zero:
  assumes "main_start env (recording_calls no_manager no_client fails) sch fl = (0, Some l)"
  shows "l = full_start" and "no_manager (options_of_flags sch fl) = None"
  using assms
  by (auto simp: main_start_def recording_calls_def recorded_def full_start_def SetupWithManager_def
      InventorySetupWithManager_def ConnectionSetupWithManager_def InstanceSetupWithManager_def Let_def
      split: option.splits prod.splits)

text \<open>
  C38. Start-up is all or nothing, in one order: whatever call fails, what was done to the manager is a
  prefix of the full sequence (registration controller, inventories with their watch on instances,
  connections, instances, the two probes, start); the process exits with 0 exactly when the whole
  sequence succeeded, and otherwise with 1; so a manager without all four controllers and both
  probes was never started, and without both environment variables nothing was registered at all.
\<close>

theorem start_up_all_or_nothing:
  "(case main_start env (recording_calls no_manager no_client fails) sch fl of
      (code, None) \<Rightarrow> code = 1
    | (code, Some l) \<Rightarrow> (\<exists>rest. full_start = l @ rest) \<and> code \<in> {0, 1} \<and>
        (code = 0 \<longleftrightarrow> l = full_start) \<and>
        (l = [] \<or> (\<exists>ns nv. env ''INSTALL_NAMESPACE'' = Some ns \<and> env ''OPERATOR_CONDITION_NAME'' = Some nv)))"
  by (auto simp: main_start_def recording_calls_def recorded_def full_start_def SetupWithManager_def
      InventorySetupWithManager_def ConnectionSetupWithManager_def InstanceSetupWithManager_def Let_def
      split: option.splits prod.splits)

end
