(* ===== verification/System_Runs.thy ===== *)
theory System_Runs
  imports Cloud_Isolation Start_Up
begin

text \<open>
  The operator over time: reconciliations of any inventories, connections and instances in any order,
  interleaved with the steps of the cloud's goroutines. The theorems
  about such runs are in the root theory.
\<close>

inductive operator_run ::
    "dbaas_consts \<Rightarrow> 'k kube_client \<Rightarrow> 'k \<times> FakeClusters \<Rightarrow> 'k \<times> FakeClusters \<Rightarrow> bool"
  for K kc w where
  now: "operator_run K kc w w"
| inventory: "operator_run K kc w w' \<Longrightarrow>
     operator_run K kc w (snd (InventoryReconcile (FakeProviderService K kc) req w'))"
| connection: "operator_run K kc w w' \<Longrightarrow>
     operator_run K kc w (snd (ConnectionReconcile (FakeProviderService K kc) K req w'))"
| reconcile: "operator_run K kc w w' \<Longrightarrow>
     operator_run K kc w (snd (InstanceReconcile (FakeProviderService K kc) req w'))"
| goroutine: "operator_run K kc w (k, f) \<Longrightarrow> goroutine_step f g \<Longrightarrow> operator_run K kc w (k, g)"

section \<open>The cloud grows\<close>

lemma CreateCluster_grows:
  assumes "channels_ok f"
  shows "channels_ok (snd (CreateCluster r f)) \<and> set (clusters f) \<subseteq> set (clusters (snd (CreateCluster r f)))"
proof -
  have "channels_ok (send_addCluster c f) \<and> set (clusters f) \<subseteq> set (clusters (send_addCluster c f))" for c
    using assms
    by (auto simp: send_addCluster_def add_goroutine_frees_slot_def channels_ok_def chan_cap_def Let_def
        split: option.splits list.splits)
  then show ?thesis using assms by (simp add: CreateCluster_def split: sum.splits prod.splits)
qed

lemma reconcile_grows:
  assumes "channels_ok f"
  shows "channels_ok (snd (snd (InstanceReconcile (FakeProviderService K kc) req (k, f)))) \<and>
    set (clusters f) \<subseteq> set (clusters (snd (snd (InstanceReconcile (FakeProviderService K kc) req (k, f)))))"
  using instance_cloud_cases [of K kc req k f]
  by (elim disjE exE conjE) (simp_all add: CreateCluster_grows [OF assms] assms)

section \<open>An instance that has lost its identifier\<close>

text \<open>
  The instance is stored without an identifier, and the cloud already has the cluster that its name
  stands for.
\<close>

definition lost_identifier ::
    "dbaas_consts \<Rightarrow> 'k kube_client \<Rightarrow> object_key \<Rightarrow> string \<Rightarrow> 'k \<times> FakeClusters \<Rightarrow> bool" where
  "lost_identifier K kc req name w \<longleftrightarrow>
     channels_ok (snd w) \<and> name \<noteq> [] \<and> clusterID_of name \<in> cl_Id ` set (clusters (snd w)) \<and>
     (\<exists>x iv. fst (GetInstance kc req (fst w)) = Inr x \<and> ins_InstanceID (ins_Status x) = [] \<and>
        req_Name (creation_request K x) = name \<and>
        fst (GetInventory kc (ins_InventoryRef (ins_Spec x)) (fst w)) = Inr iv)"

lemma create_existing:
  assumes "clusterID_of (req_Name r) \<in> cl_Id ` set (clusters f)"
  shows "\<exists>e. CreateCluster r f = ((Inl (errors_New e), error_response
      (if HasSuffix (req_Name r) ''invalid-cluster-creation-request'' then 400 else 409) e), f) \<and>
    e \<in> {creation_failed_text, already_exists_text}"
  using assms by (auto simp: CreateCluster_def check_create_def Let_def image_iff split: if_splits)

lemma lost_verdict:
  assumes "instance_store_contract kc" and "fst (GetInventory kc (ins_InventoryRef (ins_Spec x)) k) = Inr iv"
    and "ins_InstanceID (ins_Status x) = []" and "req_Name (creation_request K x) \<noteq> []"
    and "clusterID_of (req_Name (creation_request K x)) \<in> cl_Id ` set (clusters f)"
  shows "\<exists>e. instance_verdict (FakeProviderService K kc) x (k, f) =
    (FailedIn InstancePhaseCreating BackendError (errors_New e), (k, f)) \<and>
    e \<in> {creation_failed_text, already_exists_text}"
proof -
  have r: "creation_request K (with_phase InstancePhaseCreating x) = creation_request K x"
    by (rule creation_request_cong) simp
  obtain e where e: "fst (fst (CreateCluster (creation_request K x) f)) = Inl (errors_New e)"
    "snd (CreateCluster (creation_request K x) f) = f" "e \<in> {creation_failed_text, already_exists_text}"
    using create_existing [OF assms(5)] by auto
  with assms(1-4) show ?thesis
    by (simp add: instance_verdict_def on_left_eq FakeCreateCloudService_eq FakeCreateCluster_eq r
        instance_store_contractD verdict_of_call_def)
qed

lemma lost_reconcile:
  assumes "instance_store_contract kc" and "lost_identifier K kc req name (k, f)"
  shows "\<exists>e res. fst (InstanceReconcile (FakeProviderService K kc) req (k, f)) = Returns res \<and>
      will_retry res \<and> snd res \<noteq> None" (is ?error)
    and "lost_identifier K kc req name (snd (InstanceReconcile (FakeProviderService K kc) req (k, f)))" (is ?lost)
proof -
  from assms(2) obtain x iv where x: "fst (GetInstance kc req k) = Inr x"
    "ins_InstanceID (ins_Status x) = []" "req_Name (creation_request K x) = name"
    "fst (GetInventory kc (ins_InventoryRef (ins_Spec x)) k) = Inr iv"
    and f: "channels_ok f" "name \<noteq> []" "clusterID_of name \<in> cl_Id ` set (clusters f)"
    by (auto simp: lost_identifier_def)
  obtain e where v: "instance_verdict (FakeProviderService K kc) x (k, f) =
      (FailedIn InstancePhaseCreating BackendError (errors_New e), (k, f))"
    using lost_verdict [OF assms(1) x(4) x(2), of K f] x(3) f(2,3) by auto
  have run: "InstanceReconcile (FakeProviderService K kc) req (k, f) =
      instance_failed (FakeProviderService K kc) (with_phase InstancePhaseCreating x) BackendError
        (errors_New e) (k, f)"
    using x(1) v by (simp add: InstanceReconcile_verdict on_left_eq act_on_verdict_def
        instance_store_contractD [OF assms(1)])
  then show ?error
    by (simp add: instance_failed_eq Let_def split: option.split)
  let ?y = "instance_with_condition (lift_client kc) (k, f) (with_phase InstancePhaseCreating x)
    (mk_condition connectionConditionReadyType ConditionFalse BackendError e)"
  let ?k = "snd (StatusUpdateInstance kc ?y k)"
  have w: "snd (InstanceReconcile (FakeProviderService K kc) req (k, f)) = (?k, f)"
    by (simp add: run instance_failed_eq instance_updateStatus_eq Let_def on_left_eq)
  have "fst (GetInstance kc req ?k) \<in> {Inr x, Inr (x\<lparr>ins_Status := ins_Status ?y\<rparr>)}"
    using x(1) by (simp add: instance_store_contractD(5) [OF assms(1)])
  moreover have "creation_request K (x\<lparr>ins_Status := ins_Status ?y\<rparr>) = creation_request K x"
    by (rule creation_request_cong) simp
  ultimately show ?lost
    using x f by (auto simp: w lost_identifier_def instance_store_contractD(6) [OF assms(1)])
qed

text \<open>What the reconciliation of another instance leaves alone.\<close>

lemma verdict_kube_side:
  assumes "instance_store_contract kc"
  shows "fst (snd (instance_verdict (FakeProviderService K kc) x (k, f))) = k"
  by (auto simp: instance_verdict_def on_left_eq FakeCreateCloudService_eq FakeCreateCluster_eq
      FakeGetCluster_eq instance_store_contractD [OF assms] split: sum.split)

lemma other_instance_frame:
  assumes "instance_store_contract kc" and "req' \<noteq> req"
  shows "fst (GetInstance kc req (fst (snd (InstanceReconcile (FakeProviderService K kc) req' (k, f))))) =
      fst (GetInstance kc req k) \<and>
    fst (GetInventory kc i (fst (snd (InstanceReconcile (FakeProviderService K kc) req' (k, f))))) =
      fst (GetInventory kc i k)"
proof -
  let ?S = "FakeProviderService K kc"
  define view where "view = (\<lambda>w :: _ \<times> FakeClusters.
    (fst (GetInstance kc req (fst w)), fst (GetInventory kc i (fst w))))"
  have "instance_frame ?S view (\<lambda>m. meta_key m \<noteq> req)"
  proof
    fix y :: ProviderInstance and w :: "_ \<times> FakeClusters"
    assume y: "meta_key (ins_ObjectMeta y) \<noteq> req"
    then show "view (snd (StatusUpdateInstance (svc_Client ?S) y w)) = view w"
      by (simp add: view_def on_left_proj instance_store_contractD(5,6) [OF assms(1)] sum.map_ident id_def)
    from y show "meta_key (ins_ObjectMeta (snd (fst (StatusUpdateInstance (svc_Client ?S) y w)))) \<noteq> req"
      by (simp add: on_left_proj instance_store_contractD(7) [OF assms(1)])
  qed
  note act = instance_frame.view_act [OF this]
  show ?thesis
  proof (cases "fst (GetInstance kc req' k)")
    case (Inl e)
    then show ?thesis
      by (simp add: InstanceReconcile_verdict on_left_eq instance_store_contractD(1) [OF assms(1)])
  next
    case (Inr x)
    obtain v w2 where v: "instance_verdict ?S x (k, f) = (v, w2)" by (metis surj_pair)
    from verdict_kube_side [OF assms(1), of K x k f] v have "view w2 = view (k, f)" by (simp add: view_def)
    moreover have "view (snd (act_on_verdict ?S x v w2)) = view w2"
      using act instance_store_contractD(4) [OF assms(1) Inr] assms(2) by simp
    ultimately show ?thesis
      using Inr v by (simp add: InstanceReconcile_verdict on_left_eq view_def
          instance_store_contractD(1) [OF assms(1)])
  qed
qed

text \<open>What inventories and connections leave alone.\<close>

lemma reader_run_frame:
  assumes "separate_kinds_contract kc"
    and "w' \<in> {snd (InventoryReconcile (FakeProviderService K kc) req' w),
               snd (ConnectionReconcile (FakeProviderService K kc) K req' w)}"
  shows "snd w' = snd w \<and> fst (GetInstance kc req (fst w')) = fst (GetInstance kc req (fst w)) \<and>
    (\<forall>i. isl (fst (GetInventory kc i (fst w'))) = isl (fst (GetInventory kc i (fst w))))"
proof -
  let ?S = "FakeProviderService K kc"
  define view where "view = (\<lambda>w :: _ \<times> FakeClusters.
    (fst (GetInstance kc req (fst w)), \<lambda>i. isl (fst (GetInventory kc i (fst w)))))"
  have "reader_frame ?S view (\<lambda>h. h = NewFakeAPIClient)"
    by unfold_locales (use assms(1) in \<open>auto simp: view_def on_left_proj on_left_eq
      separate_kinds_contract_def Let_def FakeCreateCloudService_eq FakeDiscoverClusters_eq
      FakeCreateCloudService_def retrieveClientCredential_def split: prod.splits sum.splits\<close>)
  from reader_frame.inventory_isolated [OF this] reader_frame.connection_isolated [OF this] assms(2)
  have "view w' = view w" by blast
  moreover have "snd w' = snd w"
    using assms(2) fake_isolated.inventory_isolated fake_isolated.connection_isolated by blast
  ultimately show ?thesis by (auto simp: view_def fun_eq_iff)
qed

lemma lost_reader:
  assumes "separate_kinds_contract kc" and "lost_identifier K kc req name w"
    and "w' \<in> {snd (InventoryReconcile (FakeProviderService K kc) req' w),
               snd (ConnectionReconcile (FakeProviderService K kc) K req' w)}"
  shows "lost_identifier K kc req name w'"
proof -
  from assms(2) obtain x iv where x: "fst (GetInstance kc req (fst w)) = Inr x"
    "ins_InstanceID (ins_Status x) = []" "req_Name (creation_request K x) = name"
    "fst (GetInventory kc (ins_InventoryRef (ins_Spec x)) (fst w)) = Inr iv"
    by (auto simp: lost_identifier_def)
  from reader_run_frame [OF assms(1,3), of req] x(4)
  have "\<not> isl (fst (GetInventory kc (ins_InventoryRef (ins_Spec x)) (fst w')))" by simp
  then obtain iv' where "fst (GetInventory kc (ins_InventoryRef (ins_Spec x)) (fst w')) = Inr iv'"
    by (cases "fst (GetInventory kc (ins_InventoryRef (ins_Spec x)) (fst w'))") auto
  with x(1-3) assms(2) reader_run_frame [OF assms(1,3), of req] show ?thesis
    by (simp add: lost_identifier_def)
qed

lemma lost_forever:
  assumes "operator_run K kc w w'" and "instance_store_contract kc" and "separate_kinds_contract kc"
    and "lost_identifier K kc req name w"
  shows "lost_identifier K kc req name w'"
  using assms
proof (induction rule: operator_run.induct)
  case (inventory w' req')
  then show ?case using lost_reader [OF assms(3)] by blast
next
  case (connection w' req')
  then show ?case using lost_reader [OF assms(3)] by blast
next
  case (reconcile w' req')
  obtain k f where w': "w' = (k, f)" by fastforce
  show ?case
  proof (cases "req' = req")
    case True
    with lost_reconcile(2) [OF assms(2), of K req name k f] reconcile w' show ?thesis by simp
  next
    case False
    have "lost_identifier K kc req name (k, f)" using reconcile w' by simp
    then show ?thesis
      using reconcile_grows [of f K kc req' k] other_instance_frame [OF assms(2) False, of K k f]
      unfolding lost_identifier_def w' by (simp add: image_iff) blast
  qed
next
  case (goroutine k f g)
  then show ?case
    using goroutine_step_quiet [of f g] by (auto simp: lost_identifier_def)
qed

end
