(* ===== verification/Bookkeeping.thy ===== *)
theory Bookkeeping
  imports System_Runs
begin

text \<open>
  What the operator does to the pair that matters over time: the instances as stored, and the clusters
  committed to the cloud. \<open>book_step\<close> is an abstract machine on that pair with two transitions, and
  every run of the operator refines it; invariants of the pair are proved on the machine.
\<close>

section \<open>The abstract machine\<close>

type_synonym book = "(object_key \<Rightarrow> go_error + ProviderInstance) \<times> Cluster list"

definition stored :: "'w kube_client \<Rightarrow> 'w \<Rightarrow> object_key \<Rightarrow> go_error + ProviderInstance" where
  "stored kc k req = fst (GetInstance kc req k)"

definition book_of :: "'k kube_client \<Rightarrow> 'k \<times> FakeClusters \<Rightarrow> book" where
  "book_of kc w = (stored kc (fst w), committed (snd w))"

text \<open>
  Either an instance's status is written without its identifier changing, or a cluster is committed
  for an instance that has none, under the identifier its name stands for, and the identifier is
  stored with it or lost.
\<close>

inductive book_step :: "dbaas_consts \<Rightarrow> book \<Rightarrow> book \<Rightarrow> bool" for K where
  report: "s req = Inr x \<Longrightarrow> ins_InstanceID st = ins_InstanceID (ins_Status x) \<Longrightarrow>
     book_step K (s, cs) (s(req := Inr (x\<lparr>ins_Status := st\<rparr>)), cs)"
| create: "s req = Inr x \<Longrightarrow> ins_InstanceID (ins_Status x) = [] \<Longrightarrow>
     req_Name (creation_request K x) \<noteq> [] \<Longrightarrow> cl_Id c = clusterID_of (req_Name (creation_request K x)) \<Longrightarrow>
     ins_InstanceID st \<in> {[], cl_Id c} \<Longrightarrow>
     book_step K (s, cs) (s(req := Inr (x\<lparr>ins_Status := st\<rparr>)), cs @ [c])"

section \<open>One reconciliation\<close>

lemma CreateCluster_committed:
  assumes "CreateCluster r f = ((res, resp), g)"
  shows "case res of Inl e \<Rightarrow> committed g = committed f
    | Inr c \<Rightarrow> committed g = committed f @ [c] \<and> cl_Id c = clusterID_of (req_Name r)"
proof (cases res)
  case (Inl e)
  with assms show ?thesis
    by (auto simp: CreateCluster_def split: sum.splits prod.splits)
next
  case (Inr c)
  with assms fake_cloud.create_commits [of r f c] CreateCluster_Inr [of r f c] show ?thesis
    by (simp add: check_create_Inr)
qed

text \<open>The identifiers an instance may have after its verdict, and what the verdict committed.\<close>

definition verdict_ids :: "ProviderInstance \<Rightarrow> instance_verdict \<Rightarrow> string set" where
  "verdict_ids x v = insert (ins_InstanceID (ins_Status x))
     (case v of GotCluster ph (Some c) \<Rightarrow> {cl_Id c} | _ \<Rightarrow> {})"

lemma verdict_commits:
  assumes "instance_store_contract kc"
    and "instance_verdict (FakeProviderService K kc) x (k, f) = (v, (k', f'))"
  shows "k' = k \<and>
    (committed f' = committed f \<and> verdict_ids x v = {ins_InstanceID (ins_Status x)} \<or>
     ins_InstanceID (ins_Status x) = [] \<and> req_Name (creation_request K x) \<noteq> [] \<and>
     (\<exists>c. cl_Id c = clusterID_of (req_Name (creation_request K x)) \<and> committed f' = committed f @ [c] \<and>
        verdict_ids x v = {[], cl_Id c}))"
proof -
  have r: "creation_request K (with_phase ph x) = creation_request K x" for ph
    by (rule creation_request_cong) simp
  obtain res resp g where g: "CreateCluster (creation_request K x) f = ((res, resp), g)"
    by (metis surj_pair)
  show ?thesis
    using assms(2) CreateCluster_committed [OF g]
    by (cases res)
      (auto simp: instance_verdict_def on_left_eq FakeCreateCloudService_eq FakeCreateCluster_eq r g
        FakeGetCluster_eq instance_store_contractD(1-3) [OF assms(1)] verdict_of_call_def verdict_ids_def
        dest!: find_Some_set split: sum.splits if_splits option.splits)
qed

text \<open>All writes of one reconciliation together change the status of its own instance only.\<close>

lemma act_stored:
  assumes "instance_store_contract kc" and "stored kc k req = Inr x"
  shows "\<exists>st. ins_InstanceID st \<in> verdict_ids x v \<and>
    book_of kc (snd (act_on_verdict (FakeProviderService K kc) x v (k, f))) =
      ((stored kc k)(req := Inr (x\<lparr>ins_Status := st\<rparr>)), committed f) \<and>
    snd (snd (act_on_verdict (FakeProviderService K kc) x v (k, f))) = f"
proof -
  let ?S = "FakeProviderService K kc"
  define good where "good = (\<lambda>w :: _ \<times> FakeClusters. snd w = f \<and>
    (\<exists>st. ins_InstanceID st \<in> verdict_ids x v \<and>
      stored kc (fst w) = (stored kc k)(req := Inr (x\<lparr>ins_Status := st\<rparr>))))"
  define fine where "fine = (\<lambda>y :: ProviderInstance. meta_key (ins_ObjectMeta y) = req \<and>
    ins_InstanceID (ins_Status y) \<in> verdict_ids x v)"
  note kc = instance_store_contractD [OF assms(1)]
  have "instance_writes ?S good fine (\<lambda>c. cl_Id c \<in> verdict_ids x v)"
  proof
    fix w :: "_ \<times> FakeClusters" and y
    assume w: "good w" and y: "fine y"
    obtain st where st: "ins_InstanceID st \<in> verdict_ids x v"
      "stored kc (fst w) = (stored kc k)(req := Inr (x\<lparr>ins_Status := st\<rparr>))" and f: "snd w = f"
      using w by (auto simp: good_def)
    let ?ok = "fst (fst (StatusUpdateInstance kc y (fst w))) = None"
    have "stored kc (snd (StatusUpdateInstance kc y (fst w))) = (stored kc k)
        (req := Inr (x\<lparr>ins_Status := (if ?ok then ins_Status y else st)\<rparr>))"
    proof
      fix q
      show "stored kc (snd (StatusUpdateInstance kc y (fst w))) q = ((stored kc k)
          (req := Inr (x\<lparr>ins_Status := (if ?ok then ins_Status y else st)\<rparr>))) q"
        using y fun_cong [OF st(2), of q] unfolding stored_def kc(5)
        by (cases "fst (GetInstance kc q k)") (auto simp: fine_def)
    qed
    moreover have svc: "svc_Client ?S = lift_client kc" "StatusUpdateInstance (lift_client kc) y =
        on_left (StatusUpdateInstance kc y)" by simp_all
    ultimately show "good (snd (StatusUpdateInstance (svc_Client ?S) y w))"
      using st(1) y f unfolding good_def svc on_left_proj
      by (intro conjI exI [of _ "if ?ok then ins_Status y else st"]) (simp_all add: fine_def)
  next
    fix w :: "_ \<times> FakeClusters" and y
    assume "fine y"
    then show "fine (snd (fst (StatusUpdateInstance (svc_Client ?S) y w)))"
      by (simp add: fine_def on_left_proj kc(7,8))
  qed (auto simp: fine_def)
  moreover have "good (k, f)"
    using assms(2) by (auto simp: good_def verdict_ids_def fun_upd_idem intro!: exI [of _ "ins_Status x"])
  moreover have "fine x"
    using kc(4) assms(2) by (simp add: fine_def stored_def verdict_ids_def)
  ultimately have "good (snd (act_on_verdict ?S x v (k, f)))"
    by (rule instance_writes.good_act) (simp add: verdict_ids_def)
  then show ?thesis by (auto simp: good_def book_of_def)
qed

lemma reconcile_book:
  assumes "instance_store_contract kc"
  shows "(book_step K)\<^sup>=\<^sup>= (book_of kc (k, f))
    (book_of kc (snd (InstanceReconcile (FakeProviderService K kc) req (k, f))))"
proof (cases "stored kc k req")
  case (Inl e)
  then show ?thesis
    by (simp add: InstanceReconcile_verdict on_left_eq stored_def instance_store_contractD(1) [OF assms])
next
  case (Inr x)
  let ?S = "FakeProviderService K kc"
  obtain v k' f' where v: "instance_verdict ?S x (k, f) = (v, (k', f'))" by (metis surj_pair)
  note commits = verdict_commits [OF assms v]
  from act_stored [OF assms Inr, of v K f'] obtain st where st: "ins_InstanceID st \<in> verdict_ids x v"
    "book_of kc (snd (act_on_verdict ?S x v (k, f'))) =
       ((stored kc k)(req := Inr (x\<lparr>ins_Status := st\<rparr>)), committed f')" by blast
  have "InstanceReconcile ?S req (k, f) = act_on_verdict ?S x v (k, f')"
    using Inr v commits by (simp add: InstanceReconcile_verdict on_left_eq stored_def
        instance_store_contractD(1) [OF assms])
  with st have run: "book_of kc (snd (InstanceReconcile ?S req (k, f))) =
      ((stored kc k)(req := Inr (x\<lparr>ins_Status := st\<rparr>)), committed f')" by simp
  from commits have "book_step K (stored kc k, committed f)
      ((stored kc k)(req := Inr (x\<lparr>ins_Status := st\<rparr>)), committed f')"
  proof (elim conjE disjE exE)
    assume f': "committed f' = committed f" and "verdict_ids x v = {ins_InstanceID (ins_Status x)}"
    with st(1) have "ins_InstanceID st = ins_InstanceID (ins_Status x)" by simp
    with Inr show ?thesis unfolding f' by (rule book_step.report)
  next
    fix c
    assume new: "ins_InstanceID (ins_Status x) = []" "req_Name (creation_request K x) \<noteq> []"
      "cl_Id c = clusterID_of (req_Name (creation_request K x))" and f': "committed f' = committed f @ [c]"
      and "verdict_ids x v = {[], cl_Id c}"
    with st(1) have "ins_InstanceID st \<in> {[], cl_Id c}" by simp
    with Inr new show ?thesis unfolding f' by (rule book_step.create)
  qed
  then show ?thesis unfolding run by (simp add: book_of_def)
qed

section \<open>Runs\<close>

lemma reader_book:
  assumes "separate_kinds_contract kc"
    and "w' \<in> {snd (InventoryReconcile (FakeProviderService K kc) req' w),
               snd (ConnectionReconcile (FakeProviderService K kc) K req' w)}"
  shows "book_of kc w' = book_of kc w \<and> snd w' = snd w"
  using reader_run_frame [OF assms] by (auto simp: book_of_def stored_def fun_eq_iff)

lemma run_book:
  assumes "operator_run K kc w w'" and "instance_store_contract kc" and "separate_kinds_contract kc"
    and "channels_ok (snd w)"
  shows "channels_ok (snd w') \<and> (book_step K)\<^sup>*\<^sup>* (book_of kc w) (book_of kc w')"
  using assms(1)
proof (induction rule: operator_run.induct)
  case now
  show ?case using assms(4) by simp
next
  case (inventory w' req)
  then show ?case using reader_book [OF assms(3), of _ K req w'] by (metis insertI1)
next
  case (connection w' req)
  then show ?case using reader_book [OF assms(3), of _ K req w'] by (metis insertI1 insertI2)
next
  case (reconcile w' req)
  obtain k f where w': "w' = (k, f)" by fastforce
  with reconcile reconcile_grows [of f K kc req k]
  have "channels_ok (snd (snd (InstanceReconcile (FakeProviderService K kc) req w')))" by simp
  moreover from reconcile_book [OF assms(2), of K k f req] reconcile w'
  have "(book_step K)\<^sup>*\<^sup>* (book_of kc w) (book_of kc (snd (InstanceReconcile (FakeProviderService K kc) req w')))"
    by (auto intro: rtranclp.rtrancl_into_rtrancl)
  ultimately show ?case ..
next
  case (goroutine k f g)
  then show ?case using goroutine_step_quiet [of f g] by (simp add: book_of_def)
qed

text \<open>
  C4. Every run of the operator refines the abstract machine: reconciliations of any inventories,
  connections and instances, in any order and with the goroutines in between, act on the stored
  instances and the committed clusters only by writing a status that keeps the identifier, or by
  committing one cluster for an instance without identifier, under the identifier of its name.
\<close>

theorem operator_refines_book:
  assumes "operator_run K kc w w'" and "instance_store_contract kc" and "separate_kinds_contract kc"
    and "channels_ok (snd w)"
  shows "(book_step K)\<^sup>*\<^sup>* (book_of kc w) (book_of kc w')"
  using run_book [OF assms] by simp

theorem operator_refines_book_witness:
  "(book_step sample_consts)\<^sup>*\<^sup>* (book_of store_client (sample_store, NewFakeClusters))
     (book_of store_client (snd (InstanceReconcile (FakeProviderService sample_consts store_client)
        (sample_key ''providerinstance-sample'') (sample_store, NewFakeClusters))))"
  by (rule operator_refines_book [OF operator_run.reconcile [OF operator_run.now] store_instances
      store_separate_kinds]) simp

section \<open>Invariants of the machine\<close>

text \<open>Every stored identifier is that of a committed cluster.\<close>

definition backed :: "book \<Rightarrow> bool" where
  "backed b \<longleftrightarrow> (\<forall>req x. fst b req = Inr x \<longrightarrow>
     ins_InstanceID (ins_Status x) \<in> insert [] (cl_Id ` set (snd b)))"

lemma backed_step: "book_step K b b' \<Longrightarrow> backed b \<Longrightarrow> backed b'"
  by (induction rule: book_step.induct) (auto simp: backed_def)

lemma backed_steps: "(book_step K)\<^sup>*\<^sup>* b b' \<Longrightarrow> backed b \<Longrightarrow> backed b'"
  by (induction rule: rtranclp_induct) (auto dest: backed_step)

text \<open>An instance keeps its specification, and its identifier once it has one.\<close>

definition keeps_instance :: "object_key \<Rightarrow> ProviderInstance \<Rightarrow> book \<Rightarrow> bool" where
  "keeps_instance req x b \<longleftrightarrow> (\<exists>x'. fst b req = Inr x' \<and> ins_Spec x' = ins_Spec x \<and>
     (ins_InstanceID (ins_Status x) \<noteq> [] \<longrightarrow>
        ins_InstanceID (ins_Status x') = ins_InstanceID (ins_Status x)))"

lemma keeps_instance_step: "book_step K b b' \<Longrightarrow> keeps_instance req x b \<Longrightarrow> keeps_instance req x b'"
  by (induction rule: book_step.induct) (auto simp: keeps_instance_def)

lemma keeps_instance_steps: "(book_step K)\<^sup>*\<^sup>* b b' \<Longrightarrow> keeps_instance req x b \<Longrightarrow> keeps_instance req x b'"
  by (induction rule: rtranclp_induct) (auto dest: keeps_instance_step)

text \<open>No committed cluster has the identifier, and no instance can still bring one into being.\<close>

definition never_created :: "dbaas_consts \<Rightarrow> string \<Rightarrow> book \<Rightarrow> bool" where
  "never_created K i b \<longleftrightarrow> i \<notin> cl_Id ` set (snd b) \<and>
     (\<forall>req x. fst b req = Inr x \<longrightarrow> ins_InstanceID (ins_Status x) = [] \<longrightarrow>
        clusterID_of (req_Name (creation_request K x)) \<noteq> i)"

lemma creation_request_status [simp]:
  "creation_request K (x\<lparr>ins_Status := st\<rparr>) = creation_request K x"
  by (rule creation_request_cong) simp

lemma never_created_step: "book_step K b b' \<Longrightarrow> never_created K i b \<Longrightarrow> never_created K i b'"
  by (induction rule: book_step.induct) (auto simp: never_created_def)

lemma never_created_steps: "(book_step K)\<^sup>*\<^sup>* b b' \<Longrightarrow> never_created K i b \<Longrightarrow> never_created K i b'"
  by (induction rule: rtranclp_induct) (auto dest: never_created_step)

end
