(* ===== verification/Instance_Lifecycle.thy ===== *)
theory Instance_Lifecycle
  imports Bookkeeping
begin

text \<open>
  An instance's identifier over time: what stored identifiers refer to in every run, what becomes of
  them when the operator restarts, and what it means to reconcile an instance twice, once it is ready
  and once right after its identifier was lost.
\<close>

section \<open>A reconciliation that has its cluster\<close>

lemma got_cluster_run:
  assumes "instance_store_contract kc" and "fst (GetInstance kc req k) = Inr x"
    and "instance_verdict (FakeProviderService K kc) x (k, f) = (GotCluster ph (Some c), (k, f'))"
    and "cl_Id c \<noteq> []" and "PopulateInstanceInfo c = Returns info"
    and "StatusUpdateInstance kc (x\<lparr>ins_Status := ready_status c info (ins_Status x)\<rparr>) k = ((e, y), k')"
    and "\<And>err. e = Some err \<Longrightarrow> IsConflict err"
  shows "InstanceReconcile (FakeProviderService K kc) req (k, f) =
    (Returns (if e = None then no_requeue else requeue, None), (k', f'))"
proof -
  have "updateClusterDetails (Some c) (ins_Status (with_phase ph x)) = Returns (None,
      (ins_Status (with_phase ph x))\<lparr>ins_InstanceID := cl_Id c, ins_InstanceInfo := info\<rparr>)"
    using assms(4,5) by (simp add: updateClusterDetails_def)
  with assms show ?thesis
    by (cases e) (simp_all add: InstanceReconcile_verdict on_left_eq instance_store_contractD(1)
        act_on_verdict_def InstanceFinish_eq InstanceReadyUpdate_eq with_phase_ready_status Let_def)
qed

lemma ready_status_twice [simp]: "ready_status c info (ready_status c info st) = ready_status c info st"
  by (simp add: ready_status_def)

lemma create_verdict:
  assumes "instance_store_contract kc" and "ins_InstanceID (ins_Status x) = []"
    and "fst (GetInventory kc (ins_InventoryRef (ins_Spec x)) k) = Inr iv"
    and "req_Name (creation_request K x) \<noteq> []"
    and "fst (fst (CreateCluster (creation_request K x) f)) = Inr c"
  shows "instance_verdict (FakeProviderService K kc) x (k, f) =
    (GotCluster InstancePhaseCreating (Some c), (k, snd (CreateCluster (creation_request K x) f)))"
proof -
  have r: "creation_request K (with_phase InstancePhaseCreating x) = creation_request K x"
    by (rule creation_request_cong) simp
  show ?thesis
    using assms by (simp add: instance_verdict_def on_left_eq FakeCreateCloudService_eq
        FakeCreateCluster_eq r instance_store_contractD verdict_of_call_def)
qed

lemma get_verdict:
  assumes "instance_store_contract kc" and "ins_InstanceID (ins_Status x) \<noteq> []"
    and "fst (GetInventory kc (ins_InventoryRef (ins_Spec x)) k) = Inr iv"
    and "List.find (\<lambda>c. cl_Id c = ins_InstanceID (ins_Status x)) (clusters f) = Some c"
  shows "instance_verdict (FakeProviderService K kc) x (k, f) =
    (GotCluster InstancePhasePending (Some c), (k, f))"
  using assms by (simp add: instance_verdict_def on_left_eq FakeCreateCloudService_eq FakeGetCluster_eq
      instance_store_contractD verdict_of_call_def)

lemma created_info:
  assumes "fst (fst (CreateCluster r f)) = Inr c"
  obtains info where "PopulateInstanceInfo c = Returns info" and "cl_Id c = clusterID_of (req_Name r)"
    and "cl_Id c \<noteq> []"
  using assms by (auto simp: CreateCluster_Inr check_create_Inr clusterID_of_def PopulateInstanceInfo_def)

section \<open>The sample instance over time\<close>

text \<open>The sample instance's cluster, after the goroutines have added it.\<close>

definition settled_cloud :: FakeClusters where
  "settled_cloud = settle (snd (CreateCluster sample_request NewFakeClusters))"

lemma sample_creation:
  "CreateCluster sample_request NewFakeClusters =
     ((Inr sample_cluster, buildFakeResponse), send_addCluster sample_cluster NewFakeClusters)"
  using sample_created by (simp add: CreateCluster_def sample_cluster_def)

lemma settled_cloud_reached:
  "goroutine_step\<^sup>*\<^sup>* (snd (CreateCluster sample_request NewFakeClusters)) settled_cloud"
  "goroutine_work settled_cloud = 0"
  using settle_at_rest [OF send_NewFakeClusters_channels] by (simp_all add: settled_cloud_def sample_creation)

lemma initial_run: "cloud_run [] \<lparr>fc = NewFakeClusters, sending = None\<rparr>"
  using cloud_run.start by (simp add: init_cloud_def)

abbreviation sample_req :: object_key where
  "sample_req \<equiv> sample_key ''providerinstance-sample''"

lemma sample_request_of: "creation_request sample_consts sample_instance = sample_request"
  by (simp add: creation_request_def getClusterParameter_def sample_instance_def sample_consts_def
      sample_request_def)

lemma sample_stored:
  "fst (GetInstance store_client sample_req (sample_store\<lparr>st_failures := es\<rparr>)) = Inr sample_instance"
  "fst (GetInventory store_client (ins_InventoryRef (ins_Spec sample_instance))
     (sample_store\<lparr>st_failures := es\<rparr>)) = Inr sample_inventory"
  by (simp_all add: read_store_def)

lemma sample_create_verdict:
  "instance_verdict (FakeProviderService sample_consts store_client) sample_instance
     (sample_store\<lparr>st_failures := es\<rparr>, NewFakeClusters) =
   (GotCluster InstancePhaseCreating (Some sample_cluster), (sample_store\<lparr>st_failures := es\<rparr>,
     send_addCluster sample_cluster NewFakeClusters))"
  using create_verdict [OF store_instances _ sample_stored(2), of sample_consts NewFakeClusters sample_cluster es]
  by (simp add: sample_request_of sample_creation) (simp add: sample_request_def)

definition ready_sample :: "(string, string) go_map \<Rightarrow> ProviderInstance" where
  "ready_sample info = sample_instance
     \<lparr>ins_Status := ready_status sample_cluster info (ins_Status sample_instance)\<rparr>"

definition ready_store :: "(string, string) go_map \<Rightarrow> store" where
  "ready_store info = sample_store\<lparr>st_instances := [(sample_req, ready_sample info)]\<rparr>"

lemma ready_sample_sel [simp]:
  "ins_ObjectMeta (ready_sample info) = sample_meta ''providerinstance-sample''"
  "ins_Spec (ready_sample info) = ins_Spec sample_instance"
  "ins_InstanceID (ins_Status (ready_sample info)) = ''a-cluster-instance-id-dbaas''"
  "ins_Status (ready_sample info) = ready_status sample_cluster info (ins_Status sample_instance)"
  "stored_at sample_req (ready_sample info) = ready_sample info"
  by (simp_all add: ready_sample_def ready_status_def)

lemma ready_sample_again [simp]:
  "ready_sample info \<lparr>ins_Status := ready_status sample_cluster info (ins_Status sample_instance)\<rparr> =
     ready_sample info"
  by (simp add: ready_sample_def)

lemma ready_store_sel [simp]:
  "st_inventories (ready_store info) = [(sample_key ''test'', sample_inventory)]"
  "st_instances (ready_store info) = [(sample_req, ready_sample info)]"
  "st_failures (ready_store info) = []"
  by (simp_all add: ready_store_def)

lemma ready_stored:
  "fst (GetInstance store_client q (ready_store info)) =
     (if q = sample_req then Inr (ready_sample info) else Inl missing)"
  by (simp add: read_store_def)

lemma sample_ready_run:
  assumes "PopulateInstanceInfo sample_cluster = Returns info"
  shows "InstanceReconcile (FakeProviderService sample_consts store_client) sample_req
      (sample_store, NewFakeClusters) =
    (Returns (no_requeue, None), (ready_store info, send_addCluster sample_cluster NewFakeClusters))"
proof -
  have st: "sample_store\<lparr>st_failures := []\<rparr> = sample_store" by (simp add: sample_store_def)
  have "StatusUpdateInstance store_client (ready_sample info) sample_store =
      ((None, ready_sample info), ready_store info)"
    by (simp add: store_client_updates) (simp add: ready_store_def ready_sample_def)
  then show ?thesis
    using got_cluster_run [OF store_instances sample_stored(1) [of "[]", unfolded st]
        sample_create_verdict [of "[]", unfolded st] _ assms, of None "ready_sample info" "ready_store info"]
    by (simp add: ready_sample_def)
qed

section \<open>Identifiers in a run\<close>

lemma run_from_new_cloud:
  assumes "operator_run K kc (k, NewFakeClusters) (k', f')"
    and "instance_store_contract kc" and "separate_kinds_contract kc"
  shows "channels_ok f' \<and>
    (book_step K)\<^sup>*\<^sup>* (stored kc k, [cluster1, cluster2, cluster3]) (stored kc k', committed f')"
  using run_book [OF assms] by (simp add: book_of_def)

text \<open>
  C5. Starting with the new cloud and no identifiers stored, every identifier that any instance ever
  has stored is that of a cluster committed to the cloud, and whenever the goroutines are at rest the
  cloud service returns a cluster with it.
\<close>

theorem stored_identifiers_have_clusters:
  assumes "operator_run K kc (k, NewFakeClusters) (k', f')"
    and "instance_store_contract kc" and "separate_kinds_contract kc"
    and "\<And>q y. fst (GetInstance kc q k) = Inr y \<Longrightarrow> ins_InstanceID (ins_Status y) = []"
    and "fst (GetInstance kc req k') = Inr x" and "ins_InstanceID (ins_Status x) \<noteq> []"
  shows "ins_InstanceID (ins_Status x) \<in> cl_Id ` set (committed f') \<and>
    (goroutine_work f' = 0 \<longrightarrow>
      (\<exists>c. fst (svc_GetCluster (FakeProviderService K kc) NewFakeAPIClient
          (ins_InstanceID (ins_Status x)) (k', f')) = Inr (Some c) \<and>
        cl_Id c = ins_InstanceID (ins_Status x)))"
proof -
  let ?i = "ins_InstanceID (ins_Status x)"
  have "backed (stored kc k, [cluster1, cluster2, cluster3])"
    using assms(4) by (auto simp: backed_def stored_def)
  with run_from_new_cloud [OF assms(1-3)] backed_steps have "backed (stored kc k', committed f')" by blast
  with assms(5,6) have i: "?i \<in> cl_Id ` set (committed f')" by (auto simp: backed_def stored_def)
  show ?thesis
  proof (intro conjI impI i)
    assume "goroutine_work f' = 0"
    with i rest_committed have "?i \<in> cl_Id ` set (clusters f')" by simp
    then obtain c where c: "c \<in> set (clusters f')" "cl_Id c = ?i" by auto
    from find_ex [OF c(1), of "\<lambda>c. cl_Id c = ?i"] c(2) obtain c' where
      "List.find (\<lambda>c. cl_Id c = ?i) (clusters f') = Some c'" "cl_Id c' = ?i" by auto
    then show "\<exists>c. fst (svc_GetCluster (FakeProviderService K kc) NewFakeAPIClient ?i (k', f')) =
        Inr (Some c) \<and> cl_Id c = ?i"
      by (auto simp: FakeGetCluster_eq)
  qed
qed

theorem stored_identifiers_have_clusters_witness:
  "\<exists>k' f' x. snd (InstanceReconcile (FakeProviderService sample_consts store_client) sample_req
      (sample_store, NewFakeClusters)) = (k', f') \<and>
    fst (GetInstance store_client sample_req k') = Inr x \<and>
    ins_InstanceID (ins_Status x) \<in> cl_Id ` set (committed f') \<and> ins_InstanceID (ins_Status x) \<noteq> []"
proof -
  obtain info where "PopulateInstanceInfo sample_cluster = Returns info"
    using sample_cluster_info by blast
  note run = sample_ready_run [OF this]
  have r: "operator_run sample_consts store_client (sample_store, NewFakeClusters)
      (ready_store info, send_addCluster sample_cluster NewFakeClusters)"
    using operator_run.reconcile [OF operator_run.now, of sample_consts store_client
      "(sample_store, NewFakeClusters)" sample_req] run by simp
  have none: "ins_InstanceID (ins_Status y) = []"
    if "fst (GetInstance store_client q sample_store) = Inr y" for q y
    using that by (auto simp: read_store_def split: if_splits)
  have x: "fst (GetInstance store_client sample_req (ready_store info)) = Inr (ready_sample info)"
    by (simp add: read_store_def)
  have id: "ins_InstanceID (ins_Status (ready_sample info)) \<noteq> []" by (simp add: ready_status_def)
  from stored_identifiers_have_clusters [OF r store_instances store_separate_kinds none x id]
  have "ins_InstanceID (ins_Status (ready_sample info)) \<in> cl_Id ` set (committed
      (send_addCluster sample_cluster NewFakeClusters))" ..
  moreover from run have "snd (InstanceReconcile (FakeProviderService sample_consts store_client) sample_req
      (sample_store, NewFakeClusters)) = (ready_store info, send_addCluster sample_cluster NewFakeClusters)"
    by simp
  ultimately show ?thesis using x id by blast
qed

text \<open>An instance whose cluster is gone.\<close>

lemma stranded_reconcile:
  assumes "instance_store_contract kc" and "fst (GetInstance kc req k) = Inr x"
    and "ins_InstanceID (ins_Status x) \<noteq> []"
    and "ins_InstanceID (ins_Status x) \<notin> cl_Id ` set (clusters f)"
  shows "\<exists>res err. fst (InstanceReconcile (FakeProviderService K kc) req (k, f)) = Returns (res, Some err)"
proof -
  let ?S = "FakeProviderService K kc"
  have "List.find (\<lambda>c. cl_Id c = ins_InstanceID (ins_Status x)) (clusters f) = None"
    using assms(4) by (force simp: find_None_iff)
  then have "\<exists>v w. instance_verdict ?S x (k, f) = (v, w) \<and> (\<forall>ph c. v \<noteq> GotCluster ph c)"
    using assms(3) by (auto simp: instance_verdict_def on_left_eq FakeCreateCloudService_eq FakeGetCluster_eq
        verdict_of_call_def split: sum.split)
  then obtain v w where v: "instance_verdict ?S x (k, f) = (v, w)" "\<And>ph c. v \<noteq> GotCluster ph c" by blast
  have "InstanceReconcile ?S req (k, f) = act_on_verdict ?S x v w"
    using assms(2) v(1) by (simp add: InstanceReconcile_verdict on_left_eq instance_store_contractD(1) [OF assms(1)])
  with v(2) show ?thesis
    by (cases v) (auto simp: act_on_verdict_def instance_failed_eq Let_def split: option.split)
qed

text \<open>
  C8. The cloud lives in the operator's memory and a restart brings back only its three first clusters,
  while identifiers stay in the resources. An instance with the identifier of another cluster is then
  stranded: whatever runs after the restart, it keeps that identifier, so no cluster is created for
  it again, and reconciling it returns an error, as long as no instance without an identifier asks
  for a cluster of the same name.
\<close>

theorem restart_strands_instance:
  assumes "operator_run K kc (k, NewFakeClusters) (k', f')"
    and "instance_store_contract kc" and "separate_kinds_contract kc"
    and "fst (GetInstance kc req k) = Inr x"
    and "ins_InstanceID (ins_Status x) \<notin> insert [] (cl_Id ` {cluster1, cluster2, cluster3})"
    and "\<And>q y. fst (GetInstance kc q k) = Inr y \<Longrightarrow> ins_InstanceID (ins_Status y) = [] \<Longrightarrow>
      clusterID_of (req_Name (creation_request K y)) \<noteq> ins_InstanceID (ins_Status x)"
  shows "(\<exists>x'. fst (GetInstance kc req k') = Inr x' \<and>
      ins_InstanceID (ins_Status x') = ins_InstanceID (ins_Status x)) \<and>
    (\<exists>res err. fst (InstanceReconcile (FakeProviderService K kc) req (k', f')) = Returns (res, Some err))"
proof -
  let ?b = "(stored kc k, [cluster1, cluster2, cluster3])" and ?i = "ins_InstanceID (ins_Status x)"
  from run_from_new_cloud [OF assms(1-3)] have steps: "(book_step K)\<^sup>*\<^sup>* ?b (stored kc k', committed f')" by simp
  have "keeps_instance req x ?b" using assms(4) by (simp add: keeps_instance_def stored_def)
  from keeps_instance_steps [OF steps this] assms(5) obtain x' where
    x': "fst (GetInstance kc req k') = Inr x'" "ins_InstanceID (ins_Status x') = ?i"
    by (auto simp: keeps_instance_def stored_def)
  have "never_created K ?i ?b" using assms(5,6) by (auto simp: never_created_def stored_def)
  from never_created_steps [OF steps this] have "?i \<notin> cl_Id ` set (committed f')"
    by (simp add: never_created_def)
  then have "ins_InstanceID (ins_Status x') \<notin> cl_Id ` set (clusters f')"
    by (auto simp: x'(2) committed_def)
  from stranded_reconcile [OF assms(2) x'(1) _ this] x' assms(5) show ?thesis by auto
qed

theorem restart_strands_instance_witness:
  "\<exists>info res err. PopulateInstanceInfo sample_cluster = Returns info \<and>
    fst (InstanceReconcile (FakeProviderService sample_consts store_client) sample_req
      (ready_store info, NewFakeClusters)) = Returns (res, Some err)"
proof -
  obtain info where info: "PopulateInstanceInfo sample_cluster = Returns info"
    using sample_cluster_info by blast
  have x: "fst (GetInstance store_client sample_req (ready_store info)) = Inr (ready_sample info)"
    by (simp add: read_store_def)
  have id: "ins_InstanceID (ins_Status (ready_sample info)) \<notin>
      insert [] (cl_Id ` {cluster1, cluster2, cluster3})"
    by (simp add: cluster_defs ready_status_def)
  have others: "clusterID_of (req_Name (creation_request sample_consts y)) \<noteq>
      ins_InstanceID (ins_Status (ready_sample info))"
    if "fst (GetInstance store_client q (ready_store info)) = Inr y" "ins_InstanceID (ins_Status y) = []" for q y
    using that by (auto simp: read_store_def ready_status_def split: if_splits)
  have "\<exists>res err. fst (InstanceReconcile (FakeProviderService sample_consts store_client) sample_req
      (ready_store info, NewFakeClusters)) = Returns (res, Some err)"
    by (rule restart_strands_instance [OF operator_run.now store_instances store_separate_kinds x id,
        THEN conjunct2], rule others)
  with info show ?thesis by blast
qed

section \<open>Twice\<close>

text \<open>
  C9. Reconciling is idempotent once an instance has its cluster: while the cloud lists the cluster and
  the API server accepts the writes, a reconciliation leaves the instance ready with that cluster's
  info, and the next one leaves every stored instance and the cloud exactly as they are.
\<close>

theorem ready_reconcile_idempotent:
  assumes "instance_store_contract kc"
    and "fst (GetInstance kc req k) = Inr x" and "ins_InstanceID (ins_Status x) \<noteq> []"
    and "fst (GetInventory kc (ins_InventoryRef (ins_Spec x)) k) = Inr iv"
    and "List.find (\<lambda>c. cl_Id c = ins_InstanceID (ins_Status x)) (clusters f) = Some c"
    and "PopulateInstanceInfo c = Returns info"
    and "InstanceReconcile (FakeProviderService K kc) req (k, f) = (out1, (k1, f1))"
    and "InstanceReconcile (FakeProviderService K kc) req (k1, f1) = (out2, (k2, f2))"
    and "\<And>y w. meta_key (ins_ObjectMeta y) = req \<Longrightarrow> w \<in> {k, k1} \<Longrightarrow>
      fst (fst (StatusUpdateInstance kc y w)) = None"
  shows "out1 = Returns (no_requeue, None) \<and> out2 = out1 \<and> f1 = f \<and> f2 = f \<and>
    (\<forall>q. fst (GetInstance kc q k2) = fst (GetInstance kc q k1)) \<and>
    fst (GetInstance kc req k2) = Inr (x\<lparr>ins_Status := ready_status c info (ins_Status x)\<rparr>)"
proof -
  note kc = instance_store_contractD [OF assms(1)]
  have id: "cl_Id c = ins_InstanceID (ins_Status x)" using find_Some_set [OF assms(5)] by simp
  have run: "InstanceReconcile (FakeProviderService K kc) req (w, f) = (Returns (no_requeue, None),
      (snd (StatusUpdateInstance kc (z\<lparr>ins_Status := ready_status c info (ins_Status z)\<rparr>) w), f))"
    if z: "fst (GetInstance kc req w) = Inr z" "ins_InstanceID (ins_Status z) = cl_Id c"
      "fst (GetInventory kc (ins_InventoryRef (ins_Spec z)) w) = Inr iv" "w \<in> {k, k1}" for w z
  proof -
    let ?y = "z\<lparr>ins_Status := ready_status c info (ins_Status z)\<rparr>"
    have "fst (fst (StatusUpdateInstance kc ?y w)) = None"
      using assms(9) [of ?y w] kc(4) [OF z(1)] z(4) by simp
    then obtain y w' where u: "StatusUpdateInstance kc ?y w = ((None, y), w')" by (metis prod.collapse)
    have v: "instance_verdict (FakeProviderService K kc) z (w, f) =
        (GotCluster InstancePhasePending (Some c), (w, f))"
      by (rule get_verdict [OF assms(1) _ z(3)]) (use assms(3,5) z(2) id in simp_all)
    from got_cluster_run [OF assms(1) z(1) v _ assms(6) u] u show ?thesis using assms(3) id by simp
  qed
  let ?y = "x\<lparr>ins_Status := ready_status c info (ins_Status x)\<rparr>"
  have y: "ins_Spec ?y = ins_Spec x" "ins_InstanceID (ins_Status ?y) = cl_Id c"
    by (simp_all add: ready_status_def)
  from run [OF assms(2) id [symmetric] assms(4)] assms(7)
  have r1: "out1 = Returns (no_requeue, None)" "k1 = snd (StatusUpdateInstance kc ?y k)" "f1 = f" by simp_all
  have key: "meta_key (ins_ObjectMeta ?y) = req" using kc(4) [OF assms(2)] by simp
  with assms(9) have ok: "fst (fst (StatusUpdateInstance kc ?y k)) = None"
    "fst (fst (StatusUpdateInstance kc ?y k1)) = None" by simp_all
  have g1: "fst (GetInstance kc req k1) = Inr ?y"
    unfolding r1(2) kc(5) using key ok(1) assms(2) by simp
  have inv1: "fst (GetInventory kc (ins_InventoryRef (ins_Spec ?y)) k1) = Inr iv"
    unfolding r1(2) kc(6) using assms(4) by simp
  from run [OF g1 y(2) inv1] assms(8)
  have r2: "out2 = Returns (no_requeue, None)" "k2 = snd (StatusUpdateInstance kc ?y k1)" "f2 = f"
    by (simp_all add: r1(3))
  have "fst (GetInstance kc q k2) = fst (GetInstance kc q k1)" for q
    unfolding r2(2) kc(5) using key ok(2) g1 by (cases "fst (GetInstance kc q k1)") auto
  with r1 r2 g1 show ?thesis by simp
qed

lemma ready_write:
  "StatusUpdateInstance store_client (ready_sample info) (ready_store info) =
     ((None, ready_sample info), ready_store info)"
  by (simp add: store_client_updates ready_store_def)

theorem ready_reconcile_idempotent_witness:
  "\<exists>info. fst (GetInstance store_client sample_req (fst (snd (InstanceReconcile
      (FakeProviderService sample_consts store_client) sample_req (ready_store info, settled_cloud))))) =
    Inr (ready_sample info)"
proof -
  obtain info where info: "PopulateInstanceInfo sample_cluster = Returns info"
    using sample_cluster_info by blast
  have x: "fst (GetInstance store_client sample_req (ready_store info)) = Inr (ready_sample info)"
    by (simp add: read_store_def)
  have id: "ins_InstanceID (ins_Status (ready_sample info)) \<noteq> []" by (simp add: ready_status_def)
  have iv: "fst (GetInventory store_client (ins_InventoryRef (ins_Spec (ready_sample info)))
      (ready_store info)) = Inr sample_inventory" by (simp add: read_store_def)
  have find: "List.find (\<lambda>c. cl_Id c = ins_InstanceID (ins_Status (ready_sample info)))
      (clusters settled_cloud) = Some sample_cluster"
    by (simp add: settled_cloud_def sample_creation cluster_defs ready_status_def)
  have v: "instance_verdict (FakeProviderService sample_consts store_client) (ready_sample info)
      (ready_store info, settled_cloud) =
      (GotCluster InstancePhasePending (Some sample_cluster), (ready_store info, settled_cloud))"
    by (rule get_verdict [OF store_instances id iv find])
  have run: "InstanceReconcile (FakeProviderService sample_consts store_client) sample_req
      (ready_store info, settled_cloud) = (Returns (no_requeue, None), (ready_store info, settled_cloud))"
    using got_cluster_run [OF store_instances x v _ info, of None "ready_sample info" "ready_store info"]
    by (simp add: ready_write)
  have ok: "fst (fst (StatusUpdateInstance store_client y w)) = None"
    if "meta_key (ins_ObjectMeta y) = sample_req" "w \<in> {ready_store info, ready_store info}" for y w
    using that by (simp add: store_client_updates)
  from ready_reconcile_idempotent [OF store_instances x id iv find info run run ok] run show ?thesis
    by (intro exI [of _ info]) simp
qed

text \<open>
  C7. A conflict on the status write right after a creation, retried before the add goroutine has
  received the message, creates the cluster a second time: the new cluster is not yet visible to the
  check for duplicates, so the second creation succeeds too, and once the goroutines have settled the
  cloud lists two clusters with the same identifier. The instance gets that identifier when the second
  write is accepted.
\<close>

theorem early_retry_duplicates_cluster:
  assumes "instance_store_contract kc"
    and "fst (GetInstance kc req k) = Inr x" and "ins_InstanceID (ins_Status x) = []"
    and "fst (GetInventory kc (ins_InventoryRef (ins_Spec x)) k) = Inr iv"
    and "req_Name (creation_request K x) \<noteq> []"
    and "fst (fst (CreateCluster (creation_request K x) f)) = Inr c" and "length (addCluster f) < chan_cap"
    and "\<And>info. \<exists>err. fst (fst (StatusUpdateInstance kc
        (x\<lparr>ins_Status := ready_status c info (ins_Status x)\<rparr>) k)) = Some err \<and> IsConflict err"
    and "InstanceReconcile (FakeProviderService K kc) req (k, f) = (out1, (k1, f1))"
    and "\<And>info. fst (fst (StatusUpdateInstance kc
        (x\<lparr>ins_Status := ready_status c info (ins_Status x)\<rparr>) k1)) = None"
    and "InstanceReconcile (FakeProviderService K kc) req (k1, f1) = (out2, (k2, f2))"
  shows "out1 = Returns (requeue, None) \<and> out2 = Returns (no_requeue, None) \<and>
    clusters (settle f2) = committed f @ [c, c] \<and>
    (\<exists>x2. fst (GetInstance kc req k2) = Inr x2 \<and> ins_InstanceID (ins_Status x2) = cl_Id c)"
proof -
  let ?r = "creation_request K x"
  note kc = instance_store_contractD [OF assms(1)]
  obtain info where info: "PopulateInstanceInfo c = Returns info" and id: "cl_Id c \<noteq> []"
    by (rule created_info [OF assms(6)])
  let ?y = "x\<lparr>ins_Status := ready_status c info (ins_Status x)\<rparr>"
  have key: "meta_key (ins_ObjectMeta ?y) = req" using kc(4) [OF assms(2)] by simp
  from assms(8) obtain err z1 w1 where u1: "StatusUpdateInstance kc ?y k = ((Some err, z1), w1)" "IsConflict err"
    by (metis prod.collapse)
  from got_cluster_run [OF assms(1,2) create_verdict [OF assms(1,3-6)] id info u1(1)] u1(2) assms(9)
  have r1: "out1 = Returns (requeue, None)" "k1 = w1" "f1 = snd (CreateCluster ?r f)" by simp_all
  have x1: "fst (GetInstance kc req k1) = Inr x"
    using kc(5) [of req ?y k] u1 r1(2) assms(2) by simp
  have iv1: "fst (GetInventory kc (ins_InventoryRef (ins_Spec x)) k1) = Inr iv"
    using kc(6) [of _ ?y k] u1 r1(2) assms(4) by simp
  have "check_create ?r (clusters f) = Inr c" using assms(6) by (simp add: CreateCluster_Inr)
  then have f1: "clusters f1 = clusters f"
    using assms(7) by (simp add: r1(3) CreateCluster_state_Inr send_addCluster_def)
  then have c1: "fst (fst (CreateCluster ?r f1)) = Inr c" using assms(6) by (simp add: CreateCluster_Inr)
  from assms(10) obtain z2 w2 where u2: "StatusUpdateInstance kc ?y k1 = ((None, z2), w2)"
    by (metis prod.collapse)
  from got_cluster_run [OF assms(1) x1 create_verdict [OF assms(1,3) iv1 assms(5) c1] id info u2] assms(11)
  have r2: "out2 = Returns (no_requeue, None)" "k2 = w2" "f2 = snd (CreateCluster ?r f1)" by simp_all
  have "committed f2 = committed f @ [c, c]"
    using fake_cloud.create_commits [OF assms(6)] fake_cloud.create_commits [OF c1] by (simp add: r1(3) r2(3))
  moreover have "fst (GetInstance kc req k2) = Inr ?y"
    using kc(5) [of req ?y k1] u2 r2(2) x1 key by simp
  ultimately show ?thesis using r1(1) r2(1) by (simp add: ready_status_def)
qed

theorem early_retry_duplicates_cluster_witness:
  "\<exists>f2. snd (snd (InstanceReconcile (FakeProviderService sample_consts store_client) sample_req
      (snd (InstanceReconcile (FakeProviderService sample_consts store_client) sample_req
        (sample_store\<lparr>st_failures := [conflict]\<rparr>, NewFakeClusters))))) = f2 \<and>
    clusters (settle f2) = [cluster1, cluster2, cluster3, sample_cluster, sample_cluster]"
proof -
  let ?S = "FakeProviderService sample_consts store_client" and ?st = "sample_store\<lparr>st_failures := [conflict]\<rparr>"
  obtain out1 k1 f1 where r1: "InstanceReconcile ?S sample_req (?st, NewFakeClusters) = (out1, (k1, f1))"
    by (metis prod.exhaust)
  obtain out2 k2 f2 where r2: "InstanceReconcile ?S sample_req (k1, f1) = (out2, (k2, f2))"
    by (metis prod.exhaust)
  obtain info where info: "PopulateInstanceInfo sample_cluster = Returns info"
    using sample_cluster_info by blast
  have u: "StatusUpdateInstance store_client (sample_instance\<lparr>ins_Status := ready_status sample_cluster info'
      (ins_Status sample_instance)\<rparr>) ?st = ((Some conflict, sample_instance\<lparr>ins_Status :=
      ready_status sample_cluster info' (ins_Status sample_instance)\<rparr>), sample_store)" for info'
    by (simp add: store_client_updates sample_store_def)
  from got_cluster_run [OF store_instances sample_stored(1) sample_create_verdict _ info u] r1
  have k1: "k1 = sample_store" by simp
  have name: "req_Name (creation_request sample_consts sample_instance) \<noteq> []"
    by (simp add: sample_request_of) (simp add: sample_request_def)
  have c: "fst (fst (CreateCluster (creation_request sample_consts sample_instance) NewFakeClusters)) =
      Inr sample_cluster" by (simp add: sample_request_of sample_creation)
  have room: "length (addCluster NewFakeClusters) < chan_cap"
    by (simp add: NewFakeClusters_def chan_cap_def)
  have lost: "\<exists>err. fst (fst (StatusUpdateInstance store_client (sample_instance
      \<lparr>ins_Status := ready_status sample_cluster info (ins_Status sample_instance)\<rparr>) ?st)) = Some err \<and>
      IsConflict err" for info by (simp add: u)
  have ok: "fst (fst (StatusUpdateInstance store_client (sample_instance
      \<lparr>ins_Status := ready_status sample_cluster info (ins_Status sample_instance)\<rparr>) k1)) = None" for info
    by (simp add: k1 store_client_updates)
  from early_retry_duplicates_cluster [OF store_instances sample_stored(1) _ sample_stored(2) name c room lost r1
      ok r2] r1 r2 show ?thesis by simp
qed

end
