(* ===== verification/End_To_End.thy ===== *)
theory End_To_End
  imports Instance_Lifecycle
begin

text \<open>
  From a new instance to a ready connection: the three controllers and the cloud's goroutines, one
  after the other, over an API server in good health. The contracts are those of \<open>Kube_Client\<close>.
\<close>

section \<open>The steps\<close>

lemma committed_create:
  assumes "fst (fst (CreateCluster r f)) = Inr c" and "channels_ok f"
    and "goroutine_step\<^sup>*\<^sup>* (snd (CreateCluster r f)) g" and "goroutine_work g = 0"
  shows "clusters g = committed f @ [c]" and "channels_ok g"
proof -
  have ch: "channels_ok (snd (CreateCluster r f))" using CreateCluster_grows [OF assms(2)] by simp
  from goroutine_steps_quiet [OF assms(3) ch] fake_cloud.create_commits [OF assms(1)]
    rest_committed [OF assms(4)]
  show "clusters g = committed f @ [c]" "channels_ok g" by simp_all
qed

text \<open>An inventory that lists the cloud stores what it listed.\<close>

lemma inventory_stored:
  assumes "set_condition_contract kc" and "status_store_contract kc" and "accepting_contract kc healthy"
    and "healthy k" and "\<And>s. snd (GetSecret kc s k) = k" and "GetInventory kc key k = (Inr iv, k)"
    and "meta_key (inv_ObjectMeta iv) = key" and "discover_loop (clusters f) = Returns l"
  obtains y k' where "InventoryReconcile (FakeProviderService K kc) key (k, f) =
      (Returns (no_requeue, None), (k', f))"
    and "k' = snd (StatusUpdateInventory kc y k)" and "healthy k'"
    and "fst (GetInventory kc key k') = Inr (iv\<lparr>inv_Status := inv_Status y\<rparr>)"
    and "synced_condition y = Some (ConditionTrue, InventorySyncOK)"
    and "inv_DatabaseServices (inv_Status y) = l"
proof -
  let ?S = "FakeProviderService K kc"
  let ?y = "inventory_with_condition kc k (iv\<lparr>inv_Status := (inv_Status iv)\<lparr>inv_DatabaseServices := l\<rparr>\<rparr>)
    (mk_condition inventoryConditionTypeReady ConditionTrue InventorySyncOK InventorySyncOK)"
  have w: "inventory_with_condition (lift_client kc) (k, f) x c = inventory_with_condition kc k x c" for x c
    by (simp add: inventory_with_condition_def)
  have listing: "inventory_listing ?S iv (k, f) = (Returns (Inr l), (k, f))"
    by (simp add: inventory_listing_def FakeCreateCloudService_eq FakeDiscoverClusters_eq assms(5,8))
  have key: "meta_key (inv_ObjectMeta ?y) = key" using assms(7) by simp
  have ok: "fst (fst (StatusUpdateInventory kc ?y k)) = None \<and> healthy (snd (StatusUpdateInventory kc ?y k))"
    using accepting_contractD(2) [OF assms(3,4), of ?y] assms(6) key by simp
  show thesis
  proof (rule that [of "snd (StatusUpdateInventory kc ?y k)" ?y])
    show "InventoryReconcile ?S key (k, f) =
        (Returns (no_requeue, None), (snd (StatusUpdateInventory kc ?y k), f))"
      using ok by (simp add: InventoryReconcile_listing on_left_eq assms(6) listing w
          inv_status.helper_writes_once Let_def)
    show "fst (GetInventory kc key (snd (StatusUpdateInventory kc ?y k))) = Inr (iv\<lparr>inv_Status := inv_Status ?y\<rparr>)"
      using ok key assms(6) by (simp add: status_store_contractD(2) [OF assms(2)])
  qed (use ok in \<open>simp_all add: synced_condition_written [OF assms(1)]\<close>)
qed

lemma listed_service_found:
  assumes "discover_loop cs = Returns l" and "i \<in> cl_Id ` set cs"
  shows "\<exists>d. List.find (\<lambda>s. ServiceID s = i) l = Some d"
proof -
  have "i \<in> ServiceID ` set l"
    using discover_loop_Returns [OF assms(1)] assms(2) by (metis list.set_map)
  then obtain d where "d \<in> set l" "ServiceID d = i" by auto
  with find_ex [of d l "\<lambda>s. ServiceID s = i"] show ?thesis by auto
qed

lemma synced_condition_synced:
  "synced_condition y = Some (ConditionTrue, reason) \<Longrightarrow> inventory_synced y"
  by (auto simp: synced_condition_def inventory_synced_def dest!: find_Some_set)

text \<open>What the mutate functions need to succeed.\<close>

lemma mutates_succeed:
  assumes "controller_reference_contract kc" and "\<And>m. fst (SetControllerReference kc x m) = None"
  shows "fst (secret_mutate kc K x s) = None \<and>
      meta_key (sec_ObjectMeta (snd (secret_mutate kc K x s))) = meta_key (sec_ObjectMeta s)"
    and "fst (configmap_mutate kc K x d m) = None \<and>
      meta_key (cm_ObjectMeta (snd (configmap_mutate kc K x d m))) = meta_key (cm_ObjectMeta m)"
proof -
  have key: "meta_key (snd (SetControllerReference kc x m)) = meta_key m" for m
    using controller_reference_meta(2) [OF assms(1)] by (metis prod.collapse)
  have labels: "meta_key (m\<lparr>om_Labels := l\<rparr>) = meta_key m" for m l by (simp add: meta_key_def)
  show "fst (secret_mutate kc K x s) = None \<and>
      meta_key (sec_ObjectMeta (snd (secret_mutate kc K x s))) = meta_key (sec_ObjectMeta s)"
    using assms(2) key labels
    by (auto simp: secret_mutate_def setSecret_def Let_def split: prod.split option.split) (metis fst_conv snd_conv option.simps(3))+
  show "fst (configmap_mutate kc K x d m) = None \<and>
      meta_key (cm_ObjectMeta (snd (configmap_mutate kc K x d m))) = meta_key (cm_ObjectMeta m)"
    using assms(2) key labels
    by (auto simp: configmap_mutate_def setConfigMap_def Let_def split: prod.split option.split) (metis fst_conv snd_conv option.simps(3))+
qed

text \<open>A connection whose service was found ends published and ready.\<close>

lemma separate_publish:
  assumes "separate_kinds_contract kc"
  shows "fst (GetInstance kc q (snd (CreateOrUpdateSecret kc s g w))) = fst (GetInstance kc q w)"
    and "fst (GetInstance kc q (snd (CreateOrUpdateConfigMap kc m h w))) = fst (GetInstance kc q w)"
    and "fst (GetInstance kc q (snd (StatusUpdateConnection kc x w))) = fst (GetInstance kc q w)"
    and "fst (GetInstance kc q (snd (StatusUpdateInventory kc iv w))) = fst (GetInstance kc q w)"
  using assms unfolding separate_kinds_contract_def Let_def by blast+

lemma connection_published:
  assumes "set_condition_contract kc" and "create_or_update_contract kc" and "controller_reference_contract kc"
    and "status_store_contract kc" and "separate_kinds_contract kc" and "accepting_contract kc healthy"
    and "healthy k" and "\<And>m. fst (SetControllerReference kc x m) = None"
    and "fst (GetConnection kc (meta_key (con_ObjectMeta x)) k) = Inr x"
  obtains k' z where "ConnectionPublish (FakeProviderService K kc) K x d (k, f) =
      (Returns (no_requeue, None), (k', f))"
    and "fst (GetConnection kc (meta_key (con_ObjectMeta x)) k') = Inr z"
    and "connection_condition z = Some (ConditionTrue, ConnectionReady, SuccessConnection)"
    and "con_CredentialsRef (con_Status z) = Some (secret_name x)"
    and "con_ConnectionInfoRef (con_Status z) = Some (configmap_name x)"
    and "\<And>q. fst (GetInstance kc q k') = fst (GetInstance kc q k)"
proof -
  let ?S = "FakeProviderService K kc" and ?key = "meta_key (con_ObjectMeta x)"
  note con = status_store_contractD [OF assms(4)]
  let ?s0 = "\<lparr>sec_TypeMeta = \<lparr>tm_APIVersion = [], tm_Kind = []\<rparr>, sec_ObjectMeta = empty_meta
    \<lparr>om_Name := secret_name x, om_Namespace := om_Namespace (con_ObjectMeta x)\<rparr>, sec_Type = [], sec_Data = []\<rparr>"
  let ?m0 = "\<lparr>cm_TypeMeta = \<lparr>tm_APIVersion = [], tm_Kind = []\<rparr>, cm_ObjectMeta = empty_meta
    \<lparr>om_Name := configmap_name x, om_Namespace := om_Namespace (con_ObjectMeta x)\<rparr>, cm_Data = []\<rparr>"
  obtain s k1 where s: "CreateOrUpdateSecret kc ?s0 (secret_mutate kc K x) k = ((None, s), k1)" and k1: "healthy k1"
    using accepting_contractD(4) [OF assms(6,7), of "secret_mutate kc K x" ?s0] mutates_succeed(1) [OF assms(3,8)]
    by (metis prod.collapse)
  obtain m k2 where m: "CreateOrUpdateConfigMap kc ?m0 (configmap_mutate kc K x d) k1 = ((None, m), k2)"
    and k2: "healthy k2"
    using accepting_contractD(5) [OF assms(6) k1, of "configmap_mutate kc K x d" ?m0]
      mutates_succeed(2) [OF assms(3,8)] by (metis prod.collapse)
  have mutate: "secret_mutate (lift_client kc) = secret_mutate kc"
    "configmap_mutate (lift_client kc) = configmap_mutate kc"
    by (simp_all add: fun_eq_iff secret_mutate_def configmap_mutate_def)
  have sec: "createOrUpdateSecret ?S K x (k, f) = (Inr s, (k1, f))"
    by (simp add: createOrUpdateSecret_def on_left_eq s mutate)
  have cm: "createOrUpdateConfigMap ?S K x d (k1, f) = (Inr m, (k2, f))"
    by (simp add: createOrUpdateConfigMap_def on_left_eq m mutate)
  have names: "om_Name (sec_ObjectMeta s) = secret_name x" "om_Name (cm_ObjectMeta m) = configmap_name x"
    using assms(2) s m by (fastforce simp: create_or_update_contract_def meta_key_def)+
  let ?x = "x\<lparr>con_Status := (con_Status x)\<lparr>con_CredentialsRef := Some (secret_name x),
    con_ConnectionInfoRef := Some (configmap_name x)\<rparr>\<rparr>"
  let ?y = "connection_with_condition kc k2 ?x
    (mk_condition connectionConditionReadyType ConditionTrue ConnectionReady SuccessConnection)"
  have w: "connection_with_condition (lift_client kc) (k2, f) ?x c = connection_with_condition kc k2 ?x c" for c
    by (simp add: connection_with_condition_def)
  have g2: "fst (GetConnection kc ?key k2) = Inr x"
    using con(6) [of ?key ?s0 _ k] con(7) [of ?key ?m0 _ k1] s m assms(9) by (metis snd_conv)
  have key: "meta_key (con_ObjectMeta ?y) = ?key" by simp
  have ok: "fst (fst (StatusUpdateConnection kc ?y k2)) = None"
    using accepting_contractD(3) [OF assms(6) k2, of ?y] g2 key by simp
  show thesis
  proof (rule that [of "snd (StatusUpdateConnection kc ?y k2)" "x\<lparr>con_Status := con_Status ?y\<rparr>"])
    show "ConnectionPublish ?S K x d (k, f) =
        (Returns (no_requeue, None), (snd (StatusUpdateConnection kc ?y k2), f))"
      using ok by (simp add: ConnectionPublish_def sec cm names connection_updateStatus_eq on_left_eq w Let_def)
    show "fst (GetConnection kc ?key (snd (StatusUpdateConnection kc ?y k2))) =
        Inr (x\<lparr>con_Status := con_Status ?y\<rparr>)"
      unfolding con(3) using ok key g2 by simp
    have "connection_condition ?y = Some (ConditionTrue, ConnectionReady, SuccessConnection)"
      by (rule connection_condition_written [OF assms(1)])
    then show "connection_condition (x\<lparr>con_Status := con_Status ?y\<rparr>) =
        Some (ConditionTrue, ConnectionReady, SuccessConnection)"
      by (simp add: connection_condition_def)
    show "fst (GetInstance kc q (snd (StatusUpdateConnection kc ?y k2))) = fst (GetInstance kc q k)" for q
      using separate_publish [OF assms(5)] s m by (metis snd_conv)
  qed simp_all
qed

section \<open>All of them\<close>

text \<open>
  C1. The operator does its job: over an API server in good health, a new instance whose inventory
  exists and whose cluster name is free is reconciled to the phase Ready with the identifier of a new
  cluster; once the goroutines have come to rest, reconciling the inventory publishes a listing; and
  reconciling a connection to that identifier then leaves it ready, with references to its secret and
  its config map, while the instance stays as it was. All three handlers finish without an error and
  without a requeue.
\<close>

theorem instance_to_ready_connection:
  assumes "instance_store_contract kc" and "status_store_contract kc" and "separate_kinds_contract kc"
    and "set_condition_contract kc" and "create_or_update_contract kc" and "controller_reference_contract kc"
    and "accepting_contract kc healthy" and "healthy k"
    and "cloud_run ns \<lparr>fc = f, sending = None\<rparr>"
    and "GetInstance kc req k = (Inr x, k)" and "ins_InstanceID (ins_Status x) = []"
    and "GetInventory kc (ins_InventoryRef (ins_Spec x)) k = (Inr iv, k)"
    and "meta_key (inv_ObjectMeta iv) = ins_InventoryRef (ins_Spec x)"
    and "req_Name (creation_request K x) \<noteq> []"
    and "fst (fst (CreateCluster (creation_request K x) f)) = Inr c"
    and "cl_Id c \<notin> cl_Id ` set (committed f)"
    and "GetConnection kc ckey k = (Inr con, k)" and "meta_key (con_ObjectMeta con) = ckey"
    and "con_InventoryRef (con_Spec con) = ins_InventoryRef (ins_Spec x)"
    and "con_DatabaseServiceID (con_Spec con) = cl_Id c"
    and "\<And>m. fst (SetControllerReference kc con m) = None"
    and "InstanceReconcile (FakeProviderService K kc) req (k, f) = (out1, (k1, f1))"
    and "goroutine_step\<^sup>*\<^sup>* f1 f2" and "goroutine_work f2 = 0"
    and "InventoryReconcile (FakeProviderService K kc) (ins_InventoryRef (ins_Spec x)) (k1, f2) = (out2, (k2, f3))"
    and "ConnectionReconcile (FakeProviderService K kc) K ckey (k2, f3) = (out3, (k3, f4))"
  shows "out1 = Returns (no_requeue, None) \<and> out2 = out1 \<and> out3 = out1 \<and>
    (\<exists>x3. fst (GetInstance kc req k3) = Inr x3 \<and> ins_Phase (ins_Status x3) = InstancePhaseReady \<and>
       ins_InstanceID (ins_Status x3) = cl_Id c) \<and>
    (\<exists>z. fst (GetConnection kc ckey k3) = Inr z \<and>
       connection_condition z = Some (ConditionTrue, ConnectionReady, SuccessConnection) \<and>
       con_CredentialsRef (con_Status z) = Some (secret_name con) \<and>
       con_ConnectionInfoRef (con_Status z) = Some (configmap_name con))"
proof -
  let ?S = "FakeProviderService K kc" and ?ref = "ins_InventoryRef (ins_Spec x)" and ?r = "creation_request K x"
  note kc = instance_store_contractD [OF assms(1)]
  have ch: "channels_ok f" using cloud_run_inv [OF assms(9)] by simp
  have get: "fst (GetInstance kc req k) = Inr x" "fst (GetInventory kc ?ref k) = Inr iv"
    "fst (GetConnection kc ckey k) = Inr con" using assms(10,12,17) by simp_all
  obtain info where info: "PopulateInstanceInfo c = Returns info" and c: "cl_Id c \<noteq> []"
    by (rule created_info [OF assms(15)])
  let ?y = "x\<lparr>ins_Status := ready_status c info (ins_Status x)\<rparr>"
  have key: "meta_key (ins_ObjectMeta ?y) = req" using kc(4) [OF get(1)] by simp
  obtain y1 w1 where u: "StatusUpdateInstance kc ?y k = ((None, y1), w1)" and h1: "healthy w1"
    using accepting_contractD(1) [OF assms(7,8), of ?y] get(1) key by (metis prod.collapse sum.disc(2))
  from got_cluster_run [OF assms(1) get(1) create_verdict [OF assms(1,11) get(2) assms(14,15)] c info u] assms(22)
  have r1: "out1 = Returns (no_requeue, None)" "k1 = w1" "f1 = snd (CreateCluster ?r f)" by simp_all
  have g1: "fst (GetInstance kc req k1) = Inr ?y" "fst (GetInventory kc ?ref k1) = Inr iv"
    "fst (GetConnection kc ckey k1) = Inr con"
    using kc(5) [of req ?y k] kc(6) [of ?ref ?y k] status_store_contractD(4) [OF assms(2), of ckey ?y k]
      u r1(2) get key by simp_all
  have f2: "clusters f2 = committed f @ [c]"
    using committed_create(1) [OF assms(15) ch] assms(23,24) by (simp add: r1(3))
  have "\<forall>d \<in> set (clusters f2). cl_CreatedAt d \<noteq> None \<and> cl_UpdatedAt d \<noteq> None"
    using cloud_run_inv [OF assms(9)] info by (auto simp: f2 all_clusters_def PopulateInstanceInfo_Returns)
  then obtain l where l: "discover_loop (clusters f2) = Returns l" using discover_loop_total by blast
  obtain d where d: "List.find (\<lambda>s. ServiceID s = cl_Id c) l = Some d"
    using listed_service_found [OF l, of "cl_Id c"] by (auto simp: f2)
  have "GetInventory kc ?ref k1 = (Inr iv, k1)" using g1(2) kc(2) by (metis prod.collapse)
  then obtain y2 k2' where y2: "InventoryReconcile ?S ?ref (k1, f2) = (Returns (no_requeue, None), (k2', f2))"
    "k2' = snd (StatusUpdateInventory kc y2 k1)" "healthy k2'"
    "fst (GetInventory kc ?ref k2') = Inr (iv\<lparr>inv_Status := inv_Status y2\<rparr>)"
    "synced_condition y2 = Some (ConditionTrue, InventorySyncOK)" "inv_DatabaseServices (inv_Status y2) = l"
    using inventory_stored [OF assms(4,2,7) _ kc(3) _ assms(13) l, of k1 K] h1 r1(2) by metis
  have r2: "out2 = Returns (no_requeue, None)" "k2 = k2'" "f3 = f2" using y2(1) assms(25) by simp_all
  have synced: "inventory_synced (iv\<lparr>inv_Status := inv_Status y2\<rparr>)"
    using y2(5) synced_condition_synced [of y2] by (simp add: inventory_synced_def)
  have g2: "fst (GetConnection kc ckey k2) = Inr con" "fst (GetInstance kc req k2) = Inr ?y"
    using status_store_contractD(5) [OF assms(2)] separate_publish(4) [OF assms(3)] g1 y2(2) r2(2) by simp_all
  have "getClusterInstance (iv\<lparr>inv_Status := inv_Status y2\<rparr>) (cl_Id c) = Inr d"
    using synced d y2(6) unfolding getClusterInstance_Inr by simp
  then have v: "connection_verdict ?S con (k2, f3) = (ServiceFound d, (k2, f3))"
    using y2(4) by (simp add: connection_verdict_def on_left_eq assms(19,20) r2(2) kc(2,3)
        FakeCreateCloudService_eq)
  have "fst (GetConnection kc (meta_key (con_ObjectMeta con)) k2) = Inr con" using g2(1) by (simp add: assms(18))
  then obtain k3' z where z: "ConnectionPublish ?S K con d (k2, f3) = (Returns (no_requeue, None), (k3', f3))"
    "fst (GetConnection kc ckey k3') = Inr z"
    "connection_condition z = Some (ConditionTrue, ConnectionReady, SuccessConnection)"
    "con_CredentialsRef (con_Status z) = Some (secret_name con)"
    "con_ConnectionInfoRef (con_Status z) = Some (configmap_name con)"
    "\<And>q. fst (GetInstance kc q k3') = fst (GetInstance kc q k2)"
    using connection_published [OF assms(4,5,6,2,3,7) _ assms(21), of k2 K d f3] y2(3) r2(2) assms(18) by metis
  have "ConnectionReconcile ?S K ckey (k2, f3) = (Returns (no_requeue, None), (k3', f3))"
    using g2(1) v z(1) by (simp add: ConnectionReconcile_verdict on_left_eq status_store_contractD(1) [OF assms(2)]
        act_on_connection_verdict_def)
  with assms(26) r1(1) r2(1) z g2(2) show ?thesis by (simp add: ready_status_def)
qed

theorem instance_to_ready_connection_witness:
  "\<exists>k1 f1 k2 f3 k3 f4 z. InstanceReconcile (FakeProviderService sample_consts store_client) sample_req
      (sample_store, NewFakeClusters) = (Returns (no_requeue, None), (k1, f1)) \<and>
    InventoryReconcile (FakeProviderService sample_consts store_client) (sample_key ''test'') (k1, settle f1) =
      (Returns (no_requeue, None), (k2, f3)) \<and>
    ConnectionReconcile (FakeProviderService sample_consts store_client) sample_consts
      (sample_key ''providerconnection-sample'') (k2, f3) = (Returns (no_requeue, None), (k3, f4)) \<and>
    fst (GetConnection store_client (sample_key ''providerconnection-sample'') k3) = Inr z \<and>
    con_CredentialsRef (con_Status z) = Some ''cloud-user-credentials-providerconnection-sample''"
proof -
  let ?S = "FakeProviderService sample_consts store_client" and ?ckey = "sample_key ''providerconnection-sample''"
  have healthy: "store_healthy sample_store" by (simp add: store_healthy_def)
  have x: "GetInstance store_client sample_req sample_store = (Inr sample_instance, sample_store)"
    and iv: "GetInventory store_client (ins_InventoryRef (ins_Spec sample_instance)) sample_store =
      (Inr sample_inventory, sample_store)"
    and con: "GetConnection store_client ?ckey sample_store = (Inr sample_connection, sample_store)"
    by (simp_all add: read_store_def store_connections(1))
  have keys: "meta_key (inv_ObjectMeta sample_inventory) = ins_InventoryRef (ins_Spec sample_instance)"
    "meta_key (con_ObjectMeta sample_connection) = ?ckey"
    by (simp_all add: meta_key_def)
  have name: "req_Name (creation_request sample_consts sample_instance) \<noteq> []"
    by (simp add: sample_request_of) (simp add: sample_request_def)
  have c: "fst (fst (CreateCluster (creation_request sample_consts sample_instance) NewFakeClusters)) =
      Inr sample_cluster" by (simp add: sample_request_of sample_creation)
  have new: "cl_Id sample_cluster \<notin> cl_Id ` set (committed NewFakeClusters)" by (simp add: cluster_defs)
  have id: "ins_InstanceID (ins_Status sample_instance) = []" by simp
  have refs: "con_InventoryRef (con_Spec sample_connection) = ins_InventoryRef (ins_Spec sample_instance)"
    "con_DatabaseServiceID (con_Spec sample_connection) = cl_Id sample_cluster" by simp_all
  have owner: "fst (SetControllerReference store_client sample_connection m) = None" for m
    by (simp add: store_client_def)
  obtain out1 k1 f1 where r1: "InstanceReconcile ?S sample_req (sample_store, NewFakeClusters) = (out1, (k1, f1))"
    by (metis prod.exhaust)
  have ch: "channels_ok f1"
    using reconcile_grows [OF NewFakeClusters_channels, of sample_consts store_client sample_req sample_store] r1
    by simp
  obtain out2 k2 f3 where r2: "InventoryReconcile ?S (ins_InventoryRef (ins_Spec sample_instance))
      (k1, settle f1) = (out2, (k2, f3))" by (metis prod.exhaust)
  obtain out3 k3 f4 where r3: "ConnectionReconcile ?S sample_consts ?ckey (k2, f3) = (out3, (k3, f4))"
    by (metis prod.exhaust)
  note rest = settle_at_rest [OF ch, THEN conjunct1] settle_at_rest [OF ch, THEN conjunct2]
  have "secret_name sample_connection = ''cloud-user-credentials-providerconnection-sample''"
    by (simp add: secret_name_def)
  with instance_to_ready_connection [OF store_instances store_statuses store_separate_kinds store_set_condition
      store_create_or_update store_controller_reference store_accepts healthy initial_run x id iv keys(1) name c
      new con keys(2) refs owner r1 rest r2 r3] r1 r2 r3
  show ?thesis unfolding sample_instance_sel(2) by metis
qed

end
