(* ===== verification/Slice_Memory.thy ===== *)
theory Slice_Memory
  imports Fake_Concurrency
begin

text \<open>
  The list of clusters as it lies in memory. \<open>Fake_Client\<close> has it as one value; in
  \<^verbatim>\<open>testutil/fakeclient.go\<close> it is a slice, a header that refers to a backing array, and the methods
  read it after they have released the mutex, while a goroutine may append. Here the goroutines'
  bodies work on the memory and refine those of \<open>Fake_Client\<close>, and a reader is a loop of single steps
  between which the list may grow: it finds what an atomic read of the list would have found.
\<close>

section \<open>Slices\<close>

record slice =
  sl_array :: nat
  sl_len :: nat

text \<open>The backing arrays with their full capacity, and the field \<^verbatim>\<open>Clusters\<close> of the shared response.\<close>

record cluster_memory =
  backing :: "nat \<Rightarrow> Cluster list"
  next_array :: nat
  Clusters :: slice

definition seen_through :: "cluster_memory \<Rightarrow> slice \<Rightarrow> Cluster list" where
  "seen_through h s = take (sl_len s) (backing h (sl_array s))"

definition listed :: "cluster_memory \<Rightarrow> Cluster list" where
  "listed h = seen_through h (Clusters h)"

definition memory_ok :: "cluster_memory \<Rightarrow> bool" where
  "memory_ok h \<longleftrightarrow> sl_len (Clusters h) \<le> length (backing h (sl_array (Clusters h))) \<and>
     sl_array (Clusters h) < next_array h"

text \<open>
  \<^verbatim>\<open>append\<close>: in place while the capacity lasts, else into a new array. How much room a new array has
  is up to Go's runtime (\<open>spare\<close>), its unused part holds zero values.
\<close>

definition append_cluster :: "(nat \<Rightarrow> nat) \<Rightarrow> Cluster \<Rightarrow> Cluster \<Rightarrow> cluster_memory \<Rightarrow> cluster_memory" where
  "append_cluster spare zero c h =
     (let s = Clusters h; arr = backing h (sl_array s); n = sl_len s
      in if n < length arr
         then h\<lparr>backing := (backing h)(sl_array s := arr[n := c]), Clusters := s\<lparr>sl_len := Suc n\<rparr>\<rparr>
         else h\<lparr>backing := (backing h)(next_array h := take n arr @ c # replicate (spare n) zero),
                next_array := Suc (next_array h),
                Clusters := \<lparr>sl_array = next_array h, sl_len = Suc n\<rparr>\<rparr>)"

text \<open>The two other loops; the last argument but one counts the elements left to visit.\<close>

fun delete_scan :: "string \<Rightarrow> nat \<Rightarrow> nat \<Rightarrow> cluster_memory \<Rightarrow> cluster_memory" where
  "delete_scan i k 0 h = h"
| "delete_scan i k (Suc m) h =
     (let s = Clusters h; arr = backing h (sl_array s)
      in if cl_Id (arr ! k) = i
         then h\<lparr>backing := (backing h)(sl_array s := arr[k := arr ! (sl_len s - 1)]),
                Clusters := s\<lparr>sl_len := sl_len s - 1\<rparr>\<rparr>
         else delete_scan i (Suc k) m h)"

definition delete_in_memory :: "string \<Rightarrow> cluster_memory \<Rightarrow> cluster_memory" where
  "delete_in_memory i h = delete_scan i 0 (sl_len (Clusters h)) h"

fun update_scan :: "Cluster \<Rightarrow> nat \<Rightarrow> nat \<Rightarrow> cluster_memory \<Rightarrow> cluster_memory" where
  "update_scan new k 0 h = h"
| "update_scan new k (Suc m) h =
     (let s = Clusters h; arr = backing h (sl_array s)
      in if cl_Id (arr ! k) = cl_Id new
         then h\<lparr>backing := (backing h)(sl_array s := arr[k := new])\<rparr>
         else update_scan new (Suc k) m h)"

definition update_in_memory :: "Cluster \<Rightarrow> cluster_memory \<Rightarrow> cluster_memory" where
  "update_in_memory new h = update_scan new 0 (sl_len (Clusters h)) h"

section \<open>The bodies refine those on lists\<close>

lemma append_listed:
  assumes "memory_ok h"
  shows "listed (append_cluster spare zero c h) = listed h @ [c]"
    and "memory_ok (append_cluster spare zero c h)"
  using assms
  by (auto simp: append_cluster_def listed_def seen_through_def memory_ok_def Let_def take_Suc_conv_app_nth)

lemma listed_at:
  assumes "memory_ok h" and "k < sl_len (Clusters h)"
  shows "drop k (listed h) = listed h ! k # drop (Suc k) (listed h)"
    and "listed h ! k = backing h (sl_array (Clusters h)) ! k"
    and "length (listed h) = sl_len (Clusters h)"
proof -
  show n: "length (listed h) = sl_len (Clusters h)"
    using assms(1) by (simp add: listed_def seen_through_def memory_ok_def)
  show "drop k (listed h) = listed h ! k # drop (Suc k) (listed h)"
    using assms(2) by (simp add: n Cons_nth_drop_Suc)
  show "listed h ! k = backing h (sl_array (Clusters h)) ! k"
    using assms(2) by (simp add: listed_def seen_through_def)
qed

lemma delete_scan_listed:
  assumes "memory_ok h" and "k + m = sl_len (Clusters h)"
  shows "listed (delete_scan i k m h) = delete_loop i k (drop k (listed h)) (listed h)"
    and "memory_ok (delete_scan i k m h)"
  using assms
proof (induction m arbitrary: k)
  case 0
  {
    case 1
    then have "drop k (listed h) = []" by (simp add: listed_def seen_through_def)
    then show ?case by simp
  next
    case 2
    then show ?case by simp
  }
next
  case (Suc m)
  let ?s = "Clusters h" and ?arr = "backing h (sl_array (Clusters h))"
  {
    case 1
    then have k: "k < sl_len ?s" by simp
    note split = listed_at(1,2) [OF 1(1) k] and n = listed_at(3) [OF 1(1) k]
    have "listed (h\<lparr>backing := (backing h)(sl_array ?s := ?arr[k := ?arr ! (sl_len ?s - 1)]),
        Clusters := ?s\<lparr>sl_len := sl_len ?s - 1\<rparr>\<rparr>) =
      take (length (listed h) - 1) ((listed h)[k := listed h ! (length (listed h) - 1)])"
      unfolding n using k by (simp add: listed_def seen_through_def take_update_swap min_def)
    with Suc.IH(1) [of "Suc k"] 1 show ?case by (simp add: split Let_def)
  next
    case 2
    with Suc.IH(2) [of "Suc k"] show ?case by (auto simp: Let_def memory_ok_def)
  }
qed

lemma update_scan_listed:
  assumes "memory_ok h" and "k + m = sl_len (Clusters h)"
  shows "listed (update_scan new k m h) = update_loop new k (drop k (listed h)) (listed h)"
    and "memory_ok (update_scan new k m h)"
  using assms
proof (induction m arbitrary: k)
  case 0
  {
    case 1
    then have "drop k (listed h) = []" by (simp add: listed_def seen_through_def)
    then show ?case by simp
  next
    case 2
    then show ?case by simp
  }
next
  case (Suc m)
  let ?s = "Clusters h" and ?arr = "backing h (sl_array (Clusters h))"
  {
    case 1
    then have k: "k < sl_len ?s" by simp
    note split = listed_at(1,2) [OF 1(1) k]
    have "listed (h\<lparr>backing := (backing h)(sl_array ?s := ?arr[k := new])\<rparr>) = (listed h)[k := new]"
      by (simp add: listed_def seen_through_def take_update_swap)
    with Suc.IH(1) [of "Suc k"] 1 show ?case by (simp add: split Let_def)
  next
    case 2
    with Suc.IH(2) [of "Suc k"] show ?case by (auto simp: Let_def memory_ok_def)
  }
qed

text \<open>
  C32. The list is an abstraction of the memory: on any memory whose slice lies within its backing
  array, what the three goroutines do to header and array shows as appending, deleting and updating
  on the list of clusters, whether an append fits the capacity or moves to a new array, and the
  slice stays within its array.
\<close>

theorem goroutine_bodies_refine_lists:
  assumes "memory_ok h"
  shows "listed (append_cluster spare zero c h) = listed h @ [c] \<and>
    listed (delete_in_memory i h) = delete_body i (listed h) \<and>
    listed (update_in_memory c h) = update_body c (listed h) \<and>
    memory_ok (append_cluster spare zero c h) \<and> memory_ok (delete_in_memory i h) \<and>
    memory_ok (update_in_memory c h)"
  using append_listed [OF assms] delete_scan_listed [OF assms, of 0] update_scan_listed [OF assms, of 0]
  by (simp add: delete_in_memory_def delete_body_def update_in_memory_def update_body_def)

text \<open>A list of clusters in an array of exactly its length, as a Go literal allocates it.\<close>

definition literal_memory :: "Cluster list \<Rightarrow> cluster_memory" where
  "literal_memory cs = \<lparr>backing = (\<lambda>a. if a = 0 then cs else []), next_array = 1,
     Clusters = \<lparr>sl_array = 0, sl_len = length cs\<rparr>\<rparr>"

lemma literal_memory_listed [simp]: "listed (literal_memory cs) = cs" "memory_ok (literal_memory cs)"
  by (simp_all add: literal_memory_def listed_def seen_through_def memory_ok_def)

theorem goroutine_bodies_refine_lists_witness:
  "listed (delete_in_memory ''a-cluster-instance-1-id'' (literal_memory [cluster1, cluster2, cluster3])) =
     [cluster3, cluster2]"
  using goroutine_bodies_refine_lists [OF literal_memory_listed(2) [of "[cluster1, cluster2, cluster3]"],
      of "\<lambda>n. n" cluster1 cluster1 "''a-cluster-instance-1-id''"]
  by (simp add: delete_body_def cluster_defs)

section \<open>A reader without the mutex\<close>

text \<open>
  \<^verbatim>\<open>GetCluster\<close>, and the check for duplicates in \<^verbatim>\<open>CreateCluster\<close>: the mutex only covers reading the
  pointer to the shared response. Then \<^verbatim>\<open>range\<close> reads the slice header once and the elements one by
  one from the array it refers to.
\<close>

datatype reader = BeforeRange | Scanning slice nat | FoundCluster Cluster | NoCluster

fun read_step :: "string \<Rightarrow> cluster_memory \<Rightarrow> reader \<Rightarrow> reader" where
  "read_step i h BeforeRange = Scanning (Clusters h) 0"
| "read_step i h (Scanning s k) =
     (if k < sl_len s
      then let c = backing h (sl_array s) ! k in if cl_Id c = i then FoundCluster c else Scanning s (Suc k)
      else NoCluster)"
| "read_step i h r = r"

text \<open>A reader's steps, interleaved with bodies of the add goroutine.\<close>

inductive read_run :: "(nat \<Rightarrow> nat) \<Rightarrow> Cluster \<Rightarrow> string \<Rightarrow> cluster_memory \<Rightarrow> cluster_memory \<Rightarrow> reader \<Rightarrow> bool"
  for spare zero i h0 where
  begin_read: "read_run spare zero i h0 h0 BeforeRange"
| step: "read_run spare zero i h0 h r \<Longrightarrow> read_run spare zero i h0 h (read_step i h r)"
| grow: "read_run spare zero i h0 h r \<Longrightarrow> read_run spare zero i h0 (append_cluster spare zero c h) r"

text \<open>
  What a header, once read, refers to stays as it was: an append writes beyond its length or into
  another array.
\<close>

definition held :: "cluster_memory \<Rightarrow> slice \<Rightarrow> Cluster list \<Rightarrow> bool" where
  "held h s snap \<longleftrightarrow> sl_array s < next_array h \<and> sl_len s = length snap \<and> seen_through h s = snap \<and>
     (sl_array s = sl_array (Clusters h) \<longrightarrow> sl_len s \<le> sl_len (Clusters h))"

lemma held_now: "memory_ok h \<Longrightarrow> held h (Clusters h) (listed h)"
  by (simp add: held_def memory_ok_def listed_def seen_through_def)

lemma held_append: "held h s snap \<Longrightarrow> held (append_cluster spare zero c h) s snap"
  by (auto simp: held_def append_cluster_def seen_through_def Let_def take_update_swap list_update_beyond)

lemma held_nth: "held h s snap \<Longrightarrow> k < length snap \<Longrightarrow> backing h (sl_array s) ! k = snap ! k"
  unfolding held_def seen_through_def by (metis nth_take)

definition reader_ok :: "string \<Rightarrow> cluster_memory \<Rightarrow> cluster_memory \<Rightarrow> reader \<Rightarrow> bool" where
  "reader_ok i h0 h r \<longleftrightarrow> memory_ok h \<and> (\<exists>new. listed h = listed h0 @ new) \<and>
     (r = BeforeRange \<or> (\<exists>before after. listed h = listed h0 @ before @ after \<and>
        (case r of
           Scanning s k \<Rightarrow> held h s (listed h0 @ before) \<and> k \<le> sl_len s \<and>
             (\<forall>j < k. cl_Id ((listed h0 @ before) ! j) \<noteq> i)
         | FoundCluster c \<Rightarrow> List.find (\<lambda>c. cl_Id c = i) (listed h0 @ before) = Some c
         | _ \<Rightarrow> List.find (\<lambda>c. cl_Id c = i) (listed h0 @ before) = None)))"

lemma find_first:
  "k < length xs \<Longrightarrow> P (xs ! k) \<Longrightarrow> (\<And>j. j < k \<Longrightarrow> \<not> P (xs ! j)) \<Longrightarrow> List.find P xs = Some (xs ! k)"
  by (auto simp: find_Some_iff)

lemma read_step_ok:
  assumes "reader_ok i h0 h r"
  shows "reader_ok i h0 h (read_step i h r)"
proof (cases r)
  case BeforeRange
  with assms show ?thesis
    using held_now [of h] by (force simp: reader_ok_def)
next
  case (Scanning s k)
  with assms obtain before after where l: "listed h = listed h0 @ before @ after"
    and s: "held h s (listed h0 @ before)" "k \<le> sl_len s" "\<forall>j < k. cl_Id ((listed h0 @ before) ! j) \<noteq> i"
    and ok: "memory_ok h" by (auto simp: reader_ok_def)
  let ?snap = "listed h0 @ before"
  have n: "sl_len s = length ?snap" using s(1) by (simp add: held_def)
  have "case read_step i h r of
      Scanning s k \<Rightarrow> held h s ?snap \<and> k \<le> sl_len s \<and> (\<forall>j < k. cl_Id (?snap ! j) \<noteq> i)
    | FoundCluster c \<Rightarrow> List.find (\<lambda>c. cl_Id c = i) ?snap = Some c
    | _ \<Rightarrow> List.find (\<lambda>c. cl_Id c = i) ?snap = None"
  proof (cases "k < sl_len s")
    case True
    then have c: "backing h (sl_array s) ! k = ?snap ! k" using held_nth [OF s(1)] n by simp
    show ?thesis
    proof (cases "cl_Id (?snap ! k) = i")
      case hit: True
      have "List.find (\<lambda>c. cl_Id c = i) ?snap = Some (?snap ! k)"
        by (rule find_first) (use True n hit s(3) in auto)
      with True hit show ?thesis by (simp add: Scanning c Let_def)
    next
      case False
      with True s show ?thesis by (auto simp: Scanning c Let_def less_Suc_eq)
    qed
  next
    case False
    with s(2) n have "k = length ?snap" by simp
    with s(3) have "\<forall>c \<in> set ?snap. cl_Id c \<noteq> i" by (simp only: all_set_conv_all_nth)
    with False show ?thesis by (auto simp: Scanning find_None_iff)
  qed
  moreover have "read_step i h r \<noteq> BeforeRange" by (simp add: Scanning Let_def)
  ultimately show ?thesis using l ok unfolding reader_ok_def by blast
qed (use assms in simp_all)

lemma grow_ok:
  assumes "reader_ok i h0 h r"
  shows "reader_ok i h0 (append_cluster spare zero c h) r"
proof -
  have a: "listed (append_cluster spare zero c h) = listed h @ [c]" "memory_ok (append_cluster spare zero c h)"
    using assms append_listed by (simp_all add: reader_ok_def)
  show ?thesis
  proof (cases "r = BeforeRange")
    case True
    with assms a show ?thesis by (auto simp: reader_ok_def)
  next
    case False
    with assms obtain before after where "listed h = listed h0 @ before @ after"
      "case r of
         Scanning s k \<Rightarrow> held h s (listed h0 @ before) \<and> k \<le> sl_len s \<and>
           (\<forall>j < k. cl_Id ((listed h0 @ before) ! j) \<noteq> i)
       | FoundCluster c \<Rightarrow> List.find (\<lambda>c. cl_Id c = i) (listed h0 @ before) = Some c
       | _ \<Rightarrow> List.find (\<lambda>c. cl_Id c = i) (listed h0 @ before) = None"
      by (auto simp: reader_ok_def)
    then have "listed h @ [c] = listed h0 @ before @ after @ [c]"
      "case r of
         Scanning s k \<Rightarrow> held (append_cluster spare zero c h) s (listed h0 @ before) \<and> k \<le> sl_len s \<and>
           (\<forall>j < k. cl_Id ((listed h0 @ before) ! j) \<noteq> i)
       | FoundCluster c \<Rightarrow> List.find (\<lambda>c. cl_Id c = i) (listed h0 @ before) = Some c
       | _ \<Rightarrow> List.find (\<lambda>c. cl_Id c = i) (listed h0 @ before) = None"
      by (auto split: reader.splits intro: held_append)
    with a(2) show ?thesis unfolding reader_ok_def a(1) by blast
  qed
qed

lemma read_run_ok:
  assumes "read_run spare zero i h0 h r" and "memory_ok h0"
  shows "reader_ok i h0 h r"
  using assms
proof (induction rule: read_run.induct)
  case begin_read
  then show ?case by (simp add: reader_ok_def)
qed (simp_all add: read_step_ok grow_ok)

text \<open>
  C31. Reading after the mutex has been released is harmless as long as clusters are only added: however
  the reader's steps and the add goroutine's appends interleave, moves to a new array included, a
  reader that ends has the answer \<^verbatim>\<open>GetCluster\<close> gives in one step on some list between the one at
  the start and the one at the end.
\<close>

theorem unlocked_read_is_atomic:
  assumes "memory_ok h0" and "read_run spare zero i h0 h r"
  shows "\<exists>before after. listed h = listed h0 @ before @ after \<and>
    (case r of
       FoundCluster c \<Rightarrow> fst (fst (GetCluster i (f\<lparr>clusters := listed h0 @ before\<rparr>))) = Inr c
     | NoCluster \<Rightarrow> isl (fst (fst (GetCluster i (f\<lparr>clusters := listed h0 @ before\<rparr>))))
     | _ \<Rightarrow> True)"
proof -
  have "reader_ok i h0 h r" using read_run_ok [OF assms(2,1)] .
  then show ?thesis
    by (cases r) (auto simp: reader_ok_def GetCluster_def split: option.splits intro: exI [of _ "[]"])
qed

text \<open>A reader of two clusters, and a third one added after its first step.\<close>

theorem unlocked_read_is_atomic_witness:
  "\<exists>before after h. listed h = [cluster1, cluster2] @ before @ after \<and> listed h = [cluster1, cluster2, cluster3] \<and>
     isl (fst (fst (GetCluster ''a-cluster-instance-id-a-provider-test-instance-name''
       (NewFakeClusters\<lparr>clusters := [cluster1, cluster2] @ before\<rparr>))))"
proof -
  let ?start = "literal_memory [cluster1, cluster2]" and ?i = "''a-cluster-instance-id-a-provider-test-instance-name''"
  let ?h = "append_cluster (\<lambda>n. n) cluster1 cluster3 ?start"
  have steps: "read_step ?i ?start BeforeRange = Scanning (Clusters ?start) 0"
    "read_step ?i ?h (Scanning (Clusters ?start) 0) = Scanning (Clusters ?start) 1"
    "read_step ?i ?h (Scanning (Clusters ?start) 1) = Scanning (Clusters ?start) 2"
    "read_step ?i ?h (Scanning (Clusters ?start) 2) = NoCluster"
    by (simp_all add: literal_memory_def append_cluster_def cluster_defs)
  have "read_run (\<lambda>n. n) cluster1 ?i ?start ?h (Scanning (Clusters ?start) 0)"
    using read_run.grow [OF read_run.step [OF read_run.begin_read]] steps(1) by metis
  then have run: "read_run (\<lambda>n. n) cluster1 ?i ?start ?h NoCluster"
    using read_run.step steps(2-4) by metis
  from unlocked_read_is_atomic [OF literal_memory_listed(2) run, of NewFakeClusters]
    append_listed(1) [OF literal_memory_listed(2), of "\<lambda>n. n" cluster1 cluster3 "[cluster1, cluster2]"]
  show ?thesis by simp (metis append_assoc)
qed

text \<open>
  With deletions it would not be: a reader can miss a cluster that is in the list all the time.
  While it is past the deleted element, the last cluster takes that element's place, and a cluster
  added next overwrites, in the same array, the place where the reader would have met it.
\<close>

theorem reader_misses_cluster_after_delete:
  assumes "distinct (map cl_Id [a, b, c, new])" and "h0 = literal_memory [a, b, c]"
    and "h1 = delete_in_memory (cl_Id a) h0" and "h2 = append_cluster spare zero new h1"
    and "read = read_step (cl_Id c)"
  shows "c \<in> set (listed h0) \<inter> set (listed h1) \<inter> set (listed h2) \<and>
    read h2 (read h2 (read h2 (read h0 (read h0 BeforeRange)))) = NoCluster"
proof -
  have h1: "h1 = h0\<lparr>backing := (backing h0)(0 := [c, b, c]), Clusters := \<lparr>sl_array = 0, sl_len = 2\<rparr>\<rparr>"
    by (simp add: assms(2,3) literal_memory_def delete_in_memory_def numeral_3_eq_3)
  have h2: "h2 = h0\<lparr>backing := (backing h0)(0 := [c, b, new]), Clusters := \<lparr>sl_array = 0, sl_len = 3\<rparr>\<rparr>"
    by (simp add: assms(4) h1 append_cluster_def Let_def)
  show ?thesis
    using assms(1) unfolding h1 h2 assms(5)
    by (auto simp: assms(2) literal_memory_def listed_def seen_through_def Let_def)
qed

theorem reader_misses_cluster_after_delete_witness:
  "\<exists>h2. cluster3 \<in> set (listed h2) \<and>
     (let read = read_step ''a-cluster-instance-id-a-provider-test-instance-name''; h0 = literal_memory [cluster1, cluster2, cluster3]
      in read h2 (read h2 (read h2 (read h0 (read h0 BeforeRange)))) = NoCluster)"
proof -
  let ?new = "cluster1\<lparr>cl_Id := ''another''\<rparr>"
  have "distinct (map cl_Id [cluster1, cluster2, cluster3, ?new])" by (simp add: cluster_defs)
  from reader_misses_cluster_after_delete [OF this refl refl refl refl, of "\<lambda>n. n" cluster1]
  have "cluster3 \<in> set (listed (append_cluster (\<lambda>n. n) cluster1 ?new
      (delete_in_memory (cl_Id cluster1) (literal_memory [cluster1, cluster2, cluster3]))))"
    and "(let read = read_step (cl_Id cluster3); h0 = literal_memory [cluster1, cluster2, cluster3];
        h2 = append_cluster (\<lambda>n. n) cluster1 ?new (delete_in_memory (cl_Id cluster1) h0)
      in read h2 (read h2 (read h2 (read h0 (read h0 BeforeRange)))) = NoCluster)"
    by (simp_all only: Let_def Int_iff)
  moreover have "cl_Id cluster3 = ''a-cluster-instance-id-a-provider-test-instance-name''" by (simp add: cluster_defs)
  ultimately show ?thesis unfolding Let_def by metis
qed

end
