(* ===== verification/Registration.thy ===== *)
theory Registration
  imports Sample_Store
begin

text \<open>
  The registration that the operator publishes (\<^verbatim>\<open>buildProviderSpec\<close>) against the service that acts on
  the answers (\<^verbatim>\<open>FakeProviderService\<close>): which of the credential fields and provisioning parameters it
  announces are read, and whether the defaults of the two agree. The two are written in different
  files and share only the keys.
\<close>

section \<open>Credentials\<close>

definition required_keys :: "DBaaSProviderSpec \<Rightarrow> string list" where
  "required_keys spec = map cf_Key (filter cf_Required (ps_CredentialFields spec))"

text \<open>
  C20. The credential check asks for exactly the fields the registration announces as required: it
  accepts a secret when none of them is missing or empty. \<^verbatim>\<open>CreateCloudService\<close> drops the verdict and
  hands out a client with every secret, a missing one included.
\<close>

theorem announced_credentials_demanded:
  "((\<exists>cred. fst (retrieveClientCredential kc selector k) = Inr cred) \<longleftrightarrow>
      (\<exists>secret. fst (GetSecret kc selector k) = Inr secret \<and>
         list_all (\<lambda>key. map_of (sec_Data secret) key \<notin> {None, Some []})
           (required_keys (buildProviderSpec K regions nodes)))) \<and>
   fst (svc_CreateCloudService (FakeProviderService K kc) selector (k, f)) = Inr NewFakeAPIClient"
  by (auto simp: FakeCreateCloudService_eq retrieveClientCredential_def data_string_def Let_def
      required_keys_def credential_fields_def split: prod.splits sum.splits option.splits)

section \<open>Parameters\<close>

definition with_parameter :: "string \<Rightarrow> string \<Rightarrow> ProviderInstance \<Rightarrow> ProviderInstance" where
  "with_parameter key v x = x\<lparr>ins_Spec := ins_Spec x
     \<lparr>ins_ProvisioningParameters := AList.update key v (ins_ProvisioningParameters (ins_Spec x))\<rparr>\<rparr>"

lemma getClusterParameter_map_of:
  "getClusterParameter x key =
     (case map_of (ins_ProvisioningParameters (ins_Spec x)) key of Some v \<Rightarrow> v | None \<Rightarrow> [])"
  by (cases "ins_ProvisioningParameters (ins_Spec x)") (simp_all add: getClusterParameter_def)

lemma creation_request_with_parameter:
  "creation_request K (with_parameter key v x) =
     (let r = creation_request K x
      in \<lparr>req_Name = (if key = ProvisioningName K then v else req_Name r),
          req_Provider = (if key \<noteq> ProvisioningCloudProvider K then req_Provider r
            else if v = [] then ''AWS'' else v)\<rparr>)"
  by (auto simp: creation_request_def with_parameter_def getClusterParameter_map_of update_conv' Let_def)

lemma creation_request_unread:
  "key \<noteq> ProvisioningName K \<Longrightarrow> key \<noteq> ProvisioningCloudProvider K \<Longrightarrow>
     creation_request K (with_parameter key v x) = creation_request K x"
  by (simp add: creation_request_with_parameter Let_def)

text \<open>
  C17. Of the thirteen parameters the registration announces, the creation reads two, the name and the
  cloud provider. Answering any other one, plan, regions, nodes, machine type and storage included,
  gives the same call of the cloud, with the same result in every state; a name or a provider that
  is answered is passed on as it is, offered by the catalogue or not.
\<close>

theorem only_name_and_provider_read:
  assumes "(key, p) \<in> set (ps_ProvisioningParameters (buildProviderSpec K regions nodes))"
    and "key \<noteq> ProvisioningName K" and "key \<noteq> ProvisioningCloudProvider K"
  shows "svc_CreateCluster (FakeProviderService K kc) NewFakeAPIClient (with_parameter key v x) w =
     svc_CreateCluster (FakeProviderService K kc) NewFakeAPIClient x w"
  using assms by (cases w) (simp add: FakeCreateCluster_eq creation_request_unread)

theorem only_name_and_provider_read_witness:
  "\<forall>kc v w. svc_CreateCluster (FakeProviderService sample_consts kc) NewFakeAPIClient
       (with_parameter ''regions'' v sample_instance) w =
     svc_CreateCluster (FakeProviderService sample_consts kc) NewFakeAPIClient sample_instance w"
  by (intro allI, rule only_name_and_provider_read [of _ "param_Regions sample_consts"])
    (simp_all add: provisioning_catalogue_def sample_consts_def)

lemma CreateCluster_provider:
  "CreateCluster req f = ((Inr c, resp), f') \<Longrightarrow> cl_CloudProvider c = req_Provider req"
  by (auto simp: CreateCluster_def check_create_def Let_def split: prod.splits sum.splits if_splits)

lemma FakeCreateCluster_provider:
  assumes "FakeCreateCluster K NewFakeAPIClient x w = (Inr (Some c), w')"
  shows "cl_CloudProvider c = req_Provider (creation_request K x)"
proof -
  obtain k f where w: "w = (k, f)" by (cases w)
  obtain r resp f' where r: "CreateCluster (creation_request K x) f = ((r, resp), f')"
    by (metis surj_pair)
  with assms have "r = Inr c"
    by (cases r) (auto simp: FakeCreateCluster_eq w split: if_splits)
  with r CreateCluster_provider show ?thesis by blast
qed

text \<open>
  C18. The creation's default provider is not the catalogue's: when the plan is answered and the cloud
  provider is not, the cluster is created on AWS whatever the plan, and the catalogue offers that for
  the serverless and the dedicated plan only. A free-trial instance without a provider gets a cluster
  on a provider its plan does not offer.
\<close>

theorem default_provider_not_offered_on_free_trial:
  assumes "consts_ok K" and "map_of (ins_ProvisioningParameters (ins_Spec x)) (ProvisioningPlan K) = Some plan"
    and "map_of (ins_ProvisioningParameters (ins_Spec x)) (ProvisioningCloudProvider K) = None"
    and "plan \<in> {ProvisioningPlanFreeTrial K, ProvisioningPlanServerless K, ProvisioningPlanDedicated K}"
    and "svc_CreateCluster (FakeProviderService K kc) NewFakeAPIClient x w = (Inr (Some c), w')"
  shows "cl_CloudProvider c = ''AWS'' \<and>
    (cl_CloudProvider c \<in> set (options_for (map_of (ins_ProvisioningParameters (ins_Spec x)))
       (param_CloudProvider K)) \<longleftrightarrow> plan \<noteq> ProvisioningPlanFreeTrial K)"
proof -
  from assms(1) have plans: "ProvisioningPlanFreeTrial K \<noteq> ProvisioningPlanServerless K"
    "ProvisioningPlanFreeTrial K \<noteq> ProvisioningPlanDedicated K"
    "ProvisioningPlanServerless K \<noteq> ProvisioningPlanDedicated K"
    by (auto simp: consts_ok_def)
  from assms(5) have "cl_CloudProvider c = req_Provider (creation_request K x)"
    by (auto dest: FakeCreateCluster_provider)
  also have "\<dots> = ''AWS''"
    using assms(3) by (simp add: creation_request_def getClusterParameter_map_of)
  finally show ?thesis
    using plans assms(2,4) by (auto simp: options_for_def applies_def param_defs)
qed

definition free_trial_instance :: ProviderInstance where
  "free_trial_instance = sample_instance\<lparr>ins_Spec := ins_Spec sample_instance
     \<lparr>ins_ProvisioningParameters := [(''name'', ''dbaas''), (''plan'', ''FREETRIAL'')]\<rparr>\<rparr>"

lemma sample_keys:
  "ProvisioningPlan sample_consts = ''plan''" "ProvisioningCloudProvider sample_consts = ''cloudProvider''"
  "ProvisioningPlanFreeTrial sample_consts = ''FREETRIAL''"
  by (simp_all add: sample_consts_def)

lemma free_trial_created:
  "fst (svc_CreateCluster (FakeProviderService sample_consts kc) NewFakeAPIClient free_trial_instance
     (k, NewFakeClusters)) = Inr (Some (mk_cluster ''a-cluster-instance-id-dbaas'' ''dbaas'' ''AWS'' []
       [mk_region ''region-2'' ''free-tier5.cloud'']))"
proof -
  have "creation_request sample_consts free_trial_instance = sample_request"
    by (simp add: creation_request_def free_trial_instance_def getClusterParameter_map_of sample_consts_def
        sample_request_def)
  with sample_created show ?thesis
    by (simp add: FakeCreateCluster_eq CreateCluster_def sample_request_def)
qed

theorem default_provider_not_offered_on_free_trial_witness:
  "\<forall>kc k. \<exists>c. fst (svc_CreateCluster (FakeProviderService sample_consts kc) NewFakeAPIClient
       free_trial_instance (k, NewFakeClusters)) = Inr (Some c) \<and>
     cl_CloudProvider c \<notin> set (options_for [''name'' \<mapsto> ''dbaas'', ''plan'' \<mapsto> ''FREETRIAL'']
       (param_CloudProvider sample_consts))"
proof (intro allI)
  fix kc k
  obtain c w' where r: "svc_CreateCluster (FakeProviderService sample_consts kc) NewFakeAPIClient
      free_trial_instance (k, NewFakeClusters) = (Inr (Some c), w')"
    using free_trial_created [of kc k] by (metis prod.collapse)
  have params: "map_of (ins_ProvisioningParameters (ins_Spec free_trial_instance)) =
      [''name'' \<mapsto> ''dbaas'', ''plan'' \<mapsto> ''FREETRIAL'']"
    by (auto simp: free_trial_instance_def)
  have "cl_CloudProvider c \<notin> set (options_for [''name'' \<mapsto> ''dbaas'', ''plan'' \<mapsto> ''FREETRIAL'']
      (param_CloudProvider sample_consts))"
    using default_provider_not_offered_on_free_trial [OF sample_consts_ok _ _ _ r, of "''FREETRIAL''"]
    by (auto simp: params sample_keys)
  with r show "\<exists>c. fst (svc_CreateCluster (FakeProviderService sample_consts kc) NewFakeAPIClient
       free_trial_instance (k, NewFakeClusters)) = Inr (Some c) \<and>
     cl_CloudProvider c \<notin> set (options_for [''name'' \<mapsto> ''dbaas'', ''plan'' \<mapsto> ''FREETRIAL'']
       (param_CloudProvider sample_consts))"
    by auto
qed

end
