(* ===== verification/Scheme.thy ===== *)
theory Scheme
  imports Start_Up
begin

text \<open>
  The group version of the operator's resources (\<^verbatim>\<open>groupversion_info.go\<close>), the \<^verbatim>\<open>init\<close>
  functions that register the six resource types with its builder, and the \<^verbatim>\<open>init\<close> of
  \<^verbatim>\<open>main.go\<close>, which fills the scheme that every client of the operator uses.
  Builder and scheme belong to controller-runtime and apimachinery: they are a parameter,
  whose documented behaviour is \<open>scheme_contract\<close>.
\<close>

section \<open>The library\<close>

record group_version =
  gv_Group :: string
  gv_Version :: string

text \<open>\<^verbatim>\<open>GroupVersion.String()\<close>: no slash for the legacy group, whose name is empty.\<close>

definition gv_text :: "group_version \<Rightarrow> string" where
  "gv_text gv = (if gv_Group gv = [] then gv_Version gv else gv_Group gv @ CHR ''/'' # gv_Version gv)"

text \<open>
  \<open>'b\<close> is the state of a builder and \<open>'s\<close> that of a scheme. A registered object is given by the
  name of its Go type, which is the kind it is registered under. \<open>Pending\<close> and \<open>Recognizes\<close>
  observe the two states.
\<close>

record ('b, 's) scheme_library =
  Builder :: "group_version \<Rightarrow> 'b"
  Register :: "string list \<Rightarrow> 'b \<Rightarrow> 'b"
  Builder_AddToScheme :: "'b \<Rightarrow> 's \<Rightarrow> go_error option \<times> 's"
  Pending :: "'b \<Rightarrow> group_version \<times> string list"
  NewScheme :: 's
  clientgoscheme_AddToScheme :: "'s \<Rightarrow> go_error option \<times> 's"
  dbaasv1beta1_AddToScheme :: "'s \<Rightarrow> go_error option \<times> 's"
  Recognizes :: "'s \<Rightarrow> group_version \<Rightarrow> string \<Rightarrow> bool"

section \<open>The package v1beta1\<close>

definition GroupVersion :: group_version where
  "GroupVersion = \<lparr>gv_Group = ''dbaas.redhat.com'', gv_Version = ''v1beta1''\<rparr>"

definition SchemeBuilder :: "('b, 's) scheme_library \<Rightarrow> 'b" where
  "SchemeBuilder lib = Builder lib GroupVersion"

text \<open>
  \<^verbatim>\<open>AddToScheme\<close> is a method value of the pointer \<^verbatim>\<open>SchemeBuilder\<close>: it is bound before any
  \<^verbatim>\<open>init\<close> ran, but works on what the builder holds when it is called.
\<close>

definition AddToScheme :: "('b, 's) scheme_library \<Rightarrow> 'b \<Rightarrow> 's \<Rightarrow> go_error option \<times> 's" where
  "AddToScheme lib builder s = Builder_AddToScheme lib builder s"

definition connection_types_init :: "('b, 's) scheme_library \<Rightarrow> 'b \<Rightarrow> 'b" where
  "connection_types_init lib = Register lib [''ProviderConnection'', ''ProviderConnectionList'']"

definition instance_types_init :: "('b, 's) scheme_library \<Rightarrow> 'b \<Rightarrow> 'b" where
  "instance_types_init lib = Register lib [''ProviderInstance'', ''ProviderInstanceList'']"

definition inventory_types_init :: "('b, 's) scheme_library \<Rightarrow> 'b \<Rightarrow> 'b" where
  "inventory_types_init lib = Register lib [''ProviderInventory'', ''ProviderInventoryList'']"

text \<open>The package is initialised: its variables first, then the \<^verbatim>\<open>init\<close> functions in file order.\<close>

definition v1beta1_init :: "('b, 's) scheme_library \<Rightarrow> 'b" where
  "v1beta1_init lib =
     inventory_types_init lib (instance_types_init lib (connection_types_init lib (SchemeBuilder lib)))"

section \<open>The package main\<close>

text \<open>\<^verbatim>\<open>utilruntime.Must\<close> panics with the error.\<close>

definition main_init :: "('b, 's) scheme_library \<Rightarrow> 's outcome" where
  "main_init lib =
     (case clientgoscheme_AddToScheme lib (NewScheme lib) of
        (Some err, _) \<Rightarrow> Panics (ErrorText err)
      | (None, s1) \<Rightarrow>
     (case dbaasv1beta1_AddToScheme lib s1 of
        (Some err, _) \<Rightarrow> Panics (ErrorText err)
      | (None, s2) \<Rightarrow>
     (case AddToScheme lib (v1beta1_init lib) s2 of
        (Some err, _) \<Rightarrow> Panics (ErrorText err)
      | (None, s3) \<Rightarrow> Returns s3)))"

section \<open>What the operator relies on\<close>

abbreviation apps_v1 :: group_version where
  "apps_v1 \<equiv> \<lparr>gv_Group = ''apps'', gv_Version = ''v1''\<rparr>"

abbreviation rbac_v1 :: group_version where
  "rbac_v1 \<equiv> \<lparr>gv_Group = ''rbac.authorization.k8s.io'', gv_Version = ''v1''\<rparr>"

abbreviation core_v1 :: group_version where
  "core_v1 \<equiv> \<lparr>gv_Group = [], gv_Version = ''v1''\<rparr>"

text \<open>
  The documented behaviour: a new builder is empty; \<^verbatim>\<open>Register\<close> adds to it; a successful
  \<^verbatim>\<open>AddToScheme\<close> makes the scheme recognise what the builder holds, under its group version;
  client-go's adds the built-in kinds (the four the operator uses are named) and the DBaaS
  operator's its own \<^verbatim>\<open>DBaaSProvider\<close>; none forgets a kind.
\<close>

definition keeps_kinds ::
    "('b, 's) scheme_library \<Rightarrow> ('s \<Rightarrow> go_error option \<times> 's) \<Rightarrow> bool" where
  "keeps_kinds lib f \<longleftrightarrow> (\<forall>s gv k. Recognizes lib s gv k \<longrightarrow> Recognizes lib (snd (f s)) gv k)"

definition scheme_contract :: "('b, 's) scheme_library \<Rightarrow> bool" where
  "scheme_contract lib \<longleftrightarrow>
     (\<forall>gv. Pending lib (Builder lib gv) = (gv, [])) \<and>
     (\<forall>ks b. Pending lib (Register lib ks b) = map_prod id (\<lambda>old. old @ ks) (Pending lib b)) \<and>
     (\<forall>b s. fst (Builder_AddToScheme lib b s) = None \<longrightarrow>
        list_all (Recognizes lib (snd (Builder_AddToScheme lib b s)) (fst (Pending lib b)))
          (snd (Pending lib b))) \<and>
     (\<forall>s. fst (clientgoscheme_AddToScheme lib s) = None \<longrightarrow>
        list_all (case_prod (Recognizes lib (snd (clientgoscheme_AddToScheme lib s))))
          [(apps_v1, ''Deployment''), (rbac_v1, ''ClusterRoleList''), (core_v1, ''Secret''),
           (core_v1, ''ConfigMap'')]) \<and>
     (\<forall>s. fst (dbaasv1beta1_AddToScheme lib s) = None \<longrightarrow>
        Recognizes lib (snd (dbaasv1beta1_AddToScheme lib s)) GroupVersion Dbaasproviderkind) \<and>
     keeps_kinds lib (clientgoscheme_AddToScheme lib) \<and>
     keeps_kinds lib (dbaasv1beta1_AddToScheme lib) \<and>
     (\<forall>b. keeps_kinds lib (Builder_AddToScheme lib b))"

lemma v1beta1_init_pending:
  assumes "scheme_contract lib"
  shows "Pending lib (v1beta1_init lib) =
    (GroupVersion, [''ProviderConnection'', ''ProviderConnectionList'', ''ProviderInstance'',
       ''ProviderInstanceList'', ''ProviderInventory'', ''ProviderInventoryList''])"
  using assms
  by (simp add: scheme_contract_def v1beta1_init_def connection_types_init_def instance_types_init_def
      inventory_types_init_def SchemeBuilder_def)

lemma main_init_Returns:
  assumes "main_init lib = Returns s"
  obtains s1 s2 where "clientgoscheme_AddToScheme lib (NewScheme lib) = (None, s1)"
    and "dbaasv1beta1_AddToScheme lib s1 = (None, s2)"
    and "Builder_AddToScheme lib (v1beta1_init lib) s2 = (None, s)"
  using assms by (auto simp: main_init_def AddToScheme_def split: prod.splits option.splits)

text \<open>The kinds of the objects that the four controllers hand to their clients.\<close>

definition operator_kinds :: "(group_version \<times> string) list" where
  "operator_kinds =
     [(apps_v1, ''Deployment''), (rbac_v1, ''ClusterRoleList''), (core_v1, ''Secret''),
      (core_v1, ''ConfigMap''), (GroupVersion, Dbaasproviderkind),
      (GroupVersion, ''ProviderConnection''), (GroupVersion, ''ProviderInstance''),
      (GroupVersion, ''ProviderInventory'')]"

text \<open>The kinds that the published registration announces.\<close>

definition announced_kinds :: "dbaas_consts \<Rightarrow> string list" where
  "announced_kinds K =
     (let spec = buildProviderSpec K empty_parameter empty_parameter
      in [ps_InventoryKind spec, ps_ConnectionKind spec, ps_InstanceKind spec])"

text \<open>
  C19. When the package initialisation returns, the scheme is complete: the scheme that \<^verbatim>\<open>main\<close> hands to
  the manager's options recognises every kind the controllers read or write. The registration the
  operator publishes is consistent with it and with \<^verbatim>\<open>main\<close>: the group version it announces is that of
  the registered types, each kind it announces is registered there with its list type, and in
  every run of \<^verbatim>\<open>main\<close> that exits with 0 a controller for that kind was added to the manager before it was
  started.
\<close>

theorem scheme_complete_for_registration:
  assumes "scheme_contract lib" and "main_init lib = Returns s"
    and "main_start env (recording_calls no_manager no_client fails) s fl = (0, Some l)"
  shows "list_all (case_prod (Recognizes lib (mo_Scheme (options_of_flags s fl)))) operator_kinds \<and>
    ps_GroupVersion (buildProviderSpec K r n) = gv_text GroupVersion \<and>
    (\<exists>before. l = before @ [Started] \<and>
      list_all (\<lambda>k. Recognizes lib s GroupVersion k \<and> Recognizes lib s GroupVersion (k @ ''List'') \<and>
        list_ex (\<lambda>ev. case ev of Registered k' _ \<Rightarrow> k' = k | _ \<Rightarrow> False) before) (announced_kinds K))"
proof -
  obtain s1 s2 where s: "clientgoscheme_AddToScheme lib (NewScheme lib) = (None, s1)"
      "dbaasv1beta1_AddToScheme lib s1 = (None, s2)"
      "Builder_AddToScheme lib (v1beta1_init lib) s2 = (None, s)"
    using main_init_Returns [OF assms(2)] .
  have keeps: "Recognizes lib s1 gv k \<Longrightarrow> Recognizes lib s gv k"
      "Recognizes lib s2 gv k \<Longrightarrow> Recognizes lib s gv k" for gv k
    using assms(1) s by (metis keeps_kinds_def scheme_contract_def snd_conv)+
  have own: "list_all (Recognizes lib s GroupVersion) (snd (Pending lib (v1beta1_init lib)))"
    using assms(1) s(3) v1beta1_init_pending [OF assms(1)]
    by (metis fst_conv scheme_contract_def snd_conv)
  have client: "list_all (case_prod (Recognizes lib s1))
      [(apps_v1, ''Deployment''), (rbac_v1, ''ClusterRoleList''), (core_v1, ''Secret''),
       (core_v1, ''ConfigMap'')]"
    using assms(1) s(1) unfolding scheme_contract_def by (metis fst_conv snd_conv)
  have provider: "Recognizes lib s2 GroupVersion Dbaasproviderkind"
    using assms(1) s(2) unfolding scheme_contract_def by (metis fst_conv snd_conv)
  have "l = butlast full_start @ [Started]"
    using main_start_exit_zero(1) [OF assms(3)] by (simp add: full_start_def)
  with own client provider keeps show ?thesis
    by (intro conjI exI [of _ "butlast full_start"])
      (simp_all add: v1beta1_init_pending [OF assms(1)] operator_kinds_def announced_kinds_def
        buildProviderSpec_def gv_text_def GroupVersion_def full_start_def options_of_flags_def)
qed

text \<open>A library whose builders are lists of types and whose schemes are lists of kinds.\<close>

definition list_scheme ::
    "(group_version \<times> string list, (group_version \<times> string) list) scheme_library" where
  "list_scheme =
     \<lparr>Builder = (\<lambda>gv. (gv, [])),
      Register = (\<lambda>ks. map_prod id (\<lambda>old. old @ ks)),
      Builder_AddToScheme = (\<lambda>b s. (None, s @ map (Pair (fst b)) (snd b))),
      Pending = id,
      NewScheme = [],
      clientgoscheme_AddToScheme = (\<lambda>s. (None, s @ take 4 operator_kinds)),
      dbaasv1beta1_AddToScheme = (\<lambda>s. (None, s @ [(GroupVersion, Dbaasproviderkind)])),
      Recognizes = (\<lambda>s gv k. (gv, k) \<in> set s)\<rparr>"

lemma list_scheme_ok: "scheme_contract list_scheme"
  by (auto simp: scheme_contract_def list_scheme_def keeps_kinds_def operator_kinds_def
      list_all_iff)

text \<open>The environment of the deployment, and a run of \<^verbatim>\<open>main\<close> in which no call fails.\<close>

abbreviation sample_environment :: environment where
  "sample_environment \<equiv> [''INSTALL_NAMESPACE'' \<mapsto> ''dbaas'', ''OPERATOR_CONDITION_NAME'' \<mapsto> ''operator.v1'']"

lemma sample_start:
  "main_start sample_environment (recording_calls (\<lambda>_. None) (\<lambda>_. None) (\<lambda>_. None)) s fl =
     (0, Some full_start)"
  by (simp add: main_start_def recording_calls_def recorded_def full_start_def SetupWithManager_def
      InventorySetupWithManager_def ConnectionSetupWithManager_def InstanceSetupWithManager_def Let_def)

theorem scheme_complete_for_registration_witness:
  "\<exists>s before. main_init list_scheme = Returns s \<and>
     main_start sample_environment (recording_calls (\<lambda>_. None) (\<lambda>_. None) (\<lambda>_. None)) s default_flags =
       (0, Some (before @ [Started])) \<and>
     Recognizes list_scheme s GroupVersion ''ProviderInventory'' \<and> Recognizes list_scheme s core_v1 ''Secret''"
proof -
  obtain s where s: "main_init list_scheme = Returns s"
    by (simp add: main_init_def AddToScheme_def list_scheme_def)
  from scheme_complete_for_registration [OF list_scheme_ok s sample_start [of s default_flags],
      where K = sample_consts and r = empty_parameter and n = empty_parameter]
  obtain before where "full_start = before @ [Started]"
    and "list_all (case_prod (Recognizes list_scheme s)) operator_kinds"
    by (auto simp: options_of_flags_def)
  with s sample_start [of s default_flags] show ?thesis
    by (auto simp: operator_kinds_def)
qed

end
