(* ===== verification/Deep_Copy.thy ===== *)
theory Deep_Copy
  imports Api_Types
begin

text \<open>
  \<^verbatim>\<open>apis/dbaas/v1beta1/zz_generated.deepcopy.go\<close>: the deep copies of the resource types. Here a struct is
  what Go has in memory: its fields, some of which refer to maps, slices and pointers elsewhere. The
  metadata, spec and status structs belong to other packages; their representation (\<open>'m\<close>, \<open>'s\<close>, \<open>'t\<close>,
  \<open>'l\<close>), the memory they refer to (\<open>'x\<close>) and their own \<^verbatim>\<open>DeepCopyInto\<close> are parameters. A \<^verbatim>\<open>DeepCopyInto\<close>
  is a function from the struct read and the memory to the struct written and the memory.
\<close>

section \<open>Structs\<close>

type_synonym ('a, 'x) copy_into = "'a \<Rightarrow> 'x \<Rightarrow> 'a \<times> 'x"

text \<open>The four fields that each of the three resource types has.\<close>

record ('m, 's, 't) resource_struct =
  rs_TypeMeta :: type_meta
  rs_ObjectMeta :: 'm
  rs_Spec :: 's
  rs_Status :: 't

text \<open>
  A list type: \<^verbatim>\<open>Items\<close> is nil or a slice, which is its backing array's address here. Offset and length
  are left out: the slice is taken to span its array, as the one that the copy makes does.
\<close>

record 'l list_struct =
  ls_TypeMeta :: type_meta
  ls_ListMeta :: 'l
  ls_Items :: "nat option"

type_synonym 'l ProviderConnectionList = "'l list_struct"
type_synonym 'l ProviderInstanceList = "'l list_struct"
type_synonym 'l ProviderInventoryList = "'l list_struct"

record ('m, 's, 't, 'l, 'x) external_copies =
  ObjectMeta_DeepCopyInto :: "('m, 'x) copy_into"
  Spec_DeepCopyInto :: "('s, 'x) copy_into"
  Status_DeepCopyInto :: "('t, 'x) copy_into"
  ListMeta_DeepCopyInto :: "('l, 'x) copy_into"

text \<open>The scaffolding types that no resource uses: one string field, and none.\<close>

record ProviderInstanceSpec =
  Foo :: string

type_synonym ProviderInstanceStatus = unit

section \<open>Memory\<close>

text \<open>The backing arrays of items, on top of the other packages' memory.\<close>

record ('i, 'x) array_memory =
  arrays :: "nat \<Rightarrow> 'i list"
  array_limit :: nat
  other_memory :: 'x

text \<open>\<^verbatim>\<open>make([]T, n)\<close>, with the zero value of the element type.\<close>

definition make_array :: "'i \<Rightarrow> nat \<Rightarrow> ('i, 'x) array_memory \<Rightarrow> nat \<times> ('i, 'x) array_memory" where
  "make_array zero n h =
     (array_limit h, h\<lparr>arrays := (arrays h)(array_limit h := replicate n zero),
        array_limit := Suc (array_limit h)\<rparr>)"

text \<open>Structs that a pointer points to, on top of a memory.\<close>

record ('a, 'x) struct_memory =
  structs :: "nat \<Rightarrow> 'a"
  struct_limit :: nat
  below :: 'x

section \<open>DeepCopyInto\<close>

definition ProviderConnection_DeepCopyInto ::
    "('m, 's, 't, 'l, 'x) external_copies \<Rightarrow> (('m, 's, 't) resource_struct, 'x) copy_into" where
  "ProviderConnection_DeepCopyInto E src x =
     (let out = src\<lparr>rs_TypeMeta := rs_TypeMeta src\<rparr>;
          (om, x1) = ObjectMeta_DeepCopyInto E (rs_ObjectMeta src) x;
          (sp, x2) = Spec_DeepCopyInto E (rs_Spec src) x1;
          (st, x3) = Status_DeepCopyInto E (rs_Status src) x2
      in (out\<lparr>rs_ObjectMeta := om, rs_Spec := sp, rs_Status := st\<rparr>, x3))"

definition ProviderInstance_DeepCopyInto ::
    "('m, 's, 't, 'l, 'x) external_copies \<Rightarrow> (('m, 's, 't) resource_struct, 'x) copy_into" where
  "ProviderInstance_DeepCopyInto E src x =
     (let out = src\<lparr>rs_TypeMeta := rs_TypeMeta src\<rparr>;
          (om, x1) = ObjectMeta_DeepCopyInto E (rs_ObjectMeta src) x;
          (sp, x2) = Spec_DeepCopyInto E (rs_Spec src) x1;
          (st, x3) = Status_DeepCopyInto E (rs_Status src) x2
      in (out\<lparr>rs_ObjectMeta := om, rs_Spec := sp, rs_Status := st\<rparr>, x3))"

definition ProviderInventory_DeepCopyInto ::
    "('m, 's, 't, 'l, 'x) external_copies \<Rightarrow> (('m, 's, 't) resource_struct, 'x) copy_into" where
  "ProviderInventory_DeepCopyInto E src x =
     (let out = src\<lparr>rs_TypeMeta := rs_TypeMeta src\<rparr>;
          (om, x1) = ObjectMeta_DeepCopyInto E (rs_ObjectMeta src) x;
          (sp, x2) = Spec_DeepCopyInto E (rs_Spec src) x1;
          (st, x3) = Status_DeepCopyInto E (rs_Status src) x2
      in (out\<lparr>rs_ObjectMeta := om, rs_Spec := sp, rs_Status := st\<rparr>, x3))"

definition ProviderInstanceSpec_DeepCopyInto :: "(ProviderInstanceSpec, 'x) copy_into" where
  "ProviderInstanceSpec_DeepCopyInto src x = (src, x)"

definition ProviderInstanceStatus_DeepCopyInto :: "(ProviderInstanceStatus, 'x) copy_into" where
  "ProviderInstanceStatus_DeepCopyInto src x = (src, x)"

text \<open>
  The loop of a list's copy: element \<open>i\<close> of the source array into element \<open>i\<close> of the new one, \<open>n\<close>
  elements to go.
\<close>

fun items_loop :: "('i, 'x) copy_into \<Rightarrow> nat \<Rightarrow> nat \<Rightarrow> nat \<Rightarrow> nat \<Rightarrow> ('i, 'x) array_memory \<Rightarrow>
    ('i, 'x) array_memory" where
  "items_loop copy src dst i 0 h = h"
| "items_loop copy src dst i (Suc n) h =
     (let (e, x) = copy (arrays h src ! i) (other_memory h)
      in items_loop copy src dst (Suc i) n
           (h\<lparr>arrays := (arrays h)(dst := (arrays h dst)[i := e]), other_memory := x\<rparr>))"

definition ProviderConnectionList_DeepCopyInto ::
    "('m, 's, 't) resource_struct \<Rightarrow> ('m, 's, 't, 'l, 'x) external_copies \<Rightarrow>
     ('l ProviderConnectionList, (('m, 's, 't) resource_struct, 'x) array_memory) copy_into" where
  "ProviderConnectionList_DeepCopyInto zero E src h =
     (let out = src\<lparr>ls_TypeMeta := ls_TypeMeta src\<rparr>;
          (lm, x1) = ListMeta_DeepCopyInto E (ls_ListMeta src) (other_memory h);
          out1 = out\<lparr>ls_ListMeta := lm\<rparr>;
          h1 = h\<lparr>other_memory := x1\<rparr>
      in case ls_Items src of
          None \<Rightarrow> (out1, h1)
        | Some items \<Rightarrow>
            (let (a, h2) = make_array zero (length (arrays h1 items)) h1
             in (out1\<lparr>ls_Items := Some a\<rparr>,
                 items_loop (ProviderConnection_DeepCopyInto E) items a 0 (length (arrays h2 items)) h2)))"

definition ProviderInstanceList_DeepCopyInto ::
    "('m, 's, 't) resource_struct \<Rightarrow> ('m, 's, 't, 'l, 'x) external_copies \<Rightarrow>
     ('l ProviderInstanceList, (('m, 's, 't) resource_struct, 'x) array_memory) copy_into" where
  "ProviderInstanceList_DeepCopyInto zero E src h =
     (let out = src\<lparr>ls_TypeMeta := ls_TypeMeta src\<rparr>;
          (lm, x1) = ListMeta_DeepCopyInto E (ls_ListMeta src) (other_memory h);
          out1 = out\<lparr>ls_ListMeta := lm\<rparr>;
          h1 = h\<lparr>other_memory := x1\<rparr>
      in case ls_Items src of
          None \<Rightarrow> (out1, h1)
        | Some items \<Rightarrow>
            (let (a, h2) = make_array zero (length (arrays h1 items)) h1
             in (out1\<lparr>ls_Items := Some a\<rparr>,
                 items_loop (ProviderInstance_DeepCopyInto E) items a 0 (length (arrays h2 items)) h2)))"

definition ProviderInventoryList_DeepCopyInto ::
    "('m, 's, 't) resource_struct \<Rightarrow> ('m, 's, 't, 'l, 'x) external_copies \<Rightarrow>
     ('l ProviderInventoryList, (('m, 's, 't) resource_struct, 'x) array_memory) copy_into" where
  "ProviderInventoryList_DeepCopyInto zero E src h =
     (let out = src\<lparr>ls_TypeMeta := ls_TypeMeta src\<rparr>;
          (lm, x1) = ListMeta_DeepCopyInto E (ls_ListMeta src) (other_memory h);
          out1 = out\<lparr>ls_ListMeta := lm\<rparr>;
          h1 = h\<lparr>other_memory := x1\<rparr>
      in case ls_Items src of
          None \<Rightarrow> (out1, h1)
        | Some items \<Rightarrow>
            (let (a, h2) = make_array zero (length (arrays h1 items)) h1
             in (out1\<lparr>ls_Items := Some a\<rparr>,
                 items_loop (ProviderInventory_DeepCopyInto E) items a 0 (length (arrays h2 items)) h2)))"

section \<open>DeepCopy and DeepCopyObject\<close>

text \<open>
  The body all \<^verbatim>\<open>DeepCopy\<close> methods share: nil for nil, else a new struct filled by \<^verbatim>\<open>DeepCopyInto\<close>. A
  pointer is an address or nil.
\<close>

definition copy_of :: "('a, 'x) copy_into \<Rightarrow> nat option \<Rightarrow> ('a, 'x) struct_memory \<Rightarrow>
    nat option \<times> ('a, 'x) struct_memory" where
  "copy_of copy src h =
     (case src of
        None \<Rightarrow> (None, h)
      | Some p \<Rightarrow>
          (let out = struct_limit h;
               (v, x) = copy (structs h p) (below h)
           in (Some out, \<lparr>structs = (structs h)(out := v), struct_limit = Suc out, below = x\<rparr>)))"

text \<open>An interface value is nil, or a type with a pointer; a typed nil pointer is not the nil interface.\<close>

datatype object_interface = NilInterface | Object string "nat option"

definition object_of :: "string \<Rightarrow> nat option \<times> 'h \<Rightarrow> object_interface \<times> 'h" where
  "object_of kind c =
     (case c of (Some p, h) \<Rightarrow> (Object kind (Some p), h) | (None, h) \<Rightarrow> (NilInterface, h))"

definition ProviderConnection_DeepCopy where
  "ProviderConnection_DeepCopy E = copy_of (ProviderConnection_DeepCopyInto E)"
definition ProviderConnectionList_DeepCopy where
  "ProviderConnectionList_DeepCopy zero E = copy_of (ProviderConnectionList_DeepCopyInto zero E)"
definition ProviderInstance_DeepCopy where
  "ProviderInstance_DeepCopy E = copy_of (ProviderInstance_DeepCopyInto E)"
definition ProviderInstanceList_DeepCopy where
  "ProviderInstanceList_DeepCopy zero E = copy_of (ProviderInstanceList_DeepCopyInto zero E)"
definition ProviderInstanceSpec_DeepCopy where
  "ProviderInstanceSpec_DeepCopy = copy_of ProviderInstanceSpec_DeepCopyInto"
definition ProviderInstanceStatus_DeepCopy where
  "ProviderInstanceStatus_DeepCopy = copy_of ProviderInstanceStatus_DeepCopyInto"
definition ProviderInventory_DeepCopy where
  "ProviderInventory_DeepCopy E = copy_of (ProviderInventory_DeepCopyInto E)"
definition ProviderInventoryList_DeepCopy where
  "ProviderInventoryList_DeepCopy zero E = copy_of (ProviderInventoryList_DeepCopyInto zero E)"

definition ProviderConnection_DeepCopyObject where
  "ProviderConnection_DeepCopyObject E src h =
  object_of ''ProviderConnection'' (ProviderConnection_DeepCopy E src h)"
definition ProviderConnectionList_DeepCopyObject where
  "ProviderConnectionList_DeepCopyObject zero E src h =
  object_of ''ProviderConnectionList'' (ProviderConnectionList_DeepCopy zero E src h)"
definition ProviderInstance_DeepCopyObject where
  "ProviderInstance_DeepCopyObject E src h =
  object_of ''ProviderInstance'' (ProviderInstance_DeepCopy E src h)"
definition ProviderInstanceList_DeepCopyObject where
  "ProviderInstanceList_DeepCopyObject zero E src h =
  object_of ''ProviderInstanceList'' (ProviderInstanceList_DeepCopy zero E src h)"
definition ProviderInventory_DeepCopyObject where
  "ProviderInventory_DeepCopyObject E src h =
  object_of ''ProviderInventory'' (ProviderInventory_DeepCopy E src h)"
definition ProviderInventoryList_DeepCopyObject where
  "ProviderInventoryList_DeepCopyObject zero E src h =
  object_of ''ProviderInventoryList'' (ProviderInventoryList_DeepCopy zero E src h)"

section \<open>What a deep copy is\<close>

text \<open>
  A memory has allocated addresses, and later memories extend it. A \<^verbatim>\<open>DeepCopyInto\<close> is deep when the
  copy denotes the same value (\<open>view\<close>), refers only to memory allocated for it (\<open>foot\<close>), and what was
  allocated before is as it was.
\<close>

locale go_memory =
  fixes alloc :: "'x \<Rightarrow> 'a set" and extends :: "'x \<Rightarrow> 'x \<Rightarrow> bool"
  assumes extends_refl: "extends x x"
    and extends_trans: "extends x y \<Longrightarrow> extends y z \<Longrightarrow> extends x z"
    and extends_alloc: "extends x y \<Longrightarrow> alloc x \<subseteq> alloc y"

locale deep_copier = go_memory alloc extends
  for alloc :: "'x \<Rightarrow> 'a set" and extends :: "'x \<Rightarrow> 'x \<Rightarrow> bool" +
  fixes view :: "'x \<Rightarrow> 'v \<Rightarrow> 'o" and foot :: "'x \<Rightarrow> 'v \<Rightarrow> 'a set" and copy :: "('v, 'x) copy_into"
  assumes stable: "extends x y \<Longrightarrow> foot x v \<subseteq> alloc x \<Longrightarrow> view y v = view x v \<and> foot y v = foot x v"
    and copies: "foot x v \<subseteq> alloc x \<Longrightarrow> copy v x = (w, y) \<Longrightarrow>
      extends x y \<and> view y w = view x v \<and> foot y w \<subseteq> alloc y - alloc x"
begin

lemma source_untouched:
  assumes "foot x v \<subseteq> alloc x" and "copy v x = (w, y)"
  shows "view y v = view x v" and "foot y v \<inter> foot y w = {}"
  using stable copies [OF assms] assms(1) by blast+

lemma copies_apart:
  assumes "foot x v \<subseteq> alloc x" and "copy v x = (w, y)" and "copy v y = (w', z)"
  shows "view z w' = view x v" and "view z w = view x v" and "foot z w \<inter> foot z w' = {}"
proof -
  have y: "extends x y" "view y w = view x v" "foot y w \<subseteq> alloc y - alloc x"
    using copies [OF assms(1,2)] by blast+
  have v: "foot y v \<subseteq> alloc y" "view y v = view x v"
    using stable [OF y(1) assms(1)] extends_alloc [OF y(1)] assms(1) by auto
  have z: "extends y z" "view z w' = view y v" "foot z w' \<subseteq> alloc z - alloc y"
    using copies [OF v(1) assms(3)] by blast+
  show "view z w' = view x v" using z(2) v(2) by simp
  show "view z w = view x v" "foot z w \<inter> foot z w' = {}" using stable [OF z(1), of w] y z(3) by auto
qed

end

text \<open>The scaffolding types refer to nothing, so the plain assignment is deep.\<close>

interpretation instance_spec_copy: deep_copier "\<lambda>_. {}" "\<lambda>_ _. True" "\<lambda>_ v. v" "\<lambda>_ _. {}"
  ProviderInstanceSpec_DeepCopyInto
  by unfold_locales (simp_all add: ProviderInstanceSpec_DeepCopyInto_def)

lemma flat_copier:
  assumes "go_memory alloc extends" and "\<And>v x. copy v x = (v, x)"
  shows "deep_copier alloc extends (\<lambda>_ v. v) (\<lambda>_ _. {}) copy"
  using assms by (simp add: deep_copier_def deep_copier_axioms_def go_memory_def)

section \<open>Resources\<close>

definition resource_view ::
    "(type_meta \<Rightarrow> 'vm \<Rightarrow> 'vs \<Rightarrow> 'vt \<Rightarrow> 'o) \<Rightarrow> ('x \<Rightarrow> 'm \<Rightarrow> 'vm) \<Rightarrow> ('x \<Rightarrow> 's \<Rightarrow> 'vs) \<Rightarrow> ('x \<Rightarrow> 't \<Rightarrow> 'vt) \<Rightarrow>
     'x \<Rightarrow> ('m, 's, 't) resource_struct \<Rightarrow> 'o" where
  "resource_view mk vm vs vt x r =
     mk (rs_TypeMeta r) (vm x (rs_ObjectMeta r)) (vs x (rs_Spec r)) (vt x (rs_Status r))"

definition resource_foot ::
    "('x \<Rightarrow> 'm \<Rightarrow> 'a set) \<Rightarrow> ('x \<Rightarrow> 's \<Rightarrow> 'a set) \<Rightarrow> ('x \<Rightarrow> 't \<Rightarrow> 'a set) \<Rightarrow>
     'x \<Rightarrow> ('m, 's, 't) resource_struct \<Rightarrow> 'a set" where
  "resource_foot fm fs ft x r = fm x (rs_ObjectMeta r) \<union> fs x (rs_Spec r) \<union> ft x (rs_Status r)"

lemma resource_copies_eq:
  "ProviderInstance_DeepCopyInto = ProviderConnection_DeepCopyInto"
  "ProviderInventory_DeepCopyInto = ProviderConnection_DeepCopyInto"
  by (simp_all add: fun_eq_iff ProviderInstance_DeepCopyInto_def ProviderInventory_DeepCopyInto_def
      ProviderConnection_DeepCopyInto_def)

lemma resource_copier:
  assumes m: "deep_copier alloc extends vm fm (ObjectMeta_DeepCopyInto E)"
    and s: "deep_copier alloc extends vs fs (Spec_DeepCopyInto E)"
    and t: "deep_copier alloc extends vt ft (Status_DeepCopyInto E)"
  shows "deep_copier alloc extends (resource_view mk vm vs vt) (resource_foot fm fs ft)
    (ProviderConnection_DeepCopyInto E)"
proof -
  note mem = deep_copier.axioms(1) [OF m]
  note trans = go_memory.extends_trans [OF mem] and grow = go_memory.extends_alloc [OF mem]
  show ?thesis
  proof (intro deep_copier.intro deep_copier_axioms.intro mem)
    fix x y v assume "extends x y" "resource_foot fm fs ft x v \<subseteq> alloc x"
    then show "resource_view mk vm vs vt y v = resource_view mk vm vs vt x v \<and>
        resource_foot fm fs ft y v = resource_foot fm fs ft x v"
      using deep_copier.stable [OF m, of x y] deep_copier.stable [OF s, of x y]
        deep_copier.stable [OF t, of x y] by (simp add: resource_view_def resource_foot_def)
  next
    fix x v w y
    assume v: "resource_foot fm fs ft x v \<subseteq> alloc x" and c: "ProviderConnection_DeepCopyInto E v x = (w, y)"
    obtain om x1 where om: "ObjectMeta_DeepCopyInto E (rs_ObjectMeta v) x = (om, x1)" by fastforce
    obtain sp x2 where sp: "Spec_DeepCopyInto E (rs_Spec v) x1 = (sp, x2)" by fastforce
    obtain st x3 where st: "Status_DeepCopyInto E (rs_Status v) x2 = (st, x3)" by fastforce
    have w: "w = v\<lparr>rs_ObjectMeta := om, rs_Spec := sp, rs_Status := st\<rparr>" "y = x3"
      using c om sp st by (simp_all add: ProviderConnection_DeepCopyInto_def)
    have foot: "fm x (rs_ObjectMeta v) \<subseteq> alloc x" "fs x (rs_Spec v) \<subseteq> alloc x" "ft x (rs_Status v) \<subseteq> alloc x"
      using v by (simp_all add: resource_foot_def)
    have 1: "extends x x1" "vm x1 om = vm x (rs_ObjectMeta v)" "fm x1 om \<subseteq> alloc x1 - alloc x"
      using deep_copier.copies [OF m foot(1) om] by auto
    have s1: "vs x1 (rs_Spec v) = vs x (rs_Spec v)" "fs x1 (rs_Spec v) \<subseteq> alloc x1"
      using deep_copier.stable [OF s 1(1) foot(2)] foot(2) grow [OF 1(1)] by auto
    have 2: "extends x1 x2" "vs x2 sp = vs x1 (rs_Spec v)" "fs x2 sp \<subseteq> alloc x2 - alloc x1"
      using deep_copier.copies [OF s s1(2) sp] by auto
    note x2 = trans [OF 1(1) 2(1)]
    have t2: "vt x2 (rs_Status v) = vt x (rs_Status v)" "ft x2 (rs_Status v) \<subseteq> alloc x2"
      using deep_copier.stable [OF t x2 foot(3)] foot(3) grow [OF x2] by auto
    have 3: "extends x2 x3" "vt x3 st = vt x2 (rs_Status v)" "ft x3 st \<subseteq> alloc x3 - alloc x2"
      using deep_copier.copies [OF t t2(2) st] by auto
    have m3: "vm x3 om = vm x1 om \<and> fm x3 om = fm x1 om"
      using deep_copier.stable [OF m trans [OF 2(1) 3(1)]] 1(3) by blast
    have s3: "vs x3 sp = vs x2 sp \<and> fs x3 sp = fs x2 sp"
      using deep_copier.stable [OF s 3(1)] 2(3) by blast
    show "extends x y \<and> resource_view mk vm vs vt y w = resource_view mk vm vs vt x v \<and>
        resource_foot fm fs ft y w \<subseteq> alloc y - alloc x"
      using 1 2 3 s1 t2 m3 s3 trans [OF x2 3(1)] grow [OF 1(1)] grow [OF 2(1)] grow [OF 3(1)]
      by (auto simp: w resource_view_def resource_foot_def)
  qed
qed

section \<open>Lists\<close>

definition array_alloc :: "('x \<Rightarrow> 'a set) \<Rightarrow> ('i, 'x) array_memory \<Rightarrow> (nat + 'a) set" where
  "array_alloc alloc h = Inl ` {..<array_limit h} \<union> Inr ` alloc (other_memory h)"

definition array_extends ::
    "('x \<Rightarrow> 'x \<Rightarrow> bool) \<Rightarrow> ('i, 'x) array_memory \<Rightarrow> ('i, 'x) array_memory \<Rightarrow> bool" where
  "array_extends extends h h' \<longleftrightarrow> array_limit h \<le> array_limit h' \<and>
     (\<forall>a < array_limit h. arrays h' a = arrays h a) \<and> extends (other_memory h) (other_memory h')"

definition list_view ::
    "(type_meta \<Rightarrow> 'vl \<Rightarrow> 'vi list option \<Rightarrow> 'o) \<Rightarrow> ('x \<Rightarrow> 'l \<Rightarrow> 'vl) \<Rightarrow> ('x \<Rightarrow> 'i \<Rightarrow> 'vi) \<Rightarrow>
     ('i, 'x) array_memory \<Rightarrow> 'l list_struct \<Rightarrow> 'o" where
  "list_view mk vl vi h l = mk (ls_TypeMeta l) (vl (other_memory h) (ls_ListMeta l))
     (map_option (\<lambda>a. map (vi (other_memory h)) (arrays h a)) (ls_Items l))"

definition list_foot ::
    "('x \<Rightarrow> 'l \<Rightarrow> 'a set) \<Rightarrow> ('x \<Rightarrow> 'i \<Rightarrow> 'a set) \<Rightarrow> ('i, 'x) array_memory \<Rightarrow> 'l list_struct \<Rightarrow> (nat + 'a) set" where
  "list_foot fl fi h l = Inr ` fl (other_memory h) (ls_ListMeta l) \<union>
     (case ls_Items l of None \<Rightarrow> {}
      | Some a \<Rightarrow> insert (Inl a) (Inr ` (\<Union>v \<in> set (arrays h a). fi (other_memory h) v)))"

lemma Inr_image_subset: "Inr ` A \<subseteq> Inl ` X \<union> Inr ` B \<longleftrightarrow> A \<subseteq> B"
  by auto

lemma list_foot_allocated:
  "list_foot fl fi h l \<subseteq> array_alloc alloc h \<longleftrightarrow>
     fl (other_memory h) (ls_ListMeta l) \<subseteq> alloc (other_memory h) \<and>
     (\<forall>a. ls_Items l = Some a \<longrightarrow> a < array_limit h \<and>
        (\<forall>e \<in> set (arrays h a). fi (other_memory h) e \<subseteq> alloc (other_memory h)))"
  by (auto simp: list_foot_def array_alloc_def Inr_image_subset UN_subset_iff image_iff split: option.split)

lemma array_memory_laws: "go_memory alloc extends \<Longrightarrow> go_memory (array_alloc alloc) (array_extends extends)"
  unfolding go_memory_def array_alloc_def array_extends_def
  by (intro conjI allI impI) (blast, auto intro: order_trans, fastforce)

text \<open>The loop, from element \<open>i\<close> on: the elements before stay, the others become deep copies.\<close>

lemma items_loop_copies:
  assumes "deep_copier alloc extends view foot copy" and "src \<noteq> dst"
    and "length (arrays h dst) = i + n" and "length (arrays h src) = i + n"
    and "\<And>j. i \<le> j \<Longrightarrow> j < i + n \<Longrightarrow> foot (other_memory h) (arrays h src ! j) \<subseteq> alloc (other_memory h)"
  shows "let h' = items_loop copy src dst i n h in
    extends (other_memory h) (other_memory h') \<and> array_limit h' = array_limit h \<and>
    (\<forall>a. a \<noteq> dst \<longrightarrow> arrays h' a = arrays h a) \<and> length (arrays h' dst) = i + n \<and>
    (\<forall>j < i. arrays h' dst ! j = arrays h dst ! j) \<and>
    (\<forall>j. i \<le> j \<and> j < i + n \<longrightarrow>
       view (other_memory h') (arrays h' dst ! j) = view (other_memory h) (arrays h src ! j) \<and>
       foot (other_memory h') (arrays h' dst ! j) \<subseteq> alloc (other_memory h') - alloc (other_memory h))"
  using assms(3-)
proof (induction n arbitrary: i h)
  case 0
  then show ?case
    using go_memory.extends_refl [OF deep_copier.axioms(1) [OF assms(1)]] by auto
next
  case (Suc n)
  note copies = deep_copier.copies [OF assms(1)] and stable = deep_copier.stable [OF assms(1)]
    and trans = go_memory.extends_trans [OF deep_copier.axioms(1) [OF assms(1)]]
    and grow = go_memory.extends_alloc [OF deep_copier.axioms(1) [OF assms(1)]]
  obtain e x where e: "copy (arrays h src ! i) (other_memory h) = (e, x)" by fastforce
  define g where "g = h\<lparr>arrays := (arrays h)(dst := (arrays h dst)[i := e]), other_memory := x\<rparr>"
  have g: "other_memory g = x" "arrays g src = arrays h src" "arrays g dst = (arrays h dst)[i := e]"
    "array_limit g = array_limit h" "\<And>a. a \<noteq> dst \<Longrightarrow> arrays g a = arrays h a"
    using assms(2) by (simp_all add: g_def)
  have first: "extends (other_memory h) x" "view x e = view (other_memory h) (arrays h src ! i)"
    "foot x e \<subseteq> alloc x - alloc (other_memory h)"
    using copies [OF Suc.prems(3) [of i] e] by auto
  have later: "view x (arrays h src ! j) = view (other_memory h) (arrays h src ! j)"
    "foot x (arrays h src ! j) \<subseteq> alloc x" if "i \<le> j" "j < i + Suc n" for j
    using stable [OF first(1) Suc.prems(3) [OF that]] Suc.prems(3) [OF that] grow [OF first(1)] by auto
  define h' where "h' = items_loop copy src dst (Suc i) n g"
  have step: "items_loop copy src dst i (Suc n) h = h'" by (simp add: e g_def h'_def)
  have IH: "extends x (other_memory h')" "array_limit h' = array_limit h"
    "\<forall>a. a \<noteq> dst \<longrightarrow> arrays h' a = arrays h a" "length (arrays h' dst) = i + Suc n"
    "\<forall>j < Suc i. arrays h' dst ! j = (arrays h dst)[i := e] ! j"
    "\<And>j. Suc i \<le> j \<Longrightarrow> j < i + Suc n \<Longrightarrow>
       view (other_memory h') (arrays h' dst ! j) = view x (arrays h src ! j) \<and>
       foot (other_memory h') (arrays h' dst ! j) \<subseteq> alloc (other_memory h') - alloc x"
    using Suc.IH [of g "Suc i"] Suc.prems(1,2) later by (auto simp: g h'_def Let_def)
  have "arrays h' dst ! i = e" using IH(5) Suc.prems(1) by simp
  moreover have "view (other_memory h') e = view x e" "foot (other_memory h') e = foot x e"
    using stable [OF IH(1), of e] first(3) by blast+
  ultimately have at_i: "view (other_memory h') (arrays h' dst ! i) = view (other_memory h) (arrays h src ! i)"
    "foot (other_memory h') (arrays h' dst ! i) \<subseteq> alloc (other_memory h') - alloc (other_memory h)"
    using first(2,3) grow [OF IH(1)] by auto
  have rest: "view (other_memory h') (arrays h' dst ! j) = view (other_memory h) (arrays h src ! j) \<and>
      foot (other_memory h') (arrays h' dst ! j) \<subseteq> alloc (other_memory h') - alloc (other_memory h)"
    if "i \<le> j" "j < i + Suc n" for j
  proof (cases "j = i")
    case False
    with that have j: "Suc i \<le> j" "j < i + Suc n" by auto
    show ?thesis using IH(6) [OF j] later(1) [OF that] grow [OF first(1)] by auto
  qed (use at_i in simp)
  show ?case
    unfolding step Let_def using trans [OF first(1) IH(1)] IH(2-5) rest by auto
qed

lemma list_copies_eq:
  "ProviderInstanceList_DeepCopyInto = ProviderConnectionList_DeepCopyInto"
  "ProviderInventoryList_DeepCopyInto = ProviderConnectionList_DeepCopyInto"
  unfolding fun_eq_iff ProviderInstanceList_DeepCopyInto_def ProviderInventoryList_DeepCopyInto_def
    ProviderConnectionList_DeepCopyInto_def resource_copies_eq by simp_all

lemma list_copier:
  assumes l: "deep_copier alloc extends vl fl (ListMeta_DeepCopyInto E)"
    and c: "deep_copier alloc extends vi fi (ProviderConnection_DeepCopyInto E)"
  shows "deep_copier (array_alloc alloc) (array_extends extends) (list_view mk vl vi) (list_foot fl fi)
    (ProviderConnectionList_DeepCopyInto zero E)"
proof -
  note mem = deep_copier.axioms(1) [OF l]
  note trans = go_memory.extends_trans [OF mem] and grow = go_memory.extends_alloc [OF mem]
  show ?thesis
  proof (intro deep_copier.intro deep_copier_axioms.intro array_memory_laws mem)
    fix x y v assume x: "array_extends extends x y" "list_foot fl fi x v \<subseteq> array_alloc alloc x"
    have meta: "fl (other_memory x) (ls_ListMeta v) \<subseteq> alloc (other_memory x)"
      using x(2) by (simp add: list_foot_allocated)
    have items: "arrays y a = arrays x a"
      "\<forall>e \<in> set (arrays x a). fi (other_memory x) e \<subseteq> alloc (other_memory x)" if "ls_Items v = Some a" for a
      using x that by (simp_all add: list_foot_allocated array_extends_def)
    have ext: "extends (other_memory x) (other_memory y)" using x(1) by (simp add: array_extends_def)
    show "list_view mk vl vi y v = list_view mk vl vi x v \<and> list_foot fl fi y v = list_foot fl fi x v"
      using deep_copier.stable [OF l ext meta] deep_copier.stable [OF c ext] items
      by (cases "ls_Items v") (simp_all add: list_view_def list_foot_def cong: map_cong)
  next
    fix x v w y
    assume v: "list_foot fl fi x v \<subseteq> array_alloc alloc x"
      and copy: "ProviderConnectionList_DeepCopyInto zero E v x = (w, y)"
    obtain lm x1 where lm: "ListMeta_DeepCopyInto E (ls_ListMeta v) (other_memory x) = (lm, x1)" by fastforce
    have meta: "fl (other_memory x) (ls_ListMeta v) \<subseteq> alloc (other_memory x)"
      using v by (simp add: list_foot_allocated)
    note 1 = deep_copier.copies [OF l meta lm]
    show "array_extends extends x y \<and> list_view mk vl vi y w = list_view mk vl vi x v \<and>
        list_foot fl fi y w \<subseteq> array_alloc alloc y - array_alloc alloc x"
    proof (cases "ls_Items v")
      case None
      then have "w = v\<lparr>ls_ListMeta := lm\<rparr>" "y = x\<lparr>other_memory := x1\<rparr>"
        using copy lm by (simp_all add: ProviderConnectionList_DeepCopyInto_def Let_def)
      with 1 None show ?thesis
        by (auto simp: list_view_def list_foot_def array_extends_def array_alloc_def)
    next
      case (Some a)
      let ?N = "length (arrays x a)" and ?b = "array_limit x"
      define h where "h = x\<lparr>other_memory := x1, arrays := (arrays x)(?b := replicate ?N zero), array_limit := Suc ?b\<rparr>"
      have a: "a < ?b" "a \<noteq> ?b" using v Some by (auto simp: list_foot_allocated)
      have w: "w = v\<lparr>ls_ListMeta := lm, ls_Items := Some ?b\<rparr>"
        "y = items_loop (ProviderConnection_DeepCopyInto E) a ?b 0 ?N h"
        using copy lm Some a by (simp_all add: ProviderConnectionList_DeepCopyInto_def Let_def make_array_def h_def)
      have src: "fi (other_memory x) (arrays x a ! j) \<subseteq> alloc (other_memory x)" if "j < ?N" for j
        using v Some nth_mem [OF that] by (simp add: list_foot_allocated)
      note later = deep_copier.stable [OF c conjunct1 [OF 1]]
      have "fi (other_memory h) (arrays h a ! j) \<subseteq> alloc (other_memory h)" if "j < ?N" for j
        using later [OF src [OF that]] src [OF that] grow [OF conjunct1 [OF 1]] a by (auto simp: h_def)
      from items_loop_copies [OF c a(2), of h 0 ?N, folded w(2)] this a
      have y: "extends x1 (other_memory y)" "array_limit y = Suc ?b" "length (arrays y ?b) = ?N"
        "\<And>d. d \<noteq> ?b \<Longrightarrow> arrays y d = arrays x d"
        "\<And>j. j < ?N \<Longrightarrow> vi (other_memory y) (arrays y ?b ! j) = vi x1 (arrays x a ! j) \<and>
           fi (other_memory y) (arrays y ?b ! j) \<subseteq> alloc (other_memory y) - alloc x1"
        by (simp_all add: h_def Let_def)
      have "map (vi (other_memory y)) (arrays y ?b) = map (vi (other_memory x)) (arrays x a)"
        using y(3,5) later src by (intro nth_equalityI) simp_all
      moreover have "vl (other_memory y) lm = vl x1 lm \<and> fl (other_memory y) lm = fl x1 lm"
        using deep_copier.stable [OF l y(1)] 1 by blast
      moreover have "(\<Union>e \<in> set (arrays y ?b). fi (other_memory y) e) \<subseteq> alloc (other_memory y) - alloc x1"
        using y(3,5) by (fastforce simp: in_set_conv_nth)
      ultimately show ?thesis
        using 1 Some y trans [OF conjunct1 [OF 1] y(1)] grow [OF conjunct1 [OF 1]] grow [OF y(1)]
        by (auto simp: w(1) list_view_def list_foot_def array_extends_def array_alloc_def)
    qed
  qed
qed

section \<open>Pointers\<close>

lemma copy_of_deep:
  assumes "deep_copier alloc extends view foot copy" and "p < struct_limit h"
    and "foot (below h) (structs h p) \<subseteq> alloc (below h)"
  shows "\<exists>q h'. copy_of copy (Some p) h = (Some q, h') \<and> struct_limit h \<le> q \<and> q < struct_limit h' \<and>
    (\<forall>p' < struct_limit h. structs h' p' = structs h p') \<and>
    view (below h') (structs h' q) = view (below h) (structs h p) \<and>
    view (below h') (structs h' p) = view (below h) (structs h p) \<and>
    foot (below h') (structs h' q) \<inter> foot (below h') (structs h' p) = {}"
proof -
  obtain v x where c: "copy (structs h p) (below h) = (v, x)" by fastforce
  note deep = deep_copier.copies [OF assms(1,3) c] deep_copier.source_untouched [OF assms(1,3) c]
  have "copy_of copy (Some p) h = (Some (struct_limit h),
      \<lparr>structs = (structs h)(struct_limit h := v), struct_limit = Suc (struct_limit h), below = x\<rparr>)"
    by (simp add: copy_of_def c Let_def)
  with deep assms(2) show ?thesis
    by (intro exI [of _ "struct_limit h"] exI [of _ "\<lparr>structs = (structs h)(struct_limit h := v),
        struct_limit = Suc (struct_limit h), below = x\<rparr>"]) auto
qed

lemma copy_of_nil [simp]: "copy_of copy None h = (None, h)"
  by (simp add: copy_of_def)

text \<open>
  C15. \<^verbatim>\<open>DeepCopy\<close> of a resource (connection, instance or inventory): nil for nil; otherwise a pointer to
  a new struct that denotes the same resource and shares no memory with the original, which, like
  every other struct, is as it was. So a controller may edit a copy it got from a cache. This rests on
  the \<^verbatim>\<open>DeepCopyInto\<close> of metadata, spec and status being deep. \<^verbatim>\<open>DeepCopyObject\<close> returns the copy under
  its type, and the nil interface, not a typed nil pointer, for nil.
\<close>

theorem resources_copied_deeply:
  assumes "deep_copier alloc extends vm fm (ObjectMeta_DeepCopyInto E)"
    and "deep_copier alloc extends vs fs (Spec_DeepCopyInto E)"
    and "deep_copier alloc extends vt ft (Status_DeepCopyInto E)"
    and "(kind, copy, copy_object) \<in>
      {(''ProviderConnection'', ProviderConnection_DeepCopy E, ProviderConnection_DeepCopyObject E),
       (''ProviderInstance'', ProviderInstance_DeepCopy E, ProviderInstance_DeepCopyObject E),
       (''ProviderInventory'', ProviderInventory_DeepCopy E, ProviderInventory_DeepCopyObject E)}"
    and "p < struct_limit h" and "resource_foot fm fs ft (below h) (structs h p) \<subseteq> alloc (below h)"
  shows "copy None h = (None, h) \<and> copy_object None h = (NilInterface, h) \<and>
    (\<exists>q h'. copy (Some p) h = (Some q, h') \<and> copy_object (Some p) h = (Object kind (Some q), h') \<and>
      struct_limit h \<le> q \<and> q < struct_limit h' \<and>
      (\<forall>p' < struct_limit h. structs h' p' = structs h p') \<and>
      resource_view mk vm vs vt (below h') (structs h' q) = resource_view mk vm vs vt (below h) (structs h p) \<and>
      resource_view mk vm vs vt (below h') (structs h' p) = resource_view mk vm vs vt (below h) (structs h p) \<and>
      resource_foot fm fs ft (below h') (structs h' q) \<inter> resource_foot fm fs ft (below h') (structs h' p) = {})"
proof -
  from assms(4) have c: "copy = copy_of (ProviderConnection_DeepCopyInto E)"
    by (auto simp: ProviderConnection_DeepCopy_def ProviderInstance_DeepCopy_def
        ProviderInventory_DeepCopy_def resource_copies_eq)
  from assms(4) have o: "copy_object src h = object_of kind (copy src h)" for src h
    by (auto simp: ProviderConnection_DeepCopyObject_def ProviderInstance_DeepCopyObject_def
        ProviderInventory_DeepCopyObject_def)
  show ?thesis
    using copy_of_deep [OF resource_copier [OF assms(1-3)] assms(5,6), of mk, folded c]
    by (auto simp: o object_of_def c)
qed

text \<open>
  C16. The same for the list types: the copied list denotes the same list of resources, with a nil slice
  copied to a nil slice, and has a backing array of its own whose elements are deep copies, in order.
\<close>

theorem lists_copied_deeply:
  assumes "deep_copier alloc extends vm fm (ObjectMeta_DeepCopyInto E)"
    and "deep_copier alloc extends vs fs (Spec_DeepCopyInto E)"
    and "deep_copier alloc extends vt ft (Status_DeepCopyInto E)"
    and "deep_copier alloc extends vl fl (ListMeta_DeepCopyInto E)"
    and "(kind, copy, copy_object) \<in>
      {(''ProviderConnectionList'', ProviderConnectionList_DeepCopy zero E,
        ProviderConnectionList_DeepCopyObject zero E),
       (''ProviderInstanceList'', ProviderInstanceList_DeepCopy zero E, ProviderInstanceList_DeepCopyObject zero E),
       (''ProviderInventoryList'', ProviderInventoryList_DeepCopy zero E,
        ProviderInventoryList_DeepCopyObject zero E)}"
    and "p < struct_limit h"
    and "list_foot fl (resource_foot fm fs ft) (below h) (structs h p) \<subseteq> array_alloc alloc (below h)"
  shows "copy None h = (None, h) \<and> copy_object None h = (NilInterface, h) \<and>
    (\<exists>q h'. copy (Some p) h = (Some q, h') \<and> copy_object (Some p) h = (Object kind (Some q), h') \<and>
      struct_limit h \<le> q \<and> q < struct_limit h' \<and>
      (\<forall>p' < struct_limit h. structs h' p' = structs h p') \<and>
      list_view mkl vl (resource_view mk vm vs vt) (below h') (structs h' q) =
        list_view mkl vl (resource_view mk vm vs vt) (below h) (structs h p) \<and>
      list_view mkl vl (resource_view mk vm vs vt) (below h') (structs h' p) =
        list_view mkl vl (resource_view mk vm vs vt) (below h) (structs h p) \<and>
      list_foot fl (resource_foot fm fs ft) (below h') (structs h' q) \<inter>
        list_foot fl (resource_foot fm fs ft) (below h') (structs h' p) = {})"
proof -
  from assms(5) have c: "copy = copy_of (ProviderConnectionList_DeepCopyInto zero E)"
    by (auto simp: ProviderConnectionList_DeepCopy_def ProviderInstanceList_DeepCopy_def
        ProviderInventoryList_DeepCopy_def list_copies_eq)
  from assms(5) have o: "copy_object src h = object_of kind (copy src h)" for src h
    by (auto simp: ProviderConnectionList_DeepCopyObject_def ProviderInstanceList_DeepCopyObject_def
        ProviderInventoryList_DeepCopyObject_def)
  have "deep_copier (array_alloc alloc) (array_extends extends) (list_view mkl vl (resource_view mk vm vs vt))
      (list_foot fl (resource_foot fm fs ft)) (ProviderConnectionList_DeepCopyInto zero E)"
    by (rule list_copier [OF assms(4) resource_copier [OF assms(1-3)]])
  from copy_of_deep [OF this assms(6,7)] show ?thesis
    by (auto simp: o object_of_def c)
qed

section \<open>A concrete memory\<close>

text \<open>
  A memory of label maps: metadata with a name and a reference to its labels, whose copy makes a new
  map. Spec and status are the scaffolding types. It shows that the contract can be met and is used by
  the examples.
\<close>

record label_memory =
  label_maps :: "nat \<Rightarrow> (string, string) go_map"
  label_limit :: nat

record meta_struct =
  ms_Name :: string
  ms_Labels :: "nat option"

definition label_alloc :: "label_memory \<Rightarrow> nat set" where "label_alloc x = {..<label_limit x}"

definition label_extends :: "label_memory \<Rightarrow> label_memory \<Rightarrow> bool" where
  "label_extends x y \<longleftrightarrow> label_limit x \<le> label_limit y \<and> (\<forall>a < label_limit x. label_maps y a = label_maps x a)"

definition meta_view :: "label_memory \<Rightarrow> meta_struct \<Rightarrow> string \<times> (string, string) go_map option" where
  "meta_view x m = (ms_Name m, map_option (label_maps x) (ms_Labels m))"

definition meta_foot :: "label_memory \<Rightarrow> meta_struct \<Rightarrow> nat set" where
  "meta_foot x m = set_option (ms_Labels m)"

definition meta_copy :: "(meta_struct, label_memory) copy_into" where
  "meta_copy m x =
     (case ms_Labels m of
        None \<Rightarrow> (m, x)
      | Some a \<Rightarrow> (m\<lparr>ms_Labels := Some (label_limit x)\<rparr>,
          \<lparr>label_maps = (label_maps x)(label_limit x := label_maps x a), label_limit = Suc (label_limit x)\<rparr>))"

interpretation label_copier: deep_copier label_alloc label_extends meta_view meta_foot meta_copy
  by unfold_locales (auto simp: label_alloc_def label_extends_def meta_view_def meta_foot_def meta_copy_def
      map_option_case split: option.splits)

definition label_copies ::
    "(meta_struct, ProviderInstanceSpec, ProviderInstanceStatus, unit, label_memory) external_copies" where
  "label_copies =
     \<lparr>ObjectMeta_DeepCopyInto = meta_copy, Spec_DeepCopyInto = ProviderInstanceSpec_DeepCopyInto,
      Status_DeepCopyInto = ProviderInstanceStatus_DeepCopyInto, ListMeta_DeepCopyInto = Pair\<rparr>"

lemma label_copies_deep:
  "deep_copier label_alloc label_extends meta_view meta_foot (ObjectMeta_DeepCopyInto label_copies)"
  "deep_copier label_alloc label_extends (\<lambda>_ v. v) (\<lambda>_ _. {}) (Spec_DeepCopyInto label_copies)"
  "deep_copier label_alloc label_extends (\<lambda>_ v. v) (\<lambda>_ _. {}) (Status_DeepCopyInto label_copies)"
  "deep_copier label_alloc label_extends (\<lambda>_ v. v) (\<lambda>_ _. {}) (ListMeta_DeepCopyInto label_copies)"
  unfolding label_copies_def external_copies.simps
  by (rule label_copier.deep_copier_axioms, (rule flat_copier [OF label_copier.go_memory_axioms],
      simp add: ProviderInstanceSpec_DeepCopyInto_def ProviderInstanceStatus_DeepCopyInto_def)+)

definition labelled_instance :: "(meta_struct, ProviderInstanceSpec, ProviderInstanceStatus) resource_struct" where
  "labelled_instance =
     \<lparr>rs_TypeMeta = \<lparr>tm_APIVersion = ''dbaas.redhat.com/v1beta1'', tm_Kind = ''ProviderInstance''\<rparr>,
      rs_ObjectMeta = \<lparr>ms_Name = ''i'', ms_Labels = Some 0\<rparr>, rs_Spec = \<lparr>Foo = []\<rparr>, rs_Status = ()\<rparr>"

definition one_label :: label_memory where
  "one_label = \<lparr>label_maps = (\<lambda>_. [(''app'', ''db'')]), label_limit = 1\<rparr>"

definition one_instance ::
    "((meta_struct, ProviderInstanceSpec, ProviderInstanceStatus) resource_struct, label_memory) struct_memory" where
  "one_instance = \<lparr>structs = (\<lambda>_. labelled_instance), struct_limit = 1, below = one_label\<rparr>"

theorem resources_copied_deeply_witness:
  "\<exists>q h'. ProviderInstance_DeepCopyObject label_copies (Some 0) one_instance =
      (Object ''ProviderInstance'' (Some q), h') \<and> 1 \<le> q \<and>
    meta_view (below h') (rs_ObjectMeta (structs h' q)) = (''i'', Some [(''app'', ''db'')]) \<and>
    ms_Labels (rs_ObjectMeta (structs h' q)) \<noteq> ms_Labels (rs_ObjectMeta (structs h' 0))"
proof -
  have k: "(''ProviderInstance'', ProviderInstance_DeepCopy label_copies,
      ProviderInstance_DeepCopyObject label_copies) \<in>
    {(''ProviderConnection'', ProviderConnection_DeepCopy label_copies,
      ProviderConnection_DeepCopyObject label_copies),
     (''ProviderInstance'', ProviderInstance_DeepCopy label_copies,
      ProviderInstance_DeepCopyObject label_copies),
     (''ProviderInventory'', ProviderInventory_DeepCopy label_copies,
      ProviderInventory_DeepCopyObject label_copies)}" by simp
  have p: "0 < struct_limit one_instance"
    "resource_foot meta_foot (\<lambda>_ _. {}) (\<lambda>_ _. {}) (below one_instance) (structs one_instance 0) \<subseteq>
      label_alloc (below one_instance)"
    by (simp_all add: one_instance_def resource_foot_def meta_foot_def labelled_instance_def label_alloc_def
        one_label_def)
  from resources_copied_deeply [OF label_copies_deep(1-3) k p, of "\<lambda>tm m s t. m"] obtain q h' where
    q: "ProviderInstance_DeepCopyObject label_copies (Some 0) one_instance =
        (Object ''ProviderInstance'' (Some q), h')" "struct_limit one_instance \<le> q"
      "\<forall>p' < struct_limit one_instance. structs h' p' = structs one_instance p'"
      "meta_view (below h') (rs_ObjectMeta (structs h' q)) =
        meta_view (below one_instance) (rs_ObjectMeta (structs one_instance 0))"
      "set_option (ms_Labels (rs_ObjectMeta (structs h' q))) \<inter>
        set_option (ms_Labels (rs_ObjectMeta (structs h' 0))) = {}"
    by (auto simp: resource_view_def resource_foot_def meta_foot_def)
  then show ?thesis
    by (auto simp: one_instance_def labelled_instance_def meta_view_def one_label_def)
qed

definition one_list :: "(unit list_struct,
    ((meta_struct, ProviderInstanceSpec, ProviderInstanceStatus) resource_struct, label_memory) array_memory)
    struct_memory" where
  "one_list = \<lparr>structs = (\<lambda>_. \<lparr>ls_TypeMeta = \<lparr>tm_APIVersion = [], tm_Kind = []\<rparr>, ls_ListMeta = (),
      ls_Items = Some 0\<rparr>), struct_limit = 1,
     below = \<lparr>arrays = (\<lambda>_. [labelled_instance, labelled_instance]), array_limit = 1, other_memory = one_label\<rparr>\<rparr>"

theorem lists_copied_deeply_witness:
  "\<exists>q h' a. ProviderInstanceList_DeepCopy labelled_instance label_copies (Some 0) one_list = (Some q, h') \<and>
    ls_Items (structs h' q) = Some a \<and> a \<noteq> 0 \<and>
    map (meta_view (other_memory (below h')) \<circ> rs_ObjectMeta) (arrays (below h') a) =
      [(''i'', Some [(''app'', ''db'')]), (''i'', Some [(''app'', ''db'')])]"
proof -
  let ?zero = labelled_instance and ?E = label_copies
  have k: "(''ProviderInstanceList'', ProviderInstanceList_DeepCopy ?zero ?E,
      ProviderInstanceList_DeepCopyObject ?zero ?E) \<in>
    {(''ProviderConnectionList'', ProviderConnectionList_DeepCopy ?zero ?E,
      ProviderConnectionList_DeepCopyObject ?zero ?E),
     (''ProviderInstanceList'', ProviderInstanceList_DeepCopy ?zero ?E,
      ProviderInstanceList_DeepCopyObject ?zero ?E),
     (''ProviderInventoryList'', ProviderInventoryList_DeepCopy ?zero ?E,
      ProviderInventoryList_DeepCopyObject ?zero ?E)}" by simp
  have p: "0 < struct_limit one_list"
    "list_foot (\<lambda>_ _. {}) (resource_foot meta_foot (\<lambda>_ _. {}) (\<lambda>_ _. {})) (below one_list) (structs one_list 0) \<subseteq>
      array_alloc label_alloc (below one_list)"
    by (simp_all add: one_list_def list_foot_allocated resource_foot_def meta_foot_def labelled_instance_def
        label_alloc_def one_label_def)
  have init: "ls_Items (structs one_list 0) = Some 0"
    "map (meta_view (other_memory (below one_list)) \<circ> rs_ObjectMeta) (arrays (below one_list) 0) =
      [(''i'', Some [(''app'', ''db'')]), (''i'', Some [(''app'', ''db'')])]"
    by (simp_all add: one_list_def meta_view_def labelled_instance_def one_label_def)
  from lists_copied_deeply [OF label_copies_deep k p, of "\<lambda>tm l vs. vs" "\<lambda>tm m s t. m"] obtain q h' where
    q: "ProviderInstanceList_DeepCopy ?zero ?E (Some 0) one_list = (Some q, h')"
      "\<forall>p' < struct_limit one_list. structs h' p' = structs one_list p'"
      "map_option (\<lambda>a. map (meta_view (other_memory (below h')) \<circ> rs_ObjectMeta) (arrays (below h') a))
        (ls_Items (structs h' q)) = Some [(''i'', Some [(''app'', ''db'')]), (''i'', Some [(''app'', ''db'')])]"
      "list_foot (\<lambda>_ _. {}) (resource_foot meta_foot (\<lambda>_ _. {}) (\<lambda>_ _. {})) (below h') (structs h' q) \<inter>
        list_foot (\<lambda>_ _. {}) (resource_foot meta_foot (\<lambda>_ _. {}) (\<lambda>_ _. {})) (below h') (structs h' 0) = {}"
    using init by (auto simp: list_view_def resource_view_def comp_def)
  have "structs h' 0 = structs one_list 0" using q(2) p(1) by simp
  then have "Inl 0 \<in> list_foot (\<lambda>_ _. {}) (resource_foot meta_foot (\<lambda>_ _. {}) (\<lambda>_ _. {})) (below h') (structs h' 0)"
    using init(1) by (simp add: list_foot_def)
  with q(4) have "ls_Items (structs h' q) \<noteq> Some 0" by (auto simp: list_foot_def)
  with q(1,3) show ?thesis by auto
qed

end
