(* ===== verification/Models.thy ===== *)
theory Models
  imports Go_Std
begin

text \<open>
  The data types of \<^verbatim>\<open>testutil/models.go\<close> and the client configuration of
  \<^verbatim>\<open>testutil/fakeproviderservice.go\<close>. The one operation is \<^verbatim>\<open>APIErrorMessage.String\<close>;
  \<open>parse_error_message\<close> is its specification as a reader: it recovers code and message from
  every printed text, whatever the message contains.
\<close>

section \<open>Data\<close>

record SqlUser =
  su_Name :: string
  su_Password :: string

record APIErrorMessage =
  em_Code :: "64 word"
  em_Message :: string
  em_HttpCode :: "64 word"

text \<open>
  A configuration holds a pointer to an \<^verbatim>\<open>http.Client\<close>, whose type \<open>'h\<close> is not the
  program's own; \<open>None\<close> is the nil pointer, also for the map of headers and for the
  configuration a client points to.
\<close>

record 'h Configuration =
  cf_Host :: string
  cf_Scheme :: string
  cf_DefaultHeader :: "(string \<rightharpoonup> string) option"
  cf_UserAgent :: string
  cf_Debug :: bool
  cf_ServerURL :: string
  cf_HTTPClient :: "'h option"
  cf_apiKey :: string

record 'h Client =
  cl_cfg :: "'h Configuration option"

section \<open>The text of an error message\<close>

text \<open>The format is \<^verbatim>\<open>%v-%v\<close>: a signed decimal, a hyphen, the message.\<close>

definition APIErrorMessage_String :: "APIErrorMessage \<Rightarrow> string" where
  "APIErrorMessage_String e = Itoa (sint (em_Code e)) @ ''-'' @ em_Message e"

text \<open>
  A reader has to find the hyphen that ends the code: it is the first one after the
  position of a sign, since digits are not hyphens.
\<close>

definition is_digit :: "char \<Rightarrow> bool" where
  "is_digit c \<longleftrightarrow> digit_val c \<noteq> None"

definition code_text :: "string \<Rightarrow> string" where
  "code_text s =
     (case s of [] \<Rightarrow> []
      | c # cs \<Rightarrow> if c = CHR ''-'' then c # takeWhile is_digit cs
                 else takeWhile is_digit s)"

definition parse_error_message :: "string \<Rightarrow> (64 word \<times> string) option" where
  "parse_error_message s =
     (let t = code_text s in
      case (Atoi t, drop (length t) s) of
        (Some i, c # rest) \<Rightarrow> if c = CHR ''-'' then Some (word_of_int i, rest) else None
      | _ \<Rightarrow> None)"

lemma hyphen_not_digit: "\<not> is_digit CHR ''-''"
  by (simp add: is_digit_def digit_val_def)

lemma decimal_is_digit: "c \<in> set (decimal n) \<Longrightarrow> is_digit c"
  using decimal_chars [of c n] by (simp add: is_digit_def)

lemma decimal_then_hyphen:
  "takeWhile is_digit (decimal n @ CHR ''-'' # s) = decimal n"
  by (simp add: takeWhile_append hyphen_not_digit decimal_is_digit)

lemma code_text_Itoa: "code_text (Itoa i @ CHR ''-'' # s) = Itoa i"
proof (cases "i < 0")
  case True
  then show ?thesis
    by (simp add: code_text_def Itoa_def decimal_then_hyphen)
next
  case False
  obtain c cs where d: "decimal (nat i) = c # cs"
    by (cases "decimal (nat i)") auto
  then have "c \<noteq> CHR ''-''"
    using decimal_hd_not_sign(1) [of "nat i"] by simp
  moreover have "takeWhile is_digit (c # cs @ CHR ''-'' # s) = c # cs"
    using decimal_then_hyphen [of "nat i" s] by (simp only: d append_Cons)
  ultimately show ?thesis
    using False by (simp only: code_text_def Itoa_def d append_Cons list.case if_False)
qed

lemma sint_64_range: "- (2 ^ 63) \<le> sint (w :: 64 word)" "sint (w :: 64 word) < 2 ^ 63"
  using sint_greater_eq [of w] sint_less [of w] by simp_all

text \<open>
  C21. Printing an error message loses neither its code nor its message: for every 64-bit
  code, negative ones included, and every message, also one that contains hyphens or starts
  with digits, the reader recovers both from the text. Only the HTTP code is not in it, so
  two error messages print alike exactly when code and message agree.
\<close>

theorem error_message_roundtrip:
  "parse_error_message (APIErrorMessage_String e) = Some (em_Code e, em_Message e) \<and>
   (APIErrorMessage_String e = APIErrorMessage_String e'
    \<longleftrightarrow> em_Code e = em_Code e' \<and> em_Message e = em_Message e')"
proof -
  have read: "parse_error_message (APIErrorMessage_String x) = Some (em_Code x, em_Message x)" for x
    using sint_64_range [of "em_Code x"]
    by (simp add: parse_error_message_def APIErrorMessage_String_def code_text_Itoa Atoi_Itoa)
  have "APIErrorMessage_String e = APIErrorMessage_String e'
        \<longleftrightarrow> em_Code e = em_Code e' \<and> em_Message e = em_Message e'"
    using read [of e] read [of e'] unfolding APIErrorMessage_String_def
    by (metis option.inject prod.inject)
  with read show ?thesis by blast
qed

end
