(* ===== verification/Spec2Isabelle.thy ===== *)
theory Spec2Isabelle
  imports End_To_End Slice_Memory Registration Scheme Deep_Copy Models
begin

text \<open>
  A model of the example provider operator: a Kubernetes operator whose four controllers register a
  database provider with the DBaaS operator and reconcile inventories, instances and connections
  against a provider cloud, here the in-memory fake cloud that \<^verbatim>\<open>main.go\<close> wires in.

  \<^bold>\<open>How the parts interact.\<close> \<^verbatim>\<open>main.go\<close> creates a manager, one \<^verbatim>\<open>FakeProviderService\<close> shared by three
  controllers, and starts them. A controller's \<^verbatim>\<open>Reconcile\<close> gets a request (a key), reads resources through
  the Kubernetes client, asks the provider service for a cloud handle, calls the cloud, and writes
  the status of its resource; the returned result and error say whether the request comes back. An
  instance creates a cluster and keeps its identifier in its status; an inventory lists the cloud's
  clusters in its status; a connection finds its cluster in the inventory's status and publishes a
  secret and a config map. The fake cloud adds a created cluster to its list later, in a goroutine.

  \<^bold>\<open>Theories and files.\<close>
  \<^item> \<open>Prelude\<close>, \<open>Go_Std\<close>, \<open>Go_Time\<close>: errors, panics, maps, and what is used of \<^verbatim>\<open>strconv\<close>, \<^verbatim>\<open>strings\<close>
    and \<^verbatim>\<open>time\<close>; durations are 64-bit words.
  \<^item> \<open>Common\<close>: \<^verbatim>\<open>controllers/dbaas/common.go\<close>. \<open>Api_Types\<close>: \<^verbatim>\<open>apis/dbaas/v1beta1\<close> and the Kubernetes
    objects. \<open>Models\<close>: \<^verbatim>\<open>testutil/models.go\<close> and the client configuration.
  \<^item> \<open>Deep_Copy\<close>: \<^verbatim>\<open>zz_generated.deepcopy.go\<close>; structs as they lie in memory, with the backing arrays of
    items as an explicit store, so that sharing can be stated.
  \<^item> \<open>Scheme\<close>: \<^verbatim>\<open>groupversion_info.go\<close>, the \<^verbatim>\<open>init\<close> functions of the resource types and of \<^verbatim>\<open>main.go\<close>.
  \<^item> \<open>Fake_Client\<close>, \<open>Fake_Cloud\<close>, \<open>Fake_Concurrency\<close>: \<^verbatim>\<open>testutil/fakeclient.go\<close>; state \<open>FakeClusters\<close>
    (slice, channels, messages a goroutine holds), methods as functions on it, goroutines as the step
    relation \<open>goroutine_step\<close>, creating callers and goroutines together as \<open>cloud_run\<close>.
    \<open>Slice_Memory\<close>: the same list as a slice with its backing arrays, and readers without the mutex.
  \<^item> \<open>Provider_Service\<close>: \<^verbatim>\<open>testutil/fakeproviderservice.go\<close>; the interfaces are records of functions on a
    world \<open>'w\<close>, the fake service's world is a pair of the Kubernetes side and the cloud.
  \<^item> \<open>Kube_Client\<close>, \<open>Manager\<close>: the client and the builder the controllers are given.
  \<^item> \<open>Status_Writer\<close>, \<open>Inventory_Controller\<close>, \<open>Instance_Controller\<close>, \<open>Connection_Controller\<close>: the three
    \<^verbatim>\<open>provider*_controller.go\<close>; every handler is one definition with a branch per early return
    (\<open>InventoryReconcile\<close>, \<open>InstanceReconcile\<close>, \<open>ConnectionReconcile\<close>); logging is left out.
  \<^item> \<open>Provider_Spec\<close>, \<open>Provider_Reconciler\<close>: \<^verbatim>\<open>dbaasprovider_reconciler.go\<close>. \<open>Start_Up\<close>: \<^verbatim>\<open>main.go\<close>.
  \<^item> \<open>Cloud_Isolation\<close>, \<open>System_Runs\<close>, \<open>Bookkeeping\<close>, \<open>Instance_Lifecycle\<close>, \<open>End_To_End\<close>, \<open>Registration\<close> and
    this theory: properties across components. \<open>System_Runs\<close> has the runs of the whole operator (\<open>operator_run\<close>),
    \<open>Bookkeeping\<close> the abstract machine they refine (\<open>book_step\<close>) and its invariants.
  \<^item> \<open>Sample_Store\<close>: a small object store, for the witnesses only.

  \<^bold>\<open>Parameters.\<close> The Kubernetes client, \<^verbatim>\<open>CreateOrUpdate\<close>, \<^verbatim>\<open>SetStatusCondition\<close>,
  \<^verbatim>\<open>SetControllerReference\<close>, the discovery client, the builder and the string constants of the DBaaS
  operator's API package (\<open>dbaas_consts\<close>) are not part of the repository. They are arguments; where a
  theorem relies on their documented behaviour it assumes one of the contracts of \<open>Kube_Client\<close>, all of
  which \<open>Sample_Store\<close> satisfies. The scheme library and the deep copies of other packages' types have
  contracts of their own (\<open>scheme_contract\<close>, the locale \<open>deep_copier\<close>). Theorems on what a reconciliation writes are stated over a client that
  also notes the writes (\<open>noting_service\<close>) and behaves as the given one otherwise.

  \<^bold>\<open>What the theorems show.\<close>
  \<^item> Cloud: a creation is refused or becomes visible once the goroutine has drained its channel; the
    goroutines terminate, within two steps per message, and settle in one state; identifiers are unique as long as no name is created
    twice, and a second creation before the first is visible makes a duplicate; deletion and update
    bodies act on the first match.
  \<^item> Controllers: what is written, with which condition, reason and references, for every outcome of the
    calls; which outcomes come back. Where the code does less than its messages say (conflicts counted
    as success, phase Ready without an identifier, a failed write reported as success) the theorem says
    so.
  \<^item> Registration: at most one resource is created, with its owner; requests end only when nothing is
    left to do; the catalogue's entries are unambiguous.
  \<^item> Resource types: a deep copy has the original's contents and shares no memory with it; after
    initialisation the scheme handed to the manager has every kind in use, and every announced kind has
    a controller before the manager is started.
  \<^item> Across components: a new instance is brought to a ready connection by the three handlers and the
    goroutines; only instances change the cloud, by creation; a created cluster reaches the
    connection controller; in every run stored identifiers are those of committed clusters and never
    change, and a second reconciliation of a ready instance changes nothing; a connection does not depend
    on the cloud's state at all; start-up is in order or
    not at all. What goes wrong is stated too: an identifier lost to a conflict is never recovered, or,
    if the retry comes early, the cluster is created twice; a restart strands instances; the creation
    ignores all but two of the announced parameters and its default provider contradicts a plan.

  \<^bold>\<open>Bounds and termination.\<close> Every definition is total; loops are structural recursions over the list
  they range over, so there is no fuel. The channel capacity is the code's 5; a send on a full channel
  lets the goroutine free a slot first, which it always can since it waits for nothing but the mutex.

  \<^bold>\<open>Not modelled.\<close> Parsing of the flags' text and the controller runtime (queues, rate limiting, leader
  election), which are libraries; the test suite's set-up and the manifests; logging; the JSON tags and \<^verbatim>\<open>AdditionalProperties\<close>, which no
  code reads; HTTP headers. Readers of the cloud's list take it in one step: the code
  reads the shared slice after it has released the mutex, and \<open>Slice_Memory\<close> shows that this makes no
  difference as long as clusters are only added, which is all that happens; torn reads of a single
  header or element are left out. In a run of the operator a
  reconciliation is one step: the API calls of different controllers are not interleaved. A nil pointer dereference is a
  \<open>Panics\<close> outcome where the code can reach it.
\<close>

section \<open>From a creation to a connection\<close>

text \<open>
  C3. The three controllers fit together over the cloud: once a creation succeeded under a new name
  and the goroutines have come to rest, the inventory's next reconciliation writes a listing in which
  the connection controller finds the new cluster under its identifier, with its name, and the cloud
  service returns the cluster itself under that identifier.
\<close>

theorem created_cluster_reaches_connections:
  assumes "cloud_run ns \<lparr>fc = f, sending = None\<rparr>" and "fst (fst (CreateCluster r f)) = Inr c"
    and "cl_Id c \<notin> cl_Id ` set (committed f)"
    and "goroutine_step\<^sup>*\<^sup>* (snd (CreateCluster r f)) g" and "goroutine_work g = 0"
    and "set_condition_contract kc" and "GetInventory kc key k = (Inr iv, k1)"
  shows "\<exists>y e d out w'.
    InventoryReconcile (noting_service (FakeProviderService K kc)) key ((k, g), []) =
      (out, (w', [WriteInventoryStatus y e])) \<and>
    getClusterInstance y (cl_Id c) = Inr d \<and> ServiceID d = cl_Id c \<and> ServiceName d = req_Name r \<and>
    fst (svc_GetCluster (FakeProviderService K kc) NewFakeAPIClient (cl_Id c) (k, g)) = Inr (Some c)"
proof -
  let ?S = "FakeProviderService K kc"
  have "channels_ok f" using cloud_run_inv [OF assms(1)] by simp
  from committed_create(1) [OF assms(2) this assms(4,5)] have g: "clusters g = committed f @ [c]" .
  have c: "cl_Name c = req_Name r" "cl_CreatedAt c \<noteq> None" "cl_UpdatedAt c \<noteq> None"
    using assms(2) by (simp_all add: CreateCluster_Inr check_create_Inr)
  have "\<forall>x \<in> set (clusters g). cl_CreatedAt x \<noteq> None \<and> cl_UpdatedAt x \<noteq> None"
    using cloud_run_inv [OF assms(1)] c by (auto simp: g all_clusters_def)
  then obtain l where l: "discover_loop (clusters g) = Returns l" using discover_loop_total by blast
  have ids: "map ServiceID l = map cl_Id (committed f) @ [cl_Id c]"
    and names: "map ServiceName l = map cl_Name (committed f) @ [cl_Name c]"
    using discover_loop_Returns [OF l] by (simp_all add: g)
  then obtain l0 d where ld: "l = l0 @ [d]" "map ServiceID l0 = map cl_Id (committed f)"
    "ServiceID d = cl_Id c" "ServiceName d = cl_Name c"
    by (cases l rule: rev_cases) auto
  have "cl_Id c \<notin> ServiceID ` set l0" using assms(3) arg_cong [OF ld(2), of set] by simp
  then have find: "List.find (\<lambda>s. ServiceID s = cl_Id c) l = Some d"
    using ld(3) unfolding ld(1) by (subst find_appendR) (auto simp: list_all_find_None image_key_iff)
  have get: "List.find (\<lambda>x. cl_Id x = cl_Id c) (clusters g) = Some c"
    using assms(3) unfolding g by (subst find_appendR) (auto simp: list_all_find_None image_key_iff)
  have listing: "\<exists>w2. inventory_listing ?S iv (k1, g) = (Returns (Inr l), w2)"
    by (simp add: inventory_listing_def FakeCreateCloudService_eq FakeDiscoverClusters_eq l)
  have cond: "set_condition_contract (svc_Client ?S)" using assms(6) by (simp add: lift_contracts)
  have fetch: "GetInventory (svc_Client ?S) key (k, g) = (Inr iv, (k1, g))"
    using assms(7) by (simp add: on_left_eq)
  from listing obtain w2 where "inventory_listing ?S iv (k1, g) = (Returns (Inr l), w2)" ..
  from inventory_listed_run [OF cond fetch this] obtain y e w' where
    y: "InventoryReconcile (noting_service ?S) key ((k, g), []) =
      (Returns (no_requeue, swallow_conflict e), (w', [WriteInventoryStatus y e]))"
      "synced_condition y = Some (ConditionTrue, InventorySyncOK)" "inv_DatabaseServices (inv_Status y) = l"
    by metis
  have "getClusterInstance y (cl_Id c) = Inr d"
    using synced_condition_synced [OF y(2)] find by (simp add: getClusterInstance_Inr y(3))
  with y(1) ld(3,4) c(1) get show ?thesis by (auto simp: FakeGetCluster_eq)
qed

theorem created_cluster_reaches_connections_witness:
  "\<exists>y e d out w'.
    InventoryReconcile (noting_service (FakeProviderService sample_consts store_client)) (sample_key ''test'')
      ((sample_store, settled_cloud), []) = (out, (w', [WriteInventoryStatus y e])) \<and>
    getClusterInstance y ''a-cluster-instance-id-dbaas'' = Inr d \<and> ServiceName d = ''dbaas''"
proof -
  have c: "fst (fst (CreateCluster sample_request NewFakeClusters)) = Inr sample_cluster"
    by (simp add: sample_creation)
  have new: "cl_Id sample_cluster \<notin> cl_Id ` set (committed NewFakeClusters)"
    by (simp add: cluster_defs)
  have g: "GetInventory store_client (sample_key ''test'') sample_store = (Inr sample_inventory, sample_store)"
    by (simp add: read_store_def)
  have n: "req_Name sample_request = ''dbaas''" by (simp add: sample_request_def)
  from created_cluster_reaches_connections [OF initial_run c new settled_cloud_reached store_set_condition g,
      of sample_consts]
  show ?thesis unfolding n sample_cluster_id by blast
qed

section \<open>The lost identifier\<close>

text \<open>
  C2. The identifier of a created cluster is kept in the instance's status only, and the write that
  stores it can be lost: when it meets a conflict right after a successful creation, the handler asks
  for a requeue, and once the cluster is in the cloud's list no later reconciliation recovers. After
  any number of reconciliations of this and other instances, in any order and interleaved with the
  goroutines, the instance still has no identifier while the cloud has its cluster, and reconciling
  it again returns an error.
\<close>

theorem lost_identifier_never_recovered:
  assumes "instance_store_contract kc" and "channels_ok f"
    and "fst (GetInstance kc req k) = Inr x" and "ins_InstanceID (ins_Status x) = []"
    and "fst (GetInventory kc (ins_InventoryRef (ins_Spec x)) k) = Inr iv"
    and "req_Name (creation_request K x) \<noteq> []"
    and "fst (fst (CreateCluster (creation_request K x) f)) = Inr c"
    and "\<And>info. \<exists>err. fst (fst (StatusUpdateInstance kc
        (x\<lparr>ins_Status := ready_status c info (ins_Status x)\<rparr>) k)) = Some err \<and> IsConflict err"
    and "InstanceReconcile (FakeProviderService K kc) req (k, f) = (out, (k1, f1))"
    and "goroutine_step\<^sup>*\<^sup>* f1 f2" and "goroutine_work f2 = 0"
    and "operator_run K kc (k1, f2) (k3, f3)" and "separate_kinds_contract kc"
  shows "out = Returns (requeue, None) \<and>
    (\<exists>x3. fst (GetInstance kc req k3) = Inr x3 \<and> ins_InstanceID (ins_Status x3) = []) \<and>
    cl_Id c \<in> cl_Id ` set (clusters f3) \<and>
    (\<exists>res err. fst (InstanceReconcile (FakeProviderService K kc) req (k3, f3)) = Returns (res, Some err))"
proof -
  let ?S = "FakeProviderService K kc"
  note kc = instance_store_contractD [OF assms(1)]
  obtain info where info: "PopulateInstanceInfo c = Returns info"
    and c: "cl_Id c = clusterID_of (req_Name (creation_request K x))" "cl_Id c \<noteq> []"
    by (rule created_info [OF assms(7)])
  let ?y = "x\<lparr>ins_Status := ready_status c info (ins_Status x)\<rparr>"
  from assms(8) obtain err y w where u: "StatusUpdateInstance kc ?y k = ((Some err, y), w)" "IsConflict err"
    by (metis prod.collapse)
  from got_cluster_run [OF assms(1,3) create_verdict [OF assms(1,4-7)] c(2) info u(1)] u(2) assms(9)
  have run: "out = Returns (requeue, None)" "k1 = snd (StatusUpdateInstance kc ?y k)"
    "f1 = snd (CreateCluster (creation_request K x) f)" by (simp_all add: u(1))
  have settled: "clusters f2 = committed f @ [c]" "channels_ok f2"
    using committed_create [OF assms(7,2)] assms(10,11) by (simp_all add: run(3))
  have "fst (GetInstance kc req k1) = Inr x"
    using assms(3) u(1) kc(5) [of req ?y k] by (simp add: run(2))
  then have "lost_identifier K kc req (req_Name (creation_request K x)) (k1, f2)"
    using assms(4-6) settled by (simp add: lost_identifier_def c(1) run(2) kc(6))
  from lost_forever [OF assms(12,1,13) this]
  have lost: "lost_identifier K kc req (req_Name (creation_request K x)) (k3, f3)" .
  obtain res err3 where "fst (InstanceReconcile ?S req (k3, f3)) = Returns (res, Some err3)"
    using lost_reconcile(1) [OF assms(1) lost] by auto
  with run(1) lost show ?thesis by (auto simp: lost_identifier_def c(1))
qed

theorem lost_identifier_never_recovered_witness:
  "\<exists>k1 f1 res err. InstanceReconcile (FakeProviderService sample_consts store_client)
      (sample_key ''providerinstance-sample'') (sample_store\<lparr>st_failures := [conflict]\<rparr>, NewFakeClusters) =
      (Returns (requeue, None), (k1, f1)) \<and>
    fst (InstanceReconcile (FakeProviderService sample_consts store_client)
      (sample_key ''providerinstance-sample'') (k1, settle f1)) = Returns (res, Some err)"
proof -
  let ?st = "sample_store\<lparr>st_failures := [conflict]\<rparr>" and ?req = "sample_key ''providerinstance-sample''"
  have x: "fst (GetInstance store_client ?req ?st) = Inr sample_instance"
    by (simp add: read_store_def)
  have iv: "fst (GetInventory store_client (ins_InventoryRef (ins_Spec sample_instance)) ?st) =
      Inr sample_inventory" by (simp add: read_store_def)
  note r = sample_request_of
  have name: "req_Name (creation_request sample_consts sample_instance) \<noteq> []"
    unfolding r by (simp add: sample_request_def)
  have c: "fst (fst (CreateCluster (creation_request sample_consts sample_instance) NewFakeClusters)) =
      Inr sample_cluster" unfolding r by (simp add: sample_creation)
  have id: "ins_InstanceID (ins_Status sample_instance) = []" by simp
  have fails: "\<And>info. \<exists>err. fst (fst (StatusUpdateInstance store_client (sample_instance
      \<lparr>ins_Status := ready_status sample_cluster info (ins_Status sample_instance)\<rparr>) ?st)) = Some err \<and>
      IsConflict err" by (simp add: store_client_updates)
  obtain out k1 f1 where run: "InstanceReconcile (FakeProviderService sample_consts store_client) ?req
      (?st, NewFakeClusters) = (out, (k1, f1))" by (metis prod.exhaust)
  have ch: "channels_ok f1"
    using reconcile_grows [OF NewFakeClusters_channels, of sample_consts store_client ?req ?st] run by simp
  from lost_identifier_never_recovered [OF store_instances NewFakeClusters_channels x id iv name c fails run
      settle_at_rest [OF ch, THEN conjunct1] settle_at_rest [OF ch, THEN conjunct2] operator_run.now store_separate_kinds] run
  show ?thesis by blast
qed

end
